(* ===== verification/Prelude.thy ===== *)
theory Prelude
  imports Main "HOL-Library.Char_ord" "HOL-Library.List_Lexorder" "HOL-Library.Multiset"
    "HOL-Library.State_Monad" "HOL-Library.Word"
begin

section \<open>Prelude: C strings, decimal numbers, and the state monad\<close>

text \<open>
  What every component of the development shares.

  \<^item> A C string is the \<^typ>\<open>string\<close> of its characters before the terminating NUL.  \<open>strcmp\<close> is the
    C library comparison on them; it is shown to decide the lexicographic order of
    \<^theory_text>\<open>HOL-Library.List_Lexorder\<close>, so the library's \<^const>\<open>sorted\<close> applies to what the code
    sorts with \<open>strcmp\<close>.
  \<^item> \<open>snprintf_buf n s\<close> is what a buffer of \<open>n\<close> bytes holds after \<open>snprintf(buf, n, ...)\<close> printed
    \<open>s\<close>; \<open>show_int\<close> is the \<open>%d\<close> conversion.
  \<^item> \<open>ndrx_lib\<close> and \<open>exhash\<close> collect the helpers of the Enduro/X core library that the sources call and that are
    not part of this repository (string lists, bounded copies, the embedded-file generator).  They
    are parameters of the definitions that use them; \<open>ndrx_lib_ok\<close> is their documented behaviour.
  \<^item> \<open>exec\<close> and \<open>val\<close> split a run of the state monad into the final state and the result.
\<close>

named_theorems cstr_simps
named_theorems run_simps

subsection \<open>Return codes\<close>

abbreviation EXSUCCEED :: int where "EXSUCCEED \<equiv> 0"
abbreviation EXFAIL :: int where "EXFAIL \<equiv> -1"

text \<open>\<open>limits.h\<close> on the supported platforms.\<close>

definition PATH_MAX :: nat where
  "PATH_MAX = 4096"

subsection \<open>C strings\<close>

text \<open>\<open>strcmp\<close>: bytes are compared as unsigned char; only the sign of the result is specified.\<close>

fun strcmp :: "string \<Rightarrow> string \<Rightarrow> int" where
  "strcmp [] [] = 0"
| "strcmp [] (_ # _) = -1"
| "strcmp (_ # _) [] = 1"
| "strcmp (x # xs) (y # ys) =
     (if (of_char x :: nat) < of_char y then -1
      else if (of_char y :: nat) < of_char x then 1
      else strcmp xs ys)"

lemma strcmp_range: "strcmp xs ys \<in> {-1, 0, 1}"
  by (induction xs ys rule: strcmp.induct) auto

lemma strcmp_less [cstr_simps]: "strcmp xs ys < 0 \<longleftrightarrow> xs < ys"
  by (induction xs ys rule: strcmp.induct) (auto simp: less_char_def)

lemma strcmp_eq [cstr_simps]: "strcmp xs ys = 0 \<longleftrightarrow> xs = ys"
  by (induction xs ys rule: strcmp.induct) (auto simp: linorder_neq_iff)

lemma strcmp_greater [cstr_simps]: "0 < strcmp xs ys \<longleftrightarrow> ys < xs"
  using strcmp_less [of xs ys] strcmp_eq [of xs ys] by (metis linorder_neq_iff not_less_iff_gr_or_eq)

text \<open>\<open>snprintf\<close> into a buffer of \<open>n\<close> bytes keeps the first \<open>n - 1\<close> characters.\<close>

definition snprintf_buf :: "nat \<Rightarrow> string \<Rightarrow> string" where
  "snprintf_buf n s = take (n - 1) s"

lemma snprintf_buf_fits [cstr_simps]: "length s < n \<Longrightarrow> snprintf_buf n s = s"
  by (simp add: snprintf_buf_def)

lemma length_snprintf_buf: "0 < n \<Longrightarrow> length (snprintf_buf n s) < n"
  by (simp add: snprintf_buf_def)

subsection \<open>Decimal numbers\<close>

definition digit_char :: "nat \<Rightarrow> char" where
  "digit_char d = char_of (48 + d)"

fun show_nat :: "nat \<Rightarrow> string" where
  "show_nat n = (if n < 10 then [digit_char n] else show_nat (n div 10) @ [digit_char (n mod 10)])"

declare show_nat.simps [simp del]

definition show_int :: "int \<Rightarrow> string" where
  "show_int i = (if i < 0 then CHR ''-'' # show_nat (nat (- i)) else show_nat (nat i))"

fun read_nat :: "nat \<Rightarrow> string \<Rightarrow> nat" where
  "read_nat acc [] = acc"
| "read_nat acc (c # cs) = read_nat (10 * acc + (of_char c - 48)) cs"

lemma read_nat_snoc: "read_nat acc (xs @ [c]) = 10 * read_nat acc xs + (of_char c - 48)"
  by (induction xs arbitrary: acc) auto

lemma of_digit_char: "d < 10 \<Longrightarrow> of_char (digit_char d) = (48 + d :: nat)"
  by (simp add: digit_char_def)

lemma read_show_nat: "read_nat 0 (show_nat n) = n"
proof (induction n rule: show_nat.induct)
  case (1 n)
  show ?case
  proof (cases "n < 10")
    case True
    then show ?thesis by (simp add: show_nat.simps [of n] of_digit_char)
  next
    case False
    with 1 have "read_nat 0 (show_nat (n div 10)) = n div 10" by simp
    with False show ?thesis
      by (simp add: show_nat.simps [of n] read_nat_snoc of_digit_char)
  qed
qed

lemma show_nat_inject [simp]: "show_nat m = show_nat n \<longleftrightarrow> m = n"
  by (metis read_show_nat)

lemma show_int_inject: "0 \<le> i \<Longrightarrow> 0 \<le> j \<Longrightarrow> show_int i = show_int j \<longleftrightarrow> i = j"
  by (auto simp: show_int_def)

lemma length_show_nat: "n < 10 ^ Suc k \<Longrightarrow> length (show_nat n) \<le> Suc k"
proof (induction k arbitrary: n)
  case 0
  then show ?case by (simp add: show_nat.simps [of n])
next
  case (Suc k)
  then have "length (show_nat (n div 10)) \<le> Suc k" by simp
  then show ?case by (simp add: show_nat.simps [of n])
qed

lemma length_show_int: "0 \<le> i \<Longrightarrow> i < 2 ^ 31 \<Longrightarrow> length (show_int i) \<le> 10"
  using length_show_nat [of "nat i" 9] by (simp add: show_int_def)

subsection \<open>The Enduro/X core library\<close>

text \<open>
  \<open>NDRX_STRCPY_SAFE\<close> and \<open>NDRX_STRCAT_S\<close> copy and append into a buffer whose size is the first
  argument; \<open>ndrx_string_list_add\<close> and \<open>ndrx_string_list_splitadd\<close> extend a string list and return
  \<open>None\<close> where the C functions return \<open>EXFAIL\<close>; \<open>ndrx_strchr_repl\<close> replaces a character.
\<close>

record ndrx_lib =
  strcpy_safe :: "nat \<Rightarrow> string \<Rightarrow> string"
  strcat_s :: "nat \<Rightarrow> string \<Rightarrow> string \<Rightarrow> string"
  string_list_add :: "string list \<Rightarrow> string \<Rightarrow> string list option"
  string_list_splitadd :: "string list \<Rightarrow> string \<Rightarrow> string \<Rightarrow> string list option"
  strchr_repl :: "string \<Rightarrow> char \<Rightarrow> char \<Rightarrow> string"

text \<open>Documented behaviour: what fits is copied or appended unchanged, and a buffer never overflows;
  an element that could be allocated is appended at the end.\<close>

definition ndrx_lib_ok :: "ndrx_lib \<Rightarrow> bool" where
  "ndrx_lib_ok L \<longleftrightarrow>
     (\<forall>n s. length s < n \<longrightarrow> strcpy_safe L n s = s) \<and>
     (\<forall>n s. 0 < n \<longrightarrow> length (strcpy_safe L n s) < n) \<and>
     (\<forall>n s t. length (s @ t) < n \<longrightarrow> strcat_s L n s t = s @ t) \<and>
     (\<forall>xs x ys. string_list_add L xs x = Some ys \<longrightarrow> ys = xs @ [x]) \<and>
     (\<forall>s a b. strchr_repl L s a b = map (\<lambda>c. if c = a then b else c) s)"

lemma strcpy_safe_fits: "ndrx_lib_ok L \<Longrightarrow> length s < n \<Longrightarrow> strcpy_safe L n s = s"
  by (simp add: ndrx_lib_ok_def)

lemma strcat_s_fits: "ndrx_lib_ok L \<Longrightarrow> length s + length t < n \<Longrightarrow> strcat_s L n s t = s @ t"
  by (simp add: ndrx_lib_ok_def)

lemma string_list_add_Some:
  "ndrx_lib_ok L \<Longrightarrow> string_list_add L xs x = Some ys \<Longrightarrow> ys = xs @ [x]"
  by (simp add: ndrx_lib_ok_def)

lemma strchr_repl_map: "ndrx_lib_ok L \<Longrightarrow> strchr_repl L s a b = map (\<lambda>c. if c = a then b else c) s"
  by (simp add: ndrx_lib_ok_def)

text \<open>The hash tables of \<open>exhash.h\<close>, by the list of their elements in iteration order; the first
  argument of \<open>hash_find\<close> reads an element's string key.\<close>

record 'e exhash =
  hash_find :: "('e \<Rightarrow> string) \<Rightarrow> 'e list \<Rightarrow> string \<Rightarrow> 'e option"
  hash_add :: "'e list \<Rightarrow> 'e \<Rightarrow> 'e list"
  hash_sort :: "('e \<Rightarrow> 'e \<Rightarrow> int) \<Rightarrow> 'e list \<Rightarrow> 'e list"

text \<open>Documented behaviour: a lookup returns an element with the key and fails only when there is none,
  adding adds one element, sorting permutes the elements into the order of a total comparison.\<close>

definition exhash_ok :: "'e exhash \<Rightarrow> bool" where
  "exhash_ok H \<longleftrightarrow>
     (\<forall>k xs n e. hash_find H k xs n = Some e \<longrightarrow> e \<in> set xs \<and> k e = n) \<and>
     (\<forall>k xs n. hash_find H k xs n = None \<longrightarrow> n \<notin> k ` set xs) \<and>
     (\<forall>xs e. mset (hash_add H xs e) = add_mset e (mset xs)) \<and>
     (\<forall>c xs. mset (hash_sort H c xs) = mset xs) \<and>
     (\<forall>c xs. (\<forall>x y. c x y \<le> 0 \<or> c y x \<le> 0) \<longrightarrow> (\<forall>x y z. c x y \<le> 0 \<longrightarrow> c y z \<le> 0 \<longrightarrow> c x z \<le> 0) \<longrightarrow>
        sorted_wrt (\<lambda>x y. c x y \<le> 0) (hash_sort H c xs))"

lemma hash_find_Some: "exhash_ok H \<Longrightarrow> hash_find H k xs n = Some e \<Longrightarrow> e \<in> set xs \<and> k e = n"
  unfolding exhash_ok_def by blast

lemma hash_find_None:
  assumes H: "exhash_ok H"
  shows "hash_find H k xs n = None \<longleftrightarrow> n \<notin> k ` set xs"
proof (cases "hash_find H k xs n")
  case None
  then show ?thesis using H unfolding exhash_ok_def by blast
next
  case (Some e)
  then show ?thesis using hash_find_Some [OF H Some] by auto
qed

lemma mset_hash_add: "exhash_ok H \<Longrightarrow> mset (hash_add H xs e) = add_mset e (mset xs)"
  unfolding exhash_ok_def by blast

lemma mset_hash_sort: "exhash_ok H \<Longrightarrow> mset (hash_sort H c xs) = mset xs"
  unfolding exhash_ok_def by blast

lemma sorted_hash_sort:
  assumes "exhash_ok H" and c: "\<forall>x y. c x y \<le> 0 \<or> c y x \<le> 0"
    "\<forall>x y z. c x y \<le> 0 \<longrightarrow> c y z \<le> 0 \<longrightarrow> c x z \<le> 0"
  shows "sorted_wrt (\<lambda>x y. c x y \<le> 0) (hash_sort H c xs)"
proof -
  have "\<forall>c xs. (\<forall>x y. c x y \<le> 0 \<or> c y x \<le> 0) \<longrightarrow>
      (\<forall>x y z. c x y \<le> 0 \<longrightarrow> c y z \<le> 0 \<longrightarrow> c x z \<le> 0) \<longrightarrow>
      sorted_wrt (\<lambda>x y. c x y \<le> 0) (hash_sort H c xs)"
    using assms(1) unfolding exhash_ok_def by (elim conjE)
  from this [THEN spec, of c, THEN spec, of xs, THEN mp, OF c(1), THEN mp, OF c(2)]
  show ?thesis .
qed

lemma hash_sort_strcmp:
  assumes "exhash_ok H"
  shows "sorted (map k (hash_sort H (\<lambda>a b. strcmp (k a) (k b)) xs))"
proof -
  have le: "strcmp x y \<le> 0 \<longleftrightarrow> x \<le> y" for x y
    using strcmp_greater [of x y] by (auto simp: not_less [symmetric])
  let ?c = "\<lambda>a b. strcmp (k a) (k b)"
  have "\<forall>x y. ?c x y \<le> 0 \<or> ?c y x \<le> 0" by (auto simp: le)
  moreover have "\<forall>x y z. ?c x y \<le> 0 \<longrightarrow> ?c y z \<le> 0 \<longrightarrow> ?c x z \<le> 0" by (auto simp: le)
  ultimately have "sorted_wrt (\<lambda>a b. ?c a b \<le> 0) (hash_sort H ?c xs)"
    by (rule sorted_hash_sort [OF assms])
  then show ?thesis by (simp add: sorted_map le)
qed

text \<open>A concrete library with that behaviour, used by the witnesses.\<close>

fun split_on :: "char \<Rightarrow> string \<Rightarrow> string \<Rightarrow> string list" where
  "split_on d acc [] = [rev acc]"
| "split_on d acc (c # cs) = (if c = d then rev acc # split_on d [] cs else split_on d (c # acc) cs)"

definition plain_lib :: ndrx_lib where
  "plain_lib = \<lparr>strcpy_safe = (\<lambda>n s. take (n - 1) s), strcat_s = (\<lambda>n s t. take (n - 1) (s @ t)),
     string_list_add = (\<lambda>xs x. Some (xs @ [x])),
     string_list_splitadd = (\<lambda>xs s d. Some (xs @ split_on (hd d) [] s)),
     strchr_repl = (\<lambda>s a b. map (\<lambda>c. if c = a then b else c) s)\<rparr>"

lemma plain_lib_ok [simp]: "ndrx_lib_ok plain_lib"
  by (auto simp: ndrx_lib_ok_def plain_lib_def)

fun insert_cmp :: "('e \<Rightarrow> 'e \<Rightarrow> int) \<Rightarrow> 'e \<Rightarrow> 'e list \<Rightarrow> 'e list" where
  "insert_cmp c x [] = [x]"
| "insert_cmp c x (y # ys) = (if c x y \<le> 0 then x # y # ys else y # insert_cmp c x ys)"

definition list_hash :: "'e exhash" where
  "list_hash = \<lparr>hash_find = (\<lambda>k xs n. find (\<lambda>e. k e = n) xs), hash_add = (\<lambda>xs e. xs @ [e]),
     hash_sort = (\<lambda>c xs. foldr (insert_cmp c) xs [])\<rparr>"

lemma mset_insert_cmp: "mset (insert_cmp c x xs) = add_mset x (mset xs)"
  by (induction xs) auto

lemma mset_foldr_insert_cmp: "mset (foldr (insert_cmp c) xs []) = mset xs"
  by (induction xs) (auto simp: mset_insert_cmp)

lemma sorted_insert_cmp:
  assumes "\<forall>x y. c x y \<le> 0 \<or> c y x \<le> 0" "\<forall>x y z. c x y \<le> 0 \<longrightarrow> c y z \<le> 0 \<longrightarrow> c x z \<le> 0"
    and "sorted_wrt (\<lambda>x y. c x y \<le> 0) xs"
  shows "sorted_wrt (\<lambda>x y. c x y \<le> 0) (insert_cmp c x xs)"
  using assms(3)
proof (induction xs)
  case (Cons y ys)
  have "set (insert_cmp c x ys) = insert x (set ys)"
    by (metis mset_insert_cmp set_mset_add_mset_insert set_mset_mset)
  moreover have "\<forall>z \<in> set ys. c x z \<le> 0" if "c x y \<le> 0"
    using that Cons.prems assms(2) unfolding sorted_wrt.simps(2) by blast
  moreover have "c y x \<le> 0" if "\<not> c x y \<le> 0" using that assms(1) by blast
  ultimately show ?case using Cons by simp
qed simp

lemma sorted_foldr_insert_cmp:
  assumes "\<forall>x y. c x y \<le> 0 \<or> c y x \<le> 0" "\<forall>x y z. c x y \<le> 0 \<longrightarrow> c y z \<le> 0 \<longrightarrow> c x z \<le> 0"
  shows "sorted_wrt (\<lambda>x y. c x y \<le> 0) (foldr (insert_cmp c) xs [])"
  by (induction xs) (simp_all add: sorted_insert_cmp [OF assms])

lemma find_list_hash:
  "find (\<lambda>e. k e = n) xs = Some e \<longrightarrow> e \<in> set xs \<and> k e = n"
  "find (\<lambda>e. k e = n) xs = None \<longrightarrow> n \<notin> k ` set xs"
  by (auto simp: find_Some_iff find_None_iff)

lemma list_hash_ok [simp]: "exhash_ok list_hash"
  unfolding exhash_ok_def list_hash_def exhash.select_convs mset_foldr_insert_cmp
  by (intro conjI allI sorted_foldr_insert_cmp impI find_list_hash [THEN mp]) simp_all

subsection \<open>Running the state monad\<close>

definition exec :: "('s, 'a) state \<Rightarrow> 's \<Rightarrow> 's" where
  "exec m s = snd (run_state m s)"

definition val :: "('s, 'a) state \<Rightarrow> 's \<Rightarrow> 'a" where
  "val m s = fst (run_state m s)"

lemma exec_bind [run_simps]: "exec (State_Monad.bind m f) s = exec (f (val m s)) (exec m s)"
  by (simp add: exec_def val_def split_beta)

lemma val_bind [run_simps]: "val (State_Monad.bind m f) s = val (f (val m s)) (exec m s)"
  by (simp add: exec_def val_def split_beta)

lemma exec_return [run_simps]: "exec (State_Monad.return x) s = s"
  by (simp add: exec_def)

lemma val_return [run_simps]: "val (State_Monad.return x) s = x"
  by (simp add: val_def)

lemma exec_get [run_simps]: "exec State_Monad.get s = s"
  by (simp add: exec_def)

lemma val_get [run_simps]: "val State_Monad.get s = s"
  by (simp add: val_def)

lemma exec_update [run_simps]: "exec (State_Monad.update f) s = f s"
  by (simp add: exec_def State_Monad.update_def)

lemma val_update [run_simps]: "val (State_Monad.update f) s = ()"
  by (simp add: val_def State_Monad.update_def)

lemma exec_State [run_simps]: "exec (State f) s = snd (f s)"
  by (simp add: exec_def)

lemma val_State [run_simps]: "val (State f) s = fst (f s)"
  by (simp add: val_def)

lemma exec_if [run_simps]: "exec (if b then m else n) s = (if b then exec m s else exec n s)"
  by simp

lemma val_if [run_simps]: "val (if b then m else n) s = (if b then val m s else val n s)"
  by simp

subsection \<open>Relations between the states before and after a run\<close>

text \<open>\<open>keeps R m\<close>: every run of \<open>m\<close> leads from a state to one related to it by \<open>R\<close>.  For a reflexive and
  transitive \<open>R\<close> this composes along the syntax of the program; the components interpret the locale
  with the relations they need (what is left untouched, what only grows, what is balanced).\<close>

definition keeps :: "('s \<Rightarrow> 's \<Rightarrow> bool) \<Rightarrow> ('s, 'a) state \<Rightarrow> bool" where
  "keeps R m \<longleftrightarrow> (\<forall>s. R s (exec m s))"

lemma keepsD: "keeps R m \<Longrightarrow> R s (exec m s)"
  by (simp add: keeps_def)

lemma keepsI: "(\<And>s. R s (exec m s)) \<Longrightarrow> keeps R m"
  by (simp add: keeps_def)

locale run_rel =
  fixes R :: "'s \<Rightarrow> 's \<Rightarrow> bool"
  assumes refl: "R s s"
    and trans: "R s t \<Longrightarrow> R t u \<Longrightarrow> R s u"
begin

lemma keeps_return: "keeps R (State_Monad.return x)"
  by (simp add: keeps_def run_simps refl)

lemma keeps_get: "keeps R State_Monad.get"
  by (simp add: keeps_def run_simps refl)

lemma keeps_bind: "keeps R m \<Longrightarrow> (\<And>x. keeps R (f x)) \<Longrightarrow> keeps R (State_Monad.bind m f)"
  unfolding keeps_def exec_bind by (meson trans)

lemma keeps_if: "(b \<Longrightarrow> keeps R m) \<Longrightarrow> (\<not> b \<Longrightarrow> keeps R n) \<Longrightarrow> keeps R (if b then m else n)"
  by simp

lemma keeps_option:
  "(x = None \<Longrightarrow> keeps R m) \<Longrightarrow> (\<And>y. x = Some y \<Longrightarrow> keeps R (f y)) \<Longrightarrow>
   keeps R (case x of None \<Rightarrow> m | Some y \<Rightarrow> f y)"
  by (cases x) auto

lemma keeps_prod: "(\<And>a b. x = (a, b) \<Longrightarrow> keeps R (f a b)) \<Longrightarrow> keeps R (case x of (a, b) \<Rightarrow> f a b)"
  by (cases x) auto

lemma keeps_let: "(\<And>y. keeps R (f y)) \<Longrightarrow> keeps R (let y = x in f y)"
  by simp

lemma keeps_update: "(\<And>s. R s (f s)) \<Longrightarrow> keeps R (State_Monad.update f)"
  by (simp add: keeps_def run_simps)

lemmas keeps_rules = keeps_return keeps_get keeps_bind keeps_if keeps_option keeps_prod keeps_let

end

subsection \<open>Postconditions\<close>

text \<open>\<open>wp m Q s\<close>: the run of \<open>m\<close> from \<open>s\<close> ends with a result and a state that satisfy \<open>Q\<close>.  The introduction
  rules walk through a program once, path by path.\<close>

named_theorems wp_intros

definition wp :: "('s, 'a) state \<Rightarrow> ('a \<Rightarrow> 's \<Rightarrow> bool) \<Rightarrow> 's \<Rightarrow> bool" where
  "wp m Q s \<longleftrightarrow> Q (val m s) (exec m s)"

lemma wpD: "wp m Q s \<Longrightarrow> Q (val m s) (exec m s)"
  by (simp add: wp_def)

lemma wp_cons: "wp m P s \<Longrightarrow> (\<And>x t. P x t \<Longrightarrow> Q x t) \<Longrightarrow> wp m Q s"
  by (simp add: wp_def)

lemma wp_any: "(\<And>x t. Q x t) \<Longrightarrow> wp m Q s"
  by (simp add: wp_def)

lemma wp_bind [wp_intros]: "wp m (\<lambda>x t. wp (f x) Q t) s \<Longrightarrow> wp (State_Monad.bind m f) Q s"
  by (simp add: wp_def run_simps)

lemma wp_return [wp_intros]: "Q x s \<Longrightarrow> wp (State_Monad.return x) Q s"
  by (simp add: wp_def run_simps)

lemma wp_get [wp_intros]: "Q s s \<Longrightarrow> wp State_Monad.get Q s"
  by (simp add: wp_def run_simps)

lemma wp_update [wp_intros]: "Q () (f s) \<Longrightarrow> wp (State_Monad.update f) Q s"
  by (simp add: wp_def run_simps)

lemma wp_if [wp_intros]: "(b \<Longrightarrow> wp m Q s) \<Longrightarrow> (\<not> b \<Longrightarrow> wp n Q s) \<Longrightarrow> wp (if b then m else n) Q s"
  by simp

lemma wp_let [wp_intros]: "(\<And>y. y = x \<Longrightarrow> wp (f y) Q s) \<Longrightarrow> wp (let y = x in f y) Q s"
  by simp

lemma wp_option [wp_intros]:
  "(x = None \<Longrightarrow> wp m Q s) \<Longrightarrow> (\<And>y. x = Some y \<Longrightarrow> wp (f y) Q s) \<Longrightarrow>
   wp (case x of None \<Rightarrow> m | Some y \<Rightarrow> f y) Q s"
  by (cases x) auto

lemma wp_prod [wp_intros]: "(\<And>a b. x = (a, b) \<Longrightarrow> wp (f a b) Q s) \<Longrightarrow> wp (case x of (a, b) \<Rightarrow> f a b) Q s"
  by (cases x) auto

text \<open>Phases that end in \<open>goto out\<close> when they fail.\<close>

lemma seq_ok:
  "val (State_Monad.bind m (\<lambda>r. if r \<noteq> EXSUCCEED then State_Monad.return EXFAIL else k)) s = EXSUCCEED \<longleftrightarrow>
   val m s = EXSUCCEED \<and> val k (exec m s) = EXSUCCEED"
  by (simp add: run_simps)

lemma exec_seq_ok:
  "val m s = EXSUCCEED \<Longrightarrow>
   exec (State_Monad.bind m (\<lambda>r. if r \<noteq> EXSUCCEED then State_Monad.return EXFAIL else k)) s = exec k (exec m s)"
  by (simp add: run_simps)

end
