(* ===== verification/FindClasses.thy ===== *)
theory FindClasses
  imports Prelude
begin

section \<open>Scanning the extracted JARs (\<open>exjld/findclasses.c\<close>)\<close>

text \<open>
  The linker unpacks its JAR files into a work directory and walks it with \<open>nftw("./", ...)\<close>.
  \<open>process_entry\<close> is the callback: it numbers each file, derives the Java name of a class from the
  path and queues a job for the thread pool.  The walk reports a list of paths with their type flags;
  it is an input of \<open>exjld_class_scan\<close>.

  State: the two static counters, \<open>M_was_file\<close> and the jobs handed to \<open>ndrx_thpool_add_work\<close>.
\<close>

subsection \<open>Data\<close>

text \<open>The \<open>head\<close> field of \<open>resgen_thread_data_t\<close> points to one of the two global hashes.\<close>

datatype res_head = ndrx_G_classes_hash | ndrx_G_emb_res_hash

record resgen_thread_data =
  d_head :: res_head
  d_resname :: string
  d_id :: int
  d_respath :: string
  d_emb_pfx :: string

record scan_state =
  id_class :: int
  id_res :: int
  M_was_file :: bool
  work :: "resgen_thread_data list"

definition scan_init :: scan_state where
  "scan_init = \<lparr>id_class = 0, id_res = 0, M_was_file = False, work = []\<rparr>"

datatype typeflag = FTW_F | FTW_D | FTW_DNR | FTW_NS | FTW_SL

subsection \<open>The Java name of a path\<close>

definition is_class_path :: "string \<Rightarrow> bool" where
  "is_class_path filepath \<longleftrightarrow>
     6 < length filepath \<and> strcmp (drop (length filepath - 6) filepath) ''.class'' = 0"

definition lead_char :: "char \<Rightarrow> bool" where
  "lead_char c \<longleftrightarrow> c = CHR ''.'' \<or> c = CHR ''/''"

definition dirsep_to_dot :: "char \<Rightarrow> char" where
  "dirsep_to_dot c = (if CHR ''/'' = c then CHR ''.'' else c)"

text \<open>
  \<open>tmp\<close> is the copy of the path, \<open>p\<close> the pointer into it after the leading dots and slashes, \<open>len\<close>
  the remaining length.  For a class the separators become dots and a NUL is written at
  \<open>p[len - 6]\<close>; with \<open>len < 6\<close> that write lies before \<open>p\<close> and leaves the string at \<open>p\<close> as it is.
\<close>

definition entry_name :: "ndrx_lib \<Rightarrow> bool \<Rightarrow> string \<Rightarrow> string" where
  "entry_name L is_class filepath =
     (let tmp = strcpy_safe L PATH_MAX filepath;
          p = dropWhile lead_char tmp;
          len = int (length filepath) - int (length (takeWhile lead_char tmp))
      in if is_class
         then (let q = map dirsep_to_dot (take (nat len) p) @ drop (nat len) p
               in if 6 \<le> len then take (nat (len - 6)) q else q)
         else p)"

subsection \<open>The callback\<close>

text \<open>\<open>alloc k\<close> says whether the \<open>k\<close>-th allocation of the call succeeds: \<open>NDRX_MALLOC\<close> of the job,
  then the three \<open>NDRX_STRDUP_OUT\<close> copies.  A failure leaves the counters advanced and queues
  nothing.\<close>

definition process_entry ::
  "ndrx_lib \<Rightarrow> (nat \<Rightarrow> bool) \<Rightarrow> string \<Rightarrow> typeflag \<Rightarrow> scan_state \<Rightarrow> int \<times> scan_state" where
  "process_entry L alloc filepath tf s =
     (if tf = FTW_F then
        let is_class = is_class_path filepath;
            s1 = (if is_class then s\<lparr>id_class := id_class s + 1\<rparr> else s\<lparr>id_res := id_res s + 1\<rparr>);
            p = entry_name L is_class filepath
        in if \<not> alloc 0 then (EXFAIL, s1)
           else if \<not> alloc 1 \<or> \<not> alloc 2 \<or> \<not> alloc 3 then (EXFAIL, s1)
           else
             let data = (if is_class
                  then \<lparr>d_head = ndrx_G_classes_hash, d_resname = p, d_id = id_class s1,
                        d_respath = filepath, d_emb_pfx = ''class''\<rparr>
                  else \<lparr>d_head = ndrx_G_emb_res_hash, d_resname = p, d_id = id_res s1,
                        d_respath = filepath, d_emb_pfx = ''emb''\<rparr>)
             in (EXSUCCEED, s1\<lparr>M_was_file := True, work := work s1 @ [data]\<rparr>)
      else (EXSUCCEED, s))"

text \<open>\<open>nftw\<close> calls the callback for each entry and stops at the first non-zero result, which it
  returns.  \<open>alloc f\<close> is the allocation outcome of the callback for the file \<open>f\<close>.\<close>

fun exjld_class_scan ::
  "ndrx_lib \<Rightarrow> (string \<Rightarrow> nat \<Rightarrow> bool) \<Rightarrow> (string \<times> typeflag) list \<Rightarrow> scan_state \<Rightarrow> int \<times> scan_state"
where
  "exjld_class_scan L alloc [] s = (EXSUCCEED, s)"
| "exjld_class_scan L alloc ((f, tf) # es) s =
     (case process_entry L (alloc f) f tf s of
        (ret, s') \<Rightarrow> if ret \<noteq> EXSUCCEED then (ret, s') else exjld_class_scan L alloc es s')"

subsection \<open>Names\<close>

text \<open>The name of a class file below \<open>./\<close> is its path without \<open>./\<close> and \<open>.class\<close>, dots for slashes.\<close>

lemma entry_name_class:
  assumes L: "ndrx_lib_ok L"
    and q: "q \<noteq> []" "\<not> lead_char (hd q)"
    and len: "length q + 8 < PATH_MAX"
  shows "entry_name L True (''./'' @ q @ ''.class'') = map dirsep_to_dot q"
proof -
  let ?f = "''./'' @ q @ ''.class''"
  have copy: "strcpy_safe L PATH_MAX ?f = ?f"
    using L len by (intro strcpy_safe_fits) auto
  from q obtain c cs where qc: "q = c # cs" "\<not> lead_char c" by (cases q) auto
  have "dropWhile lead_char ?f = q @ ''.class''" "takeWhile lead_char ?f = ''./''"
    using qc by (auto simp: lead_char_def)
  then show ?thesis
    unfolding entry_name_def Let_def copy by simp
qed

text \<open>A path that fits the buffer is copied whole, so \<open>len\<close> is the length of the string at \<open>p\<close>.\<close>

lemma entry_name_fits:
  assumes L: "ndrx_lib_ok L" and f: "length f < PATH_MAX"
  shows "entry_name L b f =
    (let p = dropWhile lead_char f
     in if b then (if 6 \<le> length p then take (length p - 6) (map dirsep_to_dot p)
                   else map dirsep_to_dot p)
        else p)"
proof -
  have "length f = length (takeWhile lead_char f) + length (dropWhile lead_char f)"
    by (metis length_append takeWhile_dropWhile_id)
  then show ?thesis
    by (simp add: entry_name_def Let_def strcpy_safe_fits [OF L f] nat_diff_distrib)
qed

lemma length_entry_name:
  "ndrx_lib_ok L \<Longrightarrow> length f < PATH_MAX \<Longrightarrow> length (entry_name L b f) \<le> length f"
  using length_dropWhile_le [of lead_char f] by (auto simp: entry_name_fits Let_def)

subsection \<open>The scan invariant\<close>

definition job_key :: "resgen_thread_data \<Rightarrow> res_head \<times> int" where
  "job_key d = (d_head d, d_id d)"

definition id_of_head :: "res_head \<Rightarrow> scan_state \<Rightarrow> int" where
  "id_of_head h s = (case h of ndrx_G_classes_hash \<Rightarrow> id_class s | ndrx_G_emb_res_hash \<Rightarrow> id_res s)"

definition pfx_of_head :: "res_head \<Rightarrow> string" where
  "pfx_of_head h = (case h of ndrx_G_classes_hash \<Rightarrow> ''class'' | ndrx_G_emb_res_hash \<Rightarrow> ''emb'')"

definition job_ok :: "ndrx_lib \<Rightarrow> resgen_thread_data \<Rightarrow> bool" where
  "job_ok L d \<longleftrightarrow>
     (d_head d = ndrx_G_classes_hash \<longleftrightarrow> is_class_path (d_respath d)) \<and>
     d_resname d = entry_name L (is_class_path (d_respath d)) (d_respath d) \<and>
     d_emb_pfx d = pfx_of_head (d_head d) \<and> 1 \<le> d_id d"

definition scan_inv :: "ndrx_lib \<Rightarrow> scan_state \<Rightarrow> bool" where
  "scan_inv L s \<longleftrightarrow>
     (\<forall>h. 0 \<le> id_of_head h s) \<and> distinct (map job_key (work s)) \<and>
     (\<forall>d \<in> set (work s). job_ok L d \<and> d_id d \<le> id_of_head (d_head d) s) \<and>
     (M_was_file s \<longleftrightarrow> work s \<noteq> [])"

lemma scan_inv_init: "scan_inv L scan_init"
  by (simp add: scan_inv_def scan_init_def id_of_head_def split: res_head.splits)

text \<open>The counters only grow, so a job numbered above the old counter is new.\<close>

lemma scan_inv_grow:
  assumes inv: "scan_inv L s"
    and ids: "\<And>h. id_of_head h s \<le> id_of_head h s'"
    and same: "work s' = work s" "M_was_file s' = M_was_file s"
  shows "scan_inv L s'"
proof -
  have "0 \<le> id_of_head h s'" for h
    using inv ids [of h] by (meson order_trans scan_inv_def)
  moreover have "d_id d \<le> id_of_head (d_head d) s'" if "d \<in> set (work s)" for d
    using inv ids [of "d_head d"] that by (meson order_trans scan_inv_def)
  ultimately show ?thesis using inv same by (simp add: scan_inv_def)
qed

lemma scan_inv_add:
  assumes inv: "scan_inv L s"
    and work: "work s' = work s @ [d]" "M_was_file s'"
    and ids: "\<And>h. id_of_head h s \<le> id_of_head h s'"
    and d: "job_ok L d" "id_of_head (d_head d) s < d_id d" "d_id d \<le> id_of_head (d_head d) s'"
  shows "scan_inv L s'"
proof -
  have "job_key d \<notin> job_key ` set (work s)"
    using inv d(2) by (force simp: scan_inv_def job_key_def)
  moreover have "0 \<le> id_of_head h s'" for h
    using inv ids [of h] by (meson order_trans scan_inv_def)
  moreover have "e \<in> set (work s) \<Longrightarrow> job_ok L e \<and> d_id e \<le> id_of_head (d_head e) s'" for e
    using inv ids [of "d_head e"] by (meson order_trans scan_inv_def)
  ultimately show ?thesis
    using inv work d(1,3) by (auto simp: scan_inv_def)
qed

definition bump_id :: "bool \<Rightarrow> scan_state \<Rightarrow> scan_state" where
  "bump_id is_class s = (if is_class then s\<lparr>id_class := id_class s + 1\<rparr> else s\<lparr>id_res := id_res s + 1\<rparr>)"

lemma bump_id_simps [simp]:
  "work (bump_id b s) = work s" "M_was_file (bump_id b s) = M_was_file s"
  "id_of_head h s \<le> id_of_head h (bump_id b s)"
  by (auto simp: bump_id_def id_of_head_def split: res_head.splits)

lemma scan_inv_process_entry:
  assumes inv: "scan_inv L s"
  shows "scan_inv L (snd (process_entry L a f tf s))"
proof -
  let ?c = "is_class_path f"
  have grow: "scan_inv L (bump_id ?c s)"
    using inv by (rule scan_inv_grow) simp_all
  have add: "scan_inv L ((bump_id ?c s)\<lparr>M_was_file := True, work := work s @ [d]\<rparr>)"
    if "d = (if ?c then \<lparr>d_head = ndrx_G_classes_hash, d_resname = entry_name L ?c f,
               d_id = id_class (bump_id ?c s), d_respath = f, d_emb_pfx = ''class''\<rparr>
             else \<lparr>d_head = ndrx_G_emb_res_hash, d_resname = entry_name L ?c f,
               d_id = id_res (bump_id ?c s), d_respath = f, d_emb_pfx = ''emb''\<rparr>)" for d
  proof (rule scan_inv_add [OF inv])
    have "0 \<le> id_class s" "0 \<le> id_res s"
      using inv by (auto simp: scan_inv_def id_of_head_def dest: spec split: res_head.splits)
    then show "job_ok L d" using that by (auto simp: job_ok_def bump_id_def pfx_of_head_def)
  qed (use that in \<open>auto simp: bump_id_def id_of_head_def split: res_head.splits\<close>)
  show ?thesis
    using inv grow add by (auto simp: process_entry_def Let_def bump_id_def)
qed

lemma scan_inv_scan: "scan_inv L s \<Longrightarrow> scan_inv L (snd (exjld_class_scan L al es s))"
proof (induction L al es s rule: exjld_class_scan.induct)
  case (2 L al f tf es s)
  then show ?case
    using scan_inv_process_entry [of L s "al f" f tf]
    by (cases "process_entry L (al f) f tf s") auto
qed simp

text \<open>Where no callback fails, one job per regular file is queued, in walk order.\<close>

lemma process_entry_respaths:
  assumes "process_entry L a f tf s = (EXSUCCEED, s')"
  shows "map d_respath (work s') = map d_respath (work s) @ (if tf = FTW_F then [f] else [])"
  using assms by (auto simp: process_entry_def Let_def split: if_splits)

lemma scan_respaths:
  assumes "exjld_class_scan L al es s = (EXSUCCEED, s')"
  shows "map d_respath (work s') = map d_respath (work s) @ [f. (f, tf) \<leftarrow> es, tf = FTW_F]"
  using assms
proof (induction L al es s rule: exjld_class_scan.induct)
  case (2 L al f tf es s)
  then obtain s1 where s1: "process_entry L (al f) f tf s = (EXSUCCEED, s1)"
      "exjld_class_scan L al es s1 = (EXSUCCEED, s')"
    by (auto split: prod.splits if_splits)
  with 2 process_entry_respaths [OF s1(1)] show ?case by simp
qed simp

subsection \<open>Distinct files have distinct names\<close>

text \<open>The paths a JAR unpacks to: below \<open>./\<close>, no leading dot or slash after it, and for a class file no
  dot before the extension.\<close>

definition clean_path :: "string \<Rightarrow> bool" where
  "clean_path f \<longleftrightarrow> take 2 f = ''./'' \<and> length f < PATH_MAX \<and>
     (case drop 2 f of [] \<Rightarrow> False | c # cs \<Rightarrow> \<not> lead_char c) \<and>
     (is_class_path f \<longrightarrow> CHR ''.'' \<notin> set (take (length f - 8) (drop 2 f)))"

lemma clean_path_parts:
  assumes "clean_path f"
  obtains q where "f = ''./'' @ q" "dropWhile lead_char f = q"
proof
  show f: "f = ''./'' @ drop 2 f"
    using assms append_take_drop_id [of 2 f] unfolding clean_path_def by presburger
  have "dropWhile lead_char (drop 2 f) = drop 2 f"
    using assms by (cases "drop 2 f") (auto simp: clean_path_def)
  then show "dropWhile lead_char f = drop 2 f"
    by (subst f) (simp add: lead_char_def)
qed

lemma clean_class_parts:
  assumes "clean_path f" "is_class_path f"
  obtains r where "f = ''./'' @ r @ ''.class''" "CHR ''.'' \<notin> set r"
    "dropWhile lead_char f = r @ ''.class''"
proof -
  from assms(1) obtain q where q: "f = ''./'' @ q" "dropWhile lead_char f = q"
    by (rule clean_path_parts)
  have suf: "drop (length f - 6) f = ''.class''" "6 < length f"
    using assms(2) by (auto simp: is_class_path_def cstr_simps)
  have "6 \<le> length q"
  proof (rule ccontr)
    assume "\<not> 6 \<le> length q"
    then have "length q = 5" using suf(2) q(1) by simp
    then have "drop (length f - 6) f = CHR ''/'' # q" unfolding q(1) by simp
    with suf(1) show False by simp
  qed
  then obtain k where k: "length q = k + 6" by (metis add.commute le_Suc_ex)
  then have "length f - 6 = Suc (Suc k)" using q(1) by simp
  then have "drop (length q - 6) q = ''.class''" using suf(1) k q(1) by simp
  moreover define r where "r = take (length q - 6) q"
  ultimately have "q = r @ ''.class''" by (metis append_take_drop_id)
  moreover have "CHR ''.'' \<notin> set r"
    using assms q(1) by (auto simp: clean_path_def r_def)
  ultimately show ?thesis using that [of r] q by metis
qed

lemma dirsep_to_dot_inj:
  "map dirsep_to_dot r = map dirsep_to_dot r' \<Longrightarrow> CHR ''.'' \<notin> set r \<Longrightarrow> CHR ''.'' \<notin> set r' \<Longrightarrow> r = r'"
proof (induction r arbitrary: r')
  case (Cons c cs)
  then obtain d ds where "r' = d # ds" by (cases r') auto
  with Cons show ?case by (auto simp: dirsep_to_dot_def split: if_splits)
qed simp

lemma entry_name_inj:
  assumes L: "ndrx_lib_ok L" and f: "clean_path f" "clean_path g"
    and b: "is_class_path f = is_class_path g"
    and eq: "entry_name L (is_class_path f) f = entry_name L (is_class_path g) g"
  shows "f = g"
proof -
  have len: "length f < PATH_MAX" "length g < PATH_MAX" using f by (auto simp: clean_path_def)
  note names = entry_name_fits [OF L len(1)] entry_name_fits [OF L len(2)]
  show ?thesis
  proof (cases "is_class_path f")
    case True
    with b have "is_class_path g" by simp
    from clean_class_parts [OF f(1) True] obtain r where r: "f = ''./'' @ r @ ''.class''" "CHR ''.'' \<notin> set r"
      "dropWhile lead_char f = r @ ''.class''" by blast
    from clean_class_parts [OF f(2) \<open>is_class_path g\<close>] obtain r' where r': "g = ''./'' @ r' @ ''.class''"
      "CHR ''.'' \<notin> set r'" "dropWhile lead_char g = r' @ ''.class''" by blast
    have "map dirsep_to_dot r = map dirsep_to_dot r'"
      using eq True \<open>is_class_path g\<close> unfolding names r(3) r'(3) by simp
    then show ?thesis using dirsep_to_dot_inj r r' by blast
  next
    case False
    with eq b have "dropWhile lead_char f = dropWhile lead_char g" unfolding names by simp
    moreover have "f = ''./'' @ dropWhile lead_char f" by (rule clean_path_parts [OF f(1)]) simp
    moreover have "g = ''./'' @ dropWhile lead_char g" by (rule clean_path_parts [OF f(2)]) simp
    ultimately show ?thesis by metis
  qed
qed

text \<open>The files of a walk.\<close>

definition walk_files :: "(string \<times> typeflag) list \<Rightarrow> string list" where
  "walk_files es = map fst (filter (\<lambda>(f, tf). tf = FTW_F) es)"

lemma walk_files_comp: "[f. (f, tf) \<leftarrow> es, tf = FTW_F] = walk_files es"
  by (induction es) (auto simp: walk_files_def)

lemma distinct_names:
  assumes L: "ndrx_lib_ok L" and ok: "\<forall>d \<in> set ds. job_ok L d \<and> clean_path (d_respath d)"
    and dist: "distinct (map d_respath ds)"
  shows "distinct (map (\<lambda>d. (d_head d, d_resname d)) ds)"
  using ok dist
proof (induction ds)
  case (Cons d ds)
  have "d_respath d = d_respath e" if "e \<in> set ds" "d_head d = d_head e" "d_resname d = d_resname e" for e
  proof (rule entry_name_inj [OF L])
    show "clean_path (d_respath d)" "clean_path (d_respath e)" using Cons.prems(1) that(1) by simp_all
    have ok: "job_ok L d" "job_ok L e" using Cons.prems(1) that(1) by simp_all
    show "is_class_path (d_respath d) = is_class_path (d_respath e)"
      using ok that(2) unfolding job_ok_def by metis
    show "entry_name L (is_class_path (d_respath d)) (d_respath d) =
        entry_name L (is_class_path (d_respath e)) (d_respath e)"
      using ok that(3) unfolding job_ok_def by metis
  qed
  then have "(d_head d, d_resname d) \<notin> (\<lambda>d. (d_head d, d_resname d)) ` set ds"
    using Cons.prems(2) by force
  then show ?case using Cons by simp
qed simp

subsection \<open>Properties\<close>

definition demo_walk :: "(string \<times> typeflag) list" where
  "demo_walk = [(''./'', FTW_D), (''./a'', FTW_D), (''./a/A.class'', FTW_F), (''./x.txt'', FTW_F),
                (''./B.class'', FTW_F)]"

text \<open>The walk of the examples, evaluated.\<close>

lemma demo_scan:
  "exjld_class_scan plain_lib (\<lambda>_ _. True) demo_walk scan_init =
    (EXSUCCEED, \<lparr>id_class = 2, id_res = 1, M_was_file = True, work =
      [\<lparr>d_head = ndrx_G_classes_hash, d_resname = ''a.A'', d_id = 1, d_respath = ''./a/A.class'', d_emb_pfx = ''class''\<rparr>,
       \<lparr>d_head = ndrx_G_emb_res_hash, d_resname = ''x.txt'', d_id = 1, d_respath = ''./x.txt'', d_emb_pfx = ''emb''\<rparr>,
       \<lparr>d_head = ndrx_G_classes_hash, d_resname = ''B'', d_id = 2, d_respath = ''./B.class'', d_emb_pfx = ''class''\<rparr>]\<rparr>)"
  by (simp add: demo_walk_def scan_init_def process_entry_def is_class_path_def cstr_simps entry_name_def
      plain_lib_def PATH_MAX_def lead_char_def dirsep_to_dot_def Let_def)

text \<open>C11. A scan that succeeds queues exactly one job per regular file of the walk, in walk order; each
  job goes to the hash its extension selects, carries the name derived from the path and the prefix of
  that hash, and no two jobs of one hash have the same number.\<close>

theorem scan_jobs:
  assumes "exjld_class_scan L al es scan_init = (EXSUCCEED, s)"
  shows "map d_respath (work s) = walk_files es \<and> list_all (job_ok L) (work s) \<and>
    distinct (map job_key (work s)) \<and> (M_was_file s \<longleftrightarrow> walk_files es \<noteq> [])"
proof -
  have "scan_inv L s" using scan_inv_scan [OF scan_inv_init, of L al es] assms by simp
  moreover have paths: "map d_respath (work s) = walk_files es"
    using scan_respaths [OF assms] by (simp add: walk_files_comp scan_init_def)
  ultimately show ?thesis by (auto simp: scan_inv_def list_all_iff)
qed

theorem scan_jobs_witness:
  "\<exists>s. exjld_class_scan plain_lib (\<lambda>_ _. True) demo_walk scan_init = (EXSUCCEED, s) \<and>
     map d_respath (work s) = [''./a/A.class'', ''./x.txt'', ''./B.class''] \<and> distinct (map job_key (work s))"
  using scan_jobs [OF demo_scan] demo_scan by (simp add: demo_walk_def walk_files_def)

text \<open>The class \<open>p.q.C\<close> is found under its Java name: a class file \<open>./p/q/C.class\<close> whose path fits the
  buffer gets the path between \<open>./\<close> and \<open>.class\<close> with dots for the separators.\<close>

theorem class_file_name:
  assumes "ndrx_lib_ok L" "q \<noteq> []" "\<not> lead_char (hd q)" "length q + 8 < PATH_MAX"
  shows "is_class_path (''./'' @ q @ ''.class'') \<and>
    entry_name L True (''./'' @ q @ ''.class'') = map dirsep_to_dot q"
proof -
  have "drop (length q + 2) (''./'' @ q @ ''.class'') = ''.class''" by simp
  then have "is_class_path (''./'' @ q @ ''.class'')" by (simp add: is_class_path_def cstr_simps)
  then show ?thesis using entry_name_class [OF assms] by blast
qed

theorem class_file_name_witness:
  "entry_name plain_lib True (''./'' @ ''org/endurox/AtmiCtx'' @ ''.class'') = ''org.endurox.AtmiCtx''"
  using class_file_name [of plain_lib "''org/endurox/AtmiCtx''"]
  by (simp add: lead_char_def PATH_MAX_def dirsep_to_dot_def)

end
