(* ===== verification/Resources.thy ===== *)
theory Resources
  imports FindClasses
begin

section \<open>The resource hashes and the linker's thread pool (\<open>exjld/resources.c\<close>)\<close>

text \<open>
  Each queued job runs \<open>exljd_res_add_th\<close> on a worker thread: look the name up under \<open>M_hash_lock\<close>,
  generate the embedded C file, and add the element to the hash under the lock again.  A hash
  (\<open>EXHASH_*\<close>) is the list of its elements; \<open>r_addr\<close> is the block
  \<open>NDRX_MALLOC\<close> returned, so that freeing an element that is still linked is visible.

  \<open>exljd_res_add_th\<close> is the handler run without interruption; \<open>pool_step\<close> are its atomic sections
  interleaved with those of the other workers.
\<close>

record exjld_resource =
  r_resname :: string
  r_id :: int
  r_respath :: string
  r_embpath :: string
  r_addr :: nat

record pool_state =
  hashes :: "res_head \<Rightarrow> exjld_resource list"
  thpool_error :: int
  heap_next :: nat
  freed :: "nat list"

definition pool_init :: pool_state where
  "pool_init = \<lparr>hashes = (\<lambda>_. []), thpool_error = EXSUCCEED, heap_next = 0, freed = []\<rparr>"

text \<open>What the pool uses and this repository does not define: the core library and its hash, the
  outcome \<open>pe_mem k\<close> of \<open>NDRX_MALLOC\<close> after \<open>k\<close> successful ones, and the return code
  \<open>pe_gen respath embpath\<close> of \<open>ndrx_file_gen_embed(respath, embpath, "cinclude")\<close>.\<close>

record pool_env =
  pe_lib :: ndrx_lib
  pe_hash :: "exjld_resource exhash"
  pe_mem :: "nat \<Rightarrow> bool"
  pe_gen :: "string \<Rightarrow> string \<Rightarrow> int"

definition pool_env_ok :: "pool_env \<Rightarrow> bool" where
  "pool_env_ok E \<longleftrightarrow> ndrx_lib_ok (pe_lib E) \<and> exhash_ok (pe_hash E)"

definition exljd_res_find :: "pool_env \<Rightarrow> exjld_resource list \<Rightarrow> string \<Rightarrow> exjld_resource option" where
  "exljd_res_find E head resname = hash_find (pe_hash E) r_resname head resname"

definition exjld_thread_error_set :: "int \<Rightarrow> pool_state \<Rightarrow> pool_state" where
  "exjld_thread_error_set ret s = s\<lparr>thpool_error := ret\<rparr>"

text \<open>The element a job fills in, in the block at address \<open>a\<close>.\<close>

definition res_fill :: "pool_env \<Rightarrow> resgen_thread_data \<Rightarrow> nat \<Rightarrow> exjld_resource" where
  "res_fill E data a =
     \<lparr>r_resname = strcpy_safe (pe_lib E) (PATH_MAX + 1) (d_resname data),
      r_id = d_id data,
      r_respath = strcpy_safe (pe_lib E) (PATH_MAX + 1) (d_respath data),
      r_embpath = snprintf_buf (PATH_MAX + 1) (d_emb_pfx data @ ''_'' @ show_int (d_id data)),
      r_addr = a\<rparr>"

definition res_link :: "pool_env \<Rightarrow> res_head \<Rightarrow> exjld_resource \<Rightarrow> pool_state \<Rightarrow> pool_state" where
  "res_link E h elm s = s\<lparr>hashes := (hashes s)(h := hash_add (pe_hash E) (hashes s h) elm)\<rparr>"

text \<open>The \<open>out:\<close> part: on failure \<open>elm\<close> is freed when it is not NULL, whether this call allocated it
  or found it in the hash, and the pool's error is set.\<close>

definition res_add_out :: "int \<Rightarrow> exjld_resource option \<Rightarrow> pool_state \<Rightarrow> pool_state" where
  "res_add_out ret elm s =
     (let s1 = (case elm of
                  Some e \<Rightarrow> if ret \<noteq> EXSUCCEED then s\<lparr>freed := r_addr e # freed s\<rparr> else s
                | None \<Rightarrow> s)
      in if ret \<noteq> EXSUCCEED then exjld_thread_error_set ret s1 else s1)"

definition exljd_res_add_th :: "pool_env \<Rightarrow> resgen_thread_data \<Rightarrow> pool_state \<Rightarrow> pool_state" where
  "exljd_res_add_th E data s =
     (case exljd_res_find E (hashes s (d_head data)) (d_resname data) of
        Some elm \<Rightarrow> res_add_out EXFAIL (Some elm) s
      | None \<Rightarrow>
          if \<not> pe_mem E (heap_next s) then res_add_out EXFAIL None s
          else
            let elm = res_fill E data (heap_next s);
                s1 = s\<lparr>heap_next := heap_next s + 1\<rparr>
            in if pe_gen E (r_respath elm) (r_embpath elm) \<noteq> EXSUCCEED
               then res_add_out EXFAIL (Some elm) s1
               else res_add_out EXSUCCEED (Some elm) (res_link E (d_head data) elm s1))"

definition resname_sort :: "exjld_resource \<Rightarrow> exjld_resource \<Rightarrow> int" where
  "resname_sort a b = strcmp (r_resname a) (r_resname b)"

definition exljd_res_sort_by_resname :: "pool_env \<Rightarrow> exjld_resource list \<Rightarrow> exjld_resource list" where
  "exljd_res_sort_by_resname E head = hash_sort (pe_hash E) resname_sort head"

text \<open>\<open>EXHASH_ITER\<close> visits the elements in order; each is unlinked and freed.\<close>

fun exljd_res_free :: "exjld_resource list \<Rightarrow> pool_state \<Rightarrow> exjld_resource list \<times> pool_state" where
  "exljd_res_free [] s = ([], s)"
| "exljd_res_free (el # els) s = exljd_res_free els (s\<lparr>freed := r_addr el # freed s\<rparr>)"

subsection \<open>Interleaved workers\<close>

text \<open>Where a worker stands: before reading \<open>*data->head\<close> (the argument of \<open>exljd_res_find\<close>, read
  outside the lock), before the locked lookup with the head it read (\<open>True\<close>: not NULL; the first
  element of a hash never changes while elements are only added), after a miss, with a filled element
  before the second locked section, and finished with success or failure.\<close>

datatype wpc = W_start | W_find bool | W_build | W_add exjld_resource | W_done bool

type_synonym workers = "(resgen_thread_data \<times> wpc) list"

inductive pool_step ::
  "pool_env \<Rightarrow> pool_state \<times> workers \<Rightarrow> pool_state \<times> workers \<Rightarrow> bool"
  for E where
  read_head: "i < length ts \<Longrightarrow> ts ! i = (d, W_start) \<Longrightarrow>
     pool_step E (s, ts) (s, ts[i := (d, W_find (hashes s (d_head d) \<noteq> []))])"
| find_hit: "i < length ts \<Longrightarrow> ts ! i = (d, W_find True) \<Longrightarrow>
     exljd_res_find E (hashes s (d_head d)) (d_resname d) = Some e \<Longrightarrow>
     pool_step E (s, ts) (res_add_out EXFAIL (Some e) s, ts[i := (d, W_done False)])"
| find_miss: "i < length ts \<Longrightarrow> ts ! i = (d, W_find b) \<Longrightarrow>
     b \<longrightarrow> exljd_res_find E (hashes s (d_head d)) (d_resname d) = None \<Longrightarrow>
     pool_step E (s, ts) (s, ts[i := (d, W_build)])"
| build_nomem: "i < length ts \<Longrightarrow> ts ! i = (d, W_build) \<Longrightarrow> \<not> pe_mem E (heap_next s) \<Longrightarrow>
     pool_step E (s, ts) (res_add_out EXFAIL None s, ts[i := (d, W_done False)])"
| build_fail: "i < length ts \<Longrightarrow> ts ! i = (d, W_build) \<Longrightarrow> pe_mem E (heap_next s) \<Longrightarrow>
     e = res_fill E d (heap_next s) \<Longrightarrow> pe_gen E (r_respath e) (r_embpath e) \<noteq> EXSUCCEED \<Longrightarrow>
     pool_step E (s, ts)
       (res_add_out EXFAIL (Some e) (s\<lparr>heap_next := heap_next s + 1\<rparr>), ts[i := (d, W_done False)])"
| build_ok: "i < length ts \<Longrightarrow> ts ! i = (d, W_build) \<Longrightarrow> pe_mem E (heap_next s) \<Longrightarrow>
     e = res_fill E d (heap_next s) \<Longrightarrow> pe_gen E (r_respath e) (r_embpath e) = EXSUCCEED \<Longrightarrow>
     pool_step E (s, ts) (s\<lparr>heap_next := heap_next s + 1\<rparr>, ts[i := (d, W_add e)])"
| add_elm: "i < length ts \<Longrightarrow> ts ! i = (d, W_add e) \<Longrightarrow>
     pool_step E (s, ts)
       (res_add_out EXSUCCEED (Some e) (res_link E (d_head d) e s), ts[i := (d, W_done True)])"

inductive_cases pool_stepE [consumes 1]: "pool_step E (s, ts) c"

definition pool_start :: "resgen_thread_data list \<Rightarrow> pool_state \<times> workers" where
  "pool_start jobs = (pool_init, map (\<lambda>d. (d, W_start)) jobs)"

definition pool_reach ::
  "pool_env \<Rightarrow> resgen_thread_data list \<Rightarrow> pool_state \<Rightarrow> workers \<Rightarrow> bool"
where
  "pool_reach E jobs s ts \<longleftrightarrow> (pool_step E)\<^sup>*\<^sup>* (pool_start jobs) (s, ts)"

fun is_done :: "wpc \<Rightarrow> bool" where
  "is_done (W_done _) = True"
| "is_done _ = False"

definition all_done :: "workers \<Rightarrow> bool" where
  "all_done ts = list_all (\<lambda>(d, pc). is_done pc) ts"

text \<open>\<open>exjld_class_build_hash\<close> of \<open>findclasses.c\<close>: \<open>scan\<close> is the result of \<open>nftw\<close>; when a file was
  queued it waits for the pool and looks at its error.\<close>

definition exjld_class_build_hash :: "int \<Rightarrow> bool \<Rightarrow> pool_state \<Rightarrow> int" where
  "exjld_class_build_hash scan was_file s =
     (if scan \<noteq> EXSUCCEED then EXFAIL
      else if was_file \<and> thpool_error s \<noteq> EXSUCCEED then EXFAIL
      else EXSUCCEED)"

subsection \<open>Termination and progress\<close>

fun pc_rank :: "wpc \<Rightarrow> nat" where
  "pc_rank W_start = 4"
| "pc_rank (W_find _) = 3"
| "pc_rank W_build = 2"
| "pc_rank (W_add _) = 1"
| "pc_rank (W_done _) = 0"

definition pool_work :: "workers \<Rightarrow> nat" where
  "pool_work ts = (\<Sum>(d, pc) \<leftarrow> ts. pc_rank pc)"

lemma pool_work_update:
  "i < length ts \<Longrightarrow> ts ! i = (d, pc) \<Longrightarrow> pc_rank pc' < pc_rank pc \<Longrightarrow>
   pool_work (ts[i := (d', pc')]) < pool_work ts"
proof (induction ts arbitrary: i)
  case (Cons t ts)
  then show ?case by (cases i) (auto simp: pool_work_def)
qed simp

lemma pool_step_work: "pool_step E (s, ts) (s', ts') \<Longrightarrow> pool_work ts' < pool_work ts"
  by (erule pool_stepE) (auto intro!: pool_work_update)

lemma pool_step_exists:
  assumes "i < length ts" "ts ! i = (d, pc)" "\<not> is_done pc"
  shows "\<exists>c. pool_step E (s, ts) c"
proof (cases pc)
  case W_start
  then show ?thesis using assms by (blast intro: pool_step.read_head)
next
  case (W_find b)
  show ?thesis
  proof (cases "b \<longrightarrow> exljd_res_find E (hashes s (d_head d)) (d_resname d) = None")
    case True
    then show ?thesis using assms W_find by (blast intro: pool_step.find_miss)
  next
    case False
    then show ?thesis using assms W_find by (auto intro: pool_step.find_hit)
  qed
next
  case W_build
  then show ?thesis using assms
    by (cases "pe_mem E (heap_next s)"; metis pool_step.build_nomem pool_step.build_fail pool_step.build_ok)
next
  case (W_add e)
  then show ?thesis using assms by (blast intro: pool_step.add_elm)
next
  case (W_done b)
  then show ?thesis using assms by simp
qed

lemma not_all_done: "\<not> all_done ts \<longleftrightarrow> (\<exists>i d pc. i < length ts \<and> ts ! i = (d, pc) \<and> \<not> is_done pc)"
  by (simp add: all_done_def list_all_length split_beta prod_eq_iff)

lemma pool_step_iff: "(\<exists>c. pool_step E (s, ts) c) \<longleftrightarrow> \<not> all_done ts"
proof
  assume "\<exists>c. pool_step E (s, ts) c"
  then show "\<not> all_done ts" unfolding not_all_done by (auto elim!: pool_stepE; force)
qed (metis not_all_done pool_step_exists)

lemma pool_finishes: "\<exists>s' ts'. (pool_step E)\<^sup>*\<^sup>* (s, ts) (s', ts') \<and> all_done ts'"
proof (induction "pool_work ts" arbitrary: s ts rule: less_induct)
  case less
  show ?case
  proof (cases "all_done ts")
    case False
    then obtain s1 ts1 where st: "pool_step E (s, ts) (s1, ts1)"
      using pool_step_iff by (metis surj_pair)
    from less [OF pool_step_work [OF st], of s1] show ?thesis
      using st by (meson converse_rtranclp_into_rtranclp)
  qed blast
qed

subsection \<open>What the hashes hold\<close>

text \<open>An element without its address; a job's element is determined up to it.\<close>

definition res_proj :: "exjld_resource \<Rightarrow> exjld_resource" where
  "res_proj e = e\<lparr>r_addr := 0\<rparr>"

lemma res_proj_fill [simp]: "res_proj (res_fill E d a) = res_fill E d 0"
  by (simp add: res_proj_def res_fill_def)

lemma res_proj_sel [simp]:
  "r_resname (res_proj e) = r_resname e" "r_respath (res_proj e) = r_respath e"
  "r_embpath (res_proj e) = r_embpath e" "r_id (res_proj e) = r_id e"
  by (simp_all add: res_proj_def)

lemma res_fill_addr [simp]: "r_addr (res_fill E d a) = a"
  by (simp add: res_fill_def)

lemma res_add_out_simps [simp]:
  "hashes (res_add_out r e s) = hashes s"
  "heap_next (res_add_out r e s) = heap_next s"
  "thpool_error (res_add_out r e s) = (if r \<noteq> EXSUCCEED then r else thpool_error s)"
  "freed (res_add_out r e s) =
     (case e of Some x \<Rightarrow> if r \<noteq> EXSUCCEED then r_addr x # freed s else freed s | None \<Rightarrow> freed s)"
  by (auto simp: res_add_out_def Let_def exjld_thread_error_set_def split: option.splits)

lemma res_link_simps [simp]:
  "hashes (res_link E h e s) = (hashes s)(h := hash_add (pe_hash E) (hashes s h) e)"
  "heap_next (res_link E h e s) = heap_next s"
  "thpool_error (res_link E h e s) = thpool_error s"
  "freed (res_link E h e s) = freed s"
  by (auto simp: res_link_def)

lemma mset_add_hash: "pool_env_ok E \<Longrightarrow> mset (hash_add (pe_hash E) xs e) = add_mset e (mset xs)"
  by (simp add: pool_env_ok_def mset_hash_add)

text \<open>The multiset of what the workers contribute, by a weight of each worker; one step replaces the
  contribution of one worker.\<close>

definition contrib :: "(resgen_thread_data \<times> wpc \<Rightarrow> 'a multiset) \<Rightarrow> workers \<Rightarrow> 'a multiset" where
  "contrib f ts = (\<Sum>t \<leftarrow> ts. f t)"

lemma contrib_update:
  "i < length ts \<Longrightarrow> contrib f (ts[i := t]) + f (ts ! i) = contrib f ts + f t"
proof (induction ts arbitrary: i)
  case (Cons x ts)
  then show ?case by (cases i) (auto simp: contrib_def algebra_simps)
qed simp

lemma contrib_upd_same:
  "i < length ts \<Longrightarrow> f t = f (ts ! i) \<Longrightarrow> contrib f (ts[i := t]) = contrib f ts"
  using contrib_update [of i ts f t] by simp

lemma contrib_upd_gain:
  "i < length ts \<Longrightarrow> f (ts ! i) = {#} \<Longrightarrow> contrib f (ts[i := t]) = contrib f ts + f t"
  using contrib_update [of i ts f t] by simp

fun added :: "pool_env \<Rightarrow> res_head \<Rightarrow> resgen_thread_data \<times> wpc \<Rightarrow> exjld_resource multiset" where
  "added E h (d, W_done True) = (if d_head d = h then {#res_fill E d 0#} else {#})"
| "added E h _ = {#}"

fun worker_ok :: "pool_env \<Rightarrow> resgen_thread_data \<times> wpc \<Rightarrow> bool" where
  "worker_ok E (d, W_add e) \<longleftrightarrow>
     res_proj e = res_fill E d 0 \<and> pe_gen E (r_respath e) (r_embpath e) = EXSUCCEED"
| "worker_ok E (d, W_done True) \<longleftrightarrow>
     pe_gen E (r_respath (res_fill E d 0)) (r_embpath (res_fill E d 0)) = EXSUCCEED"
| "worker_ok E _ \<longleftrightarrow> True"

definition pool_inv ::
  "pool_env \<Rightarrow> resgen_thread_data list \<Rightarrow> pool_state \<Rightarrow> workers \<Rightarrow> bool" where
  "pool_inv E jobs s ts \<longleftrightarrow>
     map fst ts = jobs \<and>
     (\<forall>t \<in> set ts. worker_ok E t) \<and>
     (\<forall>h. mset (map res_proj (hashes s h)) = contrib (added E h) ts) \<and>
     (thpool_error s = (if W_done False \<in> snd ` set ts then EXFAIL else EXSUCCEED))"

lemma map_fst_upd: "i < length ts \<Longrightarrow> ts ! i = (d, pc) \<Longrightarrow> map fst (ts[i := (d, pc')]) = map fst ts"
  by (simp add: map_update) (metis fst_conv list_update_id nth_map)

lemma all_upd: "\<forall>t \<in> set ts. P t \<Longrightarrow> P t' \<Longrightarrow> \<forall>t \<in> set (ts[i := t']). P t"
  using set_update_subset_insert [of ts i t'] by blast

lemma failed_upd:
  assumes "i < length ts" "ts ! i = (d, pc)" "pc \<noteq> W_done False"
  shows "W_done False \<in> snd ` set (ts[i := (d, pc')]) \<longleftrightarrow>
    pc' = W_done False \<or> W_done False \<in> snd ` set ts"
proof -
  have "set ts = insert (d, pc) (set (take i ts) \<union> set (drop (Suc i) ts))"
    using assms(1,2) by (metis Un_insert_right id_take_nth_drop list.simps(15) set_append)
  then show ?thesis using assms by (auto simp: upd_conv_take_nth_drop)
qed

text \<open>The effect of one step on the invariant, for the step's worker \<open>i\<close>.\<close>

lemma pool_inv_upd:
  assumes inv: "pool_inv E jobs s ts"
    and i: "i < length ts" "ts ! i = (d, pc)" "\<not> is_done pc"
    and ok: "worker_ok E (d, pc')"
    and h: "\<And>h. mset (map res_proj (hashes s' h)) = mset (map res_proj (hashes s h)) + added E h (d, pc')"
    and err: "thpool_error s' = (if pc' = W_done False then EXFAIL else thpool_error s)"
  shows "pool_inv E jobs s' (ts[i := (d, pc')])"
proof -
  have none: "added E h (ts ! i) = {#}" for h using i by (cases pc) auto
  have pc: "pc \<noteq> W_done False" using i(3) by auto
  have c: "contrib (added E h) (ts[i := (d, pc')]) = contrib (added E h) ts + added E h (d, pc')" for h
    using contrib_upd_gain [OF i(1), of "added E h"] none by simp
  show ?thesis
    unfolding pool_inv_def map_fst_upd [OF i(1,2)] failed_upd [OF i(1,2) pc] c
    using inv ok h err by (auto simp: pool_inv_def dest: all_upd [where i = i])
qed

lemma pool_inv_step:
  assumes E: "pool_env_ok E" and st: "pool_step E (s, ts) (s', ts')" and inv: "pool_inv E jobs s ts"
  shows "pool_inv E jobs s' ts'"
proof -
  note upd = pool_inv_upd [OF inv]
  from st show ?thesis
  proof (cases rule: pool_stepE)
    case (1 i d)
    then show ?thesis by (simp add: upd [of i d W_start])
  next
    case (2 i d e)
    then show ?thesis by (simp add: upd [of i d "W_find True"])
  next
    case (3 i d b)
    then show ?thesis by (simp add: upd [of i d "W_find b"])
  next
    case (4 i d)
    then show ?thesis by (simp add: upd [of i d W_build])
  next
    case (5 i d)
    then show ?thesis by (simp add: upd [of i d W_build])
  next
    case (6 i d)
    then show ?thesis by (simp add: upd [of i d W_build])
  next
    case (7 i d e)
    then have w: "worker_ok E (d, W_add e)"
      using inv by (metis nth_mem pool_inv_def)
    then have "worker_ok E (d, W_done True)"
      by (metis res_proj_sel(2,3) worker_ok.simps(1,2))
    with w 7 show ?thesis by (simp add: upd [of i d "W_add e"] mset_add_hash [OF E])
  qed
qed

lemma pool_inv_start: "pool_inv E jobs (fst (pool_start jobs)) (snd (pool_start jobs))"
proof -
  have "contrib (added E h) (map (\<lambda>d. (d, W_start)) jobs) = {#}" for h
    by (induction jobs) (auto simp: contrib_def)
  then show ?thesis
    by (auto simp: pool_inv_def pool_start_def pool_init_def comp_def)
qed

text \<open>Properties of every run from the start.\<close>

lemma reach_induct:
  assumes r: "pool_reach E jobs s ts"
    and base: "P (fst (pool_start jobs)) (snd (pool_start jobs))"
    and st: "\<And>s ts s' ts'. pool_reach E jobs s ts \<Longrightarrow> P s ts \<Longrightarrow>
      pool_step E (s, ts) (s', ts') \<Longrightarrow> P s' ts'"
  shows "P s ts"
proof -
  have "(pool_step E)\<^sup>*\<^sup>* (pool_start jobs) c \<Longrightarrow> P (fst c) (snd c)" for c
  proof (induction rule: rtranclp_induct)
    case (step y z)
    then show ?case using st [of "fst y" "snd y" "fst z" "snd z"] by (simp add: pool_reach_def)
  qed (rule base)
  with r show ?thesis by (fastforce simp: pool_reach_def)
qed

lemma pool_inv_reach: "pool_env_ok E \<Longrightarrow> pool_reach E jobs s ts \<Longrightarrow> pool_inv E jobs s ts"
  by (erule reach_induct) (auto intro: pool_inv_start pool_inv_step)

subsection \<open>Distinct names: no duplicate is reported and no linked element is freed\<close>

definition name_key :: "resgen_thread_data \<Rightarrow> res_head \<times> string" where
  "name_key d = (d_head d, d_resname d)"

definition names_ok :: "resgen_thread_data list \<Rightarrow> bool" where
  "names_ok jobs \<longleftrightarrow> distinct (map name_key jobs) \<and> (\<forall>d \<in> set jobs. length (d_resname d) \<le> PATH_MAX)"

lemma contrib_member: "x \<in># contrib f ts \<longleftrightarrow> (\<exists>t \<in> set ts. x \<in># f t)"
  by (induction ts) (auto simp: contrib_def)

lemma added_member: "x \<in># added E h t \<longleftrightarrow> (\<exists>d. t = (d, W_done True) \<and> d_head d = h \<and> x = res_fill E d 0)"
  by (cases "(E, h, t)" rule: added.cases) auto

lemma hash_from_job:
  assumes "pool_inv E jobs s ts" "e \<in> set (hashes s h)"
  shows "\<exists>d. (d, W_done True) \<in> set ts \<and> d_head d = h \<and> res_proj e = res_fill E d 0"
proof -
  have "res_proj e \<in># mset (map res_proj (hashes s h))" using assms(2) by simp
  also have "mset (map res_proj (hashes s h)) = contrib (added E h) ts"
    using assms(1) unfolding pool_inv_def by blast
  finally show ?thesis by (auto simp: contrib_member added_member)
qed

lemma res_fill_name:
  "pool_env_ok E \<Longrightarrow> length (d_resname d) \<le> PATH_MAX \<Longrightarrow> r_resname (res_fill E d a) = d_resname d"
  by (simp add: res_fill_def pool_env_ok_def strcpy_safe_fits)

lemma worker_job: "pool_inv E jobs s ts \<Longrightarrow> i < length ts \<Longrightarrow> ts ! i = (d, pc) \<Longrightarrow> i < length jobs \<and> jobs ! i = d"
  by (auto simp: pool_inv_def)

lemma no_duplicate_hit:
  assumes L: "pool_env_ok E" and inv: "pool_inv E jobs s ts" and nm: "names_ok jobs"
    and i: "i < length ts" "ts ! i = (d, pc)" "\<not> is_done pc"
  shows "exljd_res_find E (hashes s (d_head d)) (d_resname d) = None"
proof (rule ccontr)
  assume "exljd_res_find E (hashes s (d_head d)) (d_resname d) \<noteq> None"
  then obtain e where e: "e \<in> set (hashes s (d_head d))" "r_resname e = d_resname d"
    using L unfolding exljd_res_find_def pool_env_ok_def by (auto dest: hash_find_Some)
  from hash_from_job [OF inv e(1)] obtain d' where d':
    "(d', W_done True) \<in> set ts" "d_head d' = d_head d" "res_proj e = res_fill E d' 0" by blast
  from d'(1) obtain j where j: "j < length ts" "ts ! j = (d', W_done True)"
    by (auto simp: in_set_conv_nth)
  note jobs = worker_job [OF inv i(1,2)] worker_job [OF inv j]
  have "r_resname (res_proj e) = d_resname d'"
    unfolding d'(3) using L nm jobs nth_mem by (intro res_fill_name) (auto simp: names_ok_def)
  then have "name_key d' = name_key d"
    using e(2) d'(2) by (simp add: name_key_def res_proj_def)
  then have "i = j"
    using nm jobs by (metis (no_types, lifting) distinct_conv_nth length_map names_ok_def nth_map)
  then show False using i j by auto
qed

fun pending :: "resgen_thread_data \<times> wpc \<Rightarrow> nat multiset" where
  "pending (d, W_add e) = {#r_addr e#}"
| "pending _ = {#}"

definition linked :: "pool_state \<Rightarrow> nat multiset" where
  "linked s = mset (map r_addr (hashes s ndrx_G_classes_hash)) + mset (map r_addr (hashes s ndrx_G_emb_res_hash))"

definition blocks :: "pool_state \<Rightarrow> workers \<Rightarrow> nat multiset" where
  "blocks s ts = mset (freed s) + linked s + contrib pending ts"

definition heap_inv :: "pool_state \<Rightarrow> workers \<Rightarrow> bool" where
  "heap_inv s ts \<longleftrightarrow> (\<forall>a \<in># blocks s ts. a < heap_next s) \<and> (\<forall>a. count (blocks s ts) a \<le> 1)"

lemma linked_res_link: "pool_env_ok E \<Longrightarrow> linked (res_link E h e s) = add_mset (r_addr e) (linked s)"
  by (cases h) (auto simp: linked_def mset_add_hash)

lemma linked_frame [simp]:
  "linked (res_add_out r e s) = linked s" "linked (s\<lparr>heap_next := n\<rparr>) = linked s"
  by (auto simp: linked_def)

lemma heap_inv_same:
  "heap_inv s ts \<Longrightarrow> blocks s' ts' = blocks s ts \<Longrightarrow> heap_next s' = heap_next s \<Longrightarrow> heap_inv s' ts'"
  by (simp add: heap_inv_def)

lemma heap_inv_new:
  assumes "heap_inv s ts" "blocks s' ts' = add_mset (heap_next s) (blocks s ts)" "heap_next s' = heap_next s + 1"
  shows "heap_inv s' ts'"
proof -
  have "count (blocks s ts) (heap_next s) = 0"
    using assms(1) by (metis heap_inv_def less_irrefl not_in_iff)
  then show ?thesis using assms by (auto simp: heap_inv_def less_SucI)
qed

lemma heap_inv_step:
  assumes E: "pool_env_ok E" and st: "pool_step E (s, ts) (s', ts')" and inv: "heap_inv s ts"
    and nohit: "\<And>i d. i < length ts \<Longrightarrow> ts ! i = (d, W_find True) \<Longrightarrow>
      exljd_res_find E (hashes s (d_head d)) (d_resname d) = None"
  shows "heap_inv s' ts'"
  using st
proof (cases rule: pool_stepE)
  case (2 i d e)
  then show ?thesis using nohit [of i d] by simp
next
  case (5 i d)
  then show ?thesis
    by (intro heap_inv_new [OF inv]) (auto simp: blocks_def contrib_upd_same)
next
  case (6 i d)
  then show ?thesis
    by (intro heap_inv_new [OF inv]) (auto simp: blocks_def contrib_upd_gain)
next
  case (7 i d e)
  then have "add_mset (r_addr e) (contrib pending ts') = contrib pending ts"
    using contrib_update [of i ts pending "(d, W_done True)"] by simp
  with 7 show ?thesis
    by (intro heap_inv_same [OF inv]) (auto simp: blocks_def linked_res_link [OF E])
qed (use inv in \<open>auto intro!: heap_inv_same [OF inv] simp: blocks_def contrib_upd_same\<close>)

lemma heap_inv_start: "heap_inv (fst (pool_start jobs)) (snd (pool_start jobs))"
proof -
  have "contrib pending (map (\<lambda>d. (d, W_start)) jobs) = {#}"
    by (induction jobs) (auto simp: contrib_def)
  then show ?thesis by (simp add: heap_inv_def blocks_def linked_def pool_start_def pool_init_def)
qed

lemma heap_inv_reach:
  assumes L: "pool_env_ok E" and nm: "names_ok jobs" and r: "pool_reach E jobs s ts"
  shows "heap_inv s ts"
  using r
proof (rule reach_induct)
  fix s ts s' ts'
  assume *: "pool_reach E jobs s ts" "heap_inv s ts" "pool_step E (s, ts) (s', ts')"
  show "heap_inv s' ts'"
    using L *(3,2) no_duplicate_hit [OF L pool_inv_reach [OF L *(1)] nm] by (rule heap_inv_step) auto
qed (rule heap_inv_start)

lemma no_error_reach:
  assumes L: "pool_env_ok E" and nm: "names_ok jobs"
    and ok: "\<And>k. pe_mem E k" "\<And>f e. pe_gen E f e = EXSUCCEED"
    and r: "pool_reach E jobs s ts"
  shows "thpool_error s = EXSUCCEED"
  using r
proof (rule reach_induct)
  fix s ts s' ts'
  assume *: "pool_reach E jobs s ts" "thpool_error s = EXSUCCEED"
    "pool_step E (s, ts) (s', ts')"
  note nohit = no_duplicate_hit [OF L pool_inv_reach [OF L *(1)] nm]
  from *(3) show "thpool_error s' = EXSUCCEED"
  proof (cases rule: pool_stepE)
    case (2 i d e)
    then show ?thesis using nohit [of i d "W_find True"] by simp
  qed (use *(2) ok in auto)
qed (simp add: pool_start_def pool_init_def)

lemma contrib_all_added:
  assumes "\<And>t. t \<in> set ts \<Longrightarrow> snd t = W_done True"
  shows "contrib (added E h) ts = mset (map (\<lambda>d. res_fill E d 0) (filter (\<lambda>d. d_head d = h) (map fst ts)))"
  using assms
proof (induction ts)
  case (Cons t ts)
  then obtain d where "t = (d, W_done True)" by (metis list.set_intros(1) prod.collapse)
  with Cons show ?case by (simp add: contrib_def)
qed (simp add: contrib_def)

lemma done_no_error:
  assumes inv: "pool_inv E jobs s ts" and "all_done ts" and "thpool_error s = EXSUCCEED" and "t \<in> set ts"
  shows "snd t = W_done True"
proof -
  have "W_done False \<notin> snd ` set ts" using assms(1,3) by (auto simp: pool_inv_def split: if_splits)
  moreover have "is_done (snd t)" using assms(2,4) by (auto simp: all_done_def list_all_iff)
  ultimately show ?thesis using assms(4) by (cases "snd t") (metis imageI is_done.simps)+
qed

lemma done_hashes:
  assumes inv: "pool_inv E jobs s ts" and d: "all_done ts" "thpool_error s = EXSUCCEED"
  shows "mset (map res_proj (hashes s h)) = mset (map (\<lambda>d. res_fill E d 0) (filter (\<lambda>d. d_head d = h) jobs))"
proof -
  have "mset (map res_proj (hashes s h)) = contrib (added E h) ts" "map fst ts = jobs"
    using inv unfolding pool_inv_def by blast+
  then show ?thesis using contrib_all_added [OF done_no_error [OF inv d]] by metis
qed

subsection \<open>The uninterrupted handler is one interleaving\<close>

lemma find_empty: "pool_env_ok E \<Longrightarrow> exljd_res_find E [] n = None"
  by (simp add: exljd_res_find_def pool_env_ok_def hash_find_None)

lemma upd_mid: "(pre @ x # rest)[length pre := y] = pre @ y # rest"
  by simp

text \<open>One worker run to its end: the lookup decides between \<open>find_hit\<close> and the build phase.\<close>

lemma worker_build:
  assumes "pe_mem E (heap_next s)" "e = res_fill E d (heap_next s)"
    "pe_gen E (r_respath e) (r_embpath e) = EXSUCCEED"
  shows "(pool_step E)\<^sup>*\<^sup>* (s, pre @ (d, W_build) # rest)
    (res_add_out EXSUCCEED (Some e) (res_link E (d_head d) e (s\<lparr>heap_next := heap_next s + 1\<rparr>)),
     pre @ (d, W_done True) # rest)"
proof -
  let ?i = "length pre" and ?s1 = "s\<lparr>heap_next := heap_next s + 1\<rparr>"
  have "pool_step E (s, pre @ (d, W_build) # rest) (?s1, pre @ (d, W_add e) # rest)"
    using pool_step.build_ok [of ?i "pre @ (d, W_build) # rest" d E s e] assms by simp
  moreover have "pool_step E (?s1, pre @ (d, W_add e) # rest)
      (res_add_out EXSUCCEED (Some e) (res_link E (d_head d) e ?s1), pre @ (d, W_done True) # rest)"
    using pool_step.add_elm [of ?i "pre @ (d, W_add e) # rest" d e E ?s1] by simp
  ultimately show ?thesis by (meson converse_rtranclp_into_rtranclp rtranclp.rtrancl_refl)
qed

lemma worker_miss:
  assumes E: "pool_env_ok E" and "exljd_res_find E (hashes s (d_head d)) (d_resname d) = None"
  shows "(pool_step E)\<^sup>*\<^sup>* (s, pre @ (d, W_start) # rest) (s, pre @ (d, W_build) # rest)"
proof -
  let ?b = "hashes s (d_head d) \<noteq> []"
  have "pool_step E (s, pre @ (d, W_start) # rest) (s, pre @ (d, W_find ?b) # rest)"
    using pool_step.read_head [of "length pre" "pre @ (d, W_start) # rest" d E s] by simp
  moreover have "pool_step E (s, pre @ (d, W_find ?b) # rest) (s, pre @ (d, W_build) # rest)"
    using pool_step.find_miss [of "length pre" "pre @ (d, W_find ?b) # rest" d ?b E s] assms by simp
  ultimately show ?thesis by (meson converse_rtranclp_into_rtranclp rtranclp.rtrancl_refl)
qed

lemma worker_hit:
  assumes E: "pool_env_ok E" and e: "exljd_res_find E (hashes s (d_head d)) (d_resname d) = Some e"
  shows "(pool_step E)\<^sup>*\<^sup>* (s, pre @ (d, W_start) # rest)
    (res_add_out EXFAIL (Some e) s, pre @ (d, W_done False) # rest)"
proof -
  have "hashes s (d_head d) \<noteq> []" using e find_empty [OF E] by force
  then have "pool_step E (s, pre @ (d, W_start) # rest) (s, pre @ (d, W_find True) # rest)"
    using pool_step.read_head [of "length pre" "pre @ (d, W_start) # rest" d E s] by simp
  moreover have "pool_step E (s, pre @ (d, W_find True) # rest)
      (res_add_out EXFAIL (Some e) s, pre @ (d, W_done False) # rest)"
    using pool_step.find_hit [of "length pre" "pre @ (d, W_find True) # rest" d E s e] e by simp
  ultimately show ?thesis by (meson converse_rtranclp_into_rtranclp rtranclp.rtrancl_refl)
qed

lemma worker_run:
  assumes E: "pool_env_ok E"
  shows "\<exists>b. (pool_step E)\<^sup>*\<^sup>* (s, pre @ (d, W_start) # rest)
    (exljd_res_add_th E d s, pre @ (d, W_done b) # rest)"
proof (cases "exljd_res_find E (hashes s (d_head d)) (d_resname d)")
  case (Some e)
  then show ?thesis using worker_hit [OF E Some] by (auto simp: exljd_res_add_th_def)
next
  case None
  let ?e = "res_fill E d (heap_next s)" and ?c = "(s, pre @ (d, W_build) # rest)"
  note go = rtranclp_trans [OF worker_miss [OF E None]]
  consider (nomem) "\<not> pe_mem E (heap_next s)"
    | (fail) "pe_mem E (heap_next s)" "pe_gen E (r_respath ?e) (r_embpath ?e) \<noteq> EXSUCCEED"
    | (ok) "pe_mem E (heap_next s)" "pe_gen E (r_respath ?e) (r_embpath ?e) = EXSUCCEED" by blast
  then show ?thesis
  proof cases
    case nomem
    then have "pool_step E ?c (exljd_res_add_th E d s, pre @ (d, W_done False) # rest)"
      using pool_step.build_nomem [of "length pre" "pre @ (d, W_build) # rest" d E s] None
      by (simp add: exljd_res_add_th_def)
    then show ?thesis using go by blast
  next
    case fail
    then have "pool_step E ?c (exljd_res_add_th E d s, pre @ (d, W_done False) # rest)"
      using pool_step.build_fail [of "length pre" "pre @ (d, W_build) # rest" d E s ?e] None
      by (simp add: exljd_res_add_th_def Let_def)
    then show ?thesis using go by blast
  next
    case ok
    then show ?thesis
      using go [OF worker_build [OF ok(1) refl ok(2)]] None by (auto simp: exljd_res_add_th_def Let_def)
  qed
qed

lemma seq_run:
  assumes E: "pool_env_ok E" and "all_done pre"
  shows "\<exists>ts. (pool_step E)\<^sup>*\<^sup>* (s, pre @ map (\<lambda>d. (d, W_start)) jobs) (fold (exljd_res_add_th E) jobs s, ts)
    \<and> all_done ts"
  using assms(2)
proof (induction jobs arbitrary: s pre)
  case (Cons d jobs)
  obtain b where b: "(pool_step E)\<^sup>*\<^sup>* (s, pre @ (d, W_start) # map (\<lambda>d. (d, W_start)) jobs)
      (exljd_res_add_th E d s, (pre @ [(d, W_done b)]) @ map (\<lambda>d. (d, W_start)) jobs)"
    using worker_run [OF E, of s pre d] by auto
  have "all_done (pre @ [(d, W_done b)])" using Cons.prems by (simp add: all_done_def)
  from Cons.IH [OF this, of "exljd_res_add_th E d s"] b show ?case
    by (metis (no_types, lifting) fold_simps(2) list.map(2) rtranclp_trans)
qed auto

lemma seq_reach:
  "pool_env_ok E \<Longrightarrow> \<exists>ts. pool_reach E jobs (fold (exljd_res_add_th E) jobs pool_init) ts \<and> all_done ts"
  using seq_run [of E "[]" pool_init jobs] by (simp add: pool_reach_def pool_start_def all_done_def)

subsection \<open>Properties\<close>

text \<open>The environment and the jobs of the examples: everything succeeds; two classes and a resource.\<close>

definition demo_env :: pool_env where
  "demo_env = \<lparr>pe_lib = plain_lib, pe_hash = list_hash, pe_mem = (\<lambda>_. True), pe_gen = (\<lambda>_ _. EXSUCCEED)\<rparr>"

definition demo_job :: "res_head \<Rightarrow> string \<Rightarrow> int \<Rightarrow> resgen_thread_data" where
  "demo_job h n i = \<lparr>d_head = h, d_resname = n, d_id = i, d_respath = ''./'' @ n, d_emb_pfx = pfx_of_head h\<rparr>"

definition demo_jobs :: "resgen_thread_data list" where
  "demo_jobs = [demo_job ndrx_G_classes_hash ''b.B'' 1, demo_job ndrx_G_emb_res_hash ''x.txt'' 1,
                demo_job ndrx_G_classes_hash ''a.A'' 2]"

lemma demo_env_ok [simp]: "pool_env_ok demo_env"
  by (simp add: pool_env_ok_def demo_env_def)

lemma demo_env_sel [simp]: "pe_mem demo_env k" "pe_gen demo_env f e = EXSUCCEED"
  by (simp_all add: demo_env_def)

lemma demo_names_ok [simp]: "names_ok demo_jobs"
  by (simp add: names_ok_def demo_jobs_def name_key_def demo_job_def PATH_MAX_def)

text \<open>C2. Nothing is lost or invented by the concurrent generation: when the pool has finished and its
  error is clear, each hash holds exactly the elements of the jobs queued for it, whatever the order
  in which the workers' sections ran.\<close>

theorem pool_complete:
  assumes "pool_env_ok E" "pool_reach E jobs s ts" "all_done ts" "thpool_error s = EXSUCCEED"
  shows "mset (map res_proj (hashes s h)) =
    mset (map (\<lambda>d. res_fill E d 0) (filter (\<lambda>d. d_head d = h) jobs))"
  using done_hashes [OF pool_inv_reach [OF assms(1,2)] assms(3,4)] .

theorem pool_complete_witness:
  "\<exists>s ts. pool_reach demo_env demo_jobs s ts \<and> all_done ts \<and>
     mset (map res_proj (hashes s ndrx_G_classes_hash)) =
     mset (map (\<lambda>d. res_fill demo_env d 0) (filter (\<lambda>d. d_head d = ndrx_G_classes_hash) demo_jobs))"
proof -
  obtain s ts where r: "pool_reach demo_env demo_jobs s ts" "all_done ts"
    using seq_reach [OF demo_env_ok] by blast
  from no_error_reach [OF demo_env_ok demo_names_ok _ _ r(1)] have "thpool_error s = EXSUCCEED" by simp
  from pool_complete [OF demo_env_ok r this] r show ?thesis by blast
qed


text \<open>C8. With distinct names per hash, and allocation and generation succeeding, no run of the pool
  reports an error: the duplicate check never misfires on an element being added concurrently.\<close>

theorem pool_no_false_error:
  assumes "pool_env_ok E" "names_ok jobs" "\<And>k. pe_mem E k" "\<And>f e. pe_gen E f e = EXSUCCEED"
    and "pool_reach E jobs s ts"
  shows "thpool_error s = EXSUCCEED"
  using no_error_reach [OF assms] .

theorem pool_no_false_error_witness:
  "\<exists>s ts. pool_reach demo_env demo_jobs s ts \<and> all_done ts \<and> thpool_error s = EXSUCCEED"
proof -
  obtain s ts where r: "pool_reach demo_env demo_jobs s ts" "all_done ts"
    using seq_reach [OF demo_env_ok] by blast
  from pool_no_false_error [OF demo_env_ok demo_names_ok _ _ r(1)] have "thpool_error s = EXSUCCEED" by simp
  with r show ?thesis by blast
qed

text \<open>C7. With distinct names no element of a hash has been freed, and the elements of the hashes occupy
  different blocks, at every moment of every run, also when allocation or generation fails.\<close>

theorem pool_no_dangling:
  assumes "pool_env_ok E" "names_ok jobs" "pool_reach E jobs s ts" "e \<in> set (hashes s h)"
  shows "r_addr e \<notin> set (freed s) \<and> count (linked s) (r_addr e) = 1"
proof -
  have inv: "count (blocks s ts) (r_addr e) \<le> 1"
    using heap_inv_reach [OF assms(1-3)] by (simp add: heap_inv_def)
  have "r_addr e \<in># linked s" using assms(4) by (cases h) (auto simp: linked_def)
  then have "1 \<le> count (linked s) (r_addr e)" by (simp add: Suc_le_eq)
  with inv have "count (linked s) (r_addr e) = 1" "count (mset (freed s)) (r_addr e) = 0"
    unfolding blocks_def count_union by linarith+
  then show ?thesis by (metis not_in_iff set_mset_mset)
qed

theorem pool_no_dangling_witness:
  "\<exists>s ts e. pool_reach demo_env demo_jobs s ts \<and> e \<in> set (hashes s ndrx_G_classes_hash) \<and>
     r_addr e \<notin> set (freed s) \<and> count (linked s) (r_addr e) = 1"
proof -
  let ?s = "fold (exljd_res_add_th demo_env) demo_jobs pool_init"
  obtain ts where r: "pool_reach demo_env demo_jobs ?s ts" using seq_reach [OF demo_env_ok] by blast
  have "hashes ?s ndrx_G_classes_hash \<noteq> []"
    by (simp add: demo_jobs_def demo_job_def exljd_res_add_th_def exljd_res_find_def demo_env_def
        plain_lib_def list_hash_def res_fill_def pool_init_def PATH_MAX_def Let_def)
  then obtain e where "e \<in> set (hashes ?s ndrx_G_classes_hash)" by (meson last_in_set)
  with pool_no_dangling [OF demo_env_ok demo_names_ok r this] r show ?thesis by blast
qed

text \<open>C16. The duplicate check and the insertion are two critical sections: for two jobs with the same
  name and hash there is a run in which both are added and no error is set.\<close>

theorem duplicate_race:
  assumes E: "pool_env_ok E" "\<And>k. pe_mem E k" "\<And>f e. pe_gen E f e = EXSUCCEED"
    and same: "name_key d1 = name_key d2"
  shows "\<exists>s ts. pool_reach E [d1, d2] s ts \<and> all_done ts \<and> thpool_error s = EXSUCCEED \<and>
    mset (map res_proj (hashes s (d_head d1))) = {#res_fill E d1 0, res_fill E d2 0#}"
proof -
  have h: "d_head d2 = d_head d1" using same by (simp add: name_key_def)
  note none = find_empty [OF E(1)]
  let ?e1 = "res_fill E d1 (heap_next pool_init)"
  define s1 where "s1 = res_add_out EXSUCCEED (Some ?e1)
      (res_link E (d_head d1) ?e1 (pool_init\<lparr>heap_next := heap_next pool_init + 1\<rparr>))"
  let ?e2 = "res_fill E d2 (heap_next s1)"
  define s2 where "s2 = res_add_out EXSUCCEED (Some ?e2)
      (res_link E (d_head d2) ?e2 (s1\<lparr>heap_next := heap_next s1 + 1\<rparr>))"
  have r1: "(pool_step E)\<^sup>*\<^sup>* (pool_init, [(d1, W_start), (d2, W_start)]) (pool_init, [(d1, W_build), (d2, W_start)])"
    using worker_miss [OF E(1), of pool_init d1 "[]" "[(d2, W_start)]"] none by (simp add: pool_init_def)
  have r2: "(pool_step E)\<^sup>*\<^sup>* (pool_init, [(d1, W_build), (d2, W_start)]) (pool_init, [(d1, W_build), (d2, W_build)])"
    using worker_miss [OF E(1), of pool_init d2 "[(d1, W_build)]" "[]"] none by (simp add: pool_init_def)
  have r3: "(pool_step E)\<^sup>*\<^sup>* (pool_init, [(d1, W_build), (d2, W_build)]) (s1, [(d1, W_done True), (d2, W_build)])"
    unfolding s1_def
    using worker_build [where pre = "[]" and d = d1 and s = pool_init and rest = "[(d2, W_build)]", OF E(2) refl E(3)]
    by simp
  have r4: "(pool_step E)\<^sup>*\<^sup>* (s1, [(d1, W_done True), (d2, W_build)]) (s2, [(d1, W_done True), (d2, W_done True)])"
    unfolding s2_def
    using worker_build [where pre = "[(d1, W_done True)]" and d = d2 and s = s1 and rest = "[]", OF E(2) refl E(3)]
    by simp
  have "pool_reach E [d1, d2] s2 [(d1, W_done True), (d2, W_done True)]"
    unfolding pool_reach_def pool_start_def
    using rtranclp_trans [OF rtranclp_trans [OF rtranclp_trans [OF r1 r2] r3] r4] by simp
  moreover have "mset (map res_proj (hashes s2 (d_head d1))) = {#res_fill E d1 0, res_fill E d2 0#}"
    by (simp add: s2_def s1_def h pool_init_def mset_add_hash [OF E(1)])
  moreover have "thpool_error s2 = EXSUCCEED" by (simp add: s2_def s1_def pool_init_def)
  ultimately show ?thesis by (intro exI [of _ s2] exI) (auto simp: all_done_def)
qed

theorem duplicate_race_witness:
  "\<exists>s ts. pool_reach demo_env [demo_job ndrx_G_classes_hash ''a.A'' 1, demo_job ndrx_G_classes_hash ''a.A'' 2] s ts
     \<and> all_done ts \<and> thpool_error s = EXSUCCEED \<and> size (hashes s ndrx_G_classes_hash) = 2"
proof -
  let ?j = "demo_job ndrx_G_classes_hash ''a.A''"
  obtain s ts where s: "pool_reach demo_env [?j 1, ?j 2] s ts" "all_done ts" "thpool_error s = EXSUCCEED"
    "mset (map res_proj (hashes s (d_head (?j 1)))) = {#res_fill demo_env (?j 1) 0, res_fill demo_env (?j 2) 0#}"
    using duplicate_race [of demo_env "?j 1" "?j 2"] by (auto simp: name_key_def demo_job_def)
  have "size (mset (map res_proj (hashes s ndrx_G_classes_hash))) = 2"
    using s(4) by (simp add: demo_job_def)
  then have "size (hashes s ndrx_G_classes_hash) = 2" by (metis length_map size_mset)
  with s(1-3) show ?thesis by blast
qed

text \<open>C17. When the check does find a duplicate, the handler fails, but its \<open>out:\<close> part frees the element
  it found, which stays linked in the hash.\<close>

theorem duplicate_frees_linked:
  assumes "pool_env_ok E" "exljd_res_find E (hashes s (d_head d)) (d_resname d) = Some e"
    and "s' = exljd_res_add_th E d s"
  shows "thpool_error s' = EXFAIL \<and> hashes s' = hashes s \<and> e \<in> set (hashes s' (d_head d)) \<and>
    r_addr e \<in> set (freed s')"
  using assms hash_find_Some [of "pe_hash E" r_resname "hashes s (d_head d)" "d_resname d" e]
  by (simp add: exljd_res_add_th_def pool_env_ok_def exljd_res_find_def)

theorem duplicate_frees_linked_witness:
  "\<exists>e. let s' = exljd_res_add_th demo_env (demo_job ndrx_G_classes_hash ''a.A'' 3)
                (fold (exljd_res_add_th demo_env) demo_jobs pool_init)
       in e \<in> set (hashes s' ndrx_G_classes_hash) \<and> r_addr e \<in> set (freed s')"
proof -
  let ?s = "fold (exljd_res_add_th demo_env) demo_jobs pool_init"
  let ?d = "demo_job ndrx_G_classes_hash ''a.A'' 3"
  have "exljd_res_find demo_env (hashes ?s (d_head ?d)) (d_resname ?d) \<noteq> None"
    by (simp add: demo_jobs_def demo_job_def exljd_res_add_th_def exljd_res_find_def demo_env_def
        plain_lib_def list_hash_def res_fill_def pool_init_def PATH_MAX_def Let_def)
  then obtain e where "exljd_res_find demo_env (hashes ?s (d_head ?d)) (d_resname ?d) = Some e" by blast
  from duplicate_frees_linked [OF demo_env_ok this refl] show ?thesis
    by (auto simp: Let_def demo_job_def)
qed



text \<open>The jobs of a scan over clean paths.\<close>

lemma scan_job:
  assumes scan: "exjld_class_scan L al es scan_init = (EXSUCCEED, s)"
    and clean: "list_all clean_path (walk_files es)" and d: "d \<in> set (work s)"
  shows "job_ok L d" "clean_path (d_respath d)" "d_respath d \<in> set (walk_files es)"
    "d_id d \<le> id_of_head (d_head d) s"
proof -
  have inv: "scan_inv L s" using scan_inv_scan [OF scan_inv_init, of L al es] scan by simp
  have "map d_respath (work s) = walk_files es"
    using scan_respaths [OF scan] by (simp add: walk_files_comp scan_init_def)
  then have mem: "d_respath d \<in> set (walk_files es)" using d by (metis image_eqI set_map)
  then show "d_respath d \<in> set (walk_files es)" "clean_path (d_respath d)"
    using clean by (auto simp: list_all_iff)
  show "job_ok L d" "d_id d \<le> id_of_head (d_head d) s" using inv d by (auto simp: scan_inv_def)
qed

lemma distinct_in_head:
  "distinct (map name_key js) \<Longrightarrow> distinct (map d_resname (filter (\<lambda>d. d_head d = h) js))"
  by (induction js) (auto simp: name_key_def image_iff)

lemma scan_names:
  assumes L: "ndrx_lib_ok L" and scan: "exjld_class_scan L al es scan_init = (EXSUCCEED, s)"
    and clean: "list_all clean_path (walk_files es)" "distinct (walk_files es)"
  shows "names_ok (work s)"
proof -
  have inv: "scan_inv L s" using scan_inv_scan [OF scan_inv_init, of L al es] scan by simp
  have paths: "map d_respath (work s) = walk_files es"
    using scan_respaths [OF scan] by (simp add: walk_files_comp scan_init_def)
  have ok: "\<forall>d \<in> set (work s). job_ok L d \<and> clean_path (d_respath d)"
    using inv clean(1) unfolding paths [symmetric] by (auto simp: scan_inv_def list_all_iff)
  have "distinct (map name_key (work s))"
    using distinct_names [OF L ok] clean(2) paths unfolding name_key_def [abs_def] by simp
  moreover have "length (d_resname d) \<le> PATH_MAX" if "d \<in> set (work s)" for d
    using ok that length_entry_name [OF L, of "d_respath d" "is_class_path (d_respath d)"]
    by (auto simp: job_ok_def clean_path_def)
  ultimately show ?thesis by (simp add: names_ok_def)
qed

text \<open>The jobs of a scan over distinct, clean paths satisfy what the pool needs: names are distinct
  within each hash and fit the element's buffer.\<close>

theorem scan_names_ok:
  assumes "ndrx_lib_ok L" "exjld_class_scan L al es scan_init = (EXSUCCEED, s)"
    and "list_all clean_path (walk_files es)" "distinct (walk_files es)"
  shows "names_ok (work s)"
  using scan_names [OF assms] .

theorem scan_names_ok_witness:
  "names_ok (work (snd (exjld_class_scan plain_lib (\<lambda>_ _. True) demo_walk scan_init)))"
  unfolding demo_scan snd_conv
  by (rule scan_names_ok [OF plain_lib_ok demo_scan])
    (simp_all add: demo_walk_def walk_files_def clean_path_def is_class_path_def cstr_simps
      lead_char_def PATH_MAX_def)

text \<open>The generated files do not overwrite each other: the embedded file name \<open><pfx>_<id>\<close> of every
  job of a scan is different, for counters within the range of a C \<open>int\<close>.\<close>

theorem embpaths_distinct:
  assumes scan: "exjld_class_scan L al es scan_init = (ret, s)"
    and bound: "id_class s < 2 ^ 31" "id_res s < 2 ^ 31"
  shows "distinct (map (\<lambda>d. r_embpath (res_fill E d 0)) (work s))"
proof -
  have inv: "scan_inv L s" using scan_inv_scan [OF scan_inv_init, of L al es] scan by simp
  have emb: "r_embpath (res_fill E d 0) = pfx_of_head (d_head d) @ ''_'' @ show_int (d_id d) \<and> 0 \<le> d_id d"
    if "d \<in> set (work s)" for d
  proof -
    have d: "job_ok L d" "d_id d \<le> id_of_head (d_head d) s" using inv that by (auto simp: scan_inv_def)
    then have "d_id d < 2 ^ 31" using bound by (auto simp: id_of_head_def split: res_head.splits)
    then have "length (show_int (d_id d)) \<le> 10" using d by (intro length_show_int) (auto simp: job_ok_def)
    then show ?thesis using d
      by (auto simp: res_fill_def job_ok_def pfx_of_head_def PATH_MAX_def snprintf_buf_fits split: res_head.splits)
  qed
  have "inj_on (\<lambda>d. r_embpath (res_fill E d 0)) (set (work s))"
  proof (rule inj_onI)
    fix d e
    assume de: "d \<in> set (work s)" "e \<in> set (work s)"
      and "r_embpath (res_fill E d 0) = r_embpath (res_fill E e 0)"
    then have "pfx_of_head (d_head d) @ ''_'' @ show_int (d_id d) = pfx_of_head (d_head e) @ ''_'' @ show_int (d_id e)"
      using emb by metis
    then have "job_key d = job_key e"
      using emb [OF de(1)] emb [OF de(2)]
      by (auto simp: job_key_def pfx_of_head_def show_int_inject split: res_head.splits)
    then show "d = e" using inv de by (metis distinct_map inj_onD scan_inv_def)
  qed
  moreover have "distinct (work s)" using inv by (auto simp: scan_inv_def distinct_map)
  ultimately show ?thesis by (simp add: distinct_map)
qed

theorem embpaths_distinct_witness:
  "distinct (map (\<lambda>d. r_embpath (res_fill demo_env d 0))
     (work (snd (exjld_class_scan plain_lib (\<lambda>_ _. True) demo_walk scan_init))))"
  using embpaths_distinct [OF demo_scan] by (simp add: demo_scan)

end
