(* ===== verification/Codegen.thy ===== *)
theory Codegen
  imports Resources
begin

section \<open>Generating and building the main program (\<open>exjld/codegen.c\<close>)\<close>

text \<open>
  \<open>ndrxj_codegen\<close> writes \<open>jmain.c\<close> (the includes, the two index tables and \<open>main\<close>) and runs the build
  command.  The text is the concatenation of what the \<open>fprintf\<close> calls print.

  The linker's globals are the record \<open>ld_state\<close>.  What it asks of the operating system is an action
  (\<open>lact\<close>) recorded with its result in \<open>acts\<close>, latest first; the results are those of the parameter
  \<open>linker_os\<close>, which may depend on everything done before.
\<close>

subsection \<open>The linker's state and its operating system\<close>

datatype lact =
    A_getenv string
  | A_setenv string string
  | A_string_list_add string
  | A_thpool_init int
  | A_mkdtemp string
  | A_getcwd
  | A_chdir string
  | A_zip_extract string
  | A_fopen string
  | A_write string string
  | A_system string
  | A_thpool_wait
  | A_thpool_destroy

record lres =
  l_ret :: int
  l_str :: string

type_synonym linker_os = "(lact \<times> lres) list \<Rightarrow> lact \<Rightarrow> lres"

record ld_state =
  ndrx_G_build_cmd :: string
  ndrx_G_do_test :: bool
  ndrx_G_main_class :: string
  ndrx_G_out_bin :: string
  ndrx_G_wd :: string
  ndrx_G_owd :: string
  ndrx_G_libpath :: "string list"
  ndrx_G_incpath :: "string list"
  ndrx_G_libs :: "string list"
  ndrx_G_keep_temp :: bool
  g_classes_hash :: "exjld_resource list"
  g_emb_res_hash :: "exjld_resource list"
  ndrx_G_thpool :: bool
  ndrx_G_thpool_error :: int
  tmp_outbin :: string
  jobs :: int
  acts :: "(lact \<times> lres) list"

definition act :: "linker_os \<Rightarrow> lact \<Rightarrow> (ld_state, lres) state" where
  "act os a = State (\<lambda>s. let r = os (acts s) a in (r, s\<lparr>acts := (a, r) # acts s\<rparr>))"

lemma run_act [run_simps]:
  "exec (act os a) s = s\<lparr>acts := (a, os (acts s) a) # acts s\<rparr>"
  "val (act os a) s = os (acts s) a"
  by (simp_all add: act_def exec_State val_State Let_def)

subsection \<open>The generated text\<close>

abbreviation nl :: char where "nl \<equiv> CHR 0x0A"
abbreviation tab :: char where "tab \<equiv> CHR 0x09"
abbreviation dquote :: char where "dquote \<equiv> CHR 0x22"

definition include_line :: "exjld_resource \<Rightarrow> string" where
  "include_line el = ''#include '' @ [dquote] @ r_embpath el @ ''.cinclude'' @ [dquote, nl]"

definition res_symbol :: "string \<Rightarrow> exjld_resource \<Rightarrow> string" where
  "res_symbol pfx el = ''ndrx_G_resource_'' @ pfx @ ''_'' @ show_int (r_id el)"

definition index_row :: "string \<Rightarrow> exjld_resource \<Rightarrow> string" where
  "index_row pfx el =
     [tab] @ ''{'' @ [nl] @
     [tab, tab, dquote] @ r_resname el @ [dquote] @ '','' @ [nl] @
     [tab, tab] @ res_symbol pfx el @ '','' @ [nl] @
     [tab, tab] @ res_symbol pfx el @ ''_len_def'' @ [nl] @
     [tab] @ ''}'' @ [nl]"

text \<open>The loop over a hash: \<open>first\<close> decides between the opening text and the separator.\<close>

fun index_rows :: "string \<Rightarrow> string \<Rightarrow> bool \<Rightarrow> exjld_resource list \<Rightarrow> string" where
  "index_rows opening pfx first [] = []"
| "index_rows opening pfx first (el # els) =
     (if first then opening else [tab] @ '','' @ [nl]) @ index_row pfx el @ index_rows opening pfx False els"

definition class_table :: "exjld_resource list \<Rightarrow> string" where
  "class_table classes =
     ''ndrxj_class_index_t ndrxj_G_class_index [] = '' @ [nl] @ ''{'' @ [nl] @
     index_rows [] ''class'' True classes @ ''};'' @ [nl, nl]"

definition emb_table :: "exjld_resource list \<Rightarrow> string" where
  "emb_table embs =
     index_rows (''ndrxj_class_index_t ndrxj_G_emb_index [] = '' @ [nl] @ ''{'' @ [nl]) ''emb'' True embs @
     (if embs \<noteq> [] then ''};'' @ [nl, nl] else [])"

definition main_text :: "string \<Rightarrow> nat \<Rightarrow> nat \<Rightarrow> bool \<Rightarrow> string" where
  "main_text main_class num_class num_emb test_mode =
     ''int main(int argc, char **argv)'' @ [nl] @ ''{'' @ [nl] @ ''        '' @ [nl] @
     [tab] @ ''return ndrxj_run_main(argc, argv, '' @ [dquote] @ main_class @ [dquote] @ '','' @ [nl] @
     [tab, tab] @ ''ndrxj_G_class_index, '' @ show_nat num_class @ '', '' @
       (if num_emb > 0 then ''ndrxj_G_emb_index'' else ''NULL'') @ '', '' @ show_nat num_emb @ '','' @ [nl] @
     ''                '' @ show_int (of_bool test_mode) @ '');'' @ [nl] @ ''}'' @ [nl]"

definition jmain_text :: "exjld_resource list \<Rightarrow> exjld_resource list \<Rightarrow> string \<Rightarrow> bool \<Rightarrow> string" where
  "jmain_text classes embs main_class test_mode =
     ''#include <exjlds.h>'' @ [nl] @ ''#include <stdio.h>'' @ [nl] @
     concat (map include_line classes) @ concat (map include_line embs) @
     class_table classes @ emb_table embs @
     main_text main_class (length classes) (length embs) test_mode"

subsection \<open>The build command\<close>

text \<open>The \<open>while (iter)\<close> loops append to a buffer of \<open>PATH_MAX + 1\<close> bytes.\<close>

fun lib_args :: "ndrx_lib \<Rightarrow> string \<Rightarrow> bool \<Rightarrow> string list \<Rightarrow> string" where
  "lib_args L buf first [] = buf"
| "lib_args L buf first (q # qs) =
     (let cat = strcat_s L (PATH_MAX + 1)
      in if first then lib_args L (cat (cat buf ''-l'') q) False qs
         else lib_args L (cat (cat (cat buf '' '') ''-l'') q) first qs)"

definition owd_path :: "ndrx_lib \<Rightarrow> string \<Rightarrow> string \<Rightarrow> string" where
  "owd_path L owd q =
     (if take 1 q \<noteq> ''/'' then snprintf_buf (PATH_MAX + 1) (owd @ ''/'' @ q)
      else strcpy_safe L (PATH_MAX + 1) q)"

fun path_args :: "ndrx_lib \<Rightarrow> string \<Rightarrow> string \<Rightarrow> string \<Rightarrow> bool \<Rightarrow> string list \<Rightarrow> string" where
  "path_args L owd opt buf first [] = buf"
| "path_args L owd opt buf first (q # qs) =
     (let cat = strcat_s L (PATH_MAX + 1); tmp = owd_path L owd q
      in if first then path_args L owd opt (cat (cat buf opt) tmp) False qs
         else path_args L owd opt (cat (cat (cat buf '' '') opt) tmp) first qs)"

definition build_command :: "ndrx_lib \<Rightarrow> ld_state \<Rightarrow> string" where
  "build_command L s =
     (let libs = lib_args L [] True (ndrx_G_libs s);
          include_path = path_args L (ndrx_G_owd s) ''-I'' [] True (ndrx_G_incpath s);
          libpath_path = path_args L (ndrx_G_owd s) ''-L'' [] True (ndrx_G_libpath s);
          base = ndrx_G_build_cmd s @ '' -n -o '' @ [CHR 0x27] @ ndrx_G_out_bin s @ [CHR 0x27] @
                 '' -f '' @ [CHR 0x27] @ ''jmain.c '' @ libs @ [CHR 0x27]
      in if include_path \<noteq> [] \<or> libpath_path \<noteq> []
         then snprintf_buf (PATH_MAX + 1) (base @ '' -a '' @ [dquote] @ include_path @ '' '' @ libpath_path @ [dquote])
         else snprintf_buf (PATH_MAX + 1) base)"

subsection \<open>The operation\<close>

definition ndrxj_codegen :: "ndrx_lib \<Rightarrow> linker_os \<Rightarrow> bool \<Rightarrow> (ld_state, int) state" where
  "ndrxj_codegen L os test_mode = do {
     f \<leftarrow> act os (A_fopen ''jmain.c'');
     if l_ret f = 0 then State_Monad.return EXFAIL
     else do {
       s \<leftarrow> State_Monad.get;
       act os (A_write ''jmain.c'' (jmain_text (g_classes_hash s) (g_emb_res_hash s) (ndrx_G_main_class s) test_mode));
       let buildcmd = build_command L s;
       r \<leftarrow> act os (A_system buildcmd);
       if l_ret r \<noteq> EXSUCCEED then State_Monad.return EXFAIL
       else if test_mode then do {
         r2 \<leftarrow> act os (A_system buildcmd);
         if l_ret r2 \<noteq> EXSUCCEED then State_Monad.return EXFAIL
         else State_Monad.return EXSUCCEED
       }
       else State_Monad.return EXSUCCEED
     }
   }"

subsection \<open>Reading the table back\<close>

text \<open>A reader of the table's C syntax, independent of the printing loop: rows of a quoted name and two
  symbols, separated by commas, up to the closing brace.  The first argument bounds the rows.\<close>

fun strip :: "string \<Rightarrow> string \<Rightarrow> string option" where
  "strip [] s = Some s"
| "strip (p # ps) [] = None"
| "strip (p # ps) (c # cs) = (if p = c then strip ps cs else None)"

definition read_row :: "string \<Rightarrow> ((string \<times> string \<times> string) \<times> string) option" where
  "read_row s = Option.bind (strip [tab, CHR ''{'', nl, tab, tab, dquote] s) (\<lambda>s1.
     Option.bind (strip [dquote, CHR '','', nl, tab, tab] (dropWhile (\<lambda>c. c \<noteq> dquote) s1)) (\<lambda>s2.
     Option.bind (strip [CHR '','', nl, tab, tab] (dropWhile (\<lambda>c. c \<noteq> CHR '','') s2)) (\<lambda>s3.
     Option.bind (strip [nl, tab, CHR ''}'', nl] (dropWhile (\<lambda>c. c \<noteq> nl) s3)) (\<lambda>s4.
     Some ((takeWhile (\<lambda>c. c \<noteq> dquote) s1, takeWhile (\<lambda>c. c \<noteq> CHR '','') s2, takeWhile (\<lambda>c. c \<noteq> nl) s3), s4)))))"

fun read_rows :: "nat \<Rightarrow> string \<Rightarrow> (string \<times> string \<times> string) list option" where
  "read_rows 0 s = None"
| "read_rows (Suc n) s =
     (case strip (''};'' @ [nl, nl]) s of
        Some _ \<Rightarrow> Some []
      | None \<Rightarrow>
          (case read_row s of
             None \<Rightarrow> None
           | Some (row, s') \<Rightarrow>
               map_option (\<lambda>rows. row # rows)
                 (read_rows n (case strip [tab, CHR '','', nl] s' of Some s'' \<Rightarrow> s'' | None \<Rightarrow> s'))))"

definition read_table :: "string \<Rightarrow> string \<Rightarrow> (string \<times> string \<times> string) list option" where
  "read_table name s =
     (case strip (''ndrxj_class_index_t '' @ name @ '' [] = '' @ [nl, CHR ''{'', nl]) s of
        Some s' \<Rightarrow> read_rows (length s') s'
      | None \<Rightarrow> None)"

definition row_of :: "string \<Rightarrow> exjld_resource \<Rightarrow> string \<times> string \<times> string" where
  "row_of pfx el = (r_resname el, res_symbol pfx el, res_symbol pfx el @ ''_len_def'')"

lemma strip_append [simp]: "strip p (p @ s) = Some s"
  by (induction p) auto

lemma show_nat_chars: "c \<in> set (show_nat n) \<Longrightarrow> (48 :: nat) \<le> of_char c"
proof (induction n rule: show_nat.induct)
  case (1 n)
  then show ?case
    by (auto simp: show_nat.simps [of n] of_digit_char split: if_splits)
qed

lemma show_int_chars: "c \<in> set (show_int i) \<Longrightarrow> (45 :: nat) \<le> of_char c"
  using show_nat_chars [of c] by (auto simp: show_int_def split: if_splits) fastforce+

lemma symbol_chars:
  "pfx \<in> {''class'', ''emb''} \<Longrightarrow> CHR '','' \<notin> set (res_symbol pfx el) \<and> nl \<notin> set (res_symbol pfx el)"
  using show_int_chars [of "CHR '',''" "r_id el"] show_int_chars [of nl "r_id el"] by (auto simp: res_symbol_def)

lemma read_row_index_row:
  assumes "dquote \<notin> set (r_resname el)" "pfx \<in> {''class'', ''emb''}"
  shows "read_row (index_row pfx el @ s) = Some (row_of pfx el, s)"
proof -
  have d: "dropWhile (\<lambda>c. c \<noteq> x) (a @ x # t) = x # t" "takeWhile (\<lambda>c. c \<noteq> x) (a @ x # t) = a"
    if "x \<notin> set a" for x :: char and a t
    using that by (induction a) auto
  note sym = symbol_chars [OF assms(2), of el]
  have "nl \<notin> set (res_symbol pfx el @ ''_len_def'')" using sym by simp
  note dl = d [OF this, unfolded append_assoc append_Cons append_Nil]
  show ?thesis
    using d [OF assms(1)] d [of "CHR '',''" "res_symbol pfx el"] dl sym
    by (simp add: read_row_def index_row_def row_of_def)
qed

lemma index_row_hd: "strip (''};'' @ [nl, nl]) (index_row pfx el @ s) = None"
  by (simp add: index_row_def)

lemma read_rows_index_rows:
  assumes "\<forall>el \<in> set els. dquote \<notin> set (r_resname el)" "pfx \<in> {''class'', ''emb''}" "length els < n"
  shows "read_rows n (index_rows [] pfx True els @ CHR ''}'' # CHR '';'' # nl # nl # s) = Some (map (row_of pfx) els)"
  using assms(1,3)
proof (induction els arbitrary: n)
  case Nil
  then show ?case by (cases n) auto
next
  case (Cons el els)
  then obtain m where n: "n = Suc m" by (cases n) auto
  let ?tl = "index_rows [] pfx False els @ CHR ''}'' # CHR '';'' # nl # nl # s"
  have row: "read_row (index_row pfx el @ ?tl) = Some (row_of pfx el, ?tl)"
    using Cons.prems(1) by (intro read_row_index_row assms(2)) simp
  have "(case strip [tab, CHR '','', nl] ?tl of Some s'' \<Rightarrow> s'' | None \<Rightarrow> ?tl) =
      index_rows [] pfx True els @ CHR ''}'' # CHR '';'' # nl # nl # s"
    by (cases els) auto
  moreover have "read_rows m (index_rows [] pfx True els @ CHR ''}'' # CHR '';'' # nl # nl # s) = Some (map (row_of pfx) els)"
    using Cons n by (intro Cons.IH) auto
  ultimately show ?case
    using row index_row_hd [of pfx el ?tl] by (simp only: n read_rows.simps index_rows.simps if_True
      append_Nil append_assoc option.case prod.case option.map list.map)
qed

lemma length_index_rows: "length els \<le> length (index_rows op pfx first els)"
  by (induction op pfx first els rule: index_rows.induct) (auto simp: index_row_def)

lemma index_rows_False: "index_rows op pfx False els = index_rows op' pfx False els"
  by (induction els) auto

lemma index_rows_opening:
  "els \<noteq> [] \<Longrightarrow> index_rows op pfx True els = op @ index_rows [] pfx True els"
  using index_rows_False [of op pfx _ "[]"] by (cases els) auto

lemma class_table_shape:
  "class_table els @ s = (''ndrxj_class_index_t '' @ ''ndrxj_G_class_index'' @ '' [] = '' @ [nl, CHR ''{'', nl]) @
     (index_rows [] ''class'' True els @ CHR ''}'' # CHR '';'' # nl # nl # s)"
  by (simp add: class_table_def)

lemma emb_table_shape:
  "els \<noteq> [] \<Longrightarrow> emb_table els @ s =
     (''ndrxj_class_index_t '' @ ''ndrxj_G_emb_index'' @ '' [] = '' @ [nl, CHR ''{'', nl]) @
     (index_rows [] ''emb'' True els @ CHR ''}'' # CHR '';'' # nl # nl # s)"
  unfolding emb_table_def by (subst index_rows_opening) simp_all

lemma read_table_rows:
  assumes "\<forall>el \<in> set els. dquote \<notin> set (r_resname el)" "pfx \<in> {''class'', ''emb''}"
  shows "read_table name ((''ndrxj_class_index_t '' @ name @ '' [] = '' @ [nl, CHR ''{'', nl]) @
      (index_rows [] pfx True els @ CHR ''}'' # CHR '';'' # nl # nl # s)) = Some (map (row_of pfx) els)"
  unfolding read_table_def strip_append option.case
  using length_index_rows [of els "[]" pfx True] by (intro read_rows_index_rows assms) simp

subsection \<open>Command lines that fit\<close>

text \<open>The options separated by single spaces.\<close>

fun join_args :: "string \<Rightarrow> string list \<Rightarrow> string" where
  "join_args opt [] = []"
| "join_args opt [q] = opt @ q"
| "join_args opt (q # qs) = opt @ q @ '' '' @ join_args opt qs"

lemma join_args_Cons: "join_args opt (q # qs) = opt @ q @ (if qs = [] then [] else '' '' @ join_args opt qs)"
  by (cases qs) auto

lemma lib_args_rest:
  assumes L: "ndrx_lib_ok L"
  shows "length buf + (\<Sum>q \<leftarrow> qs. length q + 3) \<le> PATH_MAX \<Longrightarrow>
    lib_args L buf False qs = buf @ (if qs = [] then [] else '' '' @ join_args ''-l'' qs)"
  by (induction qs arbitrary: buf) (auto simp: Let_def strcat_s_fits [OF L] join_args_Cons)

lemma lib_args_fits:
  assumes L: "ndrx_lib_ok L" and fits: "(\<Sum>q \<leftarrow> qs. length q + 3) \<le> PATH_MAX"
  shows "lib_args L [] True qs = join_args ''-l'' qs"
proof (cases qs)
  case (Cons q qs')
  then show ?thesis
    using fits lib_args_rest [OF L, of "''-l'' @ q" qs'] by (simp add: Let_def strcat_s_fits [OF L] join_args_Cons)
qed simp

definition abs_path :: "string \<Rightarrow> string \<Rightarrow> string" where
  "abs_path owd q = (if take 1 q = ''/'' then q else owd @ ''/'' @ q)"

lemma owd_path_fits:
  "ndrx_lib_ok L \<Longrightarrow> length (abs_path owd q) \<le> PATH_MAX \<Longrightarrow> owd_path L owd q = abs_path owd q"
  by (auto simp: owd_path_def abs_path_def strcpy_safe_fits snprintf_buf_fits split: if_splits)

lemma path_args_rest:
  assumes L: "ndrx_lib_ok L" and opt: "length opt = 2"
  shows "length buf + (\<Sum>q \<leftarrow> qs. length (abs_path owd q) + 3) \<le> PATH_MAX \<Longrightarrow>
    path_args L owd opt buf False qs =
      buf @ (if qs = [] then [] else '' '' @ join_args opt (map (abs_path owd) qs))"
  using opt
  by (induction qs arbitrary: buf) (auto simp: Let_def strcat_s_fits [OF L] owd_path_fits [OF L] join_args_Cons)

lemma path_args_fits:
  assumes L: "ndrx_lib_ok L" and opt: "length opt = 2"
    and fits: "(\<Sum>q \<leftarrow> qs. length (abs_path owd q) + 3) \<le> PATH_MAX"
  shows "path_args L owd opt [] True qs = join_args opt (map (abs_path owd) qs)"
proof (cases qs)
  case (Cons q qs')
  then show ?thesis
    using fits opt path_args_rest [OF L opt, where buf = "opt @ abs_path owd q" and qs = qs' and owd = owd]
    by (simp add: Let_def strcat_s_fits [OF L] owd_path_fits [OF L] join_args_Cons)
qed simp

lemma symbol_of_job:
  assumes "job_ok L d" "d_id d < 2 ^ 31"
  shows "res_symbol (pfx_of_head (d_head d)) (res_fill E d a) = ''ndrx_G_resource_'' @ r_embpath (res_fill E d a)"
proof -
  have "length (show_int (d_id d)) \<le> 10"
    using assms by (intro length_show_int) (auto simp: job_ok_def)
  then show ?thesis using assms(1)
    by (auto simp: res_symbol_def res_fill_def job_ok_def pfx_of_head_def PATH_MAX_def
        snprintf_buf_fits split: res_head.splits)
qed

subsection \<open>Properties\<close>



text \<open>The same for the resource index, which is printed only when there are resources; without any,
  nothing is printed and \<open>main\<close> passes NULL.\<close>

theorem emb_table_reads_back:
  assumes "\<forall>el \<in> set embs. dquote \<notin> set (r_resname el) \<and> CHR 0x5C \<notin> set (r_resname el)"
  shows "if embs = [] then emb_table embs = []
    else read_table ''ndrxj_G_emb_index'' (emb_table embs @ rest) = Some (map (row_of ''emb'') embs)"
proof (cases "embs = []")
  case False
  have "read_table ''ndrxj_G_emb_index'' (emb_table embs @ rest) = Some (map (row_of ''emb'') embs)"
    unfolding emb_table_shape [OF False] using assms by (intro read_table_rows) auto
  with False show ?thesis by simp
qed (simp add: emb_table_def)

theorem emb_table_reads_back_witness:
  "\<exists>rows. read_table ''ndrxj_G_emb_index''
     (emb_table [res_fill demo_env (demo_job ndrx_G_emb_res_hash ''x.txt'' 1) 0] @ []) = Some rows \<and> length rows = 1"
  using emb_table_reads_back [of "[res_fill demo_env (demo_job ndrx_G_emb_res_hash ''x.txt'' 1) 0]" "[]"]
  by (simp add: res_fill_def demo_env_def plain_lib_def demo_job_def PATH_MAX_def)

text \<open>The symbols the table refers to are the ones the embedding step generated: for a job numbered
  within a C \<open>int\<close>, \<open>ndrx_G_resource_<pfx>_<id>\<close> is \<open>ndrx_G_resource_\<close> followed by the name of the
  embedded file.\<close>

theorem symbols_match:
  assumes "job_ok L d" "d_id d < 2 ^ 31" "el = res_fill E d a"
  shows "res_symbol (pfx_of_head (d_head d)) el = ''ndrx_G_resource_'' @ r_embpath el"
  unfolding assms(3) by (rule symbol_of_job [OF assms(1,2)])

theorem symbols_match_witness:
  "res_symbol ''class'' (res_fill demo_env (hd (work (snd (exjld_class_scan plain_lib (\<lambda>_ _. True) demo_walk scan_init)))) 0) =
   ''ndrx_G_resource_'' @
     r_embpath (res_fill demo_env (hd (work (snd (exjld_class_scan plain_lib (\<lambda>_ _. True) demo_walk scan_init)))) 0)"
proof -
  let ?s = "snd (exjld_class_scan plain_lib (\<lambda>_ _. True) demo_walk scan_init)"
  have "job_ok plain_lib (hd (work ?s))"
    using scan_inv_scan [OF scan_inv_init, of plain_lib "\<lambda>_ _. True" demo_walk]
    by (auto simp: scan_inv_def demo_scan)
  then show ?thesis
    using symbols_match [of plain_lib "hd (work ?s)" _ demo_env 0] by (simp add: demo_scan pfx_of_head_def)
qed

text \<open>C12. The build command lists every library, include directory and library directory once, in the
  order given, relative directories taken from the original directory, when the command fits its
  buffers.\<close>

theorem build_command_complete:
  assumes L: "ndrx_lib_ok L"
    and libs: "(\<Sum>q \<leftarrow> ndrx_G_libs s. length q + 3) \<le> PATH_MAX"
    and inc: "(\<Sum>q \<leftarrow> ndrx_G_incpath s. length (abs_path (ndrx_G_owd s) q) + 3) \<le> PATH_MAX"
    and libp: "(\<Sum>q \<leftarrow> ndrx_G_libpath s. length (abs_path (ndrx_G_owd s) q) + 3) \<le> PATH_MAX"
    and cmd: "cmd = ndrx_G_build_cmd s @ '' -n -o '' @ [CHR 0x27] @ ndrx_G_out_bin s @ [CHR 0x27] @
      '' -f '' @ [CHR 0x27] @ ''jmain.c '' @ join_args ''-l'' (ndrx_G_libs s) @ [CHR 0x27] @
      (if ndrx_G_incpath s = [] \<and> ndrx_G_libpath s = [] then []
       else '' -a '' @ [dquote] @ join_args ''-I'' (map (abs_path (ndrx_G_owd s)) (ndrx_G_incpath s)) @ '' '' @
         join_args ''-L'' (map (abs_path (ndrx_G_owd s)) (ndrx_G_libpath s)) @ [dquote])"
    and fits: "length cmd \<le> PATH_MAX"
  shows "build_command L s = cmd"
proof -
  have ne: "join_args opt xs = [] \<longleftrightarrow> xs = []" if "opt \<noteq> []" for opt xs
    using that by (cases xs) (auto simp: join_args_Cons)
  show ?thesis
    using fits unfolding build_command_def Let_def lib_args_fits [OF L libs]
      path_args_fits [OF L _ inc, of "''-I''", simplified] path_args_fits [OF L _ libp, of "''-L''", simplified]
    by (auto simp: cmd ne snprintf_buf_fits)
qed

definition demo_ld :: ld_state where
  "demo_ld = \<lparr>ndrx_G_build_cmd = ''buildserver'', ndrx_G_do_test = True, ndrx_G_main_class = ''a.A'',
     ndrx_G_out_bin = ''/w/a.out'', ndrx_G_wd = ''./t'', ndrx_G_owd = ''/w'', ndrx_G_libpath = [''/jvm''],
     ndrx_G_incpath = [''inc''], ndrx_G_libs = [''exjlds'', ''jvm''], ndrx_G_keep_temp = False,
     g_classes_hash = [], g_emb_res_hash = [], ndrx_G_thpool = True, ndrx_G_thpool_error = EXSUCCEED, tmp_outbin = ''a.out'', jobs = 4, acts = []\<rparr>"

theorem build_command_complete_witness:
  "build_command plain_lib demo_ld =
     ''buildserver -n -o '' @ [CHR 0x27] @ ''/w/a.out'' @ [CHR 0x27] @ '' -f '' @ [CHR 0x27] @
     ''jmain.c -lexjlds -ljvm'' @ [CHR 0x27] @ '' -a '' @ [dquote] @ ''-I/w/inc -L/jvm'' @ [dquote]"
  by (subst build_command_complete [OF plain_lib_ok _ _ _ refl])
    (simp_all add: demo_ld_def PATH_MAX_def abs_path_def)

definition commands :: "(lact \<times> lres) list \<Rightarrow> string list" where
  "commands xs = rev (concat (map (\<lambda>(a, r). case a of A_system c \<Rightarrow> [c] | _ \<Rightarrow> []) xs))"

text \<open>In test mode the step that should start the new binary runs the build command a second time:
  a successful test build executes the build command twice and nothing else.\<close>

theorem test_mode_rebuilds:
  assumes "val (ndrxj_codegen L os True) s = EXSUCCEED"
  shows "commands (acts (exec (ndrxj_codegen L os True) s)) =
    commands (acts s) @ [build_command L s, build_command L s]"
  using assms by (auto simp: ndrxj_codegen_def run_simps Let_def commands_def build_command_def split: if_splits)

definition demo_os :: linker_os where
  "demo_os h a = \<lparr>l_ret = (case a of A_fopen _ \<Rightarrow> 1 | A_thpool_init _ \<Rightarrow> 1 | A_mkdtemp _ \<Rightarrow> 1 | A_getcwd \<Rightarrow> 1 | _ \<Rightarrow> 0),
     l_str = (case a of A_mkdtemp t \<Rightarrow> t | A_getcwd \<Rightarrow> ''/w'' | _ \<Rightarrow> [])\<rparr>"

theorem test_mode_rebuilds_witness:
  "commands (acts (exec (ndrxj_codegen plain_lib demo_os True) demo_ld)) =
     [build_command plain_lib demo_ld, build_command plain_lib demo_ld]"
proof -
  have "val (ndrxj_codegen plain_lib demo_os True) demo_ld = EXSUCCEED"
    by (simp add: ndrxj_codegen_def run_simps demo_os_def Let_def)
  from test_mode_rebuilds [OF this] show ?thesis by (simp add: demo_ld_def commands_def)
qed

end
