(* ===== verification/Linker.thy ===== *)
theory Linker
  imports Codegen
begin

section \<open>The linker's main program (\<open>exjld/exjld.c\<close>)\<close>

text \<open>
  \<open>main\<close> reads the options, makes a work directory, unpacks the JARs into it with the thread pool,
  builds the two hashes from the files found, sorts them, generates and builds the program (once in
  test mode unless \<open>-n\<close>), and cleans up.  Each phase is a definition; \<open>goto out\<close> is the early return of
  the phase.  The options are given as \<open>getopt\<close> returns them, with \<open>optarg\<close>.

  \<open>le_walk\<close> is what \<open>nftw\<close> reports in the work directory, \<open>le_sched\<close> the state in which the thread pool
  finishes a list of jobs.
\<close>

record ld_env =
  le_pool :: pool_env
  le_os :: linker_os
  le_walk :: "(string \<times> typeflag) list"
  le_alloc :: "string \<Rightarrow> nat \<Rightarrow> bool"
  le_sched :: "resgen_thread_data list \<Rightarrow> pool_state"

abbreviation le_lib :: "ld_env \<Rightarrow> ndrx_lib" where
  "le_lib X \<equiv> pe_lib (le_pool X)"

text \<open>The pool finishes every list of jobs in a state its interleavings reach.\<close>

definition ld_env_ok :: "ld_env \<Rightarrow> bool" where
  "ld_env_ok X \<longleftrightarrow> pool_env_ok (le_pool X) \<and>
     (\<forall>js. \<exists>ts. pool_reach (le_pool X) js (le_sched X js) ts \<and> all_done ts)"

definition ld_init :: ld_state where
  "ld_init = \<lparr>ndrx_G_build_cmd = ''buildserver'', ndrx_G_do_test = True, ndrx_G_main_class = [],
     ndrx_G_out_bin = [], ndrx_G_wd = [], ndrx_G_owd = [], ndrx_G_libpath = [], ndrx_G_incpath = [],
     ndrx_G_libs = [], ndrx_G_keep_temp = False, g_classes_hash = [], g_emb_res_hash = [],
     ndrx_G_thpool = False, ndrx_G_thpool_error = EXSUCCEED, tmp_outbin = ''a.out'', jobs = 4, acts = []\<rparr>"

abbreviation ok :: "('s, int) state" where "ok \<equiv> State_Monad.return EXSUCCEED"
abbreviation fail :: "('s, int) state" where "fail \<equiv> State_Monad.return EXFAIL"

subsection \<open>Options\<close>

text \<open>\<open>atoi\<close>: white space, a sign, digits; 0 where there are none.\<close>

definition is_digit :: "char \<Rightarrow> bool" where
  "is_digit c \<longleftrightarrow> (48 :: nat) \<le> of_char c \<and> of_char c \<le> (57 :: nat)"

definition is_space :: "char \<Rightarrow> bool" where
  "is_space c \<longleftrightarrow> c = CHR '' '' \<or> ((9 :: nat) \<le> of_char c \<and> of_char c \<le> (13 :: nat))"

definition atoi :: "string \<Rightarrow> int" where
  "atoi s =
     (case dropWhile is_space s of
        [] \<Rightarrow> 0
      | c # cs \<Rightarrow>
          if c = CHR ''-'' then - int (read_nat 0 (takeWhile is_digit cs))
          else if c = CHR ''+'' then int (read_nat 0 (takeWhile is_digit cs))
          else int (read_nat 0 (takeWhile is_digit (c # cs))))"

definition ld_option :: "ndrx_lib \<Rightarrow> linker_os \<Rightarrow> char \<Rightarrow> string \<Rightarrow> (ld_state, int) state" where
  "ld_option L os c optarg =
     (if c = CHR ''L'' then do {
        env \<leftarrow> act os (A_getenv ''LD_LIBRARY_PATH'');
        let tmp = (if l_ret env \<noteq> 0 then snprintf_buf PATH_MAX (l_str env @ '':'' @ optarg)
                   else strcpy_safe L PATH_MAX optarg);
        act os (A_setenv ''LD_LIBRARY_PATH'' tmp);
        s \<leftarrow> State_Monad.get;
        case string_list_add L (ndrx_G_libpath s) optarg of
          None \<Rightarrow> fail
        | Some xs \<Rightarrow> do { State_Monad.update (\<lambda>s. s\<lparr>ndrx_G_libpath := xs\<rparr>); ok }
      }
      else if c = CHR ''I'' then do {
        s \<leftarrow> State_Monad.get;
        case string_list_add L (ndrx_G_incpath s) optarg of
          None \<Rightarrow> fail
        | Some xs \<Rightarrow> do { State_Monad.update (\<lambda>s. s\<lparr>ndrx_G_incpath := xs\<rparr>); ok }
      }
      else if c = CHR ''b'' then do {
        State_Monad.update (\<lambda>s. s\<lparr>ndrx_G_build_cmd := strcpy_safe L (PATH_MAX + 1) optarg\<rparr>); ok }
      else if c = CHR ''n'' then do { State_Monad.update (\<lambda>s. s\<lparr>ndrx_G_do_test := False\<rparr>); ok }
      else if c = CHR ''m'' then do {
        State_Monad.update (\<lambda>s. s\<lparr>ndrx_G_main_class := strcpy_safe L (PATH_MAX + 1) optarg\<rparr>); ok }
      else if c = CHR ''o'' then do {
        State_Monad.update (\<lambda>s. s\<lparr>tmp_outbin := strcpy_safe L PATH_MAX optarg\<rparr>); ok }
      else if c = CHR ''l'' then do {
        s \<leftarrow> State_Monad.get;
        case string_list_add L (ndrx_G_libs s) optarg of
          None \<Rightarrow> fail
        | Some xs \<Rightarrow> do { State_Monad.update (\<lambda>s. s\<lparr>ndrx_G_libs := xs\<rparr>); ok }
      }
      else if c = CHR ''j'' then
        (if atoi optarg > 0 then do { State_Monad.update (\<lambda>s. s\<lparr>jobs := atoi optarg\<rparr>); ok } else fail)
      else if c = CHR ''k'' then do { State_Monad.update (\<lambda>s. s\<lparr>ndrx_G_keep_temp := True\<rparr>); ok }
      else if c = CHR ''t'' then do {
        State_Monad.update (\<lambda>s. s\<lparr>ndrx_G_wd := snprintf_buf (PATH_MAX + 1) (optarg @ ''/'' @ ''exjld.XXXXXX'')\<rparr>); ok }
      else fail)"

fun ld_options :: "ndrx_lib \<Rightarrow> linker_os \<Rightarrow> (char \<times> string) list \<Rightarrow> (ld_state, int) state" where
  "ld_options L os [] = ok"
| "ld_options L os ((c, optarg) # opts) = do {
     r \<leftarrow> ld_option L os c optarg;
     if r \<noteq> EXSUCCEED then fail else ld_options L os opts
   }"

subsection \<open>The phases of \<open>main\<close>\<close>

fun add_libs :: "ndrx_lib \<Rightarrow> string list \<Rightarrow> (ld_state, int) state" where
  "add_libs L [] = ok"
| "add_libs L (l # ls) = do {
     s \<leftarrow> State_Monad.get;
     case string_list_add L (ndrx_G_libs s) l of
       None \<Rightarrow> fail
     | Some xs \<Rightarrow> do { State_Monad.update (\<lambda>s. s\<lparr>ndrx_G_libs := xs\<rparr>); add_libs L ls }
   }"

text \<open>From the temporary directory to the \<open>chdir\<close> into it.\<close>

definition ld_workdir :: "ndrx_lib \<Rightarrow> linker_os \<Rightarrow> (ld_state, int) state" where
  "ld_workdir L os = do {
     State_Monad.update (\<lambda>s. if ndrx_G_wd s = []
       then s\<lparr>ndrx_G_wd := snprintf_buf (PATH_MAX + 1) (''./'' @ ''exjld.XXXXXX'')\<rparr> else s);
     s1 \<leftarrow> State_Monad.get;
     m \<leftarrow> act os (A_mkdtemp (ndrx_G_wd s1));
     State_Monad.update (\<lambda>s. s\<lparr>ndrx_G_wd := l_str m\<rparr>);
     if l_ret m = 0 then fail else do {
     w \<leftarrow> act os A_getcwd;
     if l_ret w = 0 then do { State_Monad.update (\<lambda>s. s\<lparr>ndrx_G_owd := []\<rparr>); fail } else do {
     State_Monad.update (\<lambda>s. s\<lparr>ndrx_G_owd := l_str w\<rparr>);
     State_Monad.update (\<lambda>s. if tmp_outbin s = []
       then s\<lparr>ndrx_G_out_bin := strcpy_safe L (PATH_MAX + 1) (tmp_outbin s)\<rparr>
       else s\<lparr>ndrx_G_out_bin := snprintf_buf (PATH_MAX + 1) (ndrx_G_owd s @ ''/'' @ tmp_outbin s)\<rparr>);
     s2 \<leftarrow> State_Monad.get;
     c \<leftarrow> act os (A_chdir (ndrx_G_wd s2));
     if l_ret c = EXFAIL then fail else ok
     }}
   }"

definition ld_prepare :: "ndrx_lib \<Rightarrow> linker_os \<Rightarrow> (ld_state, int) state" where
  "ld_prepare L os = do {
     s \<leftarrow> State_Monad.get;
     if ndrx_G_main_class s = [] then fail else do {
     r \<leftarrow> (if ndrx_G_libs s = [] then add_libs L [''exjlds'', ''java'', ''jvm''] else ok);
     if r \<noteq> EXSUCCEED then fail else do {
     p \<leftarrow> act os (A_thpool_init (jobs s));
     if l_ret p = 0 then fail else do {
     State_Monad.update (\<lambda>s. s\<lparr>ndrx_G_thpool := True\<rparr>);
     ld_workdir L os
     }}}
   }"

definition extract_jar_th :: "linker_os \<Rightarrow> string \<Rightarrow> (ld_state, unit) state" where
  "extract_jar_th os path = do {
     s \<leftarrow> State_Monad.get;
     let tmp = (if take 1 path = ''/'' then snprintf_buf PATH_MAX path
                else snprintf_buf PATH_MAX (ndrx_G_owd s @ ''/'' @ path));
     r \<leftarrow> act os (A_zip_extract tmp);
     if l_ret r \<noteq> EXSUCCEED then State_Monad.update (\<lambda>s. s\<lparr>ndrx_G_thpool_error := l_ret r\<rparr>)
     else State_Monad.return ()
   }"

fun extract_jars :: "linker_os \<Rightarrow> string list \<Rightarrow> (ld_state, unit) state" where
  "extract_jars os [] = State_Monad.return ()"
| "extract_jars os (p # ps) = do { extract_jar_th os p; extract_jars os ps }"

definition ld_extract :: "linker_os \<Rightarrow> string list \<Rightarrow> (ld_state, int) state" where
  "ld_extract os jars = do {
     State_Monad.update (\<lambda>s. s\<lparr>ndrx_G_thpool_error := EXSUCCEED\<rparr>);
     extract_jars os jars;
     if jars \<noteq> [] then do {
       act os A_thpool_wait;
       s \<leftarrow> State_Monad.get;
       if ndrx_G_thpool_error s \<noteq> EXSUCCEED then fail else ok
     } else ok
   }"

text \<open>The scan, the pool, the check that a JAR was given, and the sort.\<close>

definition ld_hashes :: "ld_env \<Rightarrow> string list \<Rightarrow> (ld_state, int) state" where
  "ld_hashes X jars = do {
     let scan = exjld_class_scan (le_lib X) (le_alloc X) (le_walk X) scan_init;
     let p = le_sched X (work (snd scan));
     State_Monad.update (\<lambda>s. s\<lparr>g_classes_hash := hashes p ndrx_G_classes_hash,
       g_emb_res_hash := hashes p ndrx_G_emb_res_hash, ndrx_G_thpool_error := thpool_error p\<rparr>);
     if exjld_class_build_hash (fst scan) (M_was_file (snd scan)) p \<noteq> EXSUCCEED then fail
     else if jars = [] then fail
     else do {
       State_Monad.update (\<lambda>s. s\<lparr>g_classes_hash := exljd_res_sort_by_resname (le_pool X) (g_classes_hash s)\<rparr>);
       State_Monad.update (\<lambda>s. s\<lparr>g_emb_res_hash := exljd_res_sort_by_resname (le_pool X) (g_emb_res_hash s)\<rparr>);
       ok
     }
   }"

definition ld_generate :: "ndrx_lib \<Rightarrow> linker_os \<Rightarrow> (ld_state, int) state" where
  "ld_generate L os = do {
     s \<leftarrow> State_Monad.get;
     r \<leftarrow> (if ndrx_G_do_test s then ndrxj_codegen L os True else ok);
     if r \<noteq> EXSUCCEED then fail else do {
       r2 \<leftarrow> ndrxj_codegen L os False;
       if r2 \<noteq> EXSUCCEED then fail else ok
     }
   }"

definition ld_cleanup :: "linker_os \<Rightarrow> (ld_state, unit) state" where
  "ld_cleanup os = do {
     s \<leftarrow> State_Monad.get;
     (if ndrx_G_thpool s then do { act os A_thpool_wait; act os A_thpool_destroy; State_Monad.return () }
      else State_Monad.return ());
     (if ndrx_G_owd s \<noteq> [] then do { act os (A_chdir (ndrx_G_owd s)); State_Monad.return () }
      else State_Monad.return ());
     (if \<not> ndrx_G_keep_temp s \<and> ndrx_G_wd s \<noteq> []
      then do { act os (A_system (snprintf_buf PATH_MAX (''rm -rf '' @ ndrx_G_wd s))); State_Monad.return () }
      else State_Monad.return ())
   }"

definition ld_body :: "ld_env \<Rightarrow> (char \<times> string) list \<Rightarrow> string list \<Rightarrow> (ld_state, int) state" where
  "ld_body X opts jars = do {
     r \<leftarrow> ld_options (le_lib X) (le_os X) opts;
     if r \<noteq> EXSUCCEED then fail else do {
     r \<leftarrow> ld_prepare (le_lib X) (le_os X);
     if r \<noteq> EXSUCCEED then fail else do {
     r \<leftarrow> ld_extract (le_os X) jars;
     if r \<noteq> EXSUCCEED then fail else do {
     r \<leftarrow> ld_hashes X jars;
     if r \<noteq> EXSUCCEED then fail else
     ld_generate (le_lib X) (le_os X)
     }}}
   }"

definition ld_main :: "ld_env \<Rightarrow> (char \<times> string) list \<Rightarrow> string list \<Rightarrow> (ld_state, int) state" where
  "ld_main X opts jars = do {
     ret \<leftarrow> ld_body X opts jars;
     ld_cleanup (le_os X);
     State_Monad.return ret
   }"

subsection \<open>What each phase leaves untouched\<close>

text \<open>Code generation and clean-up only add actions.\<close>

definition only_acts :: "ld_state \<Rightarrow> ld_state \<Rightarrow> bool" where
  "only_acts s t \<longleftrightarrow> (\<exists>h. t = s\<lparr>acts := h @ acts s\<rparr>)"

interpretation oa: run_rel only_acts
proof
  fix s t u
  show "only_acts s s" by (simp add: only_acts_def exI [of _ "[]"])
  assume "only_acts s t" "only_acts t u"
  then obtain h h' where "t = s\<lparr>acts := h @ acts s\<rparr>" "u = t\<lparr>acts := h' @ acts t\<rparr>"
    by (auto simp: only_acts_def)
  then show "only_acts s u" by (auto simp: only_acts_def intro: exI [of _ "h' @ h"])
qed

lemma only_acts_act: "keeps only_acts (act os a)"
  by (auto simp: keeps_def run_simps only_acts_def intro: exI [of _ "[_]"])

lemma only_acts_codegen: "keeps only_acts (ndrxj_codegen L os b)"
  unfolding ndrxj_codegen_def by (intro oa.keeps_rules only_acts_act)

lemma only_acts_generate: "keeps only_acts (ld_generate L os)"
  unfolding ld_generate_def by (intro oa.keeps_rules only_acts_codegen)

lemma only_acts_cleanup: "keeps only_acts (ld_cleanup os)"
  unfolding ld_cleanup_def by (intro oa.keeps_rules only_acts_act)

text \<open>Only the clean-up destroys the pool, and only the preparation creates it.\<close>

definition destroys :: "ld_state \<Rightarrow> nat" where
  "destroys s = length (filter (\<lambda>(a, r). a = A_thpool_destroy) (acts s))"

definition same_destroys :: "ld_state \<Rightarrow> ld_state \<Rightarrow> bool" where
  "same_destroys s t \<longleftrightarrow> destroys t = destroys s"

interpretation sd: run_rel same_destroys
  by unfold_locales (simp_all add: same_destroys_def)

lemma same_destroys_act: "a \<noteq> A_thpool_destroy \<Longrightarrow> keeps same_destroys (act os a)"
  by (simp add: keeps_def run_simps same_destroys_def destroys_def)

lemma same_destroys_upd: "(\<And>s. acts (f s) = acts s) \<Longrightarrow> keeps same_destroys (State_Monad.update f)"
  by (simp add: keeps_def run_simps same_destroys_def destroys_def)

lemmas sd_rules = sd.keeps_rules same_destroys_act same_destroys_upd

lemma sd_option: "keeps same_destroys (ld_option L os c a)"
  unfolding ld_option_def by (intro sd_rules) simp_all

lemma sd_options: "keeps same_destroys (ld_options L os opts)"
  by (induction L os opts rule: ld_options.induct) (auto intro!: sd_rules sd_option)

lemma sd_add_libs: "keeps same_destroys (add_libs L ls)"
  by (induction L ls rule: add_libs.induct) (auto intro!: sd_rules)

lemma sd_prepare: "keeps same_destroys (ld_prepare L os)"
  unfolding ld_prepare_def ld_workdir_def by (intro sd_rules sd_add_libs) (simp_all split: if_splits)

lemma sd_extract_jar: "keeps same_destroys (extract_jar_th os p)"
  unfolding extract_jar_th_def by (intro sd_rules) simp_all

lemma sd_extract_jars: "keeps same_destroys (extract_jars os ps)"
  by (induction os ps rule: extract_jars.induct) (auto intro!: sd_rules sd_extract_jar)

lemma sd_extract: "keeps same_destroys (ld_extract os ps)"
  unfolding ld_extract_def by (intro sd_rules sd_extract_jars) simp_all

lemma sd_hashes: "keeps same_destroys (ld_hashes X ps)"
  unfolding ld_hashes_def by (intro sd_rules) simp_all

lemma sd_codegen: "keeps same_destroys (ndrxj_codegen L os b)"
  unfolding ndrxj_codegen_def by (intro sd_rules) simp_all

lemma sd_generate: "keeps same_destroys (ld_generate L os)"
  unfolding ld_generate_def by (intro sd_rules sd_codegen)

lemma sd_body: "keeps same_destroys (ld_body X opts jars)"
  unfolding ld_body_def by (intro sd_rules sd_options sd_prepare sd_extract sd_hashes sd_generate)

subsection \<open>A successful run\<close>

definition g_hash :: "res_head \<Rightarrow> ld_state \<Rightarrow> exjld_resource list" where
  "g_hash h s = (case h of ndrx_G_classes_hash \<Rightarrow> g_classes_hash s | ndrx_G_emb_res_hash \<Rightarrow> g_emb_res_hash s)"

lemma resname_sort_abs: "resname_sort = (\<lambda>a b. strcmp (r_resname a) (r_resname b))"
  by (simp add: fun_eq_iff resname_sort_def)

lemma sort_by_resname:
  assumes "pool_env_ok E"
  shows "sorted (map r_resname (exljd_res_sort_by_resname E xs))"
    "mset (exljd_res_sort_by_resname E xs) = mset xs"
  using assms unfolding exljd_res_sort_by_resname_def resname_sort_abs
  by (simp_all add: pool_env_ok_def hash_sort_strcmp mset_hash_sort)

lemma body_ok:
  assumes "val (ld_body X opts jars) s = EXSUCCEED"
  defines "s1 \<equiv> exec (ld_options (le_lib X) (le_os X) opts) s"
  defines "s2 \<equiv> exec (ld_prepare (le_lib X) (le_os X)) s1"
  defines "s3 \<equiv> exec (ld_extract (le_os X) jars) s2"
  defines "s4 \<equiv> exec (ld_hashes X jars) s3"
  shows "val (ld_prepare (le_lib X) (le_os X)) s1 = EXSUCCEED"
    "val (ld_extract (le_os X) jars) s2 = EXSUCCEED"
    "val (ld_hashes X jars) s3 = EXSUCCEED"
    "val (ld_generate (le_lib X) (le_os X)) s4 = EXSUCCEED"
    "exec (ld_body X opts jars) s = exec (ld_generate (le_lib X) (le_os X)) s4"
  using assms(1) unfolding ld_body_def s1_def s2_def s3_def s4_def seq_ok
  by (simp_all add: exec_seq_ok)

lemma hashes_ok:
  assumes X: "ld_env_ok X" and r: "val (ld_hashes X jars) s = EXSUCCEED"
    and t: "t = exec (ld_hashes X jars) s"
    and scan: "sc = snd (exjld_class_scan (le_lib X) (le_alloc X) (le_walk X) scan_init)"
  shows "jars \<noteq> []"
    "exjld_class_scan (le_lib X) (le_alloc X) (le_walk X) scan_init = (EXSUCCEED, sc)"
    "sorted (map r_resname (g_hash h t))"
    "mset (map res_proj (g_hash h t)) =
     mset (map (\<lambda>d. res_fill (le_pool X) d 0) (filter (\<lambda>d. d_head d = h) (work sc)))"
proof -
  let ?p = "le_sched X (work sc)"
  have E: "pool_env_ok (le_pool X)" using X by (simp add: ld_env_ok_def)
  obtain ts where ts: "pool_reach (le_pool X) (work sc) ?p ts" "all_done ts"
    using X by (auto simp: ld_env_ok_def)
  have *: "fst (exjld_class_scan (le_lib X) (le_alloc X) (le_walk X) scan_init) = EXSUCCEED"
      "M_was_file sc \<Longrightarrow> thpool_error ?p = EXSUCCEED"
    using r by (auto simp: ld_hashes_def run_simps Let_def exjld_class_build_hash_def scan split: if_splits)
  show "jars \<noteq> []" using r by (auto simp: ld_hashes_def run_simps Let_def split: if_splits)
  show sc: "exjld_class_scan (le_lib X) (le_alloc X) (le_walk X) scan_init = (EXSUCCEED, sc)"
    using *(1) scan by (metis prod.collapse)
  have inv: "pool_inv (le_pool X) (work sc) ?p ts" by (rule pool_inv_reach [OF E ts(1)])
  have "thpool_error ?p = EXSUCCEED"
  proof (cases "M_was_file sc")
    case False
    then have "work sc = []"
      using scan_inv_scan [OF scan_inv_init, of "le_lib X" "le_alloc X" "le_walk X"]
      by (simp add: scan_inv_def sc)
    then have "ts = []" using inv by (simp add: pool_inv_def)
    then show ?thesis using inv unfolding pool_inv_def by (metis empty_iff empty_set image_empty)
  qed (rule *(2))
  note content = done_hashes [OF inv ts(2) this, of h]
  have g: "g_hash h t = exljd_res_sort_by_resname (le_pool X) (hashes ?p h)"
    using r by (auto simp: t g_hash_def ld_hashes_def run_simps Let_def scan split: if_splits res_head.splits)
  show "sorted (map r_resname (g_hash h t))" unfolding g by (rule sort_by_resname [OF E])
  show "mset (map res_proj (g_hash h t)) =
     mset (map (\<lambda>d. res_fill (le_pool X) d 0) (filter (\<lambda>d. d_head d = h) (work sc)))"
    using content sort_by_resname(2) [OF E] unfolding g by (metis mset_map)
qed

lemma generate_writes:
  assumes "val (ld_generate L os) s = EXSUCCEED"
  shows "\<exists>r. (A_write ''jmain.c'' (jmain_text (g_classes_hash s) (g_emb_res_hash s) (ndrx_G_main_class s) False), r)
    \<in> set (acts (exec (ld_generate L os) s))"
proof -
  let ?m = "if ndrx_G_do_test s then ndrxj_codegen L os True else ok"
  have s1: "only_acts s (exec ?m s)"
    using only_acts_codegen [of L os True] oa.refl [of s] by (simp add: keeps_def run_simps)
  then obtain h where h: "exec ?m s = s\<lparr>acts := h @ acts s\<rparr>" by (auto simp: only_acts_def)
  have "val ?m s = EXSUCCEED" "val (ndrxj_codegen L os False) (exec ?m s) = EXSUCCEED"
    using assms by (auto simp: ld_generate_def run_simps split: if_splits)
  moreover from this have "exec (ld_generate L os) s = exec (ndrxj_codegen L os False) (exec ?m s)"
    by (auto simp: ld_generate_def run_simps split: if_splits)
  ultimately show ?thesis
    unfolding h by (auto simp: ndrxj_codegen_def run_simps Let_def split: if_splits)
qed

lemma body_hashes:
  assumes "val (ld_main X opts jars) s0 = EXSUCCEED"
  obtains s3 where "val (ld_hashes X jars) s3 = EXSUCCEED"
    "val (ld_generate (le_lib X) (le_os X)) (exec (ld_hashes X jars) s3) = EXSUCCEED"
    "exec (ld_main X opts jars) s0 = exec (ld_cleanup (le_os X))
       (exec (ld_generate (le_lib X) (le_os X)) (exec (ld_hashes X jars) s3))"
proof -
  have b: "val (ld_body X opts jars) s0 = EXSUCCEED"
    using assms by (simp add: ld_main_def run_simps)
  show ?thesis
    by (rule that, rule body_ok(3) [OF b], rule body_ok(4) [OF b])
      (simp add: ld_main_def run_simps body_ok(5) [OF b])
qed

lemma only_acts_eq:
  "only_acts s t \<Longrightarrow> g_classes_hash t = g_classes_hash s \<and> g_emb_res_hash t = g_emb_res_hash s \<and>
     ndrx_G_main_class t = ndrx_G_main_class s \<and> set (acts s) \<subseteq> set (acts t)"
  by (auto simp: only_acts_def)

text \<open>The facts of a successful run, from the phases to the final state.\<close>

lemma link_facts:
  assumes X: "ld_env_ok X" and r: "val (ld_main X opts jars) ld_init = EXSUCCEED"
    and s: "s = exec (ld_main X opts jars) ld_init"
    and sc: "sc = snd (exjld_class_scan (le_lib X) (le_alloc X) (le_walk X) scan_init)"
  shows "jars \<noteq> [] \<and>
    exjld_class_scan (le_lib X) (le_alloc X) (le_walk X) scan_init = (EXSUCCEED, sc) \<and>
    sorted (map r_resname (g_hash h s)) \<and>
    mset (map res_proj (g_hash h s)) =
      mset (map (\<lambda>d. res_fill (le_pool X) d 0) (filter (\<lambda>d. d_head d = h) (work sc))) \<and>
    (\<exists>r. (A_write ''jmain.c'' (jmain_text (g_classes_hash s) (g_emb_res_hash s) (ndrx_G_main_class s) False), r)
       \<in> set (acts s))"
proof (rule body_hashes [OF r])
  fix s3
  assume s3: "val (ld_hashes X jars) s3 = EXSUCCEED"
    "val (ld_generate (le_lib X) (le_os X)) (exec (ld_hashes X jars) s3) = EXSUCCEED"
    "exec (ld_main X opts jars) ld_init =
     exec (ld_cleanup (le_os X)) (exec (ld_generate (le_lib X) (le_os X)) (exec (ld_hashes X jars) s3))"
  define s4 where "s4 = exec (ld_hashes X jars) s3"
  define s5 where "s5 = exec (ld_generate (le_lib X) (le_os X)) s4"
  have f1: "only_acts s4 s5" unfolding s5_def by (rule keepsD [OF only_acts_generate])
  have f2: "only_acts s5 s" unfolding s s3(3) s4_def [symmetric] s5_def [symmetric]
    by (rule keepsD [OF only_acts_cleanup])
  note f = only_acts_eq [OF oa.trans [OF f1 f2]]
  have g: "g_hash h s = g_hash h s4" using f by (simp add: g_hash_def split: res_head.splits)
  obtain r where "(A_write ''jmain.c'' (jmain_text (g_classes_hash s4) (g_emb_res_hash s4)
      (ndrx_G_main_class s4) False), r) \<in> set (acts s5)"
    using generate_writes [OF s3(2)] unfolding s5_def s4_def by blast
  then have "\<exists>r. (A_write ''jmain.c'' (jmain_text (g_classes_hash s) (g_emb_res_hash s) (ndrx_G_main_class s) False), r)
       \<in> set (acts s)"
    using f only_acts_eq [OF f2] by auto
  then show ?thesis using hashes_ok [OF X s3(1) s4_def sc] g by simp
qed

subsection \<open>Properties\<close>

text \<open>C3. A successful link: JARs were given, the scan succeeded, each hash holds exactly the elements of
  the files found for it and is sorted by name, and the program text written last is the one
  generated from these hashes, for every schedule of the thread pool.\<close>

theorem link_success:
  assumes X: "ld_env_ok X" and r: "val (ld_main X opts jars) ld_init = EXSUCCEED"
    and s: "s = exec (ld_main X opts jars) ld_init"
    and sc: "sc = snd (exjld_class_scan (le_lib X) (le_alloc X) (le_walk X) scan_init)"
  shows "jars \<noteq> [] \<and>
    exjld_class_scan (le_lib X) (le_alloc X) (le_walk X) scan_init = (EXSUCCEED, sc) \<and>
    sorted (map r_resname (g_hash h s)) \<and>
    mset (map res_proj (g_hash h s)) =
      mset (map (\<lambda>d. res_fill (le_pool X) d 0) (filter (\<lambda>d. d_head d = h) (work sc))) \<and>
    (\<exists>r. (A_write ''jmain.c'' (jmain_text (g_classes_hash s) (g_emb_res_hash s) (ndrx_G_main_class s) False), r)
       \<in> set (acts s))"
  using link_facts [OF assms] .

definition demo_ld_env :: ld_env where
  "demo_ld_env = \<lparr>le_pool = demo_env, le_os = demo_os, le_walk = demo_walk, le_alloc = (\<lambda>_ _. True),
     le_sched = (\<lambda>js. fold (exljd_res_add_th demo_env) js pool_init)\<rparr>"

lemma demo_ld_env_ok: "ld_env_ok demo_ld_env"
  using seq_reach [OF demo_env_ok] by (simp add: ld_env_ok_def demo_ld_env_def)

lemma demo_pool_ok:
  "thpool_error (fold (exljd_res_add_th demo_env)
     (work (snd (exjld_class_scan plain_lib (\<lambda>_ _. True) demo_walk scan_init))) pool_init) = EXSUCCEED"
proof -
  let ?js = "work (snd (exjld_class_scan plain_lib (\<lambda>_ _. True) demo_walk scan_init))"
  have "names_ok ?js"
    by (simp add: demo_scan names_ok_def name_key_def PATH_MAX_def)
  moreover obtain ts where "pool_reach demo_env ?js (fold (exljd_res_add_th demo_env) ?js pool_init) ts"
    using seq_reach [OF demo_env_ok] by blast
  ultimately show ?thesis by (intro no_error_reach [OF demo_env_ok]) simp_all
qed

lemma demo_phases:
  "val (ld_options plain_lib demo_os [(CHR ''m'', ''a.A''), (CHR ''n'', [])]) ld_init = EXSUCCEED"
  "ndrx_G_main_class (exec (ld_options plain_lib demo_os [(CHR ''m'', ''a.A''), (CHR ''n'', [])]) ld_init) = ''a.A''"
  "ndrx_G_main_class s \<noteq> [] \<Longrightarrow> val (ld_prepare plain_lib demo_os) s = EXSUCCEED"
  "val (ld_extract demo_os [''x.jar'']) s = EXSUCCEED"
  "val (ld_hashes demo_ld_env [''x.jar'']) s = EXSUCCEED"
  "val (ld_generate plain_lib demo_os) s = EXSUCCEED"
proof -
  show "val (ld_options plain_lib demo_os [(CHR ''m'', ''a.A''), (CHR ''n'', [])]) ld_init = EXSUCCEED"
    "ndrx_G_main_class (exec (ld_options plain_lib demo_os [(CHR ''m'', ''a.A''), (CHR ''n'', [])]) ld_init) = ''a.A''"
    by (simp_all add: ld_option_def run_simps plain_lib_def PATH_MAX_def)
  have "val (add_libs plain_lib xs) s = EXSUCCEED" for xs s
    by (induction xs arbitrary: s) (simp_all add: run_simps plain_lib_def)
  then show "val (ld_prepare plain_lib demo_os) s = EXSUCCEED" if "ndrx_G_main_class s \<noteq> []"
    using that by (simp add: ld_prepare_def ld_workdir_def run_simps demo_os_def del: add_libs.simps)
  show "val (ld_extract demo_os [''x.jar'']) s = EXSUCCEED"
    by (simp add: ld_extract_def extract_jar_th_def run_simps Let_def demo_os_def)
  have l: "pe_lib demo_env = plain_lib" by (simp add: demo_env_def)
  show "val (ld_hashes demo_ld_env [''x.jar'']) s = EXSUCCEED"
    using demo_pool_ok
    by (simp add: ld_hashes_def run_simps Let_def demo_ld_env_def l exjld_class_build_hash_def)
      (simp add: demo_scan)
  show "val (ld_generate plain_lib demo_os) s = EXSUCCEED"
    by (simp add: ld_generate_def ndrxj_codegen_def run_simps Let_def demo_os_def)
qed

lemma demo_link: "val (ld_main demo_ld_env [(CHR ''m'', ''a.A''), (CHR ''n'', [])] [''x.jar'']) ld_init = EXSUCCEED"
proof -
  have l: "pe_lib (le_pool demo_ld_env) = plain_lib" "le_os demo_ld_env = demo_os"
    by (simp_all add: demo_ld_env_def demo_env_def)
  have "val (ld_body demo_ld_env [(CHR ''m'', ''a.A''), (CHR ''n'', [])] [''x.jar'']) ld_init = EXSUCCEED"
    unfolding ld_body_def seq_ok l
    by (intro conjI demo_phases) (simp add: demo_phases(2) del: ld_options.simps)
  then show ?thesis by (simp add: ld_main_def run_simps del: ld_options.simps)
qed

theorem link_success_witness:
  "\<exists>s. s = exec (ld_main demo_ld_env [(CHR ''m'', ''a.A''), (CHR ''n'', [])] [''x.jar'']) ld_init \<and>
     sorted (map r_resname (g_hash ndrx_G_classes_hash s)) \<and> length (g_hash ndrx_G_classes_hash s) = 2"
proof -
  let ?s = "exec (ld_main demo_ld_env [(CHR ''m'', ''a.A''), (CHR ''n'', [])] [''x.jar'']) ld_init"
  let ?sc = "snd (exjld_class_scan (le_lib demo_ld_env) (le_alloc demo_ld_env) (le_walk demo_ld_env) scan_init)"
  note l = link_success [OF demo_ld_env_ok demo_link refl refl, of ndrx_G_classes_hash]
  have "?sc = snd (exjld_class_scan plain_lib (\<lambda>_ _. True) demo_walk scan_init)"
    by (simp add: demo_ld_env_def demo_env_def)
  then have "length (filter (\<lambda>d. d_head d = ndrx_G_classes_hash) (work ?sc)) = 2" by (simp add: demo_scan)
  with l have "length (g_hash ndrx_G_classes_hash ?s) = 2" by (metis length_map size_mset)
  with l show ?thesis by blast
qed

text \<open>The thread pool is destroyed exactly once on every path through \<open>main\<close> on which it was
  created, and never otherwise.\<close>

theorem pool_destroyed_once:
  "destroys (exec (ld_main X opts jars) ld_init) =
     (if ndrx_G_thpool (exec (ld_main X opts jars) ld_init) then 1 else 0)"
proof -
  let ?b = "exec (ld_body X opts jars) ld_init"
  have m: "exec (ld_main X opts jars) ld_init = exec (ld_cleanup (le_os X)) ?b"
    by (simp add: ld_main_def run_simps)
  have "destroys ?b = 0"
    using keepsD [OF sd_body, of ld_init X opts jars] by (simp add: same_destroys_def destroys_def ld_init_def)
  then show ?thesis
    unfolding m ld_cleanup_def by (simp add: run_simps destroys_def)
qed

text \<open>An absolute \<open>-o\<close> path is not taken as such: the output becomes the original directory followed
  by the path.\<close>

theorem absolute_outbin:
  assumes r: "val (ld_workdir L os) s = EXSUCCEED" and "tmp_outbin s = ''/'' @ q"
    and t: "t = exec (ld_workdir L os) s" and fits: "length (ndrx_G_owd t) + length q + 1 < PATH_MAX"
  shows "ndrx_G_out_bin t = ndrx_G_owd t @ ''/'' @ ''/'' @ q"
proof -
  have "ndrx_G_out_bin t = snprintf_buf (PATH_MAX + 1) (ndrx_G_owd t @ ''/'' @ tmp_outbin s)"
    using r assms(2) unfolding t ld_workdir_def by (simp add: run_simps split: if_splits)
  then show ?thesis using assms(2) fits by (simp add: snprintf_buf_fits)
qed

theorem absolute_outbin_witness:
  "ndrx_G_out_bin (exec (ld_workdir plain_lib demo_os) (ld_init\<lparr>tmp_outbin := ''/x''\<rparr>)) = ''/w//x''"
proof -
  let ?s = "ld_init\<lparr>tmp_outbin := ''/x''\<rparr>"
  have "ndrx_G_owd (exec (ld_workdir plain_lib demo_os) ?s) = ''/w''"
    "val (ld_workdir plain_lib demo_os) ?s = EXSUCCEED"
    by (simp_all add: ld_workdir_def run_simps demo_os_def ld_init_def)
  then show ?thesis
    using absolute_outbin [of plain_lib demo_os ?s "''x''"] by (simp add: PATH_MAX_def)
qed

text \<open>The clean-up removes the work directory when its name fits; a longer name is cut off, and the
  command names a proper prefix of the directory instead.\<close>

theorem cleanup_removes:
  assumes "\<not> ndrx_G_keep_temp s" "ndrx_G_wd s \<noteq> []"
  shows "if length (ndrx_G_wd s) + 7 < PATH_MAX
    then fst (hd (acts (exec (ld_cleanup os) s))) = A_system (''rm -rf '' @ ndrx_G_wd s)
    else \<exists>p q. ndrx_G_wd s = p @ q \<and> q \<noteq> [] \<and>
      fst (hd (acts (exec (ld_cleanup os) s))) = A_system (''rm -rf '' @ p)"
proof -
  let ?w = "ndrx_G_wd s"
  have last: "fst (hd (acts (exec (ld_cleanup os) s))) = A_system (snprintf_buf PATH_MAX (''rm -rf '' @ ?w))"
    using assms by (simp add: ld_cleanup_def run_simps)
  show ?thesis
  proof (cases "length ?w + 7 < PATH_MAX")
    case True
    then show ?thesis using last by (simp add: snprintf_buf_fits)
  next
    case False
    have cut: "snprintf_buf PATH_MAX (''rm -rf '' @ ?w) = ''rm -rf '' @ take (PATH_MAX - 8) ?w"
      by (simp add: snprintf_buf_def PATH_MAX_def take_Cons')
    have "drop (PATH_MAX - 8) ?w \<noteq> []" using False by (simp add: PATH_MAX_def)
    with False last cut show ?thesis by (metis append_take_drop_id)
  qed
qed

theorem cleanup_removes_witness:
  "\<exists>d p q. length d = 4096 \<and> d = p @ q \<and> q \<noteq> [] \<and>
     fst (hd (acts (exec (ld_cleanup demo_os) (ld_init\<lparr>ndrx_G_wd := d\<rparr>)))) = A_system (''rm -rf '' @ p)"
proof -
  obtain d :: string where d: "length d = 4096" by (meson length_replicate)
  then have "\<not> length d + 7 < PATH_MAX" "d \<noteq> []" by (auto simp: PATH_MAX_def)
  then show ?thesis
    using cleanup_removes [of "ld_init\<lparr>ndrx_G_wd := d\<rparr>" demo_os] d by (auto simp: ld_init_def)
qed

end
