(* ===== verification/Jni.thy ===== *)
theory Jni
  imports Prelude
begin

section \<open>Calls out of the library: the Java VM and the Enduro/X core\<close>

text \<open>
  The C code of the loader and of the Java binding is glue between the Java Native Interface and the
  Enduro/X core; neither is part of this repository.  A call of either is an event, \<open>JNI f args\<close> for
  \<open>(*env)->f(env, args)\<close> and \<open>API f args\<close> for a function of the core or of the C library.  \<open>ext\<close> performs
  one: it asks the environment \<open>orc\<close> for the result and appends the call with its result to the trace
  \<open>tr\<close> (latest first).  The environment is arbitrary and sees the whole history, so a statement about
  every state covers every behaviour of the VM and of the core; a theorem that needs more says so as a
  hypothesis on the results.

  References, method and field ids and pointers are \<^typ>\<open>int\<close>, NULL is 0.  \<open>flt\<close> collects the points at
  which the C code has undefined behaviour (a NULL or uninitialised value used).  Logging is left out.

  The components extend the record by their own static variables.
\<close>

datatype arg = I int | S string | Bs "int list"

datatype ev = JNI string "arg list" | API string "arg list"

text \<open>\<open>ri\<close>: the return value; \<open>rs\<close>: the string returned or written; \<open>rb\<close>: bytes; \<open>ro\<close>, \<open>rl\<close>: integer and
  string output parameters.\<close>

record xres =
  ri :: int
  rs :: string
  rb :: "int list"
  ro :: "int list"
  rl :: "string list"

type_synonym trace = "(ev \<times> xres) list"

record jst =
  orc :: "trace \<Rightarrow> ev \<Rightarrow> xres"
  tr :: trace
  flt :: "string list"

subsection \<open>Performing a call\<close>

definition ext :: "ev \<Rightarrow> ('z jst_scheme, xres) state" where
  "ext e = State (\<lambda>s. let r = orc s (tr s) e in (r, s\<lparr>tr := (e, r) # tr s\<rparr>))"

definition jni :: "string \<Rightarrow> arg list \<Rightarrow> ('z jst_scheme, int) state" where
  "jni f as = do { r \<leftarrow> ext (JNI f as); State_Monad.return (ri r) }"

definition ex :: "string \<Rightarrow> arg list \<Rightarrow> ('z jst_scheme, int) state" where
  "ex f as = do { r \<leftarrow> ext (API f as); State_Monad.return (ri r) }"

definition fault :: "string \<Rightarrow> ('z jst_scheme, unit) state" where
  "fault w = State_Monad.update (\<lambda>s. s\<lparr>flt := w # flt s\<rparr>)"

abbreviation skip :: "('s, unit) state" where "skip \<equiv> State_Monad.return ()"

abbreviation whenM :: "bool \<Rightarrow> ('s, 'a) state \<Rightarrow> ('s, unit) state" where
  "whenM b m \<equiv> (if b then State_Monad.bind m (\<lambda>_. State_Monad.return ()) else State_Monad.return ())"

lemma run_ext [run_simps]:
  "exec (ext e) s = s\<lparr>tr := (e, orc s (tr s) e) # tr s\<rparr>"
  "val (ext e) s = orc s (tr s) e"
  by (simp_all add: ext_def exec_State val_State Let_def)

lemma run_jni [run_simps]:
  "exec (jni f as) s = s\<lparr>tr := (JNI f as, orc s (tr s) (JNI f as)) # tr s\<rparr>"
  "val (jni f as) s = ri (orc s (tr s) (JNI f as))"
  by (simp_all add: jni_def run_simps)

lemma run_ex [run_simps]:
  "exec (ex f as) s = s\<lparr>tr := (API f as, orc s (tr s) (API f as)) # tr s\<rparr>"
  "val (ex f as) s = ri (orc s (tr s) (API f as))"
  by (simp_all add: ex_def run_simps)

lemma run_fault [run_simps]:
  "exec (fault w) s = s\<lparr>flt := w # flt s\<rparr>" "val (fault w) s = ()"
  by (simp_all add: fault_def run_simps)

text \<open>For a statement about every environment the result of a call is arbitrary.\<close>

lemma wp_ext [wp_intros]: "(\<And>r. Q r (s\<lparr>tr := (e, r) # tr s\<rparr>)) \<Longrightarrow> wp (ext e) Q s"
  by (simp add: wp_def run_simps)

lemma wp_ext_orc: "Q (orc s (tr s) e) (s\<lparr>tr := (e, orc s (tr s) e) # tr s\<rparr>) \<Longrightarrow> wp (ext e) Q s"
  by (simp add: wp_def run_simps)

lemma wp_jni [wp_intros]: "(\<And>r. Q (ri r) (s\<lparr>tr := (JNI f as, r) # tr s\<rparr>)) \<Longrightarrow> wp (jni f as) Q s"
  by (simp add: wp_def run_simps)

lemma wp_ex [wp_intros]: "(\<And>r. Q (ri r) (s\<lparr>tr := (API f as, r) # tr s\<rparr>)) \<Longrightarrow> wp (ex f as) Q s"
  by (simp add: wp_def run_simps)

lemma wp_fault [wp_intros]: "Q () (s\<lparr>flt := w # flt s\<rparr>) \<Longrightarrow> wp (fault w) Q s"
  by (simp add: wp_def run_simps)

text \<open>\<open>isCopy\<close> of the functions that hand out native memory; no copy is made when they fail.\<close>

definition copied :: "xres \<Rightarrow> bool" where
  "copied r \<longleftrightarrow> ri r \<noteq> 0 \<and> ro r \<noteq> [] \<and> hd (ro r) \<noteq> 0"

subsection \<open>Native copies\<close>

text \<open>Copies of Java strings and arrays handed out and not yet released.\<close>

definition gets_copy :: "ev \<Rightarrow> bool" where
  "gets_copy e = (case e of JNI f _ \<Rightarrow> f = ''GetStringUTFChars'' \<or> f = ''GetByteArrayElements'' | _ \<Rightarrow> False)"

definition releases_copy :: "ev \<Rightarrow> bool" where
  "releases_copy e = (case e of JNI f _ \<Rightarrow> f = ''ReleaseStringUTFChars'' \<or> f = ''ReleaseByteArrayElements'' | _ \<Rightarrow> False)"

fun copies :: "trace \<Rightarrow> int" where
  "copies [] = 0"
| "copies ((e, r) # t) = copies t + (if gets_copy e \<and> copied r then 1 else 0) - (if releases_copy e then 1 else 0)"

definition bal :: "'z jst_scheme \<Rightarrow> 'z jst_scheme \<Rightarrow> bool" where
  "bal s t \<longleftrightarrow> copies (tr t) = copies (tr s)"

interpretation bal: run_rel bal
  by unfold_locales (simp_all add: bal_def)

lemma bal_ext: "\<not> gets_copy e \<Longrightarrow> \<not> releases_copy e \<Longrightarrow> keeps bal (ext e)"
  by (simp add: keeps_def run_simps bal_def)

lemma bal_jni:
  "f \<notin> {''GetStringUTFChars'', ''GetByteArrayElements'', ''ReleaseStringUTFChars'', ''ReleaseByteArrayElements''} \<Longrightarrow>
   keeps bal (jni f as)"
  by (simp add: keeps_def run_simps bal_def gets_copy_def releases_copy_def)

lemma bal_ex: "keeps bal (ex f as)" "keeps bal (ext (API f as))"
  by (simp_all add: keeps_def run_simps bal_def gets_copy_def releases_copy_def)

lemma bal_fault: "keeps bal (fault w)"
  by (simp add: keeps_def run_simps bal_def)

lemma bal_upd: "(\<And>s. tr (f s) = tr s) \<Longrightarrow> keeps bal (State_Monad.update f)"
  by (simp add: keeps_def run_simps bal_def)

lemmas bal_rules = bal.keeps_rules bal_jni bal_ex bal_fault bal_upd

lemma balD: "keeps bal m \<Longrightarrow> copies (tr (exec m s)) = copies (tr s)"
  by (simp add: keeps_def bal_def)

text \<open>A copy taken, a balanced body, and the release under \<open>isCopy\<close>.\<close>

lemma bal_utf:
  assumes "\<And>r. keeps bal (m r)"
  shows "keeps bal (do { r \<leftarrow> ext (JNI ''GetStringUTFChars'' as); x \<leftarrow> m r;
    whenM (copied r) (jni ''ReleaseStringUTFChars'' bs); State_Monad.return (g r x) })"
  by (rule keepsI) (simp add: bal_def run_simps balD [OF assms] gets_copy_def releases_copy_def)

subsection \<open>Local references\<close>

text \<open>References created in the current native frame and not deleted.  \<open>creates_local\<close> lists the functions
  that return a new local reference; \<open>DeleteLocalRef\<close> of NULL does nothing.\<close>

definition creates_local :: "string \<Rightarrow> bool" where
  "creates_local f \<longleftrightarrow>
     f \<in> set [''FindClass'', ''NewStringUTF'', ''NewObject'', ''NewObjectArray'', ''NewByteArray'',
       ''CallObjectMethod'', ''CallStaticObjectMethod'', ''GetObjectArrayElement'', ''GetObjectField'',
       ''GetObjectClass'', ''ExceptionOccurred'', ''DefineClass'', ''NewLocalRef'']"

fun locals :: "trace \<Rightarrow> int" where
  "locals [] = 0"
| "locals ((API f as, r) # t) = locals t"
| "locals ((JNI f as, r) # t) =
     (if f = ''DeleteLocalRef'' then locals t - (if as = [I 0] then 0 else 1)
      else if creates_local f \<and> ri r \<noteq> 0 then locals t + 1 else locals t)"

declare locals.simps(3) [simp del]

lemma locals_delete [simp]: "locals ((JNI ''DeleteLocalRef'' as, r) # t) = locals t - (if as = [I 0] then 0 else 1)"
  by (simp add: locals.simps)

lemma locals_create [simp]:
  "locals ((JNI ''FindClass'' as, r) # t) = locals t + (if ri r = 0 then 0 else 1)"
  "locals ((JNI ''NewStringUTF'' as, r) # t) = locals t + (if ri r = 0 then 0 else 1)"
  "locals ((JNI ''NewObject'' as, r) # t) = locals t + (if ri r = 0 then 0 else 1)"
  "locals ((JNI ''NewObjectArray'' as, r) # t) = locals t + (if ri r = 0 then 0 else 1)"
  "locals ((JNI ''NewByteArray'' as, r) # t) = locals t + (if ri r = 0 then 0 else 1)"
  "locals ((JNI ''CallObjectMethod'' as, r) # t) = locals t + (if ri r = 0 then 0 else 1)"
  "locals ((JNI ''CallStaticObjectMethod'' as, r) # t) = locals t + (if ri r = 0 then 0 else 1)"
  "locals ((JNI ''GetObjectArrayElement'' as, r) # t) = locals t + (if ri r = 0 then 0 else 1)"
  "locals ((JNI ''GetObjectField'' as, r) # t) = locals t + (if ri r = 0 then 0 else 1)"
  "locals ((JNI ''GetObjectClass'' as, r) # t) = locals t + (if ri r = 0 then 0 else 1)"
  "locals ((JNI ''ExceptionOccurred'' as, r) # t) = locals t + (if ri r = 0 then 0 else 1)"
  by (simp_all add: locals.simps(3) creates_local_def)

lemma locals_other [simp]:
  "locals ((JNI ''GetMethodID'' as, r) # t) = locals t"
  "locals ((JNI ''GetStaticMethodID'' as, r) # t) = locals t"
  "locals ((JNI ''GetFieldID'' as, r) # t) = locals t"
  "locals ((JNI ''SetObjectArrayElement'' as, r) # t) = locals t"
  "locals ((JNI ''GetStringUTFChars'' as, r) # t) = locals t"
  "locals ((JNI ''ReleaseStringUTFChars'' as, r) # t) = locals t"
  "locals ((JNI ''GetArrayLength'' as, r) # t) = locals t"
  "locals ((JNI ''ExceptionClear'' as, r) # t) = locals t"
  "locals ((JNI ''ExceptionCheck'' as, r) # t) = locals t"
  "locals ((JNI ''CallVoidMethod'' as, r) # t) = locals t"
  "locals ((JNI ''CallStaticVoidMethod'' as, r) # t) = locals t"
  "locals ((JNI ''SetByteArrayRegion'' as, r) # t) = locals t"
  by (simp_all add: locals.simps(3) creates_local_def)

subsection \<open>A quiet environment\<close>

text \<open>Used in examples: every call returns 1, strings are copies.\<close>

definition quiet :: "trace \<Rightarrow> ev \<Rightarrow> xres" where
  "quiet h e = \<lparr>ri = 1, rs = [], rb = [], ro = [1], rl = []\<rparr>"

end
