(* ===== verification/MetaCache.thy ===== *)
theory MetaCache
  imports Jni
begin

section \<open>The state of the Java binding and its class cache (\<open>libsrc/c/MetaCache.c\<close>)\<close>

text \<open>
  The static variables of the binding, as an extension of the calls out.

  \<^item> \<open>gv\<close>: the global class, method and field ids \<open>ndrxj_clazz_<X>\<close>, \<open>ndrxj_clazz_<X>_mid_<m>\<close> and
    \<open>ndrxj_clazz_<X>_fid_<f>\<close>, by the name that follows \<open>ndrxj_clazz_\<close>.
  \<^item> \<open>dyn\<close>: the dynamic cache \<open>M_exj_dyn_cache\<close>; \<open>dynH\<close> is the hash table implementation (\<open>exhash.h\<close>).
  \<^item> \<open>privs\<close>: the private data that the Enduro/X core keeps with every XATMI context
    (\<open>ndrx_ctx_priv_get()\<close>), by context.
  \<^item> \<open>reenter\<close>: Java code that is called back may enter the binding again and change the private data;
    what such a nested activity does to it is arbitrary.
  \<^item> \<open>bt_fuel\<close>: the depth of exception causes that the C stack can hold.
  \<^item> \<open>csz\<close>: the sizes of the fields and buffers that the headers of the core define, by name.

  The cache is loaded once with all the ids; the dynamic cache is filled with the exception classes
  as they are thrown.  The mutex around the dynamic cache makes each of \<open>ndrxj_caches_get\<close> and the insertion
  atomic and has no other effect here.
\<close>

record exj_dyn_cache =
  class_name :: string
  clazz :: int
  fid1 :: int
  fid2 :: int
  mid1 :: int

text \<open>\<open>integptr1\<close>: the JNI environment, \<open>integptr2\<close>: the \<open>AtmiCtx\<close> object, \<open>integptr3\<close>: the C context,
  \<open>integlng4\<close>: the flags.\<close>

record ctx_priv =
  integptr1 :: int
  integptr2 :: int
  integptr3 :: int
  integlng4 :: int

record jb = jst +
  gv :: "string \<Rightarrow> int"
  dyn :: "exj_dyn_cache list"
  dynH :: "exj_dyn_cache exhash"
  privs :: "int \<Rightarrow> ctx_priv"
  reenter :: "trace \<Rightarrow> (int \<Rightarrow> ctx_priv) \<Rightarrow> int \<Rightarrow> ctx_priv"
  M_jargv :: int
  bt_fuel :: nat
  csz :: "string \<Rightarrow> nat"

text \<open>The state when the library has been loaded and nothing has been called yet.\<close>

definition no_priv :: ctx_priv where
  "no_priv = \<lparr>integptr1 = 0, integptr2 = 0, integptr3 = 0, integlng4 = 0\<rparr>"

definition jb_init :: "(trace \<Rightarrow> ev \<Rightarrow> xres) \<Rightarrow> jb" where
  "jb_init env = \<lparr>orc = env, tr = [], flt = [], gv = \<lambda>_. 0, dyn = [], dynH = list_hash, privs = \<lambda>_. no_priv,
     reenter = \<lambda>_ p. p, M_jargv = 0, bt_fuel = 8, csz = \<lambda>_. 32\<rparr>"

definition getv :: "string \<Rightarrow> (jb, int) state" where
  "getv v = do { s \<leftarrow> State_Monad.get; State_Monad.return (gv s v) }"

definition setv :: "string \<Rightarrow> int \<Rightarrow> (jb, unit) state" where
  "setv v x = State_Monad.update (\<lambda>s. s\<lparr>gv := (gv s)(v := x)\<rparr>)"

lemma wp_getv [wp_intros]: "Q (gv s v) s \<Longrightarrow> wp (getv v) Q s"
  by (simp add: getv_def wp_def run_simps)

lemma wp_setv [wp_intros]: "Q () (s\<lparr>gv := (gv s)(v := x)\<rparr>) \<Longrightarrow> wp (setv v x) Q s"
  by (simp add: setv_def wp_def run_simps)

subsection \<open>The tables\<close>

text \<open>Class name, variable, and whether a weak global reference is kept (\<open>GLOB\<close>).\<close>

definition M_classes :: "(string \<times> string \<times> bool) list" where
  "M_classes = [
     (''org/endurox/AtmiCtx'', ''AtmiCtx'', False),
     (''org/endurox/Server'', ''Server'', False),
     (''org/endurox/TpSvcInfo'', ''TpSvcInfo'', True),
     (''org/endurox/TypedBuffer'', ''TypedBuffer'', True),
     (''org/endurox/TypedUbf'', ''TypedUbf'', True),
     (''org/endurox/TypedCarray'', ''TypedCarray'', True),
     (''org/endurox/TypedString'', ''TypedString'', True),
     (''org/endurox/TypedView'', ''TypedView'', True),
     (''org/endurox/TypedJson'', ''TypedJson'', True),
     (''org/endurox/TypedTpInit'', ''TypedTpInit'', True),
     (''org/endurox/ClientId'', ''ClientId'', True),
     (''org/endurox/ErrorTuple'', ''ErrorTuple'', True),
     (''org/endurox/TPTRANID'', ''TPTRANID'', True),
     (''org/endurox/TPQCTL'', ''TPQCTL'', True),
     (''org/endurox/XidList'', ''XidList'', False),
     (''javax/transaction/xa/Xid'', ''Xid'', False),
     (''java/lang/String'', ''String'', True),
     (''org/endurox/ExXid'', ''ExXid'', True),
     (''java/io/OutputStream'', ''OutputStream'', False),
     (''org/endurox/BExprTree'', ''BExprTree'', True),
     (''org/endurox/BNextResult'', ''BNextResult'', True),
     (''java/lang/Runnable'', ''Runnable'', False),
     (''org/endurox/TpgetrplyResult'', ''TpgetrplyResult'', True),
     (''org/endurox/TprecvResult'', ''TprecvResult'', True),
     (''org/endurox/TpTypesResult'', ''TpTypesResult'', True),
     (''java/io/BufferedReader'', ''BufferedReader'', False),
     (''java/lang/Throwable'', ''Throwable'', False),
     (''java/lang/StackTraceElement'', ''StackTraceElement'', False),
     (''java/lang/NullPointerException'', ''NullPointerException'', True)]"

text \<open>Class variable, id variable, name and signature.\<close>

definition M_methods :: "(string \<times> string \<times> string \<times> string) list" where
  "M_methods = [
     (''AtmiCtx'', ''AtmiCtx_mid_tpCallDispatch'', ''tpCallDispatch'', ''(Lorg/endurox/TpSvcInfo;)V''),
     (''AtmiCtx'', ''AtmiCtx_mid_xa_open_entry'', ''xa_open_entry'', ''(J)I''),
     (''AtmiCtx'', ''AtmiCtx_mid_xa_close_entry'', ''xa_close_entry'', ''(J)I''),
     (''AtmiCtx'', ''AtmiCtx_mid_xa_end_entry'', ''xa_end_entry'', ''(Ljavax/transaction/xa/Xid;J)I''),
     (''AtmiCtx'', ''AtmiCtx_mid_xa_rollback_entry'', ''xa_rollback_entry'', ''(Ljavax/transaction/xa/Xid;J)I''),
     (''AtmiCtx'', ''AtmiCtx_mid_xa_prepare_entry'', ''xa_prepare_entry'', ''(Ljavax/transaction/xa/Xid;J)I''),
     (''AtmiCtx'', ''AtmiCtx_mid_xa_start_entry'', ''xa_start_entry'', ''(Ljavax/transaction/xa/Xid;J)I''),
     (''AtmiCtx'', ''AtmiCtx_mid_xa_commit_entry'', ''xa_commit_entry'', ''(Ljavax/transaction/xa/Xid;J)I''),
     (''AtmiCtx'', ''AtmiCtx_mid_xa_recover_entry'', ''xa_recover_entry'', ''(J)Lorg/endurox/XidList;''),
     (''AtmiCtx'', ''AtmiCtx_mid_xa_forget_entry'', ''xa_forget_entry'', ''(Ljavax/transaction/xa/Xid;J)I''),
     (''AtmiCtx'', ''AtmiCtx_mid_unsolDispatch'', ''unsolDispatch'', ''(Lorg/endurox/TypedBuffer;J)V''),
     (''Server'', ''Server_mid_tpSvrDone'', ''tpSvrDone'', ''(Lorg/endurox/AtmiCtx;)V''),
     (''Server'', ''Server_mid_tpSvrInit'', ''tpSvrInit'', ''(Lorg/endurox/AtmiCtx;[Ljava/lang/String;)I''),
     (''TpSvcInfo'', ''TpSvcInfo_mid_INIT'', ''<init>'', ''(Ljava/lang/String;Lorg/endurox/TypedBuffer;JIJLorg/endurox/ClientId;Ljava/lang/String;)V''),
     (''TypedBuffer'', ''TypedBuffer_mid_INIT'', ''<init>'', ''(Lorg/endurox/AtmiCtx;ZJJ)V''),
     (''TypedUbf'', ''TypedUbf_mid_INIT'', ''<init>'', ''(Lorg/endurox/AtmiCtx;ZJJ)V''),
     (''TypedUbf'', ''TypedUbf_mid_boolcbfDispatch'', ''boolcbfDispatch'', ''(Ljava/lang/String;)J''),
     (''TypedCarray'', ''TypedCarray_mid_INIT'', ''<init>'', ''(Lorg/endurox/AtmiCtx;ZJJ)V''),
     (''TypedString'', ''TypedString_mid_INIT'', ''<init>'', ''(Lorg/endurox/AtmiCtx;ZJJ)V''),
     (''TypedView'', ''TypedView_mid_INIT'', ''<init>'', ''(Lorg/endurox/AtmiCtx;ZJJ)V''),
     (''TypedJson'', ''TypedJson_mid_INIT'', ''<init>'', ''(Lorg/endurox/AtmiCtx;ZJJ)V''),
     (''TypedTpInit'', ''TypedTpInit_mid_INIT'', ''<init>'', ''(Lorg/endurox/AtmiCtx;ZJJ)V''),
     (''ClientId'', ''ClientId_mid_INIT'', ''<init>'', ''(Ljava/lang/String;)V''),
     (''ErrorTuple'', ''ErrorTuple_mid_INIT'', ''<init>'', ''()V''),
     (''TPTRANID'', ''TPTRANID_mid_INIT'', ''<init>'', ''()V''),
     (''TPQCTL'', ''TPQCTL_mid_INIT'', ''<init>'', ''()V''),
     (''ExXid'', ''ExXid_mid_INIT'', ''<init>'', ''(JJJ[B)V''),
     (''Xid'', ''Xid_mid_getFormatId'', ''getFormatId'', ''()I''),
     (''Xid'', ''Xid_mid_getBranchQualifier'', ''getBranchQualifier'', ''()[B''),
     (''Xid'', ''Xid_mid_getGlobalTransactionId'', ''getGlobalTransactionId'', ''()[B''),
     (''OutputStream'', ''OutputStream_mid_write'', ''write'', ''([B)V''),
     (''BExprTree'', ''BExprTree_mid_INIT'', ''<init>'', ''(J)V''),
     (''BNextResult'', ''BNextResult_mid_INIT'', ''<init>'', ''(III)V''),
     (''Runnable'', ''Runnable_mid_run'', ''run'', ''()V''),
     (''TpgetrplyResult'', ''TpgetrplyResult_mid_INIT'', ''<init>'', ''(ILorg/endurox/TypedBuffer;)V''),
     (''TprecvResult'', ''TprecvResult_mid_INIT'', ''<init>'', ''(ILorg/endurox/TypedBuffer;J)V''),
     (''TpTypesResult'', ''TpTypesResult_mid_INIT'', ''<init>'', ''(Ljava/lang/String;Ljava/lang/String;J)V''),
     (''BufferedReader'', ''BufferedReader_mid_readLine'', ''readLine'', ''()Ljava/lang/String;''),
     (''Throwable'', ''Throwable_mid_getCause'', ''getCause'', ''()Ljava/lang/Throwable;''),
     (''Throwable'', ''Throwable_mid_getStackTrace'', ''getStackTrace'', ''()[Ljava/lang/StackTraceElement;''),
     (''Throwable'', ''Throwable_mid_toString'', ''toString'', ''()Ljava/lang/String;''),
     (''StackTraceElement'', ''StackTraceElement_mid_toString'', ''toString'', ''()Ljava/lang/String;''),
     (''NullPointerException'', ''NullPointerException_mid_INIT'', ''<init>'', ''(Ljava/lang/String;)V'')]"

definition M_fields :: "(string \<times> string \<times> string \<times> string) list" where
  "M_fields = [
     (''AtmiCtx'', ''AtmiCtx_fid_ctx'', ''ctx'', ''J''),
     (''AtmiCtx'', ''AtmiCtx_fid_svr'', ''svr'', ''Lorg/endurox/Server;''),
     (''TypedBuffer'', ''TypedBuffer_fid_doFinalize'', ''doFinalize'', ''Z''),
     (''TypedBuffer'', ''TypedBuffer_fid_cPtr'', ''cPtr'', ''J''),
     (''TypedBuffer'', ''TypedBuffer_fid_len'', ''len'', ''J''),
     (''TypedBuffer'', ''TypedBuffer_fid_ctx'', ''ctx'', ''Lorg/endurox/AtmiCtx;''),
     (''ClientId'', ''ClientId_fid_clientData'', ''clientData'', ''Ljava/lang/String;''),
     (''ErrorTuple'', ''ErrorTuple_fid_err'', ''err'', ''I''),
     (''ErrorTuple'', ''ErrorTuple_fid_msg'', ''msg'', ''Ljava/lang/String;''),
     (''TPTRANID'', ''TPTRANID_fid_data'', ''data'', ''[B''),
     (''TPQCTL'', ''TPQCTL_fid_flags'', ''flags'', ''J''),
     (''TPQCTL'', ''TPQCTL_fid_priority'', ''priority'', ''J''),
     (''TPQCTL'', ''TPQCTL_fid_diagnostic'', ''diagnostic'', ''J''),
     (''TPQCTL'', ''TPQCTL_fid_diagmsg'', ''diagmsg'', ''Ljava/lang/String;''),
     (''TPQCTL'', ''TPQCTL_fid_msgid'', ''msgid'', ''[B''),
     (''TPQCTL'', ''TPQCTL_fid_corrid'', ''corrid'', ''[B''),
     (''TPQCTL'', ''TPQCTL_fid_replyqueue'', ''replyqueue'', ''Ljava/lang/String;''),
     (''TPQCTL'', ''TPQCTL_fid_failurequeue'', ''failurequeue'', ''Ljava/lang/String;''),
     (''TPQCTL'', ''TPQCTL_fid_urcode'', ''urcode'', ''J''),
     (''TPQCTL'', ''TPQCTL_fid_appkey'', ''appkey'', ''J''),
     (''TPQCTL'', ''TPQCTL_fid_delivery_qos'', ''delivery_qos'', ''J''),
     (''TPQCTL'', ''TPQCTL_fid_reply_qos'', ''reply_qos'', ''J''),
     (''TPQCTL'', ''TPQCTL_fid_exp_time'', ''exp_time'', ''J''),
     (''TPQCTL'', ''TPQCTL_fid_cltid'', ''cltid'', ''Lorg/endurox/ClientId;''),
     (''XidList'', ''XidList_fid_ret'', ''ret'', ''I''),
     (''XidList'', ''XidList_fid_list'', ''list'', ''[Ljavax/transaction/xa/Xid;''),
     (''BExprTree'', ''BExprTree_fid_cPtr'', ''cPtr'', ''J'')]"

subsection \<open>Loading\<close>

fun load_classes :: "(string \<times> string \<times> bool) list \<Rightarrow> (jb, int) state" where
  "load_classes [] = State_Monad.return EXSUCCEED"
| "load_classes ((classStr, calzz, global) # rest) = do {
     c \<leftarrow> jni ''FindClass'' [S classStr];
     setv calzz c;
     if c = 0 then State_Monad.return EXFAIL else do {
     whenM global (do {
       w \<leftarrow> jni ''NewWeakGlobalRef'' [I c];
       setv calzz w;
       jni ''DeleteLocalRef'' [I c]
     });
     c \<leftarrow> getv calzz;
     if c = 0 then State_Monad.return EXFAIL else load_classes rest
     }
   }"

fun load_ids :: "string \<Rightarrow> (string \<times> string \<times> string \<times> string) list \<Rightarrow> (jb, int) state" where
  "load_ids get [] = State_Monad.return EXSUCCEED"
| "load_ids get ((calzz, idv, name, sign) # rest) = do {
     c \<leftarrow> getv calzz;
     i \<leftarrow> jni get [I c, S name, S sign];
     setv idv i;
     if i = 0 then State_Monad.return EXFAIL else load_ids get rest
   }"

fun drop_locals :: "(string \<times> string \<times> bool) list \<Rightarrow> (jb, unit) state" where
  "drop_locals [] = skip"
| "drop_locals ((classStr, calzz, global) # rest) = do {
     whenM (\<not> global) (do { c \<leftarrow> getv calzz; jni ''DeleteLocalRef'' [I c] });
     drop_locals rest
   }"

definition ndrxj_caches_load :: "(jb, int) state" where
  "ndrxj_caches_load = do {
     ret \<leftarrow> load_classes M_classes;
     if ret \<noteq> EXSUCCEED then State_Monad.return EXFAIL else do {
     ret \<leftarrow> load_ids ''GetMethodID'' M_methods;
     if ret \<noteq> EXSUCCEED then State_Monad.return EXFAIL else do {
     ret \<leftarrow> load_ids ''GetFieldID'' M_fields;
     if ret \<noteq> EXSUCCEED then State_Monad.return EXFAIL else do {
     drop_locals M_classes;
     State_Monad.return EXSUCCEED
     }}}
   }"

subsection \<open>Unloading\<close>

fun unload_classes :: "(string \<times> string \<times> bool) list \<Rightarrow> (jb, unit) state" where
  "unload_classes [] = skip"
| "unload_classes ((classStr, calzz, global) # rest) = do {
     whenM global (do { c \<leftarrow> getv calzz; jni ''DeleteGlobalRef'' [I c] });
     unload_classes rest
   }"

text \<open>\<open>EXHASH_ITER\<close> with a deletion of the current element.\<close>

fun unload_dyn :: "exj_dyn_cache list \<Rightarrow> (jb, unit) state" where
  "unload_dyn [] = skip"
| "unload_dyn (el # rest) = do {
     jni ''DeleteGlobalRef'' [I (clazz el)];
     State_Monad.update (\<lambda>s. s\<lparr>dyn := remove1 el (dyn s)\<rparr>);
     ex ''free'' [S (class_name el)];
     unload_dyn rest
   }"

definition ndrxj_caches_unload :: "(jb, unit) state" where
  "ndrxj_caches_unload = do {
     unload_classes M_classes;
     s \<leftarrow> State_Monad.get;
     unload_dyn (dyn s)
   }"

subsection \<open>The dynamic cache\<close>

definition ndrxj_caches_get :: "string \<Rightarrow> (jb, exj_dyn_cache option) state" where
  "ndrxj_caches_get name = do {
     s \<leftarrow> State_Monad.get;
     State_Monad.return (hash_find (dynH s) class_name (dyn s) name)
   }"

definition ndrxj_caches_add :: "string \<Rightarrow> exj_dyn_cache \<Rightarrow> (jb, exj_dyn_cache option) state" where
  "ndrxj_caches_add name data = do {
     p \<leftarrow> ex ''malloc'' [];
     if p = 0 then State_Monad.return None else do {
     w \<leftarrow> jni ''NewWeakGlobalRef'' [I (clazz data)];
     jni ''DeleteLocalRef'' [I (clazz data)];
     if w = 0 then do { ex ''free'' [I p]; State_Monad.return None } else do {
     let add = data\<lparr>clazz := w, class_name := snprintf_buf 256 name\<rparr>;
     State_Monad.update (\<lambda>s. s\<lparr>dyn := hash_add (dynH s) (dyn s) add\<rparr>);
     State_Monad.return (Some add)
     }}
   }"

definition no_cache :: exj_dyn_cache where
  "no_cache = \<lparr>class_name = [], clazz = 0, fid1 = 0, fid2 = 0, mid1 = 0\<rparr>"

definition ndrxj_caches_single :: "string \<Rightarrow> (jb, exj_dyn_cache option) state" where
  "ndrxj_caches_single name = do {
     cached \<leftarrow> ndrxj_caches_get name;
     case cached of Some c \<Rightarrow> State_Monad.return (Some c)
     | None \<Rightarrow> do {
         c \<leftarrow> jni ''FindClass'' [S name];
         if c = 0 then State_Monad.return None
         else ndrxj_caches_add name (no_cache\<lparr>clazz := c\<rparr>)
       }
   }"

subsection \<open>What a successful load establishes\<close>

fun calls :: "trace \<Rightarrow> (ev \<times> int) set" where
  "calls [] = {}"
| "calls ((e, r) # t) = insert (e, ri r) (calls t)"

definition class_resolved :: "jb \<Rightarrow> string \<times> string \<times> bool \<Rightarrow> bool" where
  "class_resolved s = (\<lambda>(str, v, g). gv s v \<noteq> 0 \<and>
     (if g then \<exists>c. (JNI ''FindClass'' [S str], c) \<in> calls (tr s) \<and> (JNI ''NewWeakGlobalRef'' [I c], gv s v) \<in> calls (tr s)
      else (JNI ''FindClass'' [S str], gv s v) \<in> calls (tr s)))"

definition id_resolved :: "string \<Rightarrow> jb \<Rightarrow> string \<times> string \<times> string \<times> string \<Rightarrow> bool" where
  "id_resolved get s = (\<lambda>(c, i, name, sign).
     gv s i \<noteq> 0 \<and> (JNI get [I (gv s c), S name, S sign], gv s i) \<in> calls (tr s))"

text \<open>A later state that keeps the variables of an entry keeps it resolved.\<close>

definition later :: "string set \<Rightarrow> jb \<Rightarrow> jb \<Rightarrow> bool" where
  "later V s t \<longleftrightarrow> (\<forall>v. v \<notin> V \<longrightarrow> gv t v = gv s v) \<and> calls (tr s) \<subseteq> calls (tr t)"

lemma later_class: "later V s t \<Longrightarrow> class_resolved s e \<Longrightarrow> fst (snd e) \<notin> V \<Longrightarrow> class_resolved t e"
  unfolding later_def class_resolved_def by (cases e) (auto split: if_splits)

lemma later_id: "later V s t \<Longrightarrow> id_resolved get s e \<Longrightarrow> fst e \<notin> V \<Longrightarrow> fst (snd e) \<notin> V \<Longrightarrow> id_resolved get t e"
  unfolding later_def id_resolved_def by (cases e) auto

lemma load_classes_wp:
  "distinct (map (fst \<circ> snd) cs) \<Longrightarrow>
   wp (load_classes cs)
     (\<lambda>r t. later ((fst \<circ> snd) ` set cs) s t \<and>
        (r = EXSUCCEED \<longrightarrow> (\<forall>e \<in> set cs. class_resolved t e) \<and>
           locals (tr t) = locals (tr s) + int (length (filter (\<lambda>(_, _, g). \<not> g) cs)))) s"
proof (induction cs arbitrary: s)
  case Nil
  show ?case by (simp add: wp_def run_simps later_def)
next
  case (Cons p rest)
  obtain classStr calzz global where p: "p = (classStr, calzz, global)" by (cases p)
  show ?case using Cons.prems
    by (simp only: p load_classes.simps) (intro wp_intros wp_cons [OF Cons.IH];
        auto simp: later_def class_resolved_def locals.simps(3) creates_local_def split: if_splits)
qed

lemma load_ids_wp:
  "distinct (map (fst \<circ> snd) is) \<Longrightarrow> fst ` set is \<inter> (fst \<circ> snd) ` set is = {} \<Longrightarrow>
   \<not> creates_local get \<Longrightarrow> get \<noteq> ''DeleteLocalRef'' \<Longrightarrow>
   wp (load_ids get is)
     (\<lambda>r t. later ((fst \<circ> snd) ` set is) s t \<and> locals (tr t) = locals (tr s) \<and>
        (r = EXSUCCEED \<longrightarrow> (\<forall>e \<in> set is. id_resolved get t e))) s"
proof (induction "is" arbitrary: s)
  case Nil
  show ?case by (simp add: wp_def run_simps later_def)
next
  case (Cons p rest)
  obtain calzz idv name sign where p: "p = (calzz, idv, name, sign)" by (cases p)
  show ?case using Cons.prems
    by (simp only: p load_ids.simps) (intro wp_intros wp_cons [OF Cons.IH];
        auto simp: later_def id_resolved_def locals.simps(3))
qed

lemma drop_locals_wp:
  "\<forall>v \<in> (fst \<circ> snd) ` set cs. gv s v \<noteq> 0 \<Longrightarrow>
   wp (drop_locals cs)
     (\<lambda>r t. later {} s t \<and> locals (tr t) = locals (tr s) - int (length (filter (\<lambda>(_, _, g). \<not> g) cs))) s"
proof (induction cs arbitrary: s)
  case Nil
  show ?case by (simp add: wp_def run_simps later_def)
next
  case (Cons p rest)
  obtain classStr calzz global where p: "p = (classStr, calzz, global)" by (cases p)
  show ?case using Cons.prems
    by (simp only: p drop_locals.simps) (intro wp_intros wp_cons [OF Cons.IH]; auto simp: later_def)
qed

text \<open>The three tables fill disjoint sets of variables.\<close>

lemma tables_distinct:
  "distinct (map (fst \<circ> snd) M_classes @ map (fst \<circ> snd) M_methods @ map (fst \<circ> snd) M_fields)"
  by (simp add: M_classes_def M_methods_def M_fields_def)

lemma tables_classes:
  "fst ` set M_methods \<union> fst ` set M_fields \<subseteq> (fst \<circ> snd) ` set M_classes"
  by code_simp

lemma tables_disjoint:
  "distinct (map (fst \<circ> snd) M_classes)" "distinct (map (fst \<circ> snd) M_methods)" "distinct (map (fst \<circ> snd) M_fields)"
  "(fst \<circ> snd) ` set M_classes \<inter> (fst \<circ> snd) ` set M_methods = {}"
  "(fst \<circ> snd) ` set M_classes \<inter> (fst \<circ> snd) ` set M_fields = {}"
  "(fst \<circ> snd) ` set M_methods \<inter> (fst \<circ> snd) ` set M_fields = {}"
  using tables_distinct by (auto simp only: distinct_append set_append set_map)


lemma quiet_load_classes:
  "orc s = quiet \<Longrightarrow> val (load_classes cs) s = EXSUCCEED \<and> orc (exec (load_classes cs) s) = quiet"
  by (induction cs arbitrary: s) (auto simp: run_simps quiet_def getv_def setv_def split_beta)

lemma quiet_load_ids:
  "orc s = quiet \<Longrightarrow> val (load_ids get is) s = EXSUCCEED \<and> orc (exec (load_ids get is) s) = quiet"
  by (induction "is" arbitrary: s) (auto simp: run_simps quiet_def getv_def setv_def split_beta)


subsection \<open>The dynamic cache\<close>

text \<open>Adding and looking up.\<close>

lemma caches_get_val: "val (ndrxj_caches_get n) s = hash_find (dynH s) class_name (dyn s) n"
  "exec (ndrxj_caches_get n) s = s"
  by (simp_all add: ndrxj_caches_get_def run_simps)

lemma caches_add_found:
  assumes H: "exhash_ok (dynH s)" and n: "length n < 256" and add: "val (ndrxj_caches_add n d) s = Some c"
  shows "\<exists>e. val (ndrxj_caches_get n) (exec (ndrxj_caches_add n d) s) = Some e"
proof -
  have "mset (dyn (exec (ndrxj_caches_add n d) s)) = add_mset c (mset (dyn s))" "class_name c = n"
    "dynH (exec (ndrxj_caches_add n d) s) = dynH s"
    using add n mset_hash_add [OF H, of "dyn s"]
    unfolding ndrxj_caches_add_def by (auto simp: run_simps Let_def snprintf_buf_fits split: if_splits)
  then have "n \<in> class_name ` set (dyn (exec (ndrxj_caches_add n d) s))"
    by (metis image_eqI set_mset_mset union_single_eq_member)
  then show ?thesis using hash_find_None [OF H] \<open>dynH _ = _\<close> by (fastforce simp: caches_get_val)
qed

text \<open>An exception class is looked up in the VM once: after a successful \<open>ndrxj_caches_single\<close> every further
  one for the same name makes no call at all and finds a cached class.\<close>

theorem caches_single_once:
  assumes "exhash_ok (dynH s)" "length n < 256" "val (ndrxj_caches_single n) s \<noteq> None"
  defines "t \<equiv> exec (ndrxj_caches_single n) s"
  shows "exec (ndrxj_caches_single n) t = t \<and> (\<exists>c. val (ndrxj_caches_single n) t = Some c \<and> class_name c = n)"
proof -
  have H: "exhash_ok (dynH t)"
    using assms(1) unfolding t_def ndrxj_caches_single_def ndrxj_caches_add_def
    by (simp add: run_simps caches_get_val Let_def split: option.splits)
  obtain e where e: "val (ndrxj_caches_get n) t = Some e"
  proof (cases "val (ndrxj_caches_get n) s")
    case None
    let ?u = "exec (jni ''FindClass'' [S n]) s" and ?d = "no_cache\<lparr>clazz := val (jni ''FindClass'' [S n]) s\<rparr>"
    have "val (ndrxj_caches_add n ?d) ?u \<noteq> None" "t = exec (ndrxj_caches_add n ?d) ?u"
      using assms(3) None unfolding t_def ndrxj_caches_single_def
      by (auto simp: run_simps caches_get_val split: if_splits)
    then show ?thesis using that caches_add_found [of ?u n ?d] assms(1,2) by (auto simp: run_jni)
  next
    case (Some c)
    then show ?thesis using that unfolding t_def ndrxj_caches_single_def by (simp add: run_simps caches_get_val)
  qed
  moreover have "class_name e = n" using hash_find_Some [OF H] e by (simp add: caches_get_val)
  ultimately show ?thesis by (simp add: ndrxj_caches_single_def run_simps caches_get_val)
qed

theorem caches_single_once_witness:
  "length ''java/lang/Error'' < 256 \<and> val (ndrxj_caches_single ''java/lang/Error'') (jb_init quiet) \<noteq> None \<and>
   exec (ndrxj_caches_single ''java/lang/Error'') (exec (ndrxj_caches_single ''java/lang/Error'') (jb_init quiet)) =
   exec (ndrxj_caches_single ''java/lang/Error'') (jb_init quiet)"
proof -
  have "val (ndrxj_caches_single ''java/lang/Error'') (jb_init quiet) \<noteq> None" (is "?A")
    by (simp add: ndrxj_caches_single_def ndrxj_caches_add_def run_simps caches_get_val jb_init_def quiet_def
        list_hash_def Let_def)
  moreover have "exhash_ok (dynH (jb_init quiet))" by (simp add: jb_init_def)
  ultimately show ?thesis using caches_single_once [of "jb_init quiet" "''java/lang/Error''"] by simp
qed

text \<open>After unloading the dynamic cache is empty.\<close>

lemma unload_dyn_empties: "dyn s = cs \<Longrightarrow> dyn (exec (unload_dyn cs) s) = []"
  by (induction cs arbitrary: s) (simp_all add: run_simps)

end
