(* ===== verification/Exceptions.thy ===== *)
theory Exceptions
  imports MetaCache "HOL-Library.Sublist"
begin

section \<open>Java exceptions raised by the binding (\<open>libsrc/c/exceptions.c\<close>)\<close>

text \<open>
  \<open>ndrxj_exception_backtrace\<close> renders the pending exception for the log; the \<open>NDRXJ_LOG_EXCEPTION\<close> macros
  are that backtrace (the log line itself is left out).  The \<open>*_throw\<close> functions turn an error code of the
  core into a Java exception whose class is named after the code.  \<open>abort()\<close> is the fault \<open>abort\<close>: what a
  function does after a fault has no meaning.  The formatted message is an argument.
\<close>

subsection \<open>Backtrace\<close>

definition ndrxj_append_msg :: "int \<Rightarrow> int \<Rightarrow> string \<Rightarrow> (jb, string) state" where
  "ndrxj_append_msg obj mid_toString s = do {
     msg_obj \<leftarrow> jni ''CallObjectMethod'' [I obj, I mid_toString];
     if msg_obj \<noteq> 0 then do {
       msg_str \<leftarrow> ext (JNI ''GetStringUTFChars'' [I msg_obj]);
       whenM (copied msg_str) (jni ''ReleaseStringUTFChars'' [I msg_obj]);
       jni ''DeleteLocalRef'' [I msg_obj];
       State_Monad.return (s @ rs msg_str @ [CHR 0x0A])
     } else State_Monad.return s
   }"

fun ndrxj_frames_loop :: "nat \<Rightarrow> int \<Rightarrow> int \<Rightarrow> int \<Rightarrow> string \<Rightarrow> (jb, string) state" where
  "ndrxj_frames_loop 0 i frames mid_frame_toString s = State_Monad.return s"
| "ndrxj_frames_loop (Suc n) i frames mid_frame_toString s = do {
     frame \<leftarrow> jni ''GetObjectArrayElement'' [I frames, I i];
     s \<leftarrow> (if frame = 0 then State_Monad.return s else do {
            s \<leftarrow> ndrxj_append_msg frame mid_frame_toString s;
            jni ''DeleteLocalRef'' [I frame];
            State_Monad.return s
          });
     ndrxj_frames_loop n (i + 1) frames mid_frame_toString s
   }"

fun ndrxj_backtrace_recursive :: "nat \<Rightarrow> int \<Rightarrow> string \<Rightarrow> int \<Rightarrow> int \<Rightarrow> int \<Rightarrow> int \<Rightarrow> (jb, string) state" where
  "ndrxj_backtrace_recursive 0 exc s getCause getStackTrace toString frame_toString = do {
     fault ''recursion''; State_Monad.return s }"
| "ndrxj_backtrace_recursive (Suc fuel) exc s getCause getStackTrace toString frame_toString = do {
     whenM (exc = 0) (fault ''CallObjectMethod(NULL)'');
     frames \<leftarrow> jni ''CallObjectMethod'' [I exc, I getStackTrace];
     frames_length \<leftarrow> (if frames \<noteq> 0 then jni ''GetArrayLength'' [I frames] else State_Monad.return 0);
     s \<leftarrow> (if frames \<noteq> 0 then ndrxj_append_msg exc toString s else State_Monad.return s);
     s \<leftarrow> (if frames_length > 0 then ndrxj_frames_loop (nat frames_length) 0 frames frame_toString s
          else State_Monad.return s);
     s \<leftarrow> (if frames \<noteq> 0 then do {
            cause \<leftarrow> jni ''CallObjectMethod'' [I exc, I getCause];
            s \<leftarrow> (if cause \<noteq> 0
                 then ndrxj_backtrace_recursive fuel cause s getCause getStackTrace toString frame_toString
                 else State_Monad.return s);
            whenM (cause \<noteq> 0) (jni ''DeleteLocalRef'' [I cause]);
            State_Monad.return s
          } else State_Monad.return s);
     jni ''DeleteLocalRef'' [I frames];
     State_Monad.return s
   }"

definition ndrxj_exception_backtrace :: "int \<Rightarrow> (jb, string) state" where
  "ndrxj_exception_backtrace exc_in = do {
     exc \<leftarrow> (if exc_in \<noteq> 0 then State_Monad.return exc_in else jni ''ExceptionOccurred'' []);
     fuel \<leftarrow> do { s \<leftarrow> State_Monad.get; State_Monad.return (bt_fuel s) };
     getCause \<leftarrow> getv ''Throwable_mid_getCause'';
     getStackTrace \<leftarrow> getv ''Throwable_mid_getStackTrace'';
     toString \<leftarrow> getv ''Throwable_mid_toString'';
     frame_toString \<leftarrow> getv ''StackTraceElement_mid_toString'';
     ret \<leftarrow> ndrxj_backtrace_recursive fuel exc [] getCause getStackTrace toString frame_toString;
     whenM (exc \<noteq> 0) (jni ''DeleteLocalRef'' [I exc]);
     State_Monad.return ret
   }"

definition NDRXJ_LOG_EXCEPTION :: "(jb, unit) state" where
  "NDRXJ_LOG_EXCEPTION = do { ndrxj_exception_backtrace 0; skip }"

subsection \<open>Throwing\<close>

abbreviation TPEINVAL :: int where "TPEINVAL \<equiv> 4"
abbreviation TPESVCFAIL :: int where "TPESVCFAIL \<equiv> 11"
abbreviation TPESYSTEM :: int where "TPESYSTEM \<equiv> 12"
abbreviation TPEEVENT :: int where "TPEEVENT \<equiv> 22"
abbreviation TPEDIAGNOSTIC :: int where "TPEDIAGNOSTIC \<equiv> 24"

definition ERROR_MAX :: nat where "ERROR_MAX = 1024"

text \<open>The ids of an ATMI exception class that is not cached yet.\<close>

definition atmi_exc_load :: "string \<Rightarrow> int \<Rightarrow> (jb, exj_dyn_cache option) state" where
  "atmi_exc_load cls err = do {
     c \<leftarrow> jni ''FindClass'' [S cls];
     if c = 0 then do { fault ''abort''; State_Monad.return None } else do {
     mid \<leftarrow> jni ''GetMethodID'' [I c, S ''<init>'', S ''(Ljava/lang/String;)V''];
     if mid = 0 then do { NDRXJ_LOG_EXCEPTION; State_Monad.return None } else do {
     qctl \<leftarrow> (if err = TPEDIAGNOSTIC then do {
               f \<leftarrow> jni ''GetFieldID'' [I c, S ''qctl'', S ''Lorg/endurox/TPQCTL;''];
               whenM (f = 0) NDRXJ_LOG_EXCEPTION;
               State_Monad.return f
             } else State_Monad.return 0);
     data \<leftarrow> jni ''GetFieldID'' [I c, S ''data'', S ''Lorg/endurox/TypedBuffer;''];
     if data = 0 then do { NDRXJ_LOG_EXCEPTION; State_Monad.return None } else do {
     cached \<leftarrow> ndrxj_caches_add cls (no_cache\<lparr>clazz := c, mid1 := mid, fid1 := qctl, fid2 := data\<rparr>);
     whenM (cached = None) (do { NDRXJ_LOG_EXCEPTION; fault ''abort'' });
     State_Monad.return cached
     }}}
   }"

definition atmi_exc_name :: "string \<Rightarrow> string" where
  "atmi_exc_name code = snprintf_buf 256 (''org/endurox/exceptions/Atmi'' @ code @ ''Exception'')"

definition ndrxj_atmi_throw :: "int \<Rightarrow> int \<Rightarrow> int \<Rightarrow> string \<Rightarrow> (jb, unit) state" where
  "ndrxj_atmi_throw data addarg1 err msg = do {
     jerror \<leftarrow> jni ''NewStringUTF'' [S (snprintf_buf ERROR_MAX msg)];
     code \<leftarrow> ext (API ''tpecodestr'' [I err]);
     let cls = atmi_exc_name (rs code);
     hit \<leftarrow> ndrxj_caches_get cls;
     cached \<leftarrow> (case hit of Some c \<Rightarrow> State_Monad.return (Some c) | None \<Rightarrow> atmi_exc_load cls err);
     case cached of None \<Rightarrow> skip
     | Some c \<Rightarrow> do {
         exception \<leftarrow> jni ''NewObject'' [I (clazz c), I (mid1 c), I jerror];
         if exception = 0 then NDRXJ_LOG_EXCEPTION else do {
         whenM (data \<noteq> 0) (jni ''SetObjectField'' [I exception, I (fid2 c), I data]);
         whenM (addarg1 \<noteq> 0 \<and> err = TPEDIAGNOSTIC) (jni ''SetObjectField'' [I exception, I (fid1 c), I addarg1]);
         jni ''Throw'' [I exception];
         skip
         }
       }
   }"

text \<open>\<open>ndrxj_nstd_throw\<close> and \<open>ndrxj_ubf_throw\<close> differ in the class prefix and in the function that names the code.\<close>

definition ndrxj_nstd_throw :: "int \<Rightarrow> string \<Rightarrow> (jb, unit) state" where
  "ndrxj_nstd_throw err msg = do {
     code \<leftarrow> ext (API ''ndrx_Necodestr'' [I err]);
     cached \<leftarrow> ndrxj_caches_single (snprintf_buf 256 (''org/endurox/exceptions/Nstd'' @ rs code @ ''Exception''));
     case cached of None \<Rightarrow> fault ''abort''
     | Some c \<Rightarrow> do { jni ''ThrowNew'' [I (clazz c), S (snprintf_buf ERROR_MAX msg)]; skip }
   }"

definition ndrxj_ubf_throw :: "int \<Rightarrow> string \<Rightarrow> (jb, unit) state" where
  "ndrxj_ubf_throw err msg = do {
     code \<leftarrow> ext (API ''Becodestr'' [I err]);
     cached \<leftarrow> ndrxj_caches_single (snprintf_buf 256 (''org/endurox/exceptions/Ubf'' @ rs code @ ''Exception''));
     case cached of None \<Rightarrow> fault ''abort''
     | Some c \<Rightarrow> do { jni ''ThrowNew'' [I (clazz c), S (snprintf_buf ERROR_MAX msg)]; skip }
   }"

definition ndrxj_nullptr_throw :: "string \<Rightarrow> (jb, unit) state" where
  "ndrxj_nullptr_throw msg = do {
     jerror \<leftarrow> jni ''NewStringUTF'' [S (snprintf_buf ERROR_MAX msg)];
     clz \<leftarrow> getv ''NullPointerException'';
     mid \<leftarrow> getv ''NullPointerException_mid_INIT'';
     exception \<leftarrow> jni ''NewObject'' [I clz, I mid, I jerror];
     if exception = 0 then NDRXJ_LOG_EXCEPTION else do { jni ''Throw'' [I exception]; skip }
   }"

subsection \<open>Native copies\<close>

text \<open>The characters or bytes of a Java object: taken, used, and given back when the VM made a copy.\<close>

definition with_utf :: "int \<Rightarrow> (xres \<Rightarrow> (jb, 'a) state) \<Rightarrow> (jb, 'a) state" where
  "with_utf j body = do {
     r \<leftarrow> ext (JNI ''GetStringUTFChars'' [I j]);
     x \<leftarrow> body r;
     whenM (copied r) (jni ''ReleaseStringUTFChars'' [I j]);
     State_Monad.return x
   }"

definition with_bytes :: "int \<Rightarrow> (xres \<Rightarrow> (jb, 'a) state) \<Rightarrow> (jb, 'a) state" where
  "with_bytes j body = do {
     r \<leftarrow> ext (JNI ''GetByteArrayElements'' [I j]);
     x \<leftarrow> body r;
     whenM (copied r) (jni ''ReleaseByteArrayElements'' [I j]);
     State_Monad.return x
   }"

text \<open>The \<open>char *\<close> of such a copy as an argument: NULL when the VM could not provide it.\<close>

definition cstr :: "xres \<Rightarrow> arg" where
  "cstr r = (if ri r = 0 then I 0 else S (rs r))"

subsection \<open>What a run leaves alone\<close>

text \<open>
  \<open>obs P t\<close> are the events of a trace that satisfy \<open>P\<close>.  \<open>frame P s t\<close> says of a run from \<open>s\<close> to \<open>t\<close> that it only
  extends the trace, adds no event of \<open>P\<close>, releases every native copy it takes, and changes neither the data of the
  contexts nor the ids.  It is used for two sets of events.

  \<^item> \<open>core\<close>: the calls into the Java application and the operations of the core library, i.e. everything but the functions that only report something
    (error codes and texts, the type and content of a buffer) or manage memory of the binding itself.  The support
    functions of the binding are \<open>plain\<close>: they call neither the core nor the application.
  \<^item> \<open>sw\<close>: the switches of the thread's XATMI context.  What runs while a context is set is \<open>inner\<close>: it
    does not switch the context.
\<close>

definition obs :: "(ev \<Rightarrow> bool) \<Rightarrow> trace \<Rightarrow> trace" where
  "obs P t = filter (\<lambda>p. P (fst p)) t"

lemma obs_simps [simp]: "obs P [] = []" "obs P ((e, r) # t) = (if P e then (e, r) # obs P t else obs P t)"
  by (simp_all add: obs_def)

lemma obs_obs: "(\<And>e. P e \<Longrightarrow> Q e) \<Longrightarrow> obs P (obs Q t) = obs P t"
  by (induction t) (auto simp: split_paired_all)

text \<open>The variables of the library that change only while it is loaded.\<close>

definition cfg :: "jb \<Rightarrow> (trace \<Rightarrow> ev \<Rightarrow> xres) \<times> (string \<Rightarrow> int) \<times> exj_dyn_cache exhash \<times>
    (trace \<Rightarrow> (int \<Rightarrow> ctx_priv) \<Rightarrow> int \<Rightarrow> ctx_priv) \<times> nat \<times> (string \<Rightarrow> nat)" where
  "cfg s = (orc s, gv s, dynH s, reenter s, bt_fuel s, csz s)"

lemma cfg_upd [simp]: "cfg (s\<lparr>tr := t\<rparr>) = cfg s" "cfg (s\<lparr>flt := w\<rparr>) = cfg s" "cfg (s\<lparr>dyn := d\<rparr>) = cfg s"
  "cfg (s\<lparr>privs := p\<rparr>) = cfg s" "cfg (s\<lparr>M_jargv := a\<rparr>) = cfg s"
  by (simp_all add: cfg_def)

lemma cfg_gv: "cfg t = cfg s \<Longrightarrow> gv t = gv s"
  by (simp add: cfg_def)

definition frame :: "(ev \<Rightarrow> bool) \<Rightarrow> jb \<Rightarrow> jb \<Rightarrow> bool" where
  "frame P s t \<longleftrightarrow> suffix (tr s) (tr t) \<and> obs P (tr t) = obs P (tr s) \<and> copies (tr t) = copies (tr s) \<and>
     privs t = privs s \<and> cfg t = cfg s"

lemma frameD:
  assumes "frame P s t"
  shows "suffix (tr s) (tr t)" "obs P (tr t) = obs P (tr s)" "copies (tr t) = copies (tr s)" "privs t = privs s" "cfg t = cfg s"
  using assms by (simp_all add: frame_def)

lemma copy_ev [simp]: "\<not> gets_copy (API f as)" "\<not> releases_copy (API f as)"
  "gets_copy (JNI f as) \<longleftrightarrow> f = ''GetStringUTFChars'' \<or> f = ''GetByteArrayElements''"
  "releases_copy (JNI f as) \<longleftrightarrow> f = ''ReleaseStringUTFChars'' \<or> f = ''ReleaseByteArrayElements''"
  by (simp_all add: gets_copy_def releases_copy_def)

text \<open>The calls into code of the Java application.\<close>

definition java_fns :: "string list" where
  "java_fns = [''CallVoidMethod'', ''CallIntMethod'', ''CallBooleanMethod'']"

definition special_fns :: "string set" where
  "special_fns = {''GetStringUTFChars'', ''GetByteArrayElements'', ''ReleaseStringUTFChars'', ''ReleaseByteArrayElements''} \<union> set java_fns"

lemma wp_keeps: "keeps R m \<Longrightarrow> (\<And>x t. R s t \<Longrightarrow> Q x t) \<Longrightarrow> wp m Q s"
  by (simp add: keeps_def wp_def)

lemma keeps_wp: "(\<And>s. wp m (\<lambda>_. R s) s) \<Longrightarrow> keeps R m"
  by (simp add: keeps_def wp_def)

text \<open>The rules hold for every set of events whose JNI calls are calls of the application.\<close>

locale frame_rel =
  fixes P :: "ev \<Rightarrow> bool"
  assumes jni_free: "P (JNI f as) \<Longrightarrow> f \<in> set java_fns"

sublocale frame_rel \<subseteq> run_rel "frame P"
  by unfold_locales (auto simp: frame_def intro: suffix_order.trans)

context frame_rel
begin

lemma keeps_jni: "f \<notin> special_fns \<Longrightarrow> keeps (frame P) (jni f as)" "f \<notin> special_fns \<Longrightarrow> keeps (frame P) (ext (JNI f as))"
  using jni_free [of f as] by (auto simp: keeps_def run_simps frame_def special_fns_def suffix_ConsI)

lemma keeps_ex: "\<not> P (API f as) \<Longrightarrow> keeps (frame P) (ex f as)" "\<not> P (API f as) \<Longrightarrow> keeps (frame P) (ext (API f as))"
  by (simp_all add: keeps_def run_simps frame_def suffix_ConsI)

lemma keeps_fault: "keeps (frame P) (fault w)"
  by (simp add: keeps_def run_simps frame_def)

lemma keeps_getv: "keeps (frame P) (getv v)"
  by (simp add: keeps_def run_simps frame_def getv_def)

lemma keeps_dyn: "keeps (frame P) (State_Monad.update (\<lambda>s. s\<lparr>dyn := f s\<rparr>))"
  by (simp add: keeps_def run_simps frame_def)

lemma keeps_copy:
  assumes m: "\<And>r. keeps (frame P) (m r)" and k: "\<And>r x. keeps (frame P) (k r x)"
    and fg: "(f, g) \<in> {(''GetStringUTFChars'', ''ReleaseStringUTFChars''), (''GetByteArrayElements'', ''ReleaseByteArrayElements'')}"
  shows "keeps (frame P) (do { r \<leftarrow> ext (JNI f as); x \<leftarrow> m r; whenM (copied r) (jni g bs); k r x })"
proof (rule keepsI)
  fix s :: jb
  have nP: "\<not> P (JNI f as)" "\<not> P (JNI g bs)" using jni_free [of f as] jni_free [of g bs] fg by (auto simp: java_fns_def)
  define r where "r = orc s (tr s) (JNI f as)"
  define s1 where "s1 = s\<lparr>tr := (JNI f as, r) # tr s\<rparr>"
  define s2 where "s2 = exec (m r) s1"
  define s3 where "s3 = exec (whenM (copied r) (jni g bs)) s2"
  have "frame P s1 s2" unfolding s2_def by (rule keepsD [OF m])
  note a = frameD [OF this]
  have s3: "s3 = s2 \<and> \<not> copied r \<or> copied r \<and> (\<exists>q. s3 = s2\<lparr>tr := (JNI g bs, q) # tr s2\<rparr>)"
    unfolding s3_def by (cases "copied r") (auto simp: exec_bind exec_return run_jni)
  have "suffix (tr s) (tr s2)" using a(1) unfolding s1_def by (auto dest: suffix_ConsD)
  then have "suffix (tr s) (tr s3)" using s3 by (auto simp: suffix_ConsI)
  moreover have "copies (tr s2) = copies (tr s) + (if copied r then 1 else 0)" using a(3) fg by (auto simp: s1_def)
  then have "copies (tr s3) = copies (tr s)" using s3 fg by auto
  moreover have "obs P (tr s3) = obs P (tr s)" "privs s3 = privs s" "cfg s3 = cfg s"
    using s3 a(2,4,5) nP by (auto simp: s1_def)
  ultimately have "frame P s s3" by (simp add: frame_def)
  moreover have "frame P s3 (exec (k r (val (m r) s1)) s3)" by (rule keepsD [OF k])
  ultimately show "frame P s (exec (do { r \<leftarrow> ext (JNI f as); x \<leftarrow> m r; whenM (copied r) (jni g bs); k r x }) s)"
    by (simp only: exec_bind run_ext r_def s1_def s2_def s3_def) (rule trans)
qed

lemma keeps_with:
  assumes "\<And>r. keeps (frame P) (body r)"
  shows "keeps (frame P) (with_utf j body)" "keeps (frame P) (with_bytes j body)"
  unfolding with_utf_def with_bytes_def by (rule keeps_copy; simp add: assms keeps_return)+

lemmas rules = keeps_rules keeps_jni keeps_ex keeps_fault keeps_getv keeps_dyn keeps_with

end

definition ctx_fns :: "string list" where
  "ctx_fns = [''tpsetctxt'', ''tpgetctxt'', ''tpnewctxt'', ''tpfreectxt'']"

fun ctx_ev :: "ev \<Rightarrow> bool" where
  "ctx_ev (JNI f as) = False"
| "ctx_ev (API f as) = (f \<in> set ctx_fns)"

definition query_fns :: "string list" where
  "query_fns = [''tperrno'', ''tpstrerror'', ''tpecodestr'', ''Nerror'', ''Nstrerror'', ''ndrx_Necodestr'', ''Berror'', ''Bstrerror'',
     ''Becodestr'', ''Bfname'', ''Bfldtype'', ''strerror'', ''tptypes'', ''malloc'', ''calloc'', ''strdup'', ''free'', ''read'', ''EX_PROGNAME'']"

fun core_ev :: "ev \<Rightarrow> bool" where
  "core_ev (JNI f as) = (f \<in> set java_fns)"
| "core_ev (API f as) = (f \<notin> set query_fns)"

declare core_ev.simps(1) [simp del]

lemma core_ev_jni [simp]: "core_ev (JNI f as) \<longleftrightarrow> f = ''CallVoidMethod'' \<or> f = ''CallIntMethod'' \<or> f = ''CallBooleanMethod''"
  by (simp add: core_ev.simps(1) java_fns_def)

interpretation inner: frame_rel ctx_ev
  by unfold_locales simp

interpretation plain: frame_rel core_ev
  by unfold_locales (simp add: java_fns_def)

abbreviation inner :: "jb \<Rightarrow> jb \<Rightarrow> bool" where "inner \<equiv> frame ctx_ev"
abbreviation plain :: "jb \<Rightarrow> jb \<Rightarrow> bool" where "plain \<equiv> frame core_ev"
abbreviation core :: "trace \<Rightarrow> trace" where "core \<equiv> obs core_ev"
abbreviation sw :: "trace \<Rightarrow> trace" where "sw \<equiv> obs ctx_ev"

lemma sw_core: "sw (core t) = sw t"
proof (rule obs_obs)
  show "ctx_ev e \<Longrightarrow> core_ev e" for e by (cases e) (auto simp: ctx_fns_def query_fns_def)
qed

lemma plain_inner: "plain s t \<Longrightarrow> inner s t"
  unfolding frame_def by (metis sw_core)

lemma keeps_plain_inner: "keeps plain m \<Longrightarrow> keeps inner m"
  by (simp add: keeps_def plain_inner)

lemmas fns_defs = special_fns_def java_fns_def query_fns_def ctx_fns_def

subsection \<open>The support functions are plain\<close>

lemma plain_append_msg: "keeps plain (ndrxj_append_msg obj m s)"
  unfolding ndrxj_append_msg_def
  by (rule keeps_wp) (intro wp_intros; auto simp: frame_def suffix_ConsI)

lemma plain_frames_loop: "keeps plain (ndrxj_frames_loop n i frames m s)"
proof (induction n arbitrary: i s)
  case (Suc n)
  show ?case unfolding ndrxj_frames_loop.simps by (intro plain.rules plain_append_msg Suc) (simp_all add: fns_defs)
qed (auto intro!: plain.rules)

lemma plain_backtrace_recursive: "keeps plain (ndrxj_backtrace_recursive fuel exc s a b c d)"
proof (induction fuel arbitrary: exc s)
  case (Suc fuel)
  show ?case unfolding ndrxj_backtrace_recursive.simps
    by (intro plain.rules plain_append_msg plain_frames_loop Suc) (simp_all add: fns_defs)
qed (auto intro!: plain.rules)

lemma plain_LOG_EXCEPTION: "keeps plain NDRXJ_LOG_EXCEPTION"
  unfolding NDRXJ_LOG_EXCEPTION_def ndrxj_exception_backtrace_def
  by (intro plain.rules plain_backtrace_recursive) (simp_all add: fns_defs)

lemma plain_caches:
  "keeps plain (ndrxj_caches_get n)" "keeps plain (ndrxj_caches_add n d)" "keeps plain (ndrxj_caches_single n)"
proof -
  show g: "keeps plain (ndrxj_caches_get n)" unfolding ndrxj_caches_get_def by (intro plain.rules)
  show a: "keeps plain (ndrxj_caches_add n d)" for d unfolding ndrxj_caches_add_def
    by (intro plain.rules) (simp_all add: fns_defs)
  show "keeps plain (ndrxj_caches_single n)" unfolding ndrxj_caches_single_def
    by (intro plain.rules g a) (simp_all add: fns_defs)
qed

lemma plain_atmi_exc_load: "keeps plain (atmi_exc_load cls err)"
  unfolding atmi_exc_load_def by (intro plain.rules plain_LOG_EXCEPTION plain_caches) (simp_all add: fns_defs)

lemma plain_throws:
  "keeps plain (ndrxj_atmi_throw data addarg1 err msg)" "keeps plain (ndrxj_nstd_throw err msg)"
  "keeps plain (ndrxj_ubf_throw err msg)" "keeps plain (ndrxj_nullptr_throw msg)"
  unfolding ndrxj_atmi_throw_def ndrxj_nstd_throw_def ndrxj_ubf_throw_def ndrxj_nullptr_throw_def
  by (intro plain.rules plain_LOG_EXCEPTION plain_caches plain_atmi_exc_load; simp add: fns_defs)+

lemmas plain_calls = plain.rules plain_LOG_EXCEPTION plain_throws

lemmas inner_calls = inner.rules plain_LOG_EXCEPTION [THEN keeps_plain_inner] plain_throws [THEN keeps_plain_inner]

end
