(* ===== verification/Context.thy ===== *)
theory Context
  imports Exceptions
begin

unbundle bit_operations_syntax

section \<open>Attaching a thread to the context of a Java object (\<open>ndrxj_get_ctx\<close> of \<open>AtmiCtx.c\<close>)\<close>

text \<open>
  An \<open>AtmiCtx\<close> object holds a pointer to an XATMI context of the core.  A native method attaches the calling thread
  to it with \<open>ndrxj_get_ctx\<close>, works, and detaches with \<open>tpsetctxt(TPNULLCONTEXT)\<close>.  \<open>cur_ctx\<close> reads from the trace to
  which context the thread is attached (0: none): \<open>tpsetctxt\<close> attaches, \<open>tpgetctxt\<close> detaches and returns
  the context, \<open>tpnewctxt(.., 1)\<close> attaches to a new one.  \<open>ndrx_ctx_priv_get\<close> is the private data of
  the current context.
\<close>

fun ctx_arg :: "int \<Rightarrow> arg list \<Rightarrow> int" where
  "ctx_arg c0 (I c # as) = c"
| "ctx_arg c0 as = c0"

fun cur_ctx :: "trace \<Rightarrow> int" where
  "cur_ctx [] = 0"
| "cur_ctx ((API f as, r) # t) =
     (if f = ''tpsetctxt'' then ctx_arg (cur_ctx t) as
      else if f = ''tpgetctxt'' then 0
      else if f = ''tpnewctxt'' \<and> as = [I 0, I 1] then ri r
      else cur_ctx t)"
| "cur_ctx ((JNI f as, r) # t) = cur_ctx t"

lemma cur_ctx_sw: "cur_ctx (sw t) = cur_ctx t"
proof (induction t)
  case (Cons p t)
  then show ?case by (cases "p # t" rule: cur_ctx.cases) (simp_all add: ctx_fns_def query_fns_def)
qed simp

lemma inner_cur_ctx: "inner s t \<Longrightarrow> cur_ctx (tr t) = cur_ctx (tr s)"
  unfolding frame_def by (metis cur_ctx_sw)

definition tpsetctxt :: "int \<Rightarrow> (jb, int) state" where
  "tpsetctxt c = ex ''tpsetctxt'' [I c, I 0]"

abbreviation TPNULLCONTEXT :: int where "TPNULLCONTEXT \<equiv> 0"

definition NDRXJ_CTXFLAGS_SRV :: int where "NDRXJ_CTXFLAGS_SRV = 1"

definition is_srv :: "ctx_priv \<Rightarrow> bool" where
  "is_srv p \<longleftrightarrow> integlng4 p AND NDRXJ_CTXFLAGS_SRV \<noteq> 0"

definition ndrx_ctx_priv_get :: "(jb, int) state" where
  "ndrx_ctx_priv_get = do { s \<leftarrow> State_Monad.get; State_Monad.return (cur_ctx (tr s)) }"

definition priv :: "int \<Rightarrow> (jb, ctx_priv) state" where
  "priv h = do { s \<leftarrow> State_Monad.get; State_Monad.return (privs s h) }"

definition set_priv :: "int \<Rightarrow> (ctx_priv \<Rightarrow> ctx_priv) \<Rightarrow> (jb, unit) state" where
  "set_priv h f = State_Monad.update (\<lambda>s. s\<lparr>privs := (privs s)(h := f (privs s h))\<rparr>)"

lemma wp_priv [wp_intros]: "Q (privs s h) s \<Longrightarrow> wp (priv h) Q s"
  by (simp add: priv_def wp_def run_simps)

lemma wp_set_priv [wp_intros]: "Q () (s\<lparr>privs := (privs s)(h := f (privs s h))\<rparr>) \<Longrightarrow> wp (set_priv h f) Q s"
  by (simp add: set_priv_def wp_def run_simps)

lemma wp_priv_get [wp_intros]: "Q (cur_ctx (tr s)) s \<Longrightarrow> wp ndrx_ctx_priv_get Q s"
  by (simp add: ndrx_ctx_priv_get_def wp_def run_simps)

lemma wp_tpsetctxt [wp_intros]: "(\<And>r. Q (ri r) (s\<lparr>tr := (API ''tpsetctxt'' [I c, I 0], r) # tr s\<rparr>)) \<Longrightarrow> wp (tpsetctxt c) Q s"
  by (simp add: tpsetctxt_def wp_def run_simps)

text \<open>Steps that name the state they lead to: for long programs.\<close>

lemma wpx_ext: "(\<And>r t. t = s\<lparr>tr := (e, r) # tr s\<rparr> \<Longrightarrow> Q r t) \<Longrightarrow> wp (ext e) Q s"
  by (simp add: wp_def run_simps)

lemma wpx_jni: "(\<And>r t. t = s\<lparr>tr := (JNI f as, r) # tr s\<rparr> \<Longrightarrow> Q (ri r) t) \<Longrightarrow> wp (jni f as) Q s"
  by (simp add: wp_def run_simps)

lemma wpx_ex: "(\<And>r t. t = s\<lparr>tr := (API f as, r) # tr s\<rparr> \<Longrightarrow> Q (ri r) t) \<Longrightarrow> wp (ex f as) Q s"
  by (simp add: wp_def run_simps)

lemma wpx_tpsetctxt: "(\<And>r t. t = s\<lparr>tr := (API ''tpsetctxt'' [I c, I 0], r) # tr s\<rparr> \<Longrightarrow> Q (ri r) t) \<Longrightarrow> wp (tpsetctxt c) Q s"
  by (simp add: tpsetctxt_def wp_def run_simps)

lemma wpx_update: "(\<And>t. t = f s \<Longrightarrow> Q () t) \<Longrightarrow> wp (State_Monad.update f) Q s"
  by (simp add: wp_def run_simps)

lemma wpx_set_priv: "(\<And>t. t = s\<lparr>privs := (privs s)(h := f (privs s h))\<rparr> \<Longrightarrow> Q () t) \<Longrightarrow> wp (set_priv h f) Q s"
  by (simp add: set_priv_def wp_def run_simps)

lemmas wpx = wp_bind wp_return wp_get wp_if wp_let wp_option wp_prod wp_getv wp_priv wp_priv_get wp_fault
  wpx_ext wpx_jni wpx_ex wpx_tpsetctxt wpx_update wpx_set_priv

text \<open>The private data is that of the context that was current when it was fetched, whatever context is set
  afterwards.  A client keeps a weak reference to the object that was used last; the reference of a
  server context is fixed when the server starts.\<close>

definition ndrxj_get_ctx :: "int \<Rightarrow> int \<Rightarrow> bool \<Rightarrow> (jb, int) state" where
  "ndrxj_get_ctx env atmiCtxObj do_set = do {
     fid \<leftarrow> getv ''AtmiCtx_fid_ctx'';
     ctx \<leftarrow> jni ''GetLongField'' [I atmiCtxObj, I fid];
     if ctx = 0 then do {
       ndrxj_atmi_throw 0 0 TPEINVAL ''NULL C context for ATMI Context OP!'';
       State_Monad.return 0
     } else if \<not> do_set then State_Monad.return ctx
     else do {
       tpsetctxt ctx;
       ctxpriv \<leftarrow> ndrx_ctx_priv_get;
       set_priv ctxpriv (\<lambda>p. p\<lparr>integptr1 := env\<rparr>);
       p \<leftarrow> priv ctxpriv;
       if is_srv p then State_Monad.return ctx
       else do {
         whenM (integptr2 p \<noteq> 0) (do {
           same \<leftarrow> jni ''IsSameObject'' [I (integptr2 p), I atmiCtxObj];
           whenM (same = 0) (do {
             jni ''DeleteWeakGlobalRef'' [I (integptr2 p)];
             w \<leftarrow> jni ''NewWeakGlobalRef'' [I atmiCtxObj];
             set_priv ctxpriv (\<lambda>p. p\<lparr>integptr2 := w\<rparr>)
           })
         });
         p \<leftarrow> priv ctxpriv;
         whenM (integptr2 p = 0) (do {
           w \<leftarrow> jni ''NewWeakGlobalRef'' [I atmiCtxObj];
           set_priv ctxpriv (\<lambda>p. p\<lparr>integptr2 := w\<rparr>)
         });
         set_priv ctxpriv (\<lambda>p. p\<lparr>integptr3 := ctx\<rparr>);
         State_Monad.return ctx
       }
     }
   }"

text \<open>\<open>api_ctx\<close>: the functions of the core that were called, each with the context in which it was called.\<close>

fun api_ctx :: "trace \<Rightarrow> (int \<times> string) set" where
  "api_ctx [] = {}"
| "api_ctx ((JNI f as, r) # t) = api_ctx t"
| "api_ctx ((API f as, r) # t) = (if ctx_ev (API f as) then api_ctx t else insert (cur_ctx t, f) (api_ctx t))"

lemma api_ctx_append:
  "sw n = [] \<Longrightarrow> api_ctx (n @ t) \<subseteq> api_ctx t \<union> {cur_ctx t} \<times> UNIV \<and> cur_ctx (n @ t) = cur_ctx t"
proof (induction n)
  case (Cons p n)
  then show ?case by (cases "p # n" rule: api_ctx.cases) (auto simp: ctx_fns_def query_fns_def split: if_splits)
qed simp

text \<open>What \<open>ndrxj_get_ctx\<close> does: on a NULL context nothing is attached; else the thread is attached to the context read
  from the object, in one switch, and only the private data of that context changes.\<close>

definition attach :: "int \<Rightarrow> int \<Rightarrow> int \<Rightarrow> jb \<Rightarrow> jb \<Rightarrow> bool" where
  "attach env obj c s t \<longleftrightarrow>
     suffix (tr s) (tr t) \<and> copies (tr t) = copies (tr s) \<and> cfg t = cfg s \<and>
     (JNI ''GetLongField'' [I obj, I (gv s ''AtmiCtx_fid_ctx'')], c) \<in> calls (tr t) \<and>
     (\<exists>r. core (tr t) = (API ''tpsetctxt'' [I c, I 0], r) # core (tr s)) \<and> api_ctx (tr t) = api_ctx (tr s) \<and>
     (\<forall>x. x \<noteq> c \<longrightarrow> privs t x = privs s x) \<and>
     is_srv (privs t c) = is_srv (privs s c) \<and> integptr1 (privs t c) = env \<and>
     (if is_srv (privs s c)
      then integptr2 (privs t c) = integptr2 (privs s c) \<and> integptr3 (privs t c) = integptr3 (privs s c)
      else integptr3 (privs t c) = c)"

lemma is_srv_upd [simp]: "is_srv (p\<lparr>integptr1 := a\<rparr>) = is_srv p" "is_srv (p\<lparr>integptr2 := a\<rparr>) = is_srv p"
  "is_srv (p\<lparr>integptr3 := a\<rparr>) = is_srv p"
  by (simp_all add: is_srv_def)

lemma suffix_calls: "suffix s t \<Longrightarrow> calls s \<subseteq> calls t"
proof -
  have "calls s \<subseteq> calls (n @ s)" for n
    by (induction n) (auto simp: split_paired_all)
  then show "suffix s t \<Longrightarrow> calls s \<subseteq> calls t" by (auto simp: suffix_def)
qed

lemma get_ctx_wp:
  "wp (ndrxj_get_ctx env obj True) (\<lambda>c t. if c = 0
     then plain s t \<and> (JNI ''GetLongField'' [I obj, I (gv s ''AtmiCtx_fid_ctx'')], 0) \<in> calls (tr t)
     else attach env obj c s t) s"
proof -
  have null: "suffix (tr s) (tr t) \<and> (JNI ''GetLongField'' as, 0) \<in> calls (tr t)"
    if "suffix ((JNI ''GetLongField'' as, r) # tr s) (tr t)" "ri r = 0" for as r t
    using that suffix_calls [of "(JNI ''GetLongField'' as, r) # tr s" "tr t"] by (auto dest: suffix_ConsD)
  show ?thesis
  unfolding ndrxj_get_ctx_def
  by (intro wpx wp_keeps [OF plain_throws(1)];
      simp add: frame_def attach_def ctx_fns_def query_fns_def suffix_ConsI;
      elim conjE; rule null; assumption)
qed

lemma get_ctx_noset: "keeps inner (ndrxj_get_ctx env obj False)"
  unfolding ndrxj_get_ctx_def by (intro inner_calls) (simp_all add: fns_defs)

subsection \<open>The shape of a native method\<close>

text \<open>A native method either returns at once when the object has no context, or falls through to the common exit
  (\<open>out:\<close>); in both cases the context is dropped at the end.\<close>

definition ctx_return :: "(jb, int) state \<Rightarrow> 'a \<Rightarrow> (int \<Rightarrow> (jb, 'a) state) \<Rightarrow> (jb, 'a) state" where
  "ctx_return get_ctx d body = do {
     c \<leftarrow> get_ctx;
     if c = 0 then State_Monad.return d else do {
       r \<leftarrow> body c;
       tpsetctxt TPNULLCONTEXT;
       State_Monad.return r
     }
   }"

definition ctx_out :: "(jb, int) state \<Rightarrow> 'a \<Rightarrow> (int \<Rightarrow> (jb, 'a) state) \<Rightarrow> (jb, 'a) state" where
  "ctx_out get_ctx d body = do {
     c \<leftarrow> get_ctx;
     r \<leftarrow> (if c = 0 then State_Monad.return d else body c);
     tpsetctxt TPNULLCONTEXT;
     State_Monad.return r
   }"

text \<open>\<open>ndrxj_atmi_throw(env, data, NULL, tperrno, "%s", tpstrerror(tperrno))\<close>.\<close>

definition throw_tperrno :: "int \<Rightarrow> (jb, unit) state" where
  "throw_tperrno data = do {
     err \<leftarrow> ex ''tperrno'' [];
     m \<leftarrow> ext (API ''tpstrerror'' [I err]);
     ndrxj_atmi_throw data 0 err (rs m)
   }"

lemma plain_throw_tperrno: "keeps plain (throw_tperrno data)"
  unfolding throw_tperrno_def by (intro plain_calls) (simp_all add: query_fns_def)

lemma inner_api: "inner s t \<Longrightarrow> api_ctx (tr t) \<subseteq> api_ctx (tr s) \<union> {cur_ctx (tr s)} \<times> UNIV"
  unfolding frame_def suffix_def by (auto simp: obs_def dest!: api_ctx_append [THEN conjunct1, THEN subsetD, rotated])

text \<open>What every native method promises about a thread that is attached to no context: it leaves the thread so, it
  works in the one context \<open>c\<close> that it read from the object, or in none, it changes the private data of no other context and the
  ids not at all, and, once it has its context, it gives back all native copies.  The object and the C context that are
  recorded for a server context stay as they are (\<open>srv_same\<close>).\<close>

definition srv_same :: "jb \<Rightarrow> jb \<Rightarrow> bool" where
  "srv_same s t \<longleftrightarrow> (\<forall>x. is_srv (privs t x) = is_srv (privs s x) \<and>
     (is_srv (privs s x) \<longrightarrow> integptr2 (privs t x) = integptr2 (privs s x) \<and> integptr3 (privs t x) = integptr3 (privs s x)))"

definition native :: "int \<Rightarrow> jb \<Rightarrow> jb \<Rightarrow> bool" where
  "native obj s t \<longleftrightarrow> (\<exists>c. (c = 0 \<or> (JNI ''GetLongField'' [I obj, I (gv s ''AtmiCtx_fid_ctx'')], c) \<in> calls (tr t)) \<and>
     suffix (tr s) (tr t) \<and> cur_ctx (tr t) = 0 \<and> api_ctx (tr t) \<subseteq> api_ctx (tr s) \<union> {c} \<times> UNIV \<and>
     (c \<noteq> 0 \<longrightarrow> copies (tr t) = copies (tr s)) \<and>
     cfg t = cfg s \<and> (\<forall>x. x \<noteq> c \<longrightarrow> privs t x = privs s x) \<and> srv_same s t)"

lemma attach_cur: "attach env obj c s t \<Longrightarrow> cur_ctx (tr t) = c"
proof -
  assume "attach env obj c s t"
  then obtain r where "core (tr t) = (API ''tpsetctxt'' [I c, I 0], r) # core (tr s)" by (auto simp: attach_def)
  then have "sw (core (tr t)) = (API ''tpsetctxt'' [I c, I 0], r) # sw (core (tr s))" by (simp add: ctx_fns_def)
  then show ?thesis using cur_ctx_sw [of "tr t"] by (simp add: sw_core)
qed

text \<open>Before the context is attached and after it is dropped only JNI calls are made.\<close>

definition around :: "jb \<Rightarrow> jb \<Rightarrow> bool" where
  "around s t \<longleftrightarrow> suffix (tr s) (tr t) \<and> sw (tr t) = sw (tr s) \<and> api_ctx (tr t) = api_ctx (tr s) \<and>
     privs t = privs s \<and> cfg t = cfg s"

definition detach :: "jb \<Rightarrow> jb \<Rightarrow> bool" where
  "detach s t \<longleftrightarrow> suffix (tr s) (tr t) \<and> cur_ctx (tr t) = 0 \<and> api_ctx (tr t) = api_ctx (tr s) \<and>
     privs t = privs s \<and> cfg t = cfg s"

lemma aroundD:
  assumes "around s t"
  shows "suffix (tr s) (tr t)" "sw (tr t) = sw (tr s)" "api_ctx (tr t) = api_ctx (tr s)" "privs t = privs s" "cfg t = cfg s"
  using assms by (simp_all add: around_def)

lemma detachD:
  assumes "detach s t"
  shows "suffix (tr s) (tr t)" "cur_ctx (tr t) = 0" "api_ctx (tr t) = api_ctx (tr s)" "privs t = privs s" "cfg t = cfg s"
  using assms by (simp_all add: detach_def)

lemma attachD:
  assumes "attach env obj c s t"
  shows "suffix (tr s) (tr t)" "copies (tr t) = copies (tr s)" "cfg t = cfg s" "api_ctx (tr t) = api_ctx (tr s)"
    "(JNI ''GetLongField'' [I obj, I (gv s ''AtmiCtx_fid_ctx'')], c) \<in> calls (tr t)"
    "\<And>x. x \<noteq> c \<Longrightarrow> privs t x = privs s x" "srv_same s t"
proof -
  show "srv_same s t" unfolding srv_same_def
  proof
    fix x
    show "is_srv (privs t x) = is_srv (privs s x) \<and> (is_srv (privs s x) \<longrightarrow>
      integptr2 (privs t x) = integptr2 (privs s x) \<and> integptr3 (privs t x) = integptr3 (privs s x))"
      using assms unfolding attach_def by (cases "x = c") (auto split: if_splits)
  qed
qed (use assms in \<open>unfold attach_def, blast+\<close>)

lemma nativeI:
  assumes a: "around s s0" "attach env obj c s0 s1" "inner s1 s2" "detach s2 t" "copies (tr t) = copies (tr s)"
  shows "native obj s t"
  unfolding native_def
proof (intro exI [of _ c] conjI)
  note s1t = suffix_order.trans [OF frameD(1) [OF a(3)] detachD(1) [OF a(4)]]
  have "gv s0 = gv s" using aroundD(5) [OF a(1)] by (rule cfg_gv)
  then show "c = 0 \<or> (JNI ''GetLongField'' [I obj, I (gv s ''AtmiCtx_fid_ctx'')], c) \<in> calls (tr t)"
    using suffix_calls [OF s1t] attachD(5) [OF a(2)] by auto
  show "suffix (tr s) (tr t)"
    by (rule suffix_order.trans [OF aroundD(1) [OF a(1)] suffix_order.trans [OF attachD(1) [OF a(2)] s1t]])
  show "cur_ctx (tr t) = 0" by (rule detachD(2) [OF a(4)])
  show "api_ctx (tr t) \<subseteq> api_ctx (tr s) \<union> {c} \<times> UNIV"
    using inner_api [OF a(3)]
    by (simp only: attach_cur [OF a(2)] detachD(3) [OF a(4)] attachD(4) [OF a(2)] aroundD(3) [OF a(1)])
  show "c \<noteq> 0 \<longrightarrow> copies (tr t) = copies (tr s)" by (simp add: a(5))
  show "cfg t = cfg s"
    by (simp only: detachD(5) [OF a(4)] frameD(5) [OF a(3)] attachD(3) [OF a(2)] aroundD(5) [OF a(1)])
  show "\<forall>x. x \<noteq> c \<longrightarrow> privs t x = privs s x"
    by (simp add: detachD(4) [OF a(4)] frameD(4) [OF a(3)] attachD(6) [OF a(2)] aroundD(4) [OF a(1)])
  show "srv_same s t" using attachD(7) [OF a(2)]
    by (simp add: srv_same_def detachD(4) [OF a(4)] frameD(4) [OF a(3)] aroundD(4) [OF a(1)])
qed

lemma native_null:
  assumes a: "around s s0" "inner s0 s1" "cur_ctx (tr s) = 0" and t: "s1 = t \<or> detach s1 t"
  shows "native obj s t"
  unfolding native_def
proof (intro exI [of _ 0] conjI)
  have s1t: "suffix (tr s1) (tr t)" using t detachD(1) by blast
  show "suffix (tr s) (tr t)"
    by (rule suffix_order.trans [OF aroundD(1) [OF a(1)] suffix_order.trans [OF frameD(1) [OF a(2)] s1t]])
  have c0: "cur_ctx (tr s0) = 0" using aroundD(2) [OF a(1)] a(3) cur_ctx_sw by metis
  then show "cur_ctx (tr t) = 0" using t inner_cur_ctx [OF a(2)] detachD(2) by auto
  have "api_ctx (tr t) = api_ctx (tr s1)" using t detachD(3) by blast
  then show "api_ctx (tr t) \<subseteq> api_ctx (tr s) \<union> {0} \<times> UNIV"
    using inner_api [OF a(2)] by (simp only: c0 aroundD(3) [OF a(1)])
  have "cfg t = cfg s1" "privs t = privs s1" using t detachD(4,5) by blast+
  then show "cfg t = cfg s" "\<forall>x. x \<noteq> 0 \<longrightarrow> privs t x = privs s x" "srv_same s t"
    by (simp_all add: srv_same_def frameD(4,5) [OF a(2)] aroundD(4,5) [OF a(1)])
qed simp_all

lemma around_refl: "around s s"
  by (simp add: around_def)

lemma detach_step: "detach s (s\<lparr>tr := (API ''tpsetctxt'' [I 0, I 0], r) # tr s\<rparr>)"
  by (simp add: detach_def ctx_fns_def query_fns_def suffix_ConsI)

lemma native_done:
  assumes "attach env obj c s s1" "inner s1 s2"
  shows "native obj s (s2\<lparr>tr := (API ''tpsetctxt'' [I 0, I 0], r) # tr s2\<rparr>)"
  by (rule nativeI [OF around_refl assms detach_step]) (simp add: frameD(3) [OF assms(2)] attachD(2) [OF assms(1)])

abbreviation drop_ctx :: "xres \<Rightarrow> jb \<Rightarrow> jb" where
  "drop_ctx r t \<equiv> t\<lparr>tr := (API ''tpsetctxt'' [I 0, I 0], r) # tr t\<rparr>"

lemma ctx_return_wp:
  assumes "wp get_ctx (\<lambda>c t. if c = 0 then N t else \<forall>t2 r. inner t t2 \<longrightarrow> N (drop_ctx r t2)) s"
    and "\<And>c. keeps inner (body c)"
  shows "wp (ctx_return get_ctx d body) (\<lambda>_. N) s"
  unfolding ctx_return_def
  by (intro wpx wp_cons [OF assms(1)] wp_keeps [OF assms(2)]) simp_all

lemma ctx_out_wp:
  assumes "wp get_ctx (\<lambda>c t. if c = 0 then \<forall>r. N (drop_ctx r t) else \<forall>t2 r. inner t t2 \<longrightarrow> N (drop_ctx r t2)) s"
    and "\<And>c. keeps inner (body c)"
  shows "wp (ctx_out get_ctx d body) (\<lambda>_. N) s"
  unfolding ctx_out_def
  by (intro wpx wp_cons [OF assms(1)] wp_keeps [OF assms(2)]) simp_all

text \<open>The native methods of \<open>AtmiCtx\<close>.\<close>

lemma atmi_native:
  assumes "\<And>c. keeps inner (body c)" "cur_ctx (tr s) = 0"
  shows "native obj s (exec (ctx_return (ndrxj_get_ctx env obj True) d body) s)"
    "native obj s (exec (ctx_out (ndrxj_get_ctx env obj True) d body) s)"
proof -
  have "wp (ctx_return (ndrxj_get_ctx env obj True) d body) (\<lambda>_. native obj s) s"
    by (rule ctx_return_wp [OF wp_cons [OF get_ctx_wp] assms(1)])
       (auto simp: assms(2) native_done split: if_splits intro: native_null [OF around_refl plain_inner])
  then show "native obj s (exec (ctx_return (ndrxj_get_ctx env obj True) d body) s)" by (simp add: wp_def)
  have "wp (ctx_out (ndrxj_get_ctx env obj True) d body) (\<lambda>_. native obj s) s"
    by (rule ctx_out_wp [OF wp_cons [OF get_ctx_wp] assms(1)])
       (auto simp: assms(2) native_done detach_step split: if_splits intro: native_null [OF around_refl plain_inner])
  then show "native obj s (exec (ctx_out (ndrxj_get_ctx env obj True) d body) s)" by (simp add: wp_def)
qed

lemma wp_exec: "wp m (\<lambda>_. P) s \<Longrightarrow> P (exec m s)"
  by (simp add: wp_def)

text \<open>A method with a common exit that does something else when there is no context.\<close>

lemma out_native:
  assumes "\<And>c. keeps inner (body c)" "keeps inner z" "cur_ctx (tr s) = 0"
  shows "native obj s (exec (do { c \<leftarrow> ndrxj_get_ctx env obj True; x \<leftarrow> (if c = 0 then z else body c);
    tpsetctxt TPNULLCONTEXT; State_Monad.return (f x) }) s)"
proof (rule wp_exec)
  have "native obj s (drop_ctx r t2)" if "plain s t" "inner t t2" for t t2 r
    using inner.trans [OF plain_inner [OF that(1)] that(2)] assms(3) detach_step by (auto intro: native_null [OF around_refl])
  then show "wp (do { c \<leftarrow> ndrxj_get_ctx env obj True; x \<leftarrow> (if c = 0 then z else body c);
    tpsetctxt TPNULLCONTEXT; State_Monad.return (f x) }) (\<lambda>_. native obj s) s"
    by (intro wp_bind wp_cons [OF get_ctx_wp] wp_if wp_keeps [OF assms(1)] wp_keeps [OF assms(2)] wp_tpsetctxt wp_return)
       (auto simp: native_done split: if_splits)
qed

text \<open>Methods that take copies of their arguments before they attach (\<open>s0\<close>) and release them on the way out (\<open>tail\<close>).\<close>

lemma bracket_wp:
  assumes "around s s0" "cur_ctx (tr s) = 0" "\<And>c. keeps inner (body c)"
    and tail: "\<And>x s2. wp (tail x) (\<lambda>_ t. detach s2 t \<and> copies (tr t) = copies (tr s2) + (copies (tr s) - copies (tr s0))) s2"
  shows "wp (do { c \<leftarrow> ndrxj_get_ctx env obj True;
      if c = 0 then State_Monad.return d else do { x \<leftarrow> body c; tail x } }) (\<lambda>_. native obj s) s0"
proof -
  have "native obj s t" if "attach env obj c s0 s1" "inner s1 s2" "detach s2 t"
    "copies (tr t) = copies (tr s2) + (copies (tr s) - copies (tr s0))" for c s1 s2 t
    using that(4) frameD(3) [OF that(2)] attachD(2) [OF that(1)]
    by (intro nativeI [OF assms(1) that(1-3)]) simp
  then show ?thesis
    by (intro wpx wp_cons [OF get_ctx_wp] wp_keeps [OF assms(3)] wp_cons [OF tail])
       (auto simp: assms(2) split: if_splits intro: native_null [OF assms(1) plain_inner])
qed

end
