(* ===== verification/Buffers.thy ===== *)
theory Buffers
  imports Context
begin

section \<open>Typed buffers (\<open>TypedBuffer.c\<close>, \<open>TypedString.c\<close>, \<open>TypedJson.c\<close>, \<open>TypedCarray.c\<close>, \<open>TpTypesResult.c\<close>)\<close>

text \<open>
  A \<open>TypedBuffer\<close> object wraps an XATMI buffer of the core: its fields \<open>cPtr\<close> and \<open>len\<close> hold the pointer and the
  length, \<open>doFinalize\<close> says whether the object frees the buffer when it is collected, and \<open>ctx\<close> is the \<open>AtmiCtx\<close>
  object it belongs to.  A call of the core may move the buffer or return one of another type;
  \<open>ndrxj_atmi_TypedBuffer_result_prep\<close> then brings the Java side up to date.  Sub-types are passed through and never
  looked at, and are left out; \<open>memcpy\<close> and \<open>strcpy\<close> into a buffer are events.
\<close>

definition ndrxj_TypedBuffer_finalize_transfer :: "int \<Rightarrow> int \<Rightarrow> bool \<Rightarrow> (jb, int) state" where
  "ndrxj_TypedBuffer_finalize_transfer to_data from_data from_invalidate = do {
     fin \<leftarrow> getv ''TypedBuffer_fid_doFinalize'';
     cPtr \<leftarrow> getv ''TypedBuffer_fid_cPtr'';
     doFinalize \<leftarrow> jni ''GetBooleanField'' [I from_data, I fin];
     jni ''SetBooleanField'' [I to_data, I fin, I doFinalize];
     jni ''SetBooleanField'' [I from_data, I fin, I 0];
     whenM from_invalidate (jni ''SetLongField'' [I from_data, I cPtr, I 0]);
     e \<leftarrow> jni ''ExceptionCheck'' [];
     if e \<noteq> 0 then do { NDRXJ_LOG_EXCEPTION; State_Monad.return EXFAIL } else State_Monad.return EXSUCCEED
   }"

definition ndrxj_TypedBuffer_get_ctx :: "int \<Rightarrow> int \<Rightarrow> bool \<Rightarrow> (jb, int) state" where
  "ndrxj_TypedBuffer_get_ctx env atmiBufObj do_set = do {
     fid \<leftarrow> getv ''TypedBuffer_fid_ctx'';
     atmi_ctx_obj \<leftarrow> jni ''GetObjectField'' [I atmiBufObj, I fid];
     if atmi_ctx_obj = 0 then do { NDRXJ_LOG_EXCEPTION; State_Monad.return 0 }
     else ndrxj_get_ctx env atmi_ctx_obj do_set
   }"

text \<open>The finalizer may run when the context of the object is already gone, so a temporary one is used.\<close>

definition TypedBuffer_tpfree :: "int \<Rightarrow> int \<Rightarrow> (jb, unit) state" where
  "TypedBuffer_tpfree obj cPtr = do {
     ctx \<leftarrow> ex ''tpnewctxt'' [I 0, I 1];
     ex ''tpfree'' [I cPtr];
     tpsetctxt TPNULLCONTEXT;
     ex ''tpfreectxt'' [I ctx];
     skip
   }"

subsection \<open>From the core to Java\<close>

text \<open>The class of a buffer type, by its variable name.\<close>

definition typed_class :: "string \<Rightarrow> string option" where
  "typed_class p_type =
     (if take 3 p_type = ''UBF'' \<or> take 3 p_type = ''FML'' then Some ''TypedUbf''
      else if p_type = ''CARRAY'' then Some ''TypedCarray''
      else if p_type = ''STRING'' then Some ''TypedString''
      else if p_type = ''VIEW'' then Some ''TypedView''
      else if p_type = ''JSON'' then Some ''TypedJson''
      else if p_type = ''TPINIT'' then Some ''TypedTpInit''
      else None)"

definition type_out :: "xres \<Rightarrow> string" where
  "type_out r = (case rl r of [] \<Rightarrow> [] | t # _ \<Rightarrow> t)"

text \<open>\<open>None\<close> when the type could not be read.\<close>

definition buffer_type :: "int \<Rightarrow> string option \<Rightarrow> (jb, string option) state" where
  "buffer_type data type = (case type of
     Some t \<Rightarrow> State_Monad.return (Some t)
   | None \<Rightarrow>
       if data = 0 then State_Monad.return (Some ''NULL'')
       else do {
         r \<leftarrow> ext (API ''tptypes'' [I data]);
         if ri r = EXFAIL then do { throw_tperrno 0; State_Monad.return None }
         else State_Monad.return (Some (type_out r))
       })"

definition translate_typed :: "int \<Rightarrow> int \<Rightarrow> int \<Rightarrow> string option \<Rightarrow> int \<Rightarrow> (jb, int) state" where
  "translate_typed ctx_obj data len type fin = do {
     pt \<leftarrow> buffer_type data type;
     case pt of None \<Rightarrow> State_Monad.return 0
     | Some p_type \<Rightarrow>
         if p_type = ''NULL'' then State_Monad.return 0
         else (case typed_class p_type of
           None \<Rightarrow> do {
             ndrxj_atmi_throw 0 0 TPEINVAL (''buffer type ['' @ p_type @ ''] not supported'');
             State_Monad.return 0 }
         | Some cls \<Rightarrow> do {
             bclz \<leftarrow> getv cls;
             mid \<leftarrow> getv (cls @ ''_mid_INIT'');
             jni ''NewObject'' [I bclz, I mid, I ctx_obj, I fin, I data, I len] })
   }"

definition ndrxj_atmi_TypedBuffer_translate ::
  "int \<Rightarrow> int \<Rightarrow> bool \<Rightarrow> int \<Rightarrow> int \<Rightarrow> string option \<Rightarrow> int \<Rightarrow> (jb, int) state"
where
  "ndrxj_atmi_TypedBuffer_translate env ctx_obj is_ctxset data len type fin =
     (if is_ctxset then translate_typed ctx_obj data len type fin
      else ctx_return (ndrxj_get_ctx env ctx_obj True) 0 (\<lambda>c. translate_typed ctx_obj data len type fin))"

subsection \<open>From Java to the core\<close>

text \<open>Return code, pointer, length and the \<open>doFinalize\<close> flag; for a NULL object the length \<open>len0\<close> of the caller
  stays as it is.\<close>

definition ndrxj_atmi_TypedBuffer_get_buffer ::
  "int \<Rightarrow> int \<Rightarrow> bool \<Rightarrow> bool \<Rightarrow> bool \<Rightarrow> (jb, int \<times> int \<times> int \<times> int) state"
where
  "ndrxj_atmi_TypedBuffer_get_buffer data len0 wantFinalize unsetDoFinalize unsetPtr =
     (if data = 0 then State_Monad.return (EXSUCCEED, 0, len0, 0)
      else do {
        fidp \<leftarrow> getv ''TypedBuffer_fid_cPtr'';
        fidl \<leftarrow> getv ''TypedBuffer_fid_len'';
        fidf \<leftarrow> getv ''TypedBuffer_fid_doFinalize'';
        cptr \<leftarrow> jni ''GetLongField'' [I data, I fidp];
        whenM unsetPtr (jni ''SetLongField'' [I data, I fidp, I 0]);
        clen \<leftarrow> jni ''GetLongField'' [I data, I fidl];
        f \<leftarrow> (if wantFinalize then jni ''GetBooleanField'' [I data, I fidf] else State_Monad.return 0);
        whenM unsetDoFinalize (jni ''SetBooleanField'' [I data, I fidf, I 0]);
        e \<leftarrow> jni ''ExceptionCheck'' [];
        if e \<noteq> 0 then do { NDRXJ_LOG_EXCEPTION; State_Monad.return (EXFAIL, cptr, clen, f) }
        else State_Monad.return (EXSUCCEED, cptr, clen, f)
      })"

definition ndrxj_atmi_TypedBuffer_set_buffer :: "int \<Rightarrow> int \<Rightarrow> int \<Rightarrow> (jb, int) state" where
  "ndrxj_atmi_TypedBuffer_set_buffer data buf len = do {
     fidp \<leftarrow> getv ''TypedBuffer_fid_cPtr'';
     fidl \<leftarrow> getv ''TypedBuffer_fid_len'';
     jni ''SetLongField'' [I data, I fidp, I buf];
     jni ''SetLongField'' [I data, I fidl, I len];
     State_Monad.return EXSUCCEED
   }"

definition TypedBuffer_tprealloc :: "int \<Rightarrow> int \<Rightarrow> int \<Rightarrow> (jb, unit) state" where
  "TypedBuffer_tprealloc env data sz = ctx_return (ndrxj_TypedBuffer_get_ctx env data True) () (\<lambda>c. do {
     (ret, buf, len, _) \<leftarrow> ndrxj_atmi_TypedBuffer_get_buffer data 0 False False False;
     if ret \<noteq> EXSUCCEED then skip else do {
     buf \<leftarrow> ex ''tprealloc'' [I buf, I sz];
     if buf = 0 then throw_tperrno 0
     else do { ndrxj_atmi_TypedBuffer_set_buffer data buf len; skip }
     }
   })"

text \<open>\<open>data\<close> is the object of the request, \<open>idata\<close>, \<open>ilen\<close> and \<open>itype\<close> what it held, \<open>odata\<close> and \<open>olen\<close> the buffer
  that came back.\<close>

definition ndrxj_atmi_TypedBuffer_result_prep ::
  "int \<Rightarrow> int \<Rightarrow> int \<Rightarrow> int \<Rightarrow> int \<Rightarrow> int \<Rightarrow> int \<Rightarrow> string \<Rightarrow> (jb, int) state"
where
  "ndrxj_atmi_TypedBuffer_result_prep env ctx_obj data idata ilen odata olen itype = do {
     ot \<leftarrow> (if odata \<noteq> 0 then do {
            r \<leftarrow> ext (API ''tptypes'' [I odata]);
            if ri r = EXFAIL then do {
              err \<leftarrow> ex ''tperrno'' [];
              m \<leftarrow> ext (API ''tpstrerror'' [I err]);
              ndrxj_atmi_throw 0 0 err (''Failed to get odata type infos: '' @ rs m);
              State_Monad.return None
            } else State_Monad.return (Some (type_out r))
          } else State_Monad.return (Some ''NULL''));
     case ot of None \<Rightarrow> State_Monad.return 0
     | Some otype \<Rightarrow>
         if otype = itype then do {
           fidp \<leftarrow> getv ''TypedBuffer_fid_cPtr'';
           fidl \<leftarrow> getv ''TypedBuffer_fid_len'';
           whenM (ilen \<noteq> olen) (do {
             whenM (data = 0) (fault ''SetLongField(NULL)'');
             jni ''SetLongField'' [I data, I fidl, I olen] });
           whenM (idata \<noteq> odata \<and> data \<noteq> 0) (jni ''SetLongField'' [I data, I fidp, I odata]);
           State_Monad.return data
         } else do {
           fidf \<leftarrow> getv ''TypedBuffer_fid_doFinalize'';
           finalizeOrg \<leftarrow> (if data \<noteq> 0 then do {
               f \<leftarrow> jni ''GetBooleanField'' [I data, I fidf];
               jni ''SetBooleanField'' [I data, I fidf, I 0];
               State_Monad.return f
             } else State_Monad.return 1);
           if odata = 0 then State_Monad.return 0
           else ndrxj_atmi_TypedBuffer_translate env ctx_obj True odata olen (Some otype) finalizeOrg
         }
   }"

definition ndrxj_TpTypesResult_new :: "string \<Rightarrow> string \<Rightarrow> int \<Rightarrow> (jb, int) state" where
  "ndrxj_TpTypesResult_new btype sub_type sz = do {
     jtype \<leftarrow> jni ''NewStringUTF'' [S btype];
     jsub_type \<leftarrow> jni ''NewStringUTF'' [S sub_type];
     clz \<leftarrow> getv ''TpTypesResult'';
     mid \<leftarrow> getv ''TpTypesResult_mid_INIT'';
     ret \<leftarrow> jni ''NewObject'' [I clz, I mid, I jtype, I jsub_type, I sz];
     whenM (jtype \<noteq> 0) (jni ''DeleteLocalRef'' [I jtype]);
     whenM (jsub_type \<noteq> 0) (jni ''DeleteLocalRef'' [I jsub_type]);
     State_Monad.return ret
   }"

definition subtype_out :: "xres \<Rightarrow> string" where
  "subtype_out r = (case rl r of _ # t # _ \<Rightarrow> t | _ \<Rightarrow> [])"

definition TypedBuffer_tptypes :: "int \<Rightarrow> int \<Rightarrow> (jb, int) state" where
  "TypedBuffer_tptypes env data = ctx_return (ndrxj_TypedBuffer_get_ctx env data True) 0 (\<lambda>c. do {
     (ret, cdata, clen, _) \<leftarrow> ndrxj_atmi_TypedBuffer_get_buffer data 0 False False False;
     if ret \<noteq> EXSUCCEED then State_Monad.return 0 else do {
     r \<leftarrow> ext (API ''tptypes'' [I cdata]);
     if ri r = EXFAIL then do { throw_tperrno data; State_Monad.return 0 }
     else ndrxj_TpTypesResult_new (type_out r) (subtype_out r) (ri r)
     }
   })"

subsection \<open>Strings, JSON and byte arrays\<close>

text \<open>Make the buffer at least \<open>new_size\<close> bytes long.  \<open>None\<close> when that failed (an exception is set), else the
  pointer.\<close>

definition grow_buffer :: "int \<Rightarrow> int \<Rightarrow> int \<Rightarrow> int \<Rightarrow> (jb, int option) state" where
  "grow_buffer data cdata bufsz new_size =
     (if bufsz < 1 then do { throw_tperrno data; State_Monad.return None }
      else if bufsz < new_size then do {
        cdata \<leftarrow> ex ''tprealloc'' [I cdata, I new_size];
        if cdata = 0 then do {
          ndrxj_atmi_TypedBuffer_set_buffer data 0 0;
          throw_tperrno data;
          State_Monad.return None
        } else do {
          ndrxj_atmi_TypedBuffer_set_buffer data cdata new_size;
          State_Monad.return (Some cdata)
        }
      } else State_Monad.return (Some cdata))"

definition TypedString_setString :: "int \<Rightarrow> int \<Rightarrow> int \<Rightarrow> (jb, unit) state" where
  "TypedString_setString env data s =
     (if s = 0 then ndrxj_atmi_throw data 0 TPEINVAL ''string must not be NULL!''
      else ctx_out (ndrxj_TypedBuffer_get_ctx env data True) () (\<lambda>c. do {
        (ret, cdata, clen, _) \<leftarrow> ndrxj_atmi_TypedBuffer_get_buffer data 0 False False False;
        if ret \<noteq> EXSUCCEED then skip else do {
        with_utf s (\<lambda>n_str. do {
          bufsz \<leftarrow> ex ''tptypes'' [I cdata];
          p \<leftarrow> grow_buffer data cdata bufsz (int (length (rs n_str)) + 1);
          case p of None \<Rightarrow> skip | Some cdata \<Rightarrow> do { ex ''strcpy'' [I cdata, S (rs n_str)]; skip }
        })
        }
      }))"

definition TypedString_getString :: "int \<Rightarrow> int \<Rightarrow> (jb, int) state" where
  "TypedString_getString env data = ctx_out (ndrxj_TypedBuffer_get_ctx env data True) 0 (\<lambda>c. do {
     (ret, cdata, clen, _) \<leftarrow> ndrxj_atmi_TypedBuffer_get_buffer data 0 False False False;
     if ret \<noteq> EXSUCCEED then State_Monad.return 0
     else do { str \<leftarrow> ext (API ''read'' [I cdata]); jni ''NewStringUTF'' [S (rs str)] }
   })"

definition TypedJson_setJSON :: "int \<Rightarrow> int \<Rightarrow> int \<Rightarrow> (jb, unit) state" where
  "TypedJson_setJSON env data s =
     (if s = 0 then ndrxj_atmi_throw data 0 TPEINVAL ''string must not be NULL!''
      else ctx_out (ndrxj_TypedBuffer_get_ctx env data True) () (\<lambda>c. do {
        (ret, cdata, clen, _) \<leftarrow> ndrxj_atmi_TypedBuffer_get_buffer data 0 False False False;
        if ret \<noteq> EXSUCCEED then skip else do {
        with_utf s (\<lambda>n_str. do {
          bufsz \<leftarrow> ex ''tptypes'' [I cdata];
          p \<leftarrow> grow_buffer data cdata bufsz (int (length (rs n_str)) + 1);
          case p of None \<Rightarrow> skip | Some cdata \<Rightarrow> do { ex ''strcpy'' [I cdata, S (rs n_str)]; skip }
        })
        }
      }))"

definition TypedJson_getJSON :: "int \<Rightarrow> int \<Rightarrow> (jb, int) state" where
  "TypedJson_getJSON env data = ctx_out (ndrxj_TypedBuffer_get_ctx env data True) 0 (\<lambda>c. do {
     (ret, cdata, clen, _) \<leftarrow> ndrxj_atmi_TypedBuffer_get_buffer data 0 False False False;
     if ret \<noteq> EXSUCCEED then State_Monad.return 0
     else do { str \<leftarrow> ext (API ''read'' [I cdata]); jni ''NewStringUTF'' [S (rs str)] }
   })"

text \<open>A byte array keeps its length in the object, so that is set in every case.\<close>

definition TypedCarray_setBytes :: "int \<Rightarrow> int \<Rightarrow> int \<Rightarrow> (jb, unit) state" where
  "TypedCarray_setBytes env data b =
     (if b = 0 then ndrxj_atmi_throw data 0 TPEINVAL ''byte array must not be NULL!''
      else ctx_out (ndrxj_TypedBuffer_get_ctx env data True) () (\<lambda>c. do {
        (ret, cdata, clen, _) \<leftarrow> ndrxj_atmi_TypedBuffer_get_buffer data 0 False False False;
        if ret \<noteq> EXSUCCEED then skip else do {
        with_bytes b (\<lambda>n_carray. do {
          new_size \<leftarrow> jni ''GetArrayLength'' [I b];
          bufsz \<leftarrow> ex ''tptypes'' [I cdata];
          p \<leftarrow> grow_buffer data cdata bufsz new_size;
          whenM (p \<noteq> None \<and> \<not> bufsz < new_size) (ndrxj_atmi_TypedBuffer_set_buffer data cdata new_size);
          case p of None \<Rightarrow> skip | Some cdata \<Rightarrow> do { ex ''memcpy'' [I cdata, Bs (rb n_carray), I new_size]; skip }
        })
        }
      }))"

definition TypedCarray_getBytes :: "int \<Rightarrow> int \<Rightarrow> (jb, int) state" where
  "TypedCarray_getBytes env data = ctx_out (ndrxj_TypedBuffer_get_ctx env data True) 0 (\<lambda>c. do {
     (ret, cdata, clen, _) \<leftarrow> ndrxj_atmi_TypedBuffer_get_buffer data 0 False False False;
     if ret \<noteq> EXSUCCEED then State_Monad.return 0 else do {
     arr \<leftarrow> jni ''NewByteArray'' [I clen];
     if arr = 0 then do { NDRXJ_LOG_EXCEPTION; State_Monad.return 0 } else do {
     bytes \<leftarrow> ext (API ''read'' [I cdata, I clen]);
     jni ''SetByteArrayRegion'' [I arr, I 0, I clen, Bs (rb bytes)];
     e \<leftarrow> jni ''ExceptionCheck'' [];
     whenM (e \<noteq> 0) NDRXJ_LOG_EXCEPTION;
     State_Monad.return arr
     }}
   })"

subsection \<open>The context is kept inside, and dropped at the end\<close>

lemma plain_get_buffer: "keeps plain (ndrxj_atmi_TypedBuffer_get_buffer data len0 w u p)"
  unfolding ndrxj_atmi_TypedBuffer_get_buffer_def by (intro plain_calls) (simp_all add: fns_defs)

lemma plain_set_buffer: "keeps plain (ndrxj_atmi_TypedBuffer_set_buffer data buf len)"
  unfolding ndrxj_atmi_TypedBuffer_set_buffer_def by (intro plain_calls) (simp_all add: fns_defs)

lemma plain_translate_typed: "keeps plain (translate_typed ctx_obj data len type fin)"
  unfolding translate_typed_def buffer_type_def
  by (intro plain_calls plain_throw_tperrno) (simp_all add: fns_defs)

lemma plain_translate: "keeps plain (ndrxj_atmi_TypedBuffer_translate env ctx_obj True data len type fin)"
  unfolding ndrxj_atmi_TypedBuffer_translate_def by (simp add: plain_translate_typed)

lemma plain_result_prep: "keeps plain (ndrxj_atmi_TypedBuffer_result_prep env ctx_obj data idata ilen odata olen itype)"
  unfolding ndrxj_atmi_TypedBuffer_result_prep_def
  by (intro plain_calls plain_translate) (simp_all add: fns_defs)

lemma plain_TpTypesResult_new: "keeps plain (ndrxj_TpTypesResult_new b t n)"
  unfolding ndrxj_TpTypesResult_new_def by (intro plain_calls) (simp_all add: fns_defs)

lemmas plain_bufs = plain_get_buffer plain_set_buffer plain_translate plain_result_prep plain_TpTypesResult_new
  plain_throw_tperrno

lemma inner_grow_buffer: "keeps inner (grow_buffer data cdata bufsz n)"
  unfolding grow_buffer_def
  by (intro inner_calls plain_bufs [THEN keeps_plain_inner]) (simp_all add: fns_defs)

lemmas inner_bufs = plain_bufs [THEN keeps_plain_inner] inner_grow_buffer

text \<open>A method of a buffer works in the context of the \<open>AtmiCtx\<close> object in the buffer's field \<open>ctx\<close>.\<close>

definition native_buf :: "int \<Rightarrow> jb \<Rightarrow> jb \<Rightarrow> bool" where
  "native_buf buf s t \<longleftrightarrow> 
     (\<exists>obj. (obj = 0 \<or> (JNI ''GetObjectField'' [I buf, I (gv s ''TypedBuffer_fid_ctx'')], obj) \<in> calls (tr t)) \<and> native obj s t)"

lemma native_calls: "native obj s t \<Longrightarrow> calls (tr s) \<subseteq> calls (tr t)"
  unfolding native_def using suffix_calls by blast

lemma wp_jni_orc:
  "Q (ri (orc s (tr s) (JNI f as))) (s\<lparr>tr := (JNI f as, orc s (tr s) (JNI f as)) # tr s\<rparr>) \<Longrightarrow> wp (jni f as) Q s"
  by (simp add: wp_def run_simps)

lemma buf_get_ctx_wp:
  assumes "cur_ctx (tr s) = 0"
  shows "wp (ndrxj_TypedBuffer_get_ctx env buf True)
    (\<lambda>c t. if c = 0 then native_buf buf s t \<and> (\<forall>r. native_buf buf s (drop_ctx r t))
       else \<forall>t2 r. inner t t2 \<longrightarrow> native_buf buf s (drop_ctx r t2)) s"
proof -
  define o1 where "o1 = orc s (tr s) (JNI ''GetObjectField'' [I buf, I (gv s ''TypedBuffer_fid_ctx'')])"
  define s0 where "s0 = s\<lparr>tr := (JNI ''GetObjectField'' [I buf, I (gv s ''TypedBuffer_fid_ctx'')], o1) # tr s\<rparr>"
  have ar: "around s s0" by (simp add: around_def s0_def suffix_ConsI)
  have ev: "(JNI ''GetObjectField'' [I buf, I (gv s ''TypedBuffer_fid_ctx'')], ri o1) \<in> calls (tr s0)"
    by (simp add: s0_def)
  have up: "native_buf buf s t" if "native (ri o1) s t" "suffix (tr s0) (tr t)" for t
    using that ev suffix_calls [OF that(2)] unfolding native_buf_def by blast
  have null: "native_buf buf s t1 \<and> (\<forall>r. native_buf buf s (drop_ctx r t1))"
    if "inner s0 t1" for t1
    using assms frameD(1) [OF that] detach_step
    by (auto intro!: up native_null [OF ar that] simp: suffix_ConsI)
  have att: "native_buf buf s (drop_ctx r t2)" if "attach env (ri o1) c s0 t1" "inner t1 t2" for c t1 t2 r
  proof (rule up)
    have "copies (tr s0) = copies (tr s)" by (simp add: s0_def)
    then show "native (ri o1) s (drop_ctx r t2)"
      using frameD(3) [OF that(2)] attachD(2) [OF that(1)] by (intro nativeI [OF ar that detach_step]) simp
    show "suffix (tr s0) (tr (drop_ctx r t2))"
      using attachD(1) [OF that(1)] frameD(1) [OF that(2)] by (auto simp: suffix_ConsI intro: suffix_order.trans)
  qed
  let ?Q = "\<lambda>c t. if c = 0 then native_buf buf s t \<and> (\<forall>r. native_buf buf s (drop_ctx r t))
       else \<forall>t2 r. inner t t2 \<longrightarrow> native_buf buf s (drop_ctx r t2)"
  have 1: "wp (do { NDRXJ_LOG_EXCEPTION; State_Monad.return (0::int) }) ?Q s0"
    using null by (intro wpx wp_keeps [OF plain_LOG_EXCEPTION [THEN keeps_plain_inner]]) simp
  have 2: "wp (ndrxj_get_ctx env (ri o1) True) ?Q s0"
    by (rule wp_cons [OF get_ctx_wp]) (auto simp: null att plain_inner split: if_splits)
  show ?thesis unfolding ndrxj_TypedBuffer_get_ctx_def
    by (intro wp_bind wp_getv wp_jni_orc; unfold o1_def [symmetric] s0_def [symmetric]) (intro wp_if 1 2)
qed

lemma buf_native:
  assumes "\<And>c. keeps inner (body c)" "cur_ctx (tr s) = 0"
  shows "native_buf buf s (exec (ctx_return (ndrxj_TypedBuffer_get_ctx env buf True) d body) s)"
    "native_buf buf s (exec (ctx_out (ndrxj_TypedBuffer_get_ctx env buf True) d body) s)"
proof -
  have "wp (ctx_return (ndrxj_TypedBuffer_get_ctx env buf True) d body) (\<lambda>_. native_buf buf s) s"
    by (rule ctx_return_wp [OF wp_cons [OF buf_get_ctx_wp [OF assms(2)]] assms(1)]) (auto split: if_splits)
  then show "native_buf buf s (exec (ctx_return (ndrxj_TypedBuffer_get_ctx env buf True) d body) s)" by (simp add: wp_def)
  have "wp (ctx_out (ndrxj_TypedBuffer_get_ctx env buf True) d body) (\<lambda>_. native_buf buf s) s"
    by (rule ctx_out_wp [OF wp_cons [OF buf_get_ctx_wp [OF assms(2)]] assms(1)]) (auto split: if_splits)
  then show "native_buf buf s (exec (ctx_out (ndrxj_TypedBuffer_get_ctx env buf True) d body) s)" by (simp add: wp_def)
qed

lemma buf_unused: "keeps plain m \<Longrightarrow> cur_ctx (tr s) = 0 \<Longrightarrow> native_buf buf s (exec m s)"
  unfolding native_buf_def
  by (rule exI [of _ 0]) (auto simp: keeps_def intro: native_null [OF around_refl plain_inner])

text \<open>The methods of the buffer classes.\<close>

lemma buffer_methods_native:
  assumes "cur_ctx (tr s) = 0"
  shows "native_buf data s (exec (TypedBuffer_tprealloc env data sz) s)"
    "native_buf data s (exec (TypedBuffer_tptypes env data) s)"
    "native_buf data s (exec (TypedString_setString env data j) s)"
    "native_buf data s (exec (TypedString_getString env data) s)"
    "native_buf data s (exec (TypedJson_setJSON env data j) s)"
    "native_buf data s (exec (TypedJson_getJSON env data) s)"
    "native_buf data s (exec (TypedCarray_setBytes env data j) s)"
    "native_buf data s (exec (TypedCarray_getBytes env data) s)"
  unfolding TypedBuffer_tprealloc_def TypedBuffer_tptypes_def TypedString_setString_def TypedString_getString_def
    TypedJson_setJSON_def TypedJson_getJSON_def TypedCarray_setBytes_def TypedCarray_getBytes_def
  by (((simp only: exec_if if_split; intro conjI impI)?;
      (rule buf_unused [OF plain_throws(1) assms] | rule buf_native [OF _ assms]));
      (intro inner_calls inner_bufs; simp add: fns_defs))+

subsection \<open>Writes stay inside the buffer\<close>

text \<open>\<open>cap t p\<close>: the size of the buffer \<open>p\<close> that the core reported last, by \<open>tptypes\<close> or as the size \<open>tprealloc\<close> was
  asked for.  \<open>writes_ok\<close>: every write so far fitted into it (\<open>strcpy\<close> writes the terminating zero as well).\<close>

fun arg2 :: "arg list \<Rightarrow> int" where
  "arg2 [_, I n] = n"
| "arg2 _ = 0"

fun cap :: "trace \<Rightarrow> int \<Rightarrow> int" where
  "cap [] p = 0"
| "cap ((API f as, r) # t) p =
     (if f = ''tptypes'' \<and> as = [I p] then ri r
      else if f = ''tprealloc'' \<and> ri r = p then arg2 as else cap t p)"
| "cap ((JNI f as, r) # t) p = cap t p"

fun fits :: "ev \<Rightarrow> trace \<Rightarrow> bool" where
  "fits (API f [I p, S str]) t = (f = ''strcpy'' \<longrightarrow> int (length str) + 1 \<le> cap t p)"
| "fits (API f [I p, Bs b, I n]) t = (f = ''memcpy'' \<longrightarrow> n \<le> cap t p)"
| "fits e t = True"

fun writes_ok :: "trace \<Rightarrow> bool" where
  "writes_ok [] = True"
| "writes_ok ((e, r) # t) = (fits e t \<and> writes_ok t)"

definition wr_ev :: "ev \<Rightarrow> bool" where
  "wr_ev e = (case e of JNI f as \<Rightarrow> False | API f as \<Rightarrow> f = ''strcpy'' \<or> f = ''memcpy'')"

definition nowr :: "jb \<Rightarrow> jb \<Rightarrow> bool" where
  "nowr s t \<longleftrightarrow> suffix (tr s) (tr t) \<and> obs wr_ev (tr t) = obs wr_ev (tr s)"

interpretation nowr: run_rel nowr
  by unfold_locales (auto simp: nowr_def intro: suffix_order.trans)

lemma fits_other: "\<not> wr_ev e \<Longrightarrow> fits e t"
  by (cases "(e, t)" rule: fits.cases) (auto simp: wr_ev_def)

lemma nowr_writes: "nowr s t \<Longrightarrow> writes_ok (tr s) \<Longrightarrow> writes_ok (tr t)"
proof -
  have "obs wr_ev n = [] \<Longrightarrow> writes_ok u \<Longrightarrow> writes_ok (n @ u)" for n u
    by (induction n) (auto simp: fits_other split: if_splits)
  then show "nowr s t \<Longrightarrow> writes_ok (tr s) \<Longrightarrow> writes_ok (tr t)"
    unfolding nowr_def suffix_def by (auto simp: obs_def)
qed

lemma plain_nowr: "plain s t \<Longrightarrow> nowr s t"
proof -
  have "obs wr_ev (core u) = obs wr_ev u" for u
  proof (rule obs_obs)
    show "wr_ev e \<Longrightarrow> core_ev e" for e by (cases e) (auto simp: wr_ev_def query_fns_def)
  qed
  then show "plain s t \<Longrightarrow> nowr s t" unfolding frame_def nowr_def by metis
qed

lemma keeps_nowr: "keeps plain m \<Longrightarrow> keeps nowr m"
  by (simp add: keeps_def plain_nowr)

lemma nowr_steps: "keeps nowr (jni f as)" "keeps nowr (getv v)" "keeps nowr (priv h)" "keeps nowr (set_priv h g)"
  "keeps nowr ndrx_ctx_priv_get" "keeps nowr (tpsetctxt c)" "keeps nowr (ext (JNI f as))"
  by (simp_all add: keeps_def run_simps nowr_def wr_ev_def getv_def priv_def set_priv_def ndrx_ctx_priv_get_def
      tpsetctxt_def suffix_ConsI)

lemmas nowr_rules = nowr.keeps_rules nowr_steps plain_throws [THEN keeps_nowr] plain_LOG_EXCEPTION [THEN keeps_nowr]
  plain_bufs [THEN keeps_nowr]

lemma nowr_get_ctx: "keeps nowr (ndrxj_get_ctx env obj d)" "keeps nowr (ndrxj_TypedBuffer_get_ctx env buf d)"
proof -
  show *: "keeps nowr (ndrxj_get_ctx env obj d)" for obj
    unfolding ndrxj_get_ctx_def by (intro nowr_rules)
  show "keeps nowr (ndrxj_TypedBuffer_get_ctx env buf d)"
    unfolding ndrxj_TypedBuffer_get_ctx_def by (intro nowr_rules *)
qed

lemma grow_buffer_wp:
  assumes "bufsz \<le> cap (tr s) cdata" "writes_ok (tr s)"
  shows "wp (grow_buffer data cdata bufsz n) (\<lambda>r t. writes_ok (tr t) \<and> (\<forall>p. r = Some p \<longrightarrow> n \<le> cap (tr t) p)) s"
  unfolding grow_buffer_def ndrxj_atmi_TypedBuffer_set_buffer_def using assms
  by (intro wpx wp_keeps [OF plain_throw_tperrno [THEN keeps_nowr]]) (auto dest!: nowr_writes)

text \<open>The three setters.\<close>

definition wok :: "jb \<Rightarrow> jb \<Rightarrow> bool" where
  "wok s t \<longleftrightarrow> (writes_ok (tr s) \<longrightarrow> writes_ok (tr t))"

interpretation wok: run_rel wok
  by unfold_locales (auto simp: wok_def)

lemma wok_nowr: "keeps nowr m \<Longrightarrow> keeps wok m"
  by (auto simp: keeps_def wok_def dest: nowr_writes)

lemmas wok_rules = wok.keeps_rules nowr_rules [THEN wok_nowr] nowr_get_ctx [THEN wok_nowr]

lemma wok_with:
  assumes "\<And>r. keeps wok (body r)"
  shows "keeps wok (with_utf j body)" "keeps wok (with_bytes j body)"
  unfolding with_utf_def with_bytes_def by (intro wok_rules assms)+

lemma wok_strcpy_body:
  "keeps wok (do { bufsz \<leftarrow> ex ''tptypes'' [I cdata]; p \<leftarrow> grow_buffer data cdata bufsz (int (length str) + 1);
     case p of None \<Rightarrow> skip | Some cdata \<Rightarrow> do { ex ''strcpy'' [I cdata, S str]; skip } })"
  unfolding keeps_def wok_def
proof (intro allI impI)
  fix s :: jb
  assume s: "writes_ok (tr s)"
  have "wp (do { bufsz \<leftarrow> ex ''tptypes'' [I cdata]; p \<leftarrow> grow_buffer data cdata bufsz (int (length str) + 1);
     case p of None \<Rightarrow> skip | Some cdata \<Rightarrow> do { ex ''strcpy'' [I cdata, S str]; skip } }) (\<lambda>_ t. writes_ok (tr t)) s"
    by (intro wpx wp_cons [OF grow_buffer_wp]) (auto simp: s)
  then show "writes_ok (tr (exec (do { bufsz \<leftarrow> ex ''tptypes'' [I cdata]; p \<leftarrow> grow_buffer data cdata bufsz (int (length str) + 1);
     case p of None \<Rightarrow> skip | Some cdata \<Rightarrow> do { ex ''strcpy'' [I cdata, S str]; skip } }) s))"
    by (simp add: wp_def)
qed

lemma wok_memcpy_body:
  "keeps wok (do { new_size \<leftarrow> jni ''GetArrayLength'' [I b]; bufsz \<leftarrow> ex ''tptypes'' [I cdata];
     p \<leftarrow> grow_buffer data cdata bufsz new_size;
     whenM (p \<noteq> None \<and> \<not> bufsz < new_size) (ndrxj_atmi_TypedBuffer_set_buffer data cdata new_size);
     case p of None \<Rightarrow> skip | Some cdata \<Rightarrow> do { ex ''memcpy'' [I cdata, Bs bs, I new_size]; skip } })"
  (is "keeps wok ?m")
  unfolding keeps_def wok_def
proof (intro allI impI)
  fix s :: jb
  assume s: "writes_ok (tr s)"
  have "wp ?m (\<lambda>_ t. writes_ok (tr t)) s" unfolding ndrxj_atmi_TypedBuffer_set_buffer_def
    by (intro wpx wp_cons [OF grow_buffer_wp]) (auto simp: s)
  then show "writes_ok (tr (exec ?m s))" by (simp add: wp_def)
qed



subsection \<open>The object that describes a result\<close>

text \<open>\<open>fld t x f v\<close>: the value of field \<open>f\<close> of object \<open>x\<close> after the assignments in \<open>t\<close>, when it was \<open>v\<close> at first.\<close>

fun assigned :: "ev \<Rightarrow> int \<Rightarrow> int \<Rightarrow> int option" where
  "assigned (JNI g [I x', I f', I v]) x f =
     (if (g = ''SetLongField'' \<or> g = ''SetBooleanField'') \<and> x' = x \<and> f' = f then Some v else None)"
| "assigned e x f = None"

fun fld :: "trace \<Rightarrow> int \<Rightarrow> int \<Rightarrow> int \<Rightarrow> int" where
  "fld [] x f v = v"
| "fld ((e, r) # t) x f v = (case assigned e x f of Some w \<Rightarrow> w | None \<Rightarrow> fld t x f v)"



subsection \<open>Findings\<close>

definition flt_grows :: "jb \<Rightarrow> jb \<Rightarrow> bool" where
  "flt_grows s t \<longleftrightarrow> set (flt s) \<subseteq> set (flt t)"

interpretation fg: run_rel flt_grows
  by unfold_locales (auto simp: flt_grows_def)

lemma fg_steps: "keeps flt_grows (jni f as)" "keeps flt_grows (ext e)" "keeps flt_grows (fault w)" "keeps flt_grows (getv v)"
  by (auto simp: keeps_def run_simps flt_grows_def getv_def)

lemma fg_append_msg: "keeps flt_grows (ndrxj_append_msg obj m s)"
  unfolding ndrxj_append_msg_def by (intro fg.keeps_rules fg_steps)

lemma fg_frames_loop: "keeps flt_grows (ndrxj_frames_loop n i frames m s)"
  by (induction n arbitrary: i s) (auto intro!: fg.keeps_rules fg_steps fg_append_msg)

lemma fg_backtrace: "keeps flt_grows (ndrxj_backtrace_recursive fuel exc s a b c d)"
proof (induction fuel arbitrary: exc s)
  case (Suc fuel)
  show ?case unfolding ndrxj_backtrace_recursive.simps
    by (intro fg.keeps_rules fg_steps fg_append_msg fg_frames_loop Suc)
qed (auto intro!: fg.keeps_rules fg_steps)

lemma backtrace_of_null: "0 < fuel \<Longrightarrow> ''CallObjectMethod(NULL)'' \<in> set (flt (exec (ndrxj_backtrace_recursive fuel 0 str a b c d) s))"
proof -
  assume "0 < fuel"
  then obtain n where n: "fuel = Suc n" by (cases fuel) auto
  have "wp (ndrxj_backtrace_recursive fuel 0 str a b c d) (\<lambda>_ t. ''CallObjectMethod(NULL)'' \<in> set (flt t)) s"
    unfolding n ndrxj_backtrace_recursive.simps
    apply (rule wp_bind, rule wp_if, rule wp_bind, rule wp_fault, rule wp_return)
     apply (rule wp_keeps [where R = flt_grows], intro fg.keeps_rules fg_steps fg_append_msg fg_frames_loop fg_backtrace)
     apply (auto simp: flt_grows_def)
    done
  then show ?thesis by (simp add: wp_def)
qed

text \<open>\<open>NDRXJ_LOG_EXCEPTION\<close> is meant to cope with the absence of an exception (``no JNI exception''), but when the field
  \<open>ctx\<close> of a buffer is NULL and no exception is pending, it calls \<open>getStackTrace\<close> on the NULL reference.\<close>

theorem buffer_without_context:
  assumes "\<forall>h as. ri (orc s h (JNI ''GetObjectField'' as)) = 0" "\<forall>h. ri (orc s h (JNI ''ExceptionOccurred'' [])) = 0" "0 < bt_fuel s"
  shows "''CallObjectMethod(NULL)'' \<in> set (flt (exec (ndrxj_TypedBuffer_get_ctx env buf True) s))"
  unfolding ndrxj_TypedBuffer_get_ctx_def NDRXJ_LOG_EXCEPTION_def ndrxj_exception_backtrace_def
  using assms by (simp add: run_simps getv_def backtrace_of_null)

theorem buffer_without_context_witness:
  "''CallObjectMethod(NULL)'' \<in> set (flt (exec (ndrxj_TypedBuffer_get_ctx 1 2 True)
     (jb_init (\<lambda>h e. \<lparr>ri = 0, rs = [], rb = [], ro = [], rl = []\<rparr>))))"
  by (rule buffer_without_context) (simp_all add: jb_init_def)

text \<open>The header comment of \<open>setString\<close> says that the length of the Java object is updated to match the string, but the
  length is set only when the buffer has to grow: here an 11 byte buffer takes the string \<open>abc\<close> and the object
  still says 11.\<close>

theorem setString_keeps_length:
  "let env = (\<lambda>h e. \<lparr>ri = (case e of JNI f as \<Rightarrow> (if f = ''ExceptionCheck'' then 0 else 1) | API f as \<Rightarrow> 11), rs = ''abc'', rb = [], ro = [], rl = []\<rparr>);
       s = (jb_init env)\<lparr>gv := \<lambda>v. int (length v)\<rparr>; t = exec (TypedString_setString 1 2 3) s
   in (API ''strcpy'' [I 1, S ''abc''], 11) \<in> calls (tr t) \<and> fld (tr t) 2 (gv s ''TypedBuffer_fid_len'') 11 = 11"
  unfolding Let_def TypedString_setString_def ctx_out_def ndrxj_TypedBuffer_get_ctx_def ndrxj_get_ctx_def
    ndrxj_atmi_TypedBuffer_get_buffer_def grow_buffer_def with_utf_def
  by (simp add: run_simps jb_init_def getv_def tpsetctxt_def ndrx_ctx_priv_get_def priv_def set_priv_def no_priv_def
      is_srv_def NDRXJ_CTXFLAGS_SRV_def copied_def)

end
