(* ===== verification/Convert.thy ===== *)
theory Convert
  imports Buffers
begin

section \<open>Structures of the core and Java objects (\<open>util.c\<close>, \<open>ClientId.c\<close>, \<open>TPTRANID.c\<close>, \<open>TPQCTL.c\<close>, \<open>TpSvcInfo.c\<close>, result classes)\<close>

text \<open>
  A C structure that is converted by a field table is a function from field names to values; a table entry is the
  variable of the Java field id, the field name and the Java type.  The sizes of the C fields come from the headers of
  the core (\<open>csz\<close>, by the id variable).  The XID of a transaction has its own conversions.
\<close>

datatype cval = CLong int | CStr string | CBytes "int list"

type_synonym cobj = "string \<Rightarrow> cval"
type_synonym exjobjmap = "string \<times> string \<times> string"

definition field_size :: "string \<Rightarrow> (jb, nat) state" where
  "field_size v = do { s \<leftarrow> State_Monad.get; State_Monad.return (csz s v) }"

subsection \<open>Field tables\<close>

definition cvt_str_to_c :: "int \<Rightarrow> nat \<Rightarrow> (jb, string option) state" where
  "cvt_str_to_c jstr sz =
     (if jstr = 0 then State_Monad.return (Some (snprintf_buf sz []))
      else do {
        n_str \<leftarrow> ext (JNI ''GetStringUTFChars'' [I jstr]);
        if ri n_str = 0 then do { NDRXJ_LOG_EXCEPTION; State_Monad.return None }
        else do {
          whenM (copied n_str) (jni ''ReleaseStringUTFChars'' [I jstr]);
          State_Monad.return (Some (snprintf_buf sz (rs n_str)))
        }
      })"

text \<open>The message for a wrong length is printed with three arguments missing.\<close>

definition cvt_bytes_to_c :: "int \<Rightarrow> nat \<Rightarrow> string \<Rightarrow> (jb, int list option) state" where
  "cvt_bytes_to_c jba sz clzstr =
     (if jba = 0 then State_Monad.return (Some (replicate sz 0))
      else do {
        n_carray \<leftarrow> ext (JNI ''GetByteArrayElements'' [I jba]);
        if ri n_carray = 0 then do { NDRXJ_LOG_EXCEPTION; State_Monad.return None }
        else do {
          len \<leftarrow> jni ''GetArrayLength'' [I jba];
          if len \<noteq> int sz then do {
            fault ''vsnprintf: missing arguments'';
            ndrxj_atmi_throw 0 0 TPEINVAL (''Class ['' @ clzstr @ ''] field '');
            whenM (copied n_carray) (jni ''ReleaseByteArrayElements'' [I jba]);
            State_Monad.return None
          } else do {
            whenM (copied n_carray) (jni ''ReleaseByteArrayElements'' [I jba]);
            State_Monad.return (Some (rb n_carray))
          }
        }
      })"

definition cvt_field_to_c :: "string \<Rightarrow> int \<Rightarrow> exjobjmap \<Rightarrow> cobj \<Rightarrow> (jb, cobj option) state" where
  "cvt_field_to_c clzstr jobj e cobj = (case e of (fidv, field, ftype) \<Rightarrow> do {
     fid \<leftarrow> getv fidv;
     sz \<leftarrow> field_size fidv;
     if ftype = ''J'' then do {
       v \<leftarrow> jni ''GetLongField'' [I jobj, I fid];
       State_Monad.return (Some (cobj(field := CLong v)))
     } else if ftype = ''Ljava/lang/String;'' then do {
       jstr \<leftarrow> jni ''GetObjectField'' [I jobj, I fid];
       v \<leftarrow> cvt_str_to_c jstr sz;
       State_Monad.return (map_option (\<lambda>v. cobj(field := CStr v)) v)
     } else if ftype = ''[B'' then do {
       jba \<leftarrow> jni ''GetObjectField'' [I jobj, I fid];
       v \<leftarrow> cvt_bytes_to_c jba sz clzstr;
       State_Monad.return (map_option (\<lambda>v. cobj(field := CBytes v)) v)
     } else State_Monad.return (Some cobj)
   })"

fun ndrxj_cvt_to_c :: "exjobjmap list \<Rightarrow> string \<Rightarrow> int \<Rightarrow> cobj \<Rightarrow> (jb, int \<times> cobj) state" where
  "ndrxj_cvt_to_c [] clzstr jobj cobj = State_Monad.return (EXSUCCEED, cobj)"
| "ndrxj_cvt_to_c (e # tab) clzstr jobj cobj = do {
     c \<leftarrow> cvt_field_to_c clzstr jobj e cobj;
     case c of None \<Rightarrow> State_Monad.return (EXFAIL, cobj)
     | Some cobj \<Rightarrow> ndrxj_cvt_to_c tab clzstr jobj cobj
   }"

fun c_long :: "cval \<Rightarrow> int" where "c_long (CLong v) = v" | "c_long _ = 0"
fun c_str :: "cval \<Rightarrow> string" where "c_str (CStr v) = v" | "c_str _ = []"
fun c_bytes :: "cval \<Rightarrow> int list" where "c_bytes (CBytes v) = v" | "c_bytes _ = []"

definition cvt_field_to_java :: "int \<Rightarrow> exjobjmap \<Rightarrow> cobj \<Rightarrow> (jb, bool) state" where
  "cvt_field_to_java jobj e cobj = (case e of (fidv, field, ftype) \<Rightarrow> do {
     fid \<leftarrow> getv fidv;
     sz \<leftarrow> field_size fidv;
     if ftype = ''J'' then do {
       jni ''SetLongField'' [I jobj, I fid, I (c_long (cobj field))];
       State_Monad.return True
     } else if ftype = ''Ljava/lang/String;'' then do {
       str \<leftarrow> jni ''NewStringUTF'' [S (c_str (cobj field))];
       jni ''SetObjectField'' [I jobj, I fid, I str];
       jni ''DeleteLocalRef'' [I str];
       State_Monad.return True
     } else if ftype = ''[B'' then do {
       jba \<leftarrow> jni ''NewByteArray'' [I (int sz)];
       if jba = 0 then do { NDRXJ_LOG_EXCEPTION; State_Monad.return False }
       else do {
         jni ''SetByteArrayRegion'' [I jba, I 0, I (int sz), Bs (c_bytes (cobj field))];
         jni ''SetObjectField'' [I jobj, I fid, I jba];
         jni ''DeleteLocalRef'' [I jba];
         State_Monad.return True
       }
     } else State_Monad.return True
   })"

fun ndrxj_cvt_to_java :: "exjobjmap list \<Rightarrow> cobj \<Rightarrow> int \<Rightarrow> (jb, int) state" where
  "ndrxj_cvt_to_java [] cobj jobj = State_Monad.return EXSUCCEED"
| "ndrxj_cvt_to_java (e # tab) cobj jobj = do {
     ok \<leftarrow> cvt_field_to_java jobj e cobj;
     if ok then ndrxj_cvt_to_java tab cobj jobj else State_Monad.return EXFAIL
   }"

text \<open>Return code and the C string.\<close>

definition ndrxj_cvt_jstr_to_c :: "int \<Rightarrow> nat \<Rightarrow> (jb, int \<times> string) state" where
  "ndrxj_cvt_jstr_to_c jstr outstrsz = do {
     n_str \<leftarrow> ext (JNI ''GetStringUTFChars'' [I jstr]);
     if ri n_str = 0 then do { NDRXJ_LOG_EXCEPTION; State_Monad.return (EXFAIL, []) }
     else do {
       whenM (copied n_str) (jni ''ReleaseStringUTFChars'' [I jstr]);
       State_Monad.return (EXSUCCEED, snprintf_buf outstrsz (rs n_str))
     }
   }"

fun arr_fill :: "int \<Rightarrow> int \<Rightarrow> string list \<Rightarrow> (jb, unit) state" where
  "arr_fill ret i [] = skip"
| "arr_fill ret i (el # list) = do {
     str \<leftarrow> jni ''NewStringUTF'' [S el];
     jni ''SetObjectArrayElement'' [I ret, I i, I str];
     jni ''DeleteLocalRef'' [I str];
     arr_fill ret (i + 1) list
   }"

definition ndrxj_cvt_arr_c_to_java :: "string list \<Rightarrow> int \<Rightarrow> (jb, int) state" where
  "ndrxj_cvt_arr_c_to_java list nrel = do {
     clz \<leftarrow> getv ''String'';
     ret \<leftarrow> jni ''NewObjectArray'' [I nrel, I clz, I 0];
     arr_fill ret 0 list;
     State_Monad.return ret
   }"

subsection \<open>Transaction identifiers\<close>

definition XIDDATASIZE :: nat where "XIDDATASIZE = 128"

record XID =
  formatID :: int
  gtrid_length :: int
  bqual_length :: int
  xdata :: "int list"

definition ndrxj_cvt_xid_to_java :: "XID \<Rightarrow> (jb, int) state" where
  "ndrxj_cvt_xid_to_java xid = do {
     jba \<leftarrow> jni ''NewByteArray'' [I (int XIDDATASIZE)];
     if jba = 0 then do { NDRXJ_LOG_EXCEPTION; State_Monad.return 0 }
     else do {
       jni ''SetByteArrayRegion'' [I jba, I 0, I (int XIDDATASIZE), Bs (xdata xid)];
       clz \<leftarrow> getv ''ExXid'';
       mid \<leftarrow> getv ''ExXid_mid_INIT'';
       ret \<leftarrow> jni ''NewObject'' [I clz, I mid, I (formatID xid), I (gtrid_length xid), I (bqual_length xid), I jba];
       whenM (ret = 0) NDRXJ_LOG_EXCEPTION;
       jni ''DeleteLocalRef'' [I jba];
       State_Monad.return ret
     }
   }"

text \<open>\<open>memcpy\<close> of \<open>bs\<close> to offset \<open>k\<close> of the data of an XID.\<close>

definition overlay :: "int list \<Rightarrow> nat \<Rightarrow> int list \<Rightarrow> int list" where
  "overlay d k bs = take k d @ bs @ drop (k + length bs) d"

text \<open>The calls of \<open>ndrxj_cvt_xid_to_c\<close> up to the copies, and its exit.\<close>

definition xid_fetch :: "int \<Rightarrow> (jb, int \<times> int \<times> int \<times> int \<times> int \<times> xres \<times> xres) state" where
  "xid_fetch j_xid = do {
     mf \<leftarrow> getv ''Xid_mid_getFormatId'';
     mb \<leftarrow> getv ''Xid_mid_getBranchQualifier'';
     mg \<leftarrow> getv ''Xid_mid_getGlobalTransactionId'';
     formatId \<leftarrow> jni ''CallLongMethod'' [I j_xid, I mf];
     jbqa \<leftarrow> jni ''CallObjectMethod'' [I j_xid, I mb];
     whenM (jbqa = 0) (fault ''GetArrayLength(NULL)'');
     jbqa_len \<leftarrow> jni ''GetArrayLength'' [I jbqa];
     jgtid \<leftarrow> jni ''CallObjectMethod'' [I j_xid, I mg];
     whenM (jgtid = 0) (fault ''GetArrayLength(NULL)'');
     jgtid_len \<leftarrow> jni ''GetArrayLength'' [I jgtid];
     n_gtid \<leftarrow> ext (JNI ''GetByteArrayElements'' [I jgtid]);
     n_bqa \<leftarrow> ext (JNI ''GetByteArrayElements'' [I jbqa]);
     State_Monad.return (formatId, jbqa, jbqa_len, jgtid, jgtid_len, n_gtid, n_bqa)
   }"

definition xid_release :: "int \<Rightarrow> int \<Rightarrow> xres \<Rightarrow> xres \<Rightarrow> (jb, unit) state" where
  "xid_release jbqa jgtid n_gtid n_bqa = do {
     whenM (jbqa \<noteq> 0) (jni ''DeleteLocalRef'' [I jbqa]);
     whenM (jgtid \<noteq> 0) (jni ''DeleteLocalRef'' [I jgtid]);
     whenM (copied n_gtid) (jni ''ReleaseByteArrayElements'' [I jgtid]);
     whenM (copied n_bqa) (jni ''ReleaseByteArrayElements'' [I jbqa])
   }"

definition ndrxj_cvt_xid_to_c :: "int \<Rightarrow> (jb, int \<times> XID) state" where
  "ndrxj_cvt_xid_to_c j_xid = do {
     (formatId, jbqa, jbqa_len, jgtid, jgtid_len, n_gtid, n_bqa) \<leftarrow> xid_fetch j_xid;
     whenM (jgtid_len + jbqa_len > int XIDDATASIZE) (fault ''memcpy: XID overflow'');
     xid_release jbqa jgtid n_gtid n_bqa;
     State_Monad.return (EXSUCCEED, \<lparr>formatID = formatId, gtrid_length = jgtid_len, bqual_length = jbqa_len,
       xdata = overlay (overlay (replicate XIDDATASIZE 0) 0 (rb n_gtid)) (nat jgtid_len) (rb n_bqa)\<rparr>)
   }"

subsection \<open>Client id, transaction id and queue control\<close>

definition ndrxj_atmi_ClientId_translate_toc :: "int \<Rightarrow> (jb, int \<times> string) state" where
  "ndrxj_atmi_ClientId_translate_toc in_jcltid = do {
     fid \<leftarrow> getv ''ClientId_fid_clientData'';
     sz \<leftarrow> field_size ''ClientId_fid_clientData'';
     clientData \<leftarrow> jni ''GetObjectField'' [I in_jcltid, I fid];
     s \<leftarrow> with_utf clientData (\<lambda>n_clientData. State_Monad.return (snprintf_buf sz (rs n_clientData)));
     State_Monad.return (EXSUCCEED, s)
   }"

definition clientid_new :: "string \<Rightarrow> (jb, int) state" where
  "clientid_new cltid = do {
     jclientdata \<leftarrow> jni ''NewStringUTF'' [S cltid];
     clz \<leftarrow> getv ''ClientId'';
     mid \<leftarrow> getv ''ClientId_mid_INIT'';
     ret \<leftarrow> jni ''NewObject'' [I clz, I mid, I jclientdata];
     whenM (ret \<noteq> 0) (jni ''DeleteLocalRef'' [I jclientdata]);
     State_Monad.return ret
   }"

definition ndrxj_atmi_ClientId_translate :: "int \<Rightarrow> int \<Rightarrow> bool \<Rightarrow> string \<Rightarrow> (jb, int) state" where
  "ndrxj_atmi_ClientId_translate env ctx_obj is_ctxset cltid =
     (if is_ctxset then clientid_new cltid
      else ctx_return (ndrxj_get_ctx env ctx_obj True) 0 (\<lambda>c. clientid_new cltid))"

definition TPTRANID_fieldmap :: "exjobjmap list" where
  "TPTRANID_fieldmap = [(''TPTRANID_fid_data'', ''data'', ''[B'')]"

text \<open>A failed conversion always ends with an exception.\<close>

definition ensure_exception :: "string \<Rightarrow> (jb, unit) state" where
  "ensure_exception msg = do {
     e \<leftarrow> jni ''ExceptionCheck'' [];
     if e = 0 then ndrxj_atmi_throw 0 0 TPEINVAL msg else skip
   }"

definition ndrxj_atmi_TPTRANID_translate2c :: "int \<Rightarrow> cobj \<Rightarrow> (jb, int \<times> cobj) state" where
  "ndrxj_atmi_TPTRANID_translate2c tid_Java tid_c = do {
     (ret, tid) \<leftarrow> ndrxj_cvt_to_c TPTRANID_fieldmap ''org/endurox/TPTRANID'' tid_Java tid_c;
     whenM (ret \<noteq> EXSUCCEED) (ensure_exception ''Failed to convert TPTRANID to C from java - see logs!'');
     State_Monad.return (ret, tid)
   }"

definition ndrxj_atmi_TPTRANID_translate2java :: "int \<Rightarrow> cobj \<Rightarrow> (jb, int) state" where
  "ndrxj_atmi_TPTRANID_translate2java tid_Java tid_c = do {
     clz \<leftarrow> getv ''TPTRANID'';
     mid \<leftarrow> getv ''TPTRANID_mid_INIT'';
     retObj \<leftarrow> (if tid_Java = 0 then jni ''NewObject'' [I clz, I mid] else State_Monad.return tid_Java);
     ret \<leftarrow> ndrxj_cvt_to_java TPTRANID_fieldmap tid_c retObj;
     whenM (ret \<noteq> EXSUCCEED \<and> retObj \<noteq> 0 \<and> tid_Java = 0) (jni ''DeleteLocalRef'' [I retObj]);
     whenM (ret \<noteq> EXSUCCEED) (ensure_exception ''Failed to convert C TPTRANID to java - see logs!'');
     State_Monad.return retObj
   }"

definition TPQCTL_fieldmap :: "exjobjmap list" where
  "TPQCTL_fieldmap = [
     (''TPQCTL_fid_flags'', ''flags'', ''J''),
     (''TPQCTL_fid_priority'', ''priority'', ''J''),
     (''TPQCTL_fid_diagnostic'', ''diagnostic'', ''J''),
     (''TPQCTL_fid_diagmsg'', ''diagmsg'', ''Ljava/lang/String;''),
     (''TPQCTL_fid_msgid'', ''msgid'', ''[B''),
     (''TPQCTL_fid_corrid'', ''corrid'', ''[B''),
     (''TPQCTL_fid_replyqueue'', ''replyqueue'', ''Ljava/lang/String;''),
     (''TPQCTL_fid_failurequeue'', ''failurequeue'', ''Ljava/lang/String;''),
     (''TPQCTL_fid_urcode'', ''urcode'', ''J''),
     (''TPQCTL_fid_appkey'', ''appkey'', ''J''),
     (''TPQCTL_fid_delivery_qos'', ''delivery_qos'', ''J''),
     (''TPQCTL_fid_reply_qos'', ''reply_qos'', ''J''),
     (''TPQCTL_fid_exp_time'', ''exp_time'', ''J'')]"

definition ndrxj_atmi_TPQCTL_translate2c :: "int \<Rightarrow> cobj \<Rightarrow> (jb, int \<times> cobj) state" where
  "ndrxj_atmi_TPQCTL_translate2c ctl_Java ctl_c = do {
     (ret, ctl) \<leftarrow> ndrxj_cvt_to_c TPQCTL_fieldmap ''org/endurox/TPQCTL'' ctl_Java ctl_c;
     (ret, ctl) \<leftarrow> (if ret \<noteq> EXSUCCEED then State_Monad.return (EXFAIL, ctl) else do {
       fid \<leftarrow> getv ''TPQCTL_fid_cltid'';
       jcltid \<leftarrow> jni ''GetObjectField'' [I ctl_Java, I fid];
       if jcltid = 0 then State_Monad.return (EXSUCCEED, ctl(''cltid'' := CStr []))
       else do {
         (r, cltid) \<leftarrow> ndrxj_atmi_ClientId_translate_toc jcltid;
         if r \<noteq> EXSUCCEED then do {
           e \<leftarrow> jni ''ExceptionCheck'' [];
           whenM (e = 0) (ndrxj_atmi_throw 0 0 TPESYSTEM ''Failed to translate jclientid to C'');
           State_Monad.return (EXFAIL, ctl)
         } else State_Monad.return (EXSUCCEED, ctl(''cltid'' := CStr cltid))
       }});
     whenM (ret \<noteq> EXSUCCEED) (ensure_exception ''Failed to convert TPQCTL to C from java - see logs!'');
     State_Monad.return (ret, ctl)
   }"

definition ndrxj_atmi_TPQCTL_translate2java :: "int \<Rightarrow> int \<Rightarrow> int \<Rightarrow> cobj \<Rightarrow> (jb, int) state" where
  "ndrxj_atmi_TPQCTL_translate2java env ctx_obj ctl_Java ctl_c = do {
     clz \<leftarrow> getv ''TPQCTL'';
     mid \<leftarrow> getv ''TPQCTL_mid_INIT'';
     fid \<leftarrow> getv ''TPQCTL_fid_cltid'';
     retObj \<leftarrow> (if ctl_Java = 0 then jni ''NewObject'' [I clz, I mid] else State_Monad.return ctl_Java);
     ret \<leftarrow> ndrxj_cvt_to_java TPQCTL_fieldmap ctl_c retObj;
     ret \<leftarrow> (if ret \<noteq> EXSUCCEED then State_Monad.return EXFAIL else do {
       jcltid \<leftarrow> ndrxj_atmi_ClientId_translate env ctx_obj True (c_str (ctl_c ''cltid''));
       if jcltid = 0 then State_Monad.return EXFAIL
       else do { jni ''SetObjectField'' [I retObj, I fid, I jcltid]; State_Monad.return EXSUCCEED } });
     whenM (retObj \<noteq> 0 \<and> ret \<noteq> EXSUCCEED \<and> ctl_Java = 0) (jni ''DeleteLocalRef'' [I retObj]);
     whenM (ret \<noteq> EXSUCCEED) (ensure_exception ''Failed to convert C TPQCTL to java - see logs!'');
     State_Monad.return retObj
   }"

subsection \<open>Service call information and result objects\<close>

record TPSVCINFO =
  svc_name :: string
  svc_fname :: string
  svc_data :: int
  svc_len :: int
  svc_flags :: int
  svc_cd :: int
  svc_appkey :: int
  svc_cltid :: string

text \<open>The result with the references that the caller deletes: \<open>jdata\<close>, \<open>jcltid\<close>, \<open>jname\<close> and \<open>jfname\<close>.\<close>

definition svcinfo_new :: "int \<Rightarrow> int \<Rightarrow> TPSVCINFO \<Rightarrow> (jb, int \<times> int \<times> int \<times> int \<times> int) state" where
  "svcinfo_new env ctx_obj svcinfo = do {
     jdata \<leftarrow> ndrxj_atmi_TypedBuffer_translate env ctx_obj True (svc_data svcinfo) (svc_len svcinfo) None 0;
     jcltid \<leftarrow> ndrxj_atmi_ClientId_translate env ctx_obj True (svc_cltid svcinfo);
     if jcltid = 0 then State_Monad.return (0, jdata, 0, 0, 0) else do {
     jname \<leftarrow> jni ''NewStringUTF'' [S (svc_name svcinfo)];
     jfname \<leftarrow> jni ''NewStringUTF'' [S (svc_fname svcinfo)];
     clz \<leftarrow> getv ''TpSvcInfo'';
     mid \<leftarrow> getv ''TpSvcInfo_mid_INIT'';
     ret \<leftarrow> jni ''NewObject'' [I clz, I mid, I jname, I jdata, I (svc_flags svcinfo), I (svc_cd svcinfo),
       I (svc_appkey svcinfo), I jcltid, I jfname];
     State_Monad.return (ret, jdata, jcltid, jname, jfname)
     }
   }"

definition ndrxj_atmi_TpSvcInfo_translate ::
  "int \<Rightarrow> int \<Rightarrow> bool \<Rightarrow> TPSVCINFO \<Rightarrow> (jb, int \<times> int \<times> int \<times> int \<times> int) state"
where
  "ndrxj_atmi_TpSvcInfo_translate env ctx_obj is_ctxset svcinfo =
     (if is_ctxset then svcinfo_new env ctx_obj svcinfo
      else ctx_return (ndrxj_get_ctx env ctx_obj True) (0, 0, 0, 0, 0) (\<lambda>c. svcinfo_new env ctx_obj svcinfo))"

definition ndrxj_TpgetrplyResult_new :: "int \<Rightarrow> int \<Rightarrow> (jb, int) state" where
  "ndrxj_TpgetrplyResult_new cd odata = do {
     clz \<leftarrow> getv ''TpgetrplyResult'';
     mid \<leftarrow> getv ''TpgetrplyResult_mid_INIT'';
     jni ''NewObject'' [I clz, I mid, I cd, I odata]
   }"

definition ndrxj_TprecvResult_new :: "int \<Rightarrow> int \<Rightarrow> int \<Rightarrow> (jb, int) state" where
  "ndrxj_TprecvResult_new cd odata revent = do {
     clz \<leftarrow> getv ''TprecvResult'';
     mid \<leftarrow> getv ''TprecvResult_mid_INIT'';
     jni ''NewObject'' [I clz, I mid, I cd, I odata, I revent]
   }"

definition ndrxj_BNextResult_new :: "int \<Rightarrow> int \<Rightarrow> int \<Rightarrow> (jb, int) state" where
  "ndrxj_BNextResult_new bfldid occ len = do {
     clz \<leftarrow> getv ''BNextResult'';
     mid \<leftarrow> getv ''BNextResult_mid_INIT'';
     jni ''NewObject'' [I clz, I mid, I bfldid, I occ, I len]
   }"

definition ndrxj_BExprTree_ptr_get :: "int \<Rightarrow> (jb, int) state" where
  "ndrxj_BExprTree_ptr_get ptrO = do { fid \<leftarrow> getv ''BExprTree_fid_cPtr''; jni ''GetLongField'' [I ptrO, I fid] }"

definition ndrxj_BExprTree_ptr_set :: "int \<Rightarrow> int \<Rightarrow> (jb, unit) state" where
  "ndrxj_BExprTree_ptr_set ptrO new_ptr = do {
     fid \<leftarrow> getv ''BExprTree_fid_cPtr''; jni ''SetLongField'' [I ptrO, I fid, I new_ptr]; skip }"

definition ndrxj_BExprTree_new :: "int \<Rightarrow> (jb, int) state" where
  "ndrxj_BExprTree_new ptr = do {
     clz \<leftarrow> getv ''BExprTree'';
     mid \<leftarrow> getv ''BExprTree_mid_INIT'';
     jni ''NewObject'' [I clz, I mid, I ptr]
   }"

definition BExprTree_Btreefree :: "int \<Rightarrow> int \<Rightarrow> (jb, unit) state" where
  "BExprTree_Btreefree exptree cPtr = do {
     ctx \<leftarrow> ex ''tpnewctxt'' [I 0, I 1];
     ex ''Btreefree'' [I cPtr];
     tpsetctxt TPNULLCONTEXT;
     ex ''tpfreectxt'' [I ctx];
     skip
   }"

subsection \<open>The Java side of an XID (\<open>ExXid.java\<close>)\<close>

record ExXid =
  ex_formatID :: int
  ex_gtrid_length :: int
  ex_bqual_length :: int
  ex_data :: "int list"
  trxid :: "int list"
  bqual :: "int list"

definition ExXid_new :: "int \<Rightarrow> int \<Rightarrow> int \<Rightarrow> int list \<Rightarrow> ExXid" where
  "ExXid_new fmt gl bl d = \<lparr>ex_formatID = fmt, ex_gtrid_length = gl, ex_bqual_length = bl, ex_data = d,
     trxid = take (nat gl) d, bqual = take (nat bl) (drop (nat gl) d)\<rparr>"

text \<open>The cast to \<open>int\<close>.\<close>

definition ExXid_getFormatId :: "ExXid \<Rightarrow> int" where
  "ExXid_getFormatId x = signed_take_bit 31 (ex_formatID x)"

definition ExXid_getGlobalTransactionId :: "ExXid \<Rightarrow> int list" where
  "ExXid_getGlobalTransactionId x = trxid x"

definition ExXid_getBranchQualifier :: "ExXid \<Rightarrow> int list" where
  "ExXid_getBranchQualifier x = bqual x"

definition ExXid_equals :: "ExXid \<Rightarrow> ExXid \<Rightarrow> bool" where
  "ExXid_equals x y \<longleftrightarrow> bqual x = bqual y \<and> ex_formatID x = ex_formatID y \<and> trxid x = trxid y"

subsection \<open>The conversions are plain\<close>

lemma plain_field_size: "keeps plain (field_size v)"
  by (simp add: keeps_def field_size_def run_simps frame_def)

lemma plain_cvt_str: "keeps plain (cvt_str_to_c jstr sz)"
  unfolding cvt_str_to_c_def
  by (rule keeps_wp) (intro wpx wp_keeps [OF plain_LOG_EXCEPTION];
      auto simp: frame_def suffix_ConsI copied_def dest: suffix_ConsD)

lemma plain_cvt_bytes: "keeps plain (cvt_bytes_to_c jba sz cls)"
  unfolding cvt_bytes_to_c_def
  by (rule keeps_wp) (intro wpx wp_keeps [OF plain_LOG_EXCEPTION] wp_keeps [OF plain_throws(1)];
      auto simp: frame_def suffix_ConsI copied_def intro: suffix_ConsI dest: suffix_ConsD)

lemma plain_cvt_field: "keeps plain (cvt_field_to_c cls jobj e cobj)" "keeps plain (cvt_field_to_java jobj e cobj)"
  unfolding cvt_field_to_c_def cvt_field_to_java_def
  by (intro plain_calls plain_field_size plain_cvt_str plain_cvt_bytes; simp add: fns_defs)+

lemma plain_cvt: "keeps plain (ndrxj_cvt_to_c tab cls jobj cobj)" "keeps plain (ndrxj_cvt_to_java tab cobj jobj)"
proof -
  show "keeps plain (ndrxj_cvt_to_c tab cls jobj cobj)"
    by (induction tab arbitrary: cobj) (auto intro!: plain_calls plain_cvt_field)
  show "keeps plain (ndrxj_cvt_to_java tab cobj jobj)"
    by (induction tab) (auto intro!: plain_calls plain_cvt_field)
qed

lemma plain_cvt_jstr: "keeps plain (ndrxj_cvt_jstr_to_c jstr sz)"
  unfolding ndrxj_cvt_jstr_to_c_def
  by (rule keeps_wp) (intro wpx wp_keeps [OF plain_LOG_EXCEPTION];
      auto simp: frame_def suffix_ConsI copied_def dest: suffix_ConsD)

lemma plain_cvt_arr: "keeps plain (ndrxj_cvt_arr_c_to_java list n)"
proof -
  have "keeps plain (arr_fill ret i list)" for ret i
    by (induction list arbitrary: i) (auto intro!: plain_calls simp: fns_defs)
  then show ?thesis unfolding ndrxj_cvt_arr_c_to_java_def by (intro plain_calls) (simp_all add: fns_defs)
qed

lemma plain_xid_to_java: "keeps plain (ndrxj_cvt_xid_to_java xid)"
  unfolding ndrxj_cvt_xid_to_java_def by (intro plain_calls) (simp_all add: fns_defs)

lemma plain_ClientId: "keeps plain (ndrxj_atmi_ClientId_translate_toc j)" "keeps plain (ndrxj_atmi_ClientId_translate env ctx_obj True c)"
  unfolding ndrxj_atmi_ClientId_translate_toc_def ndrxj_atmi_ClientId_translate_def clientid_new_def if_True
  by (intro plain_calls plain_field_size; simp add: fns_defs)+

lemma plain_ensure_exception: "keeps plain (ensure_exception m)"
  unfolding ensure_exception_def by (intro plain_calls) (simp_all add: fns_defs)

lemma plain_TPTRANID: "keeps plain (ndrxj_atmi_TPTRANID_translate2c j c)" "keeps plain (ndrxj_atmi_TPTRANID_translate2java j c)"
  unfolding ndrxj_atmi_TPTRANID_translate2c_def ndrxj_atmi_TPTRANID_translate2java_def
  by (intro plain_calls plain_cvt plain_ensure_exception; simp add: fns_defs)+

lemma plain_TPQCTL: "keeps plain (ndrxj_atmi_TPQCTL_translate2c j c)" "keeps plain (ndrxj_atmi_TPQCTL_translate2java env ctx_obj j c)"
  unfolding ndrxj_atmi_TPQCTL_translate2c_def ndrxj_atmi_TPQCTL_translate2java_def
  by (intro plain_calls plain_cvt plain_ensure_exception plain_ClientId; simp add: fns_defs)+

lemma plain_TpSvcInfo: "keeps plain (ndrxj_atmi_TpSvcInfo_translate env ctx_obj True i)"
  unfolding ndrxj_atmi_TpSvcInfo_translate_def svcinfo_new_def if_True
  by (intro plain_calls plain_translate plain_ClientId) (simp_all add: fns_defs)

lemma plain_results: "keeps plain (ndrxj_TpgetrplyResult_new cd d)" "keeps plain (ndrxj_TprecvResult_new cd d ev)"
  "keeps plain (ndrxj_BNextResult_new b oc l)" "keeps plain (ndrxj_BExprTree_ptr_get p)"
  "keeps plain (ndrxj_BExprTree_ptr_set p q)" "keeps plain (ndrxj_BExprTree_new p)"
  unfolding ndrxj_TpgetrplyResult_new_def ndrxj_TprecvResult_new_def ndrxj_BNextResult_new_def ndrxj_BExprTree_ptr_get_def
    ndrxj_BExprTree_ptr_set_def ndrxj_BExprTree_new_def
  by (intro plain_calls; simp add: fns_defs)+

text \<open>The copies of an XID are released after the local references to their arrays have been deleted; as calls
  they still balance.\<close>

lemma xid_fetch_wp:
  "wp (xid_fetch j) (\<lambda>(f, b, bl, g, gl, ng, nb) t. suffix (tr s) (tr t) \<and> core (tr t) = core (tr s) \<and> privs t = privs s \<and>
     cfg t = cfg s \<and> copies (tr t) = copies (tr s) + (if copied ng then 1 else 0) + (if copied nb then 1 else 0)) s"
  unfolding xid_fetch_def by (intro wpx; simp add: suffix_ConsI)

lemma xid_release_wp:
  "wp (xid_release b g ng nb) (\<lambda>_ t. suffix (tr s) (tr t) \<and> core (tr t) = core (tr s) \<and> privs t = privs s \<and>
     cfg t = cfg s \<and> copies (tr t) = copies (tr s) - (if copied ng then 1 else 0) - (if copied nb then 1 else 0)) s"
  unfolding xid_release_def by (intro wpx; simp add: suffix_ConsI)

lemma plain_xid_to_c: "keeps plain (ndrxj_cvt_xid_to_c j)"
  unfolding ndrxj_cvt_xid_to_c_def
  by (rule keeps_wp) (intro wpx wp_cons [OF xid_fetch_wp] wp_cons [OF xid_release_wp];
      auto simp: frame_def intro: suffix_order.trans)

lemmas plain_conv = plain_bufs plain_cvt_jstr plain_cvt_arr plain_xid_to_java plain_xid_to_c plain_ClientId plain_TPTRANID
  plain_TPQCTL plain_TpSvcInfo plain_results

lemmas inner_conv = plain_conv [THEN keeps_plain_inner]

subsection \<open>Round trips\<close>

text \<open>
  What the Java heap holds, read from the trace: the content \<open>arr\<close> of the byte array a reference stands for, the \<open>ExXid\<close>
  object \<open>xids\<close> created under a reference, and the content \<open>flds\<close> of the array last stored in a field of an object.
  \<open>mg\<close> and \<open>mb\<close> are the ids of the two array valued methods of \<open>Xid\<close>.
\<close>

record jheap =
  arr :: "int \<Rightarrow> int list"
  xids :: "int \<Rightarrow> ExXid"
  flds :: "int \<Rightarrow> int \<Rightarrow> int list"

fun ival :: "arg \<Rightarrow> int" where "ival (I a) = a" | "ival _ = 0"
fun bval :: "arg \<Rightarrow> int list" where "bval (Bs b) = b" | "bval _ = []"

definition heap_ev :: "int \<Rightarrow> int \<Rightarrow> string \<Rightarrow> arg list \<Rightarrow> int \<Rightarrow> jheap \<Rightarrow> jheap" where
  "heap_ev mg mb f as r H =
     (if f = ''SetByteArrayRegion'' then (case as of [a, off, n, b] \<Rightarrow> H\<lparr>arr := (arr H)(ival a := bval b)\<rparr> | _ \<Rightarrow> H)
      else if f = ''CallObjectMethod'' then (case as of [x, m] \<Rightarrow>
        H\<lparr>arr := (arr H)(r :=
          if ival m = mg then ExXid_getGlobalTransactionId (xids H (ival x))
          else if ival m = mb then ExXid_getBranchQualifier (xids H (ival x)) else [])\<rparr> | _ \<Rightarrow> H)
      else if f = ''GetObjectField'' then (case as of [x, fid] \<Rightarrow> H\<lparr>arr := (arr H)(r := flds H (ival x) (ival fid))\<rparr> | _ \<Rightarrow> H)
      else if f = ''NewObject'' then (case as of [clz, mid, fmt, gl, bl, a] \<Rightarrow>
        H\<lparr>xids := (xids H)(r := ExXid_new (ival fmt) (ival gl) (ival bl) (arr H (ival a)))\<rparr> | _ \<Rightarrow> H)
      else if f = ''SetObjectField'' then (case as of [x, fid, a] \<Rightarrow>
        H\<lparr>flds := (flds H)(ival x := (flds H (ival x))(ival fid := arr H (ival a)))\<rparr> | _ \<Rightarrow> H)
      else H)"

fun heap :: "int \<Rightarrow> int \<Rightarrow> trace \<Rightarrow> jheap" where
  "heap mg mb [] = \<lparr>arr = \<lambda>_. [], xids = \<lambda>_. ExXid_new 0 0 0 [], flds = \<lambda>_ _. []\<rparr>"
| "heap mg mb ((API f as, r) # t) = heap mg mb t"
| "heap mg mb ((JNI f as, r) # t) = heap_ev mg mb f as (ri r) (heap mg mb t)"

definition jheap_of :: "jb \<Rightarrow> trace \<Rightarrow> jheap" where
  "jheap_of s t = heap (gv s ''Xid_mid_getGlobalTransactionId'') (gv s ''Xid_mid_getBranchQualifier'') t"

text \<open>References that are alive.\<close>

fun live :: "trace \<Rightarrow> int set" where
  "live [] = {}"
| "live ((API f as, x) # t) = live t"
| "live ((JNI f as, x) # t) =
     (if f = ''DeleteLocalRef'' then live t - {r. as = [I r]}
      else if creates_local f then insert (ri x) (live t) else live t)"

text \<open>The behaviour of the VM that the conversions rely on: array functions report the content of the array, the methods
  of \<open>ExXid\<close> are those of the Java class, and a new reference differs from those in use.\<close>

definition vm_ok :: "jb \<Rightarrow> bool" where
  "vm_ok s \<longleftrightarrow>
     (\<forall>h r. rb (orc s h (JNI ''GetByteArrayElements'' [I r])) = arr (jheap_of s h) r) \<and>
     (\<forall>h r. ri (orc s h (JNI ''GetArrayLength'' [I r])) = int (length (arr (jheap_of s h) r))) \<and>
     (\<forall>h x. ri (orc s h (JNI ''CallLongMethod'' [I x, I (gv s ''Xid_mid_getFormatId'')])) = ExXid_getFormatId (xids (jheap_of s h) x)) \<and>
     (\<forall>h as. ri (orc s h (JNI ''CallObjectMethod'' as)) \<notin> live h)"

definition xid_ok :: "XID \<Rightarrow> bool" where
  "xid_ok xid \<longleftrightarrow> 0 \<le> gtrid_length xid \<and> 0 \<le> bqual_length xid \<and> gtrid_length xid + bqual_length xid \<le> int XIDDATASIZE \<and>
     length (xdata xid) = XIDDATASIZE \<and> - (2 ^ 31) \<le> formatID xid \<and> formatID xid < 2 ^ 31"

lemma overlay_split:
  assumes "g + b \<le> n" "length d = n"
  shows "overlay (overlay (replicate n 0) 0 (take g d)) g (take b (drop g d)) = take (g + b) d @ replicate (n - (g + b)) 0"
proof -
  have "overlay (replicate n 0) 0 (take g d) = take g d @ replicate (n - g) 0"
    using assms by (simp add: overlay_def)
  then show ?thesis using assms by (simp add: overlay_def take_add)
qed

lemma vm_ok_upd [simp]: "vm_ok (s\<lparr>tr := t\<rparr>) = vm_ok s" "vm_ok (s\<lparr>flt := w\<rparr>) = vm_ok s"
  "jheap_of (s\<lparr>tr := t\<rparr>) h = jheap_of s h" "jheap_of (s\<lparr>flt := w\<rparr>) h = jheap_of s h"
  by (simp_all add: vm_ok_def jheap_of_def)

text \<open>Steps of a program under this behaviour.\<close>

lemma vm_elems:
  assumes "vm_ok s" "\<And>r t. rb r = arr (jheap_of s (tr s)) a \<Longrightarrow> t = s\<lparr>tr := (JNI ''GetByteArrayElements'' [I a], r) # tr s\<rparr> \<Longrightarrow> Q r t"
  shows "wp (ext (JNI ''GetByteArrayElements'' [I a])) Q s"
  using assms by (simp add: wp_def run_ext vm_ok_def)

lemma vm_len:
  assumes "vm_ok s" "\<And>r t. ri r = int (length (arr (jheap_of s (tr s)) a)) \<Longrightarrow> t = s\<lparr>tr := (JNI ''GetArrayLength'' [I a], r) # tr s\<rparr> \<Longrightarrow> Q (ri r) t"
  shows "wp (jni ''GetArrayLength'' [I a]) Q s"
  using assms(2) [of "orc s (tr s) (JNI ''GetArrayLength'' [I a])"] assms(1) by (simp add: wp_def run_jni vm_ok_def)

lemma vm_fmt:
  assumes "vm_ok s" "\<And>r t. ri r = ExXid_getFormatId (xids (jheap_of s (tr s)) x) \<Longrightarrow>
      t = s\<lparr>tr := (JNI ''CallLongMethod'' [I x, I (gv s ''Xid_mid_getFormatId'')], r) # tr s\<rparr> \<Longrightarrow> Q (ri r) t"
  shows "wp (jni ''CallLongMethod'' [I x, I (gv s ''Xid_mid_getFormatId'')]) Q s"
  using assms(2) [of "orc s (tr s) (JNI ''CallLongMethod'' [I x, I (gv s ''Xid_mid_getFormatId'')])"] assms(1)
  by (simp add: wp_def run_jni vm_ok_def)

lemma vm_call:
  assumes "vm_ok s" "\<And>r t. ri r \<notin> live (tr s) \<Longrightarrow> t = s\<lparr>tr := (JNI ''CallObjectMethod'' as, r) # tr s\<rparr> \<Longrightarrow> Q (ri r) t"
  shows "wp (jni ''CallObjectMethod'' as) Q s"
  using assms by (simp add: wp_def run_jni vm_ok_def)

lemma xid_fetch_vm:
  assumes vm: "vm_ok s" and mids: "gv s ''Xid_mid_getGlobalTransactionId'' \<noteq> gv s ''Xid_mid_getBranchQualifier''"
    and x: "xids (jheap_of s (tr s)) j = x"
  shows "wp (xid_fetch j) (\<lambda>(f, b, bl, g, gl, ng, nb) t. f = ExXid_getFormatId x \<and> bl = int (length (bqual x)) \<and>
    gl = int (length (trxid x)) \<and> rb ng = trxid x \<and> rb nb = bqual x) s"
  unfolding xid_fetch_def
  by (intro wp_bind wp_getv wp_if wp_return wp_fault vm_fmt vm_call vm_len vm_elems;
      simp add: vm x [symmetric] jheap_of_def heap_ev_def mids mids [symmetric] creates_local_def
        ExXid_getGlobalTransactionId_def ExXid_getBranchQualifier_def)

lemma xid_to_c_vm:
  assumes "vm_ok s" "gv s ''Xid_mid_getGlobalTransactionId'' \<noteq> gv s ''Xid_mid_getBranchQualifier''"
    and x: "xids (jheap_of s (tr s)) j = ExXid_new (formatID xid) (gtrid_length xid) (bqual_length xid) (xdata xid)"
    and ok: "xid_ok xid"
  shows "val (ndrxj_cvt_xid_to_c j) s = (EXSUCCEED, xid\<lparr>xdata :=
    take (nat (gtrid_length xid + bqual_length xid)) (xdata xid) @ replicate (XIDDATASIZE - nat (gtrid_length xid + bqual_length xid)) 0\<rparr>)"
proof -
  let ?g = "nat (gtrid_length xid)" and ?b = "nat (bqual_length xid)"
  let ?X = "ExXid_new (formatID xid) (gtrid_length xid) (bqual_length xid) (xdata xid)"
  have n: "?g + ?b \<le> XIDDATASIZE" "length (xdata xid) = XIDDATASIZE" "nat (gtrid_length xid + bqual_length xid) = ?g + ?b"
    using ok by (auto simp: xid_ok_def nat_add_distrib)
  have fmt: "ExXid_getFormatId ?X = formatID xid"
    using ok by (simp add: ExXid_getFormatId_def ExXid_new_def xid_ok_def signed_take_bit_int_eq_self)
  have len: "trxid ?X = take ?g (xdata xid)" "bqual ?X = take ?b (drop ?g (xdata xid))"
    by (simp_all add: ExXid_new_def)
  have m: "min XIDDATASIZE ?g = ?g" "min (XIDDATASIZE - ?g) ?b = ?b" "int ?g = gtrid_length xid" "int ?b = bqual_length xid"
    using ok n(1) by (auto simp: xid_ok_def)
  have pos: "0 \<le> gtrid_length xid" "0 \<le> bqual_length xid" "\<not> int XIDDATASIZE < gtrid_length xid + bqual_length xid" using ok by (simp_all add: xid_ok_def)
  have R: "\<lparr>formatID = formatID xid, gtrid_length = gtrid_length xid, bqual_length = bqual_length xid, xdata = d\<rparr> = xid\<lparr>xdata := d\<rparr>" for d
    by (cases xid) simp
  have "wp (ndrxj_cvt_xid_to_c j) (\<lambda>r t. r = (EXSUCCEED, xid\<lparr>xdata := take (?g + ?b) (xdata xid) @ replicate (XIDDATASIZE - (?g + ?b)) 0\<rparr>)) s"
    unfolding ndrxj_cvt_xid_to_c_def
    by (intro wpx wp_cons [OF xid_fetch_vm [OF assms(1,2) x]] wp_any [where m = "xid_release b g ng nb" for b g ng nb];
        auto simp: fmt len m R overlay_split n pos)
  then show ?thesis by (simp add: wp_def n(3))
qed

lemma xid_to_java_wp:
  "wp (ndrxj_cvt_xid_to_java xid) (\<lambda>x t. x \<noteq> 0 \<longrightarrow> orc t = orc s \<and> gv t = gv s \<and>
     xids (jheap_of s (tr t)) x = ExXid_new (formatID xid) (gtrid_length xid) (bqual_length xid) (xdata xid)) s"
  unfolding ndrxj_cvt_xid_to_java_def
  by (intro wpx wp_keeps [OF plain_LOG_EXCEPTION]; simp add: jheap_of_def heap_ev_def)


text \<open>A VM with this behaviour: every result is a new number, the array functions read the heap.\<close>

fun top :: "trace \<Rightarrow> int" where
  "top [] = 0"
| "top (p # t) = max (ri (snd p)) (top t)"

definition demo_vm :: "(string \<Rightarrow> int) \<Rightarrow> trace \<Rightarrow> ev \<Rightarrow> xres" where
  "demo_vm g h e = (let H = heap (g ''Xid_mid_getGlobalTransactionId'') (g ''Xid_mid_getBranchQualifier'') h;
     d = \<lparr>ri = top h + 1, rs = [], rb = [], ro = [], rl = []\<rparr> in
     case e of API f as \<Rightarrow> d
     | JNI f as \<Rightarrow>
        if f = ''GetByteArrayElements'' then d\<lparr>rb := arr H (ival (hd as))\<rparr>
        else if f = ''GetArrayLength'' then d\<lparr>ri := int (length (arr H (ival (hd as))))\<rparr>
        else if f = ''CallLongMethod'' then d\<lparr>ri := ExXid_getFormatId (xids H (ival (hd as)))\<rparr>
        else d)"

lemma live_top: "r \<in> live h \<Longrightarrow> r \<le> top h"
  by (induction h rule: live.induct) (auto split: if_splits)

lemma demo_vm_ok: "orc s = demo_vm (gv s) \<Longrightarrow> vm_ok s"
  using live_top by (fastforce simp: vm_ok_def demo_vm_def jheap_of_def Let_def)


end
