(* ===== verification/Raise.thy ===== *)
theory Raise
  imports Exceptions
begin

section \<open>What is in the cache of exception classes, and which exception is raised\<close>

text \<open>
  The dynamic cache holds two kinds of entries: the ATMI exceptions with their constructor and the id of the field \<open>data\<close>,
  and the others with the class only.  \<open>entry_ok\<close> is the type of an entry: its class, constructor and field were looked
  up in the VM under its own name.  The functions that throw keep \<open>dyn_ok\<close>, so an ATMI exception is always built with
  the ids of its own class.
\<close>

definition atmi_pfx :: string where "atmi_pfx = ''org/endurox/exceptions/Atmi''"

definition entry_ok :: "trace \<Rightarrow> exj_dyn_cache \<Rightarrow> bool" where
  "entry_ok h e \<longleftrightarrow> clazz e \<noteq> 0 \<and> (\<exists>c. (JNI ''FindClass'' [S (class_name e)], c) \<in> calls h \<and>
     (JNI ''NewWeakGlobalRef'' [I c], clazz e) \<in> calls h \<and>
     (prefix atmi_pfx (class_name e) \<longrightarrow> mid1 e \<noteq> 0 \<and> fid2 e \<noteq> 0 \<and>
        (JNI ''GetMethodID'' [I c, S ''<init>'', S ''(Ljava/lang/String;)V''], mid1 e) \<in> calls h \<and>
        (JNI ''GetFieldID'' [I c, S ''data'', S ''Lorg/endurox/TypedBuffer;''], fid2 e) \<in> calls h))"

definition dyn_ok :: "jb \<Rightarrow> bool" where
  "dyn_ok s \<longleftrightarrow> exhash_ok (dynH s) \<and> (\<forall>e \<in> set (dyn s). entry_ok (tr s) e)"

lemma calls_append: "calls (a @ b) = calls a \<union> calls b"
  by (induction a) (auto simp: split_paired_all)

lemma calls_suffix: "suffix s t \<Longrightarrow> calls s \<subseteq> calls t"
  by (auto simp: suffix_def calls_append)

lemma entry_ok_mono: "entry_ok h e \<Longrightarrow> suffix h h' \<Longrightarrow> entry_ok h' e"
  unfolding entry_ok_def using calls_suffix [of h h'] by blast

text \<open>The relation between the states before and after a step: the cache is untouched or extended with good entries.\<close>

definition dynR :: "jb \<Rightarrow> jb \<Rightarrow> bool" where
  "dynR s t \<longleftrightarrow> suffix (tr s) (tr t) \<and> dynH t = dynH s \<and> (dyn_ok s \<longrightarrow> dyn_ok t)"

interpretation dynR: run_rel dynR
  by unfold_locales (auto simp: dynR_def intro: suffix_order.trans)

lemma dynR_same: "suffix (tr s) (tr t) \<Longrightarrow> dynH t = dynH s \<Longrightarrow> dyn t = dyn s \<Longrightarrow> dynR s t"
  by (auto simp: dynR_def dyn_ok_def intro: entry_ok_mono)

lemma dynR_from: "dynR (s\<lparr>tr := h\<rparr>) t \<Longrightarrow> suffix (tr s) h \<Longrightarrow> dynR s t"
  by (rule dynR.trans [OF dynR_same]) simp_all

lemma dynR_flt [simp]: "dynR s (t\<lparr>flt := w\<rparr>) = dynR s t"
  by (simp add: dynR_def dyn_ok_def)

lemma dynR_steps: "keeps dynR (jni f as)" "keeps dynR (ex f as)" "keeps dynR (ext e)" "keeps dynR (fault w)" "keeps dynR (getv v)"
  by (auto simp: keeps_def run_simps getv_def suffix_ConsI intro!: dynR_same)

lemma dynR_append_msg: "keeps dynR (ndrxj_append_msg obj m s)"
  unfolding ndrxj_append_msg_def by (intro dynR.keeps_rules dynR_steps)

lemma dynR_frames_loop: "keeps dynR (ndrxj_frames_loop n i frames m s)"
  by (induction n arbitrary: i s) (auto intro!: dynR.keeps_rules dynR_steps dynR_append_msg)

lemma dynR_backtrace: "keeps dynR (ndrxj_backtrace_recursive fuel exc s a b c d)"
proof (induction fuel arbitrary: exc s)
  case (Suc fuel)
  show ?case unfolding ndrxj_backtrace_recursive.simps
    by (intro dynR.keeps_rules dynR_steps dynR_append_msg dynR_frames_loop Suc)
qed (auto intro!: dynR.keeps_rules dynR_steps)

lemma dynR_LOG_EXCEPTION: "keeps dynR NDRXJ_LOG_EXCEPTION"
  unfolding NDRXJ_LOG_EXCEPTION_def ndrxj_exception_backtrace_def
  by (intro dynR.keeps_rules dynR_steps dynR_backtrace)

text \<open>A VM that finds the classes and members it is asked for and does not run out of memory.\<close>

definition able_fns :: "string list" where
  "able_fns = [''FindClass'', ''GetMethodID'', ''GetFieldID'', ''NewObject'', ''NewWeakGlobalRef'']"

definition able :: "(trace \<Rightarrow> ev \<Rightarrow> xres) \<Rightarrow> bool" where
  "able env \<longleftrightarrow> (\<forall>h as. ri (env h (API ''malloc'' as)) \<noteq> 0 \<and> (\<forall>f. f \<in> set able_fns \<longrightarrow> ri (env h (JNI f as)) \<noteq> 0))"

lemma wpa_jni: "(\<And>r. able (orc s) \<and> f \<in> set able_fns \<longrightarrow> ri r \<noteq> 0 \<Longrightarrow> Q (ri r) (s\<lparr>tr := (JNI f as, r) # tr s\<rparr>)) \<Longrightarrow> wp (jni f as) Q s"
  by (rule wp_def [THEN iffD2]) (simp add: run_simps able_def)

lemma wpa_malloc: "(\<And>r. able (orc s) \<longrightarrow> ri r \<noteq> 0 \<Longrightarrow> Q (ri r) (s\<lparr>tr := (API ''malloc'' as, r) # tr s\<rparr>)) \<Longrightarrow> wp (ex ''malloc'' as) Q s"
  by (rule wp_def [THEN iffD2]) (simp add: run_simps able_def)

lemmas wpa = wp_bind wp_return wp_get wp_if wp_let wp_option wp_getv wp_fault wp_ext wpa_jni wpa_malloc wp_ex wp_update

text \<open>Adding an entry whose ids come from the VM.\<close>

definition fresh_ok :: "trace \<Rightarrow> string \<Rightarrow> exj_dyn_cache \<Rightarrow> bool" where
  "fresh_ok h name d \<longleftrightarrow> (JNI ''FindClass'' [S (snprintf_buf 256 name)], clazz d) \<in> calls h \<and>
     (prefix atmi_pfx name \<longrightarrow> mid1 d \<noteq> 0 \<and> fid2 d \<noteq> 0 \<and>
        (JNI ''GetMethodID'' [I (clazz d), S ''<init>'', S ''(Ljava/lang/String;)V''], mid1 d) \<in> calls h \<and>
        (JNI ''GetFieldID'' [I (clazz d), S ''data'', S ''Lorg/endurox/TypedBuffer;''], fid2 d) \<in> calls h)"

lemma prefix_take_eq: "prefix p s \<longleftrightarrow> take (length p) s = p"
  by (metis append_eq_conv_conj prefix_def take_is_prefix)

lemma prefix_snprintf_buf: "length p < n \<Longrightarrow> prefix p (snprintf_buf n s) \<longleftrightarrow> prefix p s"
  by (simp add: snprintf_buf_def prefix_take_eq min.absorb1)

lemma caches_add_wp:
  assumes "fresh_ok (tr s) name d"
  shows "wp (ndrxj_caches_add name d) (\<lambda>r t. dynR s t \<and> orc t = orc s \<and> flt t = flt s \<and> (able (orc s) \<longrightarrow> r \<noteq> None) \<and>
    (\<forall>e. r = Some e \<longrightarrow> entry_ok (tr t) e \<and> class_name e = snprintf_buf 256 name)) s"
proof -
  have *: "entry_ok (tr t) e" if "suffix (tr s) (tr t)" "class_name e = snprintf_buf 256 name" "clazz e \<noteq> 0" "mid1 e = mid1 d"
    "fid2 e = fid2 d" "(JNI ''NewWeakGlobalRef'' [I (clazz d)], clazz e) \<in> calls (tr t)" for t e
  proof -
    note c = calls_suffix [OF that(1), THEN subsetD]
    have "prefix atmi_pfx (class_name e) \<longleftrightarrow> prefix atmi_pfx name"
      unfolding that(2) by (rule prefix_snprintf_buf) (simp add: atmi_pfx_def)
    then show ?thesis using assms that(3,6) unfolding entry_ok_def fresh_ok_def that(2,4,5) by (auto intro: c exI [of _ "clazz d"])
  qed
  have **: "dynR s t" if "suffix (tr s) (tr t)" "dynH t = dynH s" "dyn t = hash_add (dynH s) (dyn s) e" "entry_ok (tr t) e" for t e
  proof -
    note that2 = that(3)
    have "set (dyn t) = insert e (set (dyn s))" if "exhash_ok (dynH s)"
      using arg_cong [OF mset_hash_add [OF that, of "dyn s" e], of set_mset] that2 by simp
    then show ?thesis using that unfolding dynR_def dyn_ok_def by (auto intro: entry_ok_mono)
  qed
  have ok: "dynR s t \<and> orc t = orc s \<and> flt t = flt s \<and> (able (orc s) \<longrightarrow> Some e \<noteq> None) \<and> (\<forall>e'. Some e = Some e' \<longrightarrow> entry_ok (tr t) e' \<and> class_name e' = snprintf_buf 256 name)"
    if "suffix (tr s) (tr t)" "class_name e = snprintf_buf 256 name" "clazz e \<noteq> 0" "mid1 e = mid1 d"
    "fid2 e = fid2 d" "(JNI ''NewWeakGlobalRef'' [I (clazz d)], clazz e) \<in> calls (tr t)"
    "dynH t = dynH s" "dyn t = hash_add (dynH s) (dyn s) e" "flt t = flt s" "orc t = orc s" for t e
    using * [OF that(1-6)] ** [OF that(1,7,8)] that(2,9,10) by simp
  show ?thesis unfolding ndrxj_caches_add_def
    apply (intro wpa)
      apply (simp add: suffix_ConsI dynR_same)
     apply (simp add: suffix_ConsI dynR_same able_fns_def)
    apply (rule ok; simp add: suffix_ConsI)
    done
qed

text \<open>The two ways into the cache.\<close>

lemma snprintf_buf_twice [simp]: "snprintf_buf n (snprintf_buf n x) = snprintf_buf n x"
  by (simp add: snprintf_buf_def)

text \<open>A run that can only go wrong when the VM does: \<open>excR s0 s\<close> of the state \<open>s\<close> reached from \<open>s0\<close>.\<close>

definition excR :: "jb \<Rightarrow> jb \<Rightarrow> bool" where
  "excR s t \<longleftrightarrow> dynR s t \<and> orc t = orc s \<and> (able (orc s) \<longrightarrow> flt t = flt s)"

lemma excR_refl: "excR s s"
  by (simp add: excR_def dynR.refl)

abbreviation more :: "jb \<Rightarrow> jb \<Rightarrow> bool" where
  "more s t \<equiv> set (tr s) \<subseteq> set (tr t) \<and> calls (tr s) \<subseteq> calls (tr t)"

lemma excR_more: "excR s t \<Longrightarrow> more s t"
  by (simp add: excR_def dynR_def calls_suffix set_mono_suffix)

lemma excR_trans: "excR s t \<Longrightarrow> excR t u \<Longrightarrow> excR s u"
  by (auto simp: excR_def intro: dynR.trans)

lemma wpe_ext:
  assumes "excR s0 s" "\<And>r t. excR s0 t \<Longrightarrow> more s t \<Longrightarrow> (e, r) \<in> set (tr t) \<Longrightarrow> Q r t"
  shows "wp (ext e) Q s"
proof (rule wp_ext)
  fix r :: xres
  have "dynR s0 (s\<lparr>tr := (e, r) # tr s\<rparr>)"
    using assms(1) by (auto simp: excR_def suffix_ConsI intro: dynR.trans [OF _ dynR_same])
  then show "Q r (s\<lparr>tr := (e, r) # tr s\<rparr>)" using assms(1) by (intro assms(2)) (auto simp: excR_def)
qed

lemma wpe_jni:
  assumes "excR s0 s"
    and "\<And>r t. excR s0 t \<Longrightarrow> able (orc s0) \<and> f \<in> set able_fns \<longrightarrow> r \<noteq> 0 \<Longrightarrow> more s t \<Longrightarrow>
      (JNI f as, r) \<in> calls (tr t) \<Longrightarrow> Q r t"
  shows "wp (jni f as) Q s"
proof (rule wpa_jni)
  fix r :: xres
  assume a: "able (orc s) \<and> f \<in> set able_fns \<longrightarrow> ri r \<noteq> 0"
  have "dynR s0 (s\<lparr>tr := (JNI f as, r) # tr s\<rparr>)"
    using assms(1) by (auto simp: excR_def suffix_ConsI intro: dynR.trans [OF _ dynR_same])
  then show "Q (ri r) (s\<lparr>tr := (JNI f as, r) # tr s\<rparr>)" using a assms(1)
    by (intro assms(2)) (auto simp: excR_def)
qed

lemma dynR_orc: "keeps (\<lambda>s t. orc t = orc s) NDRXJ_LOG_EXCEPTION"
  using plain_LOG_EXCEPTION by (auto simp: keeps_def frame_def cfg_def)

lemma wpe_log:
  assumes "excR s0 s" "\<not> able (orc s0)" "\<And>t. excR s0 t \<Longrightarrow> Q () t"
  shows "wp NDRXJ_LOG_EXCEPTION Q s"
proof -
  have "dynR s (exec NDRXJ_LOG_EXCEPTION s)" "orc (exec NDRXJ_LOG_EXCEPTION s) = orc s"
    using dynR_LOG_EXCEPTION dynR_orc by (auto simp: keeps_def)
  then show ?thesis using assms by (auto simp: wp_def excR_def intro: dynR.trans)
qed

lemma wpe_fault: "excR s0 s \<Longrightarrow> \<not> able (orc s0) \<Longrightarrow> (\<And>t. excR s0 t \<Longrightarrow> Q () t) \<Longrightarrow> wp (fault w) Q s"
  by (rule wp_fault) (simp add: excR_def)

lemma wpe_qctl:
  assumes "excR s0 s" "\<And>r t. excR s0 t \<Longrightarrow> more s t \<Longrightarrow> Q r t"
  shows "wp (if b then do { f \<leftarrow> jni ''GetFieldID'' as; whenM (f = 0) NDRXJ_LOG_EXCEPTION; State_Monad.return f }
    else State_Monad.return 0) Q s"
proof -
  have "wp (if b then do { f \<leftarrow> jni ''GetFieldID'' as; whenM (f = 0) NDRXJ_LOG_EXCEPTION; State_Monad.return f }
    else State_Monad.return 0) (\<lambda>_ t. excR s t) s"
    by (intro wp_bind wp_if wp_return wpe_jni [OF excR_refl] wpe_log [of s]) (auto simp: able_fns_def excR_refl)
  then show ?thesis by (rule wp_cons) (rule assms(2) [OF excR_trans [OF assms(1)] excR_more])
qed

lemma wpe_add:
  assumes "excR s0 s" "fresh_ok (tr s) name d"
    and "\<And>r t. excR s0 t \<Longrightarrow> able (orc s0) \<longrightarrow> r \<noteq> None \<Longrightarrow>
      (\<forall>e. r = Some e \<longrightarrow> entry_ok (tr t) e \<and> class_name e = snprintf_buf 256 name) \<Longrightarrow> Q r t"
  shows "wp (ndrxj_caches_add name d) Q s"
  by (rule wp_cons [OF caches_add_wp [OF assms(2)]], rule assms(3))
     (use assms(1) in \<open>auto simp: excR_def intro: dynR.trans\<close>)

lemma atmi_exc_load_wp:
  assumes "cls = snprintf_buf 256 x"
  shows "wp (atmi_exc_load cls err) (\<lambda>r t. excR s t \<and> (able (orc s) \<longrightarrow> r \<noteq> None) \<and>
    (\<forall>e. r = Some e \<longrightarrow> entry_ok (tr t) e \<and> class_name e = cls)) s"
proof -
  have cls: "snprintf_buf 256 cls = cls" using assms by simp
  show ?thesis
    unfolding atmi_exc_load_def
    apply (rule wp_bind, rule wpe_jni [OF excR_refl], rule wp_if)
     apply (rule wp_bind, erule wpe_fault, simp add: able_fns_def, rule wp_return, simp)
     apply (simp add: able_fns_def)
    apply (rule wp_bind, erule wpe_jni, rule wp_if)
     apply (rule wp_bind, erule wpe_log, simp add: able_fns_def, rule wp_return, simp)
     apply (simp add: able_fns_def)
    apply (rule wp_bind, erule wpe_qctl, rule wp_bind, erule wpe_jni, rule wp_if)
     apply (rule wp_bind, erule wpe_log, simp add: able_fns_def, rule wp_return, simp)
     apply (simp add: able_fns_def)
    apply (rule wp_bind, erule wpe_add)
     apply (auto simp: fresh_ok_def no_cache_def cls)[1]
    apply (rule wp_bind, rule wp_if, rule wp_bind, rule wp_bind, erule wpe_log, simp, erule wpe_fault, simp)
     apply (rule wp_return, rule wp_return, simp)
    apply (rule wp_return, rule wp_return, simp add: cls)
    done
qed

lemma wpe_load:
  assumes "excR s0 s" "cls = snprintf_buf 256 x"
    and "\<And>r t. excR s0 t \<Longrightarrow> able (orc s0) \<longrightarrow> r \<noteq> None \<Longrightarrow>
      (\<forall>e. r = Some e \<longrightarrow> entry_ok (tr t) e \<and> class_name e = cls) \<Longrightarrow> more s t \<Longrightarrow> Q r t"
  shows "wp (atmi_exc_load cls err) Q s"
  by (rule wp_cons [OF atmi_exc_load_wp [OF assms(2), where s = s]], elim conjE, rule assms(3))
     (use assms(1) in \<open>auto simp: excR_def [of s0 s] dest: excR_more excR_trans [OF assms(1)]\<close>)

lemma caches_get_wp:
  "wp (ndrxj_caches_get n) (\<lambda>r t. t = s \<and> (dyn_ok s \<longrightarrow> (\<forall>e. r = Some e \<longrightarrow> entry_ok (tr s) e \<and> class_name e = n))) s"
  unfolding ndrxj_caches_get_def by (intro wp_bind wp_get wp_return) (auto simp: dyn_ok_def dest: hash_find_Some)

lemma caches_single_wp:
  assumes "n = snprintf_buf 256 x" "\<not> prefix atmi_pfx n"
  shows "wp (ndrxj_caches_single n) (\<lambda>r t. excR s t \<and> (able (orc s) \<longrightarrow> r \<noteq> None) \<and>
    (dyn_ok s \<longrightarrow> (\<forall>e. r = Some e \<longrightarrow> entry_ok (tr t) e \<and> class_name e = n))) s"
proof -
  have n: "snprintf_buf 256 n = n" using assms by simp
  show ?thesis unfolding ndrxj_caches_single_def
    apply (rule wp_bind, rule wp_cons [OF caches_get_wp], elim conjE, simp only:, rule wp_option)
     apply (rule wp_bind, rule wpe_jni [OF excR_refl], rule wp_if)
      apply (rule wp_return, simp add: able_fns_def)
     apply (erule wpe_add)
      apply (simp add: fresh_ok_def n no_cache_def assms(2))
     apply (simp add: n)
    apply (rule wp_return, simp add: excR_refl)
    done
qed

subsection \<open>The exception that is raised\<close>

text \<open>The last call is \<open>Throw\<close> of a new object of the class named after the code, built with that class's own constructor and
  the (possibly shortened) message; the buffer object is in the class's own field \<open>data\<close>.\<close>

definition raised :: "int \<Rightarrow> int \<Rightarrow> string \<Rightarrow> trace \<Rightarrow> bool" where
  "raised data err msg h' \<longleftrightarrow> (\<exists>code c clz mid jerror exc r h. h' = (JNI ''Throw'' [I exc], r) # h \<and>
    (API ''tpecodestr'' [I err], code) \<in> set h \<and>
    (JNI ''FindClass'' [S (atmi_exc_name (rs code))], c) \<in> calls h \<and> (JNI ''NewWeakGlobalRef'' [I c], clz) \<in> calls h \<and>
    (JNI ''GetMethodID'' [I c, S ''<init>'', S ''(Ljava/lang/String;)V''], mid) \<in> calls h \<and>
    (JNI ''NewStringUTF'' [S (snprintf_buf ERROR_MAX msg)], jerror) \<in> calls h \<and>
    (JNI ''NewObject'' [I clz, I mid, I jerror], exc) \<in> calls h \<and> exc \<noteq> 0 \<and>
    (data \<noteq> 0 \<longrightarrow> (\<exists>f q. (JNI ''GetFieldID'' [I c, S ''data'', S ''Lorg/endurox/TypedBuffer;''], f) \<in> calls h \<and>
       (JNI ''SetObjectField'' [I exc, I f, I data], q) \<in> calls h)))"

lemma atmi_name_prefix: "prefix atmi_pfx (atmi_exc_name code)"
proof -
  have "prefix atmi_pfx (snprintf_buf 256 (''org/endurox/exceptions/Atmi'' @ code @ ''Exception''))"
    by (subst prefix_snprintf_buf) (simp_all add: atmi_pfx_def)
  then show ?thesis by (simp add: atmi_exc_name_def)
qed

lemma wpe_lookup:
  assumes "excR s0 s" "dyn_ok s0" "cls = snprintf_buf 256 x"
    and Q: "\<And>r t. excR s0 t \<Longrightarrow> able (orc s0) \<longrightarrow> r \<noteq> None \<Longrightarrow>
      (\<forall>e. r = Some e \<longrightarrow> entry_ok (tr t) e \<and> class_name e = cls) \<Longrightarrow> more s t \<Longrightarrow> wp (k r) Q t"
  shows "wp (do { hit \<leftarrow> ndrxj_caches_get cls;
    cached \<leftarrow> (case hit of Some c \<Rightarrow> State_Monad.return (Some c) | None \<Rightarrow> atmi_exc_load cls err); k cached }) Q s"
proof -
  have "dyn_ok s" using assms(1,2) by (simp add: excR_def dynR_def)
  then show ?thesis
    by (intro wp_bind [of "ndrxj_caches_get cls"] wp_cons [OF caches_get_wp]; elim conjE; simp only:; intro wp_bind wp_option wpe_load [OF assms(1,3)] wp_return)
       (auto intro: Q assms(1))
qed

lemma wpe_fields:
  assumes "excR s0 s" "\<And>t. excR s0 t \<Longrightarrow> more s t \<Longrightarrow> b \<longrightarrow> (\<exists>q. (JNI f as, q) \<in> calls (tr t)) \<Longrightarrow> Q () t"
  shows "wp (whenM b (jni f as)) Q s"
  by (rule wp_if, rule wp_bind, rule wpe_jni [OF assms(1)], rule wp_return, rule assms(2); (rule wp_return, rule assms(2))?)
     (auto simp: assms(1))

lemma atmi_throw_wp:
  assumes "dyn_ok s" "able (orc s)"
  shows "wp (ndrxj_atmi_throw data addarg1 err msg) (\<lambda>_ t. excR s t \<and> raised data err msg (tr t)) s"
proof -
  have fin: "excR s u \<and> raised data err msg (tr u)"
    if "u = t\<lparr>tr := (JNI ''Throw'' [I exc], r) # tr t\<rparr>" "excR s t" "exc \<noteq> 0"
      "(API ''tpecodestr'' [I err], code) \<in> set (tr t)" "(JNI ''NewStringUTF'' [S (snprintf_buf ERROR_MAX msg)], jerror) \<in> calls (tr t)"
      "entry_ok (tr t') e" "class_name e = atmi_exc_name (rs code)" "more t' t"
      "(JNI ''NewObject'' [I (clazz e), I (mid1 e), I jerror], exc) \<in> calls (tr t)"
      "data \<noteq> 0 \<longrightarrow> (\<exists>q. (JNI ''SetObjectField'' [I exc, I (fid2 e), I data], q) \<in> calls (tr t))"
    for u t t' exc r code jerror e
  proof
    have "dynR t u" using that(1) by (auto simp: suffix_ConsI intro!: dynR_same)
    then show "excR s u" using that(1,2) by (auto simp: excR_def intro: dynR.trans)
    note a = that(6,8) and cn = that(7)
    have p: "prefix atmi_pfx (class_name e)" using that(7) atmi_name_prefix by simp
    obtain c where "(JNI ''FindClass'' [S (atmi_exc_name (rs code))], c) \<in> calls (tr t)"
      "(JNI ''NewWeakGlobalRef'' [I c], clazz e) \<in> calls (tr t)"
      "(JNI ''GetMethodID'' [I c, S ''<init>'', S ''(Ljava/lang/String;)V''], mid1 e) \<in> calls (tr t)"
      "(JNI ''GetFieldID'' [I c, S ''data'', S ''Lorg/endurox/TypedBuffer;''], fid2 e) \<in> calls (tr t)"
      using a p unfolding entry_ok_def cn subset_eq by meson
    then have "raised data err msg ((JNI ''Throw'' [I exc], r) # tr t)"
      using that(3,4,5,9,10) unfolding raised_def by blast
    then show "raised data err msg (tr u)" using that(1) by simp
  qed
  show ?thesis unfolding ndrxj_atmi_throw_def
    apply (rule wp_bind, rule wpe_jni [OF excR_refl], rule wp_bind, erule wpe_ext, rule wp_let)
    apply (erule wpe_lookup [OF _ assms(1)])
     apply (simp only: atmi_exc_name_def)
    apply (rule wp_option)
     apply (simp add: assms(2))
    apply (rule wp_bind, erule wpe_jni, rule wp_if)
     apply (simp add: able_fns_def assms(2))
    apply (rule wp_bind, erule wpe_fields, rule wp_bind, erule wpe_fields, rule wp_bind, rule wp_jni, rule wp_return)
    subgoal premises p for r t ra ta cls rb tb c rc tc td te rd
    proof -
      note m = p(2,4,9,12,15,18)
      have e: "entry_ok (tr tb) c" "class_name c = atmi_exc_name (rs ra)" using p(6,8,10) by auto
      have mem: "(JNI ''NewStringUTF'' [S (snprintf_buf ERROR_MAX msg)], r) \<in> calls (tr te)"
        "(API ''tpecodestr'' [I err], ra) \<in> set (tr te)"
        "(JNI ''NewObject'' [I (clazz c), I (mid1 c), I r], rc) \<in> calls (tr te)"
        using m p(3,5,13) by blast+
      have "more tb te" using m by blast
      then show ?thesis using m(6) p(16)
        by (intro fin [OF refl p(17,14) mem(2,1) e _ mem(3)]) blast+
    qed
    done
qed

lemma dynR_get: "keeps dynR (ndrxj_caches_get n)"
  unfolding ndrxj_caches_get_def by (intro dynR.keeps_rules)

lemma dynR_load: "keeps dynR (atmi_exc_load (snprintf_buf 256 x) err)"
  by (rule keeps_wp, rule wp_cons [OF atmi_exc_load_wp [OF refl]]) (simp add: excR_def)

lemma dynR_single: "\<not> prefix atmi_pfx x \<Longrightarrow> keeps dynR (ndrxj_caches_single (snprintf_buf 256 x))"
  by (rule keeps_wp, rule wp_cons [OF caches_single_wp [OF refl]]) (simp_all add: excR_def prefix_snprintf_buf atmi_pfx_def)

lemma dynR_throws:
  "keeps dynR (ndrxj_atmi_throw data addarg1 err msg)" "keeps dynR (ndrxj_nstd_throw err msg)"
  "keeps dynR (ndrxj_ubf_throw err msg)" "keeps dynR (ndrxj_nullptr_throw msg)"
  unfolding ndrxj_atmi_throw_def ndrxj_nstd_throw_def ndrxj_ubf_throw_def ndrxj_nullptr_throw_def atmi_exc_name_def Let_def
  by (intro dynR.keeps_rules dynR_steps dynR_LOG_EXCEPTION dynR_get dynR_load dynR_single; simp add: prefix_take_eq atmi_pfx_def)+

text \<open>C36. The cache of exception classes is well typed at all times: whatever the VM and the core answer, raising an exception
  leaves every entry with a class that was found under the entry's own name, and every entry of an ATMI exception
  with a constructor and a \<open>data\<close> field that were looked up in that very class.  The shorter entries of the other
  exceptions never take the place of an ATMI one.\<close>

theorem exception_cache_typed:
  assumes "dyn_ok s"
  shows "dyn_ok (exec (ndrxj_atmi_throw data addarg1 err msg) s) \<and> dyn_ok (exec (ndrxj_nstd_throw err msg) s) \<and>
    dyn_ok (exec (ndrxj_ubf_throw err msg) s) \<and> dyn_ok (exec (ndrxj_nullptr_throw msg) s)"
  using dynR_throws assms by (auto simp: keeps_def dynR_def)

theorem exception_cache_typed_witness:
  "dyn_ok (jb_init quiet) \<and> dyn_ok (exec (ndrxj_ubf_throw 3 ''bad'') (jb_init quiet))"
proof -
  have "dyn_ok (jb_init quiet)" by (simp add: dyn_ok_def jb_init_def)
  then show ?thesis using exception_cache_typed by simp
qed

text \<open>C35. An error of the core becomes a Java exception of the class named after its code.  In a VM that finds the classes,
  \<open>ndrxj_atmi_throw\<close> ends with \<open>Throw\<close> of a new object of class \<open>org/endurox/exceptions/Atmi<code>Exception\<close> with the message
  and the buffer object (\<open>raised\<close>), whether the class was cached before or not, and nothing goes wrong on the way.\<close>

theorem atmi_throw_raises:
  assumes "dyn_ok s" "able (orc s)" "t = exec (ndrxj_atmi_throw data addarg1 err msg) s"
  shows "flt t = flt s \<and> raised data err msg (tr t)"
  using wpD [OF atmi_throw_wp [OF assms(1,2)]] assms(2,3) by (simp add: excR_def)

theorem atmi_throw_raises_witness:
  "dyn_ok (jb_init quiet) \<and> able quiet \<and> raised 5 11 ''failed'' (tr (exec (ndrxj_atmi_throw 5 0 11 ''failed'') (jb_init quiet)))"
proof -
  have a: "dyn_ok (jb_init quiet)" "able (orc (jb_init quiet))" "able quiet"
    by (simp_all add: dyn_ok_def jb_init_def able_def quiet_def)
  show ?thesis using atmi_throw_raises [OF a(1,2) refl] a(1,3) by blast
qed

end
