(* ===== verification/AtmiCtx.thy ===== *)
theory AtmiCtx
  imports Convert Raise
begin

section \<open>The native methods of \<open>AtmiCtx\<close> (\<open>AtmiCtx.c\<close>)\<close>

text \<open>
  One definition per native method, named after the Java method.  \<open>env\<close> is the JNI environment and \<open>obj\<close> the \<open>AtmiCtx\<close>
  object.  The server callbacks \<open>ndrxj_tpsvrinit\<close>, \<open>dispatch_call\<close> and \<open>ndrxj_tpsvrdone\<close> and the print callback of \<open>Bboolpr\<close>
  are called by the core while a context is set; they detach the thread for the time of the call into Java
  (\<open>java_call\<close>), which may enter the binding again.
\<close>

definition java_call :: "string \<Rightarrow> arg list \<Rightarrow> (jb, int) state" where
  "java_call f as = do {
     r \<leftarrow> jni f as;
     State_Monad.update (\<lambda>s. s\<lparr>privs := reenter s (tr s) (privs s)\<rparr>);
     State_Monad.return r
   }"

definition no_res :: xres where
  "no_res = \<lparr>ri = 0, rs = [], rb = [], ro = [], rl = []\<rparr>"

subsection \<open>Logging\<close>

text \<open>The text of the error is used as a format string.\<close>

definition AtmiCtx_tplogqinfo :: "int \<Rightarrow> int \<Rightarrow> int \<Rightarrow> int \<Rightarrow> (jb, int) state" where
  "AtmiCtx_tplogqinfo env obj lev flags = ctx_out (ndrxj_get_ctx env obj True) 0 (\<lambda>c. do {
     ret \<leftarrow> ex ''tplogqinfo'' [I lev, I flags];
     whenM (ret < 0) (do {
       err \<leftarrow> ex ''Nerror'' [];
       m \<leftarrow> ext (API ''Nstrerror'' [I err]);
       whenM (CHR ''%'' \<in> set (rs m)) (fault ''format string'');
       ndrxj_nstd_throw err (rs m) });
     State_Monad.return ret
   })"

definition AtmiCtx_tplogC :: "int \<Rightarrow> int \<Rightarrow> int \<Rightarrow> int \<Rightarrow> int \<Rightarrow> int \<Rightarrow> (jb, unit) state" where
  "AtmiCtx_tplogC env obj lev file line msg = do {
     n_msg \<leftarrow> ext (JNI ''GetStringUTFChars'' [I msg]);
     n_file \<leftarrow> (if file \<noteq> 0 then ext (JNI ''GetStringUTFChars'' [I file]) else State_Monad.return (no_res\<lparr>ri := 1, rs := ''?.java''\<rparr>));
     c \<leftarrow> ndrxj_get_ctx env obj True;
     if c = 0 then skip else do {
       (if line \<noteq> EXFAIL then ex ''tplogex'' [I lev, cstr n_file, I line, cstr n_msg] else ex ''tplog'' [I lev, cstr n_msg]);
       tpsetctxt TPNULLCONTEXT;
       whenM (copied n_file) (jni ''ReleaseStringUTFChars'' [I file]);
       whenM (copied n_msg) (jni ''ReleaseStringUTFChars'' [I msg])
     }
   }"

definition AtmiCtx_tplogndrxC :: "int \<Rightarrow> int \<Rightarrow> int \<Rightarrow> int \<Rightarrow> int \<Rightarrow> int \<Rightarrow> (jb, unit) state" where
  "AtmiCtx_tplogndrxC env obj lev file line msg = do {
     n_file \<leftarrow> ext (JNI ''GetStringUTFChars'' [I file]);
     n_msg \<leftarrow> ext (JNI ''GetStringUTFChars'' [I msg]);
     c \<leftarrow> ndrxj_get_ctx env obj False;
     if c = 0 then skip else do {
       (if line \<noteq> EXFAIL then ex ''Otplogex'' [I c, I lev, cstr n_file, I line, cstr n_msg]
        else ex ''Otplog'' [I c, I lev, cstr n_msg]);
       tpsetctxt TPNULLCONTEXT;
       whenM (copied n_file) (jni ''ReleaseStringUTFChars'' [I file]);
       whenM (copied n_msg) (jni ''ReleaseStringUTFChars'' [I msg])
     }
   }"

definition AtmiCtx_tplogDump :: "int \<Rightarrow> int \<Rightarrow> int \<Rightarrow> int \<Rightarrow> int \<Rightarrow> (jb, unit) state" where
  "AtmiCtx_tplogDump env obj lev msg data = do {
     n_msg \<leftarrow> ext (JNI ''GetStringUTFChars'' [I msg]);
     n_carray \<leftarrow> ext (JNI ''GetByteArrayElements'' [I data]);
     c \<leftarrow> ndrxj_get_ctx env obj True;
     if c = 0 then skip else do {
       do {
         len \<leftarrow> jni ''GetArrayLength'' [I data];
         ex ''tplogdump'' [I lev, cstr n_msg, Bs (rb n_carray), I len] };
       tpsetctxt TPNULLCONTEXT;
       whenM (copied n_msg) (jni ''ReleaseStringUTFChars'' [I msg]);
       whenM (copied n_carray) (jni ''ReleaseByteArrayElements'' [I data])
     }
   }"

text \<open>Both lengths are those of the first array, and the second copy is released with the first array.\<close>

definition AtmiCtx_tplogDumpDiff :: "int \<Rightarrow> int \<Rightarrow> int \<Rightarrow> int \<Rightarrow> int \<Rightarrow> int \<Rightarrow> (jb, unit) state" where
  "AtmiCtx_tplogDumpDiff env obj lev msg data1 data2 = do {
     n_msg \<leftarrow> ext (JNI ''GetStringUTFChars'' [I msg]);
     n_carray1 \<leftarrow> ext (JNI ''GetByteArrayElements'' [I data1]);
     n_carray2 \<leftarrow> ext (JNI ''GetByteArrayElements'' [I data2]);
     c \<leftarrow> ndrxj_get_ctx env obj True;
     if c = 0 then skip else do {
       do {
         len1 \<leftarrow> jni ''GetArrayLength'' [I data1];
         len2 \<leftarrow> jni ''GetArrayLength'' [I data1];
         ex ''tplogdumpdiff'' [I lev, cstr n_msg, Bs (rb n_carray1), Bs (rb n_carray2), I (min len1 len2)] };
       tpsetctxt TPNULLCONTEXT;
       whenM (copied n_msg) (jni ''ReleaseStringUTFChars'' [I msg]);
       whenM (copied n_carray1) (jni ''ReleaseByteArrayElements'' [I data1]);
       whenM (copied n_carray2) (jni ''ReleaseByteArrayElements'' [I data1])
     }
   }"

definition AtmiCtx_userlogC :: "int \<Rightarrow> int \<Rightarrow> int \<Rightarrow> (jb, unit) state" where
  "AtmiCtx_userlogC env obj msg = ctx_return (ndrxj_get_ctx env obj True) () (\<lambda>c.
     with_utf msg (\<lambda>n_msg. do { ex ''userlog'' [cstr n_msg]; skip }))"

subsection \<open>Contexts and buffers\<close>

definition AtmiCtx_tpfreectxt :: "int \<Rightarrow> (jb, unit) state" where
  "AtmiCtx_tpfreectxt cPtr = do { ex ''tpfreectxt'' [I cPtr]; skip }"

text \<open>The string \<open>NULL\<close> asks for no buffer at all.\<close>

definition tpalloc_typed :: "int \<Rightarrow> int \<Rightarrow> xres \<Rightarrow> xres \<Rightarrow> int \<Rightarrow> (jb, int) state" where
  "tpalloc_typed env obj n_btype n_bsubtype sz = do {
     whenM (ri n_btype = 0) (fault ''strcmp(NULL)'');
     if rs n_btype = ''NULL'' then State_Monad.return 0 else do {
     c \<leftarrow> ndrxj_get_ctx env obj True;
     if c = 0 then State_Monad.return 0 else do {
     data \<leftarrow> ex ''tpalloc'' [cstr n_btype, cstr n_bsubtype, I sz];
     if data = 0 then do { throw_tperrno 0; State_Monad.return 0 }
     else ndrxj_atmi_TypedBuffer_translate env obj True data sz (Some (rs n_btype)) 1
     }}
   }"

definition AtmiCtx_tpalloc :: "int \<Rightarrow> int \<Rightarrow> int \<Rightarrow> int \<Rightarrow> int \<Rightarrow> (jb, int) state" where
  "AtmiCtx_tpalloc env obj btype bsubtype sz = do {
     n_bsubtype \<leftarrow> (if bsubtype \<noteq> 0 then ext (JNI ''GetStringUTFChars'' [I bsubtype]) else State_Monad.return no_res);
     n_btype \<leftarrow> (if btype \<noteq> 0 then ext (JNI ''GetStringUTFChars'' [I btype]) else State_Monad.return no_res);
     ret \<leftarrow> (if btype = 0 then do {
         ndrxj_atmi_throw 0 0 TPEINVAL ''`type' is mandatory for tpAlloc, but got NULL!'';
         State_Monad.return 0
       } else tpalloc_typed env obj n_btype n_bsubtype sz);
     tpsetctxt TPNULLCONTEXT;
     whenM (copied n_btype) (jni ''ReleaseStringUTFChars'' [I btype]);
     whenM (copied n_bsubtype) (jni ''ReleaseStringUTFChars'' [I bsubtype]);
     State_Monad.return ret
   }"

definition AtmiCtx_tpnewctxt :: "(jb, int) state" where
  "AtmiCtx_tpnewctxt = do {
     ctx \<leftarrow> ex ''tpnewctxt'' [I 0, I 1];
     if ctx = 0 then do {
       ndrxj_atmi_throw 0 0 TPESYSTEM ''Failed to allocate new ATMI context!'';
       State_Monad.return ctx
     } else do { tpsetctxt TPNULLCONTEXT; State_Monad.return ctx }
   }"

definition AtmiCtx_getAtmiError :: "int \<Rightarrow> int \<Rightarrow> (jb, int) state" where
  "AtmiCtx_getAtmiError env obj = ctx_return (ndrxj_get_ctx env obj True) 0 (\<lambda>c. do {
     clz \<leftarrow> getv ''ErrorTuple'';
     mid \<leftarrow> getv ''ErrorTuple_mid_INIT'';
     fe \<leftarrow> getv ''ErrorTuple_fid_err'';
     fm \<leftarrow> getv ''ErrorTuple_fid_msg'';
     err \<leftarrow> ex ''tperrno'' [];
     errObj \<leftarrow> jni ''NewObject'' [I clz, I mid];
     whenM (errObj = 0) (fault ''SetIntField(NULL)'');
     jni ''SetIntField'' [I errObj, I fe, I err];
     m \<leftarrow> ext (API ''tpstrerror'' [I err]);
     jstr \<leftarrow> jni ''NewStringUTF'' [S (rs m)];
     jni ''SetObjectField'' [I errObj, I fm, I jstr];
     State_Monad.return errObj
   })"

text \<open>The context of an object that is collected.\<close>

definition AtmiCtx_finalizeC :: "int \<Rightarrow> (jb, unit) state" where
  "AtmiCtx_finalizeC cPtr = do {
     tpsetctxt cPtr;
     ctxpriv \<leftarrow> ndrx_ctx_priv_get;
     p \<leftarrow> priv ctxpriv;
     ex ''tpfreectxt'' [I cPtr];
     jni ''DeleteWeakGlobalRef'' [I (integptr2 p)];
     skip
   }"

subsection \<open>The server\<close>

definition ndrxj_tpsvrinit :: "(jb, int) state" where
  "ndrxj_tpsvrinit = do {
     ctxpriv \<leftarrow> ndrx_ctx_priv_get;
     p \<leftarrow> priv ctxpriv;
     fid \<leftarrow> getv ''AtmiCtx_fid_svr'';
     svrObj \<leftarrow> jni ''GetObjectField'' [I (integptr2 p), I fid];
     if svrObj = 0 then State_Monad.return EXFAIL else do {
     s \<leftarrow> State_Monad.get;
     tpsetctxt TPNULLCONTEXT;
     mid \<leftarrow> getv ''Server_mid_tpSvrInit'';
     ret \<leftarrow> java_call ''CallIntMethod'' [I svrObj, I mid, I (integptr2 p), I (M_jargv s)];
     p \<leftarrow> priv ctxpriv;
     tpsetctxt (integptr3 p);
     e \<leftarrow> jni ''ExceptionCheck'' [];
     if e \<noteq> 0 then do { NDRXJ_LOG_EXCEPTION; jni ''ExceptionClear'' []; State_Monad.return EXFAIL }
     else State_Monad.return ret
     }
   }"

definition delete_if :: "int \<Rightarrow> (jb, unit) state" where
  "delete_if r = (if r \<noteq> 0 then do { jni ''DeleteLocalRef'' [I r]; skip } else skip)"

definition dispatch_call :: "TPSVCINFO \<Rightarrow> (jb, unit) state" where
  "dispatch_call svcinfo = do {
     ctxpriv \<leftarrow> ndrx_ctx_priv_get;
     p \<leftarrow> priv ctxpriv;
     (jsvcinfo, jdata, jcltid, jname, jfname) \<leftarrow> ndrxj_atmi_TpSvcInfo_translate (integptr1 p) (integptr2 p) True svcinfo;
     (if jsvcinfo = 0 then skip else do {
        tpsetctxt TPNULLCONTEXT;
        mid \<leftarrow> getv ''AtmiCtx_mid_tpCallDispatch'';
        java_call ''CallVoidMethod'' [I (integptr2 p), I mid, I jsvcinfo];
        p \<leftarrow> priv ctxpriv;
        tpsetctxt (integptr3 p);
        e \<leftarrow> jni ''ExceptionCheck'' [];
        whenM (e \<noteq> 0) (do { NDRXJ_LOG_EXCEPTION; jni ''ExceptionClear'' [] })
      });
     delete_if jsvcinfo;
     delete_if jcltid;
     delete_if jdata;
     delete_if jname;
     delete_if jfname
   }"

definition ndrxj_tpsvrdone :: "(jb, unit) state" where
  "ndrxj_tpsvrdone = do {
     ctxpriv \<leftarrow> ndrx_ctx_priv_get;
     p \<leftarrow> priv ctxpriv;
     fid \<leftarrow> getv ''AtmiCtx_fid_svr'';
     svrObj \<leftarrow> jni ''GetObjectField'' [I (integptr2 p), I fid];
     if svrObj = 0 then skip else do {
     tpsetctxt TPNULLCONTEXT;
     mid \<leftarrow> getv ''Server_mid_tpSvrDone'';
     java_call ''CallVoidMethod'' [I svrObj, I mid, I (integptr2 p)];
     p \<leftarrow> priv ctxpriv;
     tpsetctxt (integptr3 p);
     skip
     }
   }"

text \<open>Without a context the exit is reached before the two copy flags are initialised.\<close>

definition AtmiCtx_tpadvertiseC :: "int \<Rightarrow> int \<Rightarrow> int \<Rightarrow> int \<Rightarrow> (jb, unit) state" where
  "AtmiCtx_tpadvertiseC env obj svcname funcname = do {
     c \<leftarrow> ndrxj_get_ctx env obj True;
     (if c = 0 then fault ''n_svcname_copy uninitialised''
      else do {
        n_svcname \<leftarrow> ext (JNI ''GetStringUTFChars'' [I svcname]);
        n_funcname \<leftarrow> ext (JNI ''GetStringUTFChars'' [I funcname]);
        r \<leftarrow> ex ''tpadvertise_full'' [cstr n_svcname, cstr n_funcname];
        whenM (r \<noteq> EXSUCCEED) (throw_tperrno 0);
        whenM (copied n_svcname) (jni ''ReleaseStringUTFChars'' [I svcname]);
        whenM (copied n_funcname) (jni ''ReleaseStringUTFChars'' [I funcname])
      });
     tpsetctxt TPNULLCONTEXT;
     skip
   }"

text \<open>The argument vector of the server: the entries filled so far with their addresses, and whether all were copied.\<close>

fun run_args :: "nat \<Rightarrow> int \<Rightarrow> int \<Rightarrow> (int \<times> arg) list \<Rightarrow> (jb, bool \<times> (int \<times> arg) list) state" where
  "run_args 0 i jargv argv = State_Monad.return (True, argv)"
| "run_args (Suc n) i jargv argv = do {
     jstr \<leftarrow> jni ''GetObjectArrayElement'' [I jargv, I i];
     if jstr = 0 then State_Monad.return (False, argv) else do {
     e \<leftarrow> with_utf jstr (\<lambda>n_elm. do {
       p \<leftarrow> ex ''strdup'' [cstr n_elm];
       whenM (p = 0) (ndrxj_atmi_throw 0 0 TPESYSTEM ''Failed to strdup bytes: '');
       State_Monad.return (p, cstr n_elm) });
     if fst e = 0 then State_Monad.return (False, argv) else run_args n (i + 1) jargv (argv @ [e])
     }
   }"

definition boot_server :: "int \<Rightarrow> arg list \<Rightarrow> (jb, int) state" where
  "boot_server argc argv = do {
     ret \<leftarrow> ex ''ndrx_main_integra'' (I argc # argv);
     State_Monad.update (\<lambda>s. s\<lparr>privs := reenter s (tr s) (privs s)\<rparr>);
     err \<leftarrow> (if ret \<noteq> EXSUCCEED then ex ''tperrno'' [] else State_Monad.return 0);
     whenM (err \<noteq> 0) (throw_tperrno 0);
     State_Monad.return ret
   }"

text \<open>The return code, the vector and its entries; what has been allocated is freed at the exit.\<close>

definition run_server :: "int \<Rightarrow> int \<Rightarrow> bool \<Rightarrow> (jb, int \<times> int \<times> int list) state" where
  "run_server jargv sz nocheck =
     (if \<not> nocheck \<and> sz < 4 then do {
        ndrxj_atmi_throw 0 0 TPEINVAL (''Invalid argument count for server, expected at least 4, got '' @ show_int sz);
        State_Monad.return (EXFAIL, 0, [])
      } else do {
      argv \<leftarrow> ex ''calloc'' [I (sz + 1)];
      if argv = 0 then do {
        fault ''vsnprintf: missing arguments'';
        ndrxj_atmi_throw 0 0 TPESYSTEM (''Failed to realloc '' @ show_int sz @ '' bytes: '');
        State_Monad.return (EXFAIL, 0, [])
      } else do {
      prog \<leftarrow> ext (API ''EX_PROGNAME'' []);
      p \<leftarrow> ex ''strdup'' [cstr prog];
      (ok, args) \<leftarrow> run_args (nat sz) 0 jargv [(p, cstr prog)];
      ret \<leftarrow> (if ok then boot_server (sz + 1) (map snd args) else State_Monad.return EXFAIL);
      State_Monad.return (ret, argv, map fst args)
      }})"

fun free_args :: "int list \<Rightarrow> (jb, unit) state" where
  "free_args [] = skip"
| "free_args (p # ps) = do { whenM (p \<noteq> 0) (ex ''free'' [I p]); free_args ps }"

definition AtmiCtx_tpRunC :: "int \<Rightarrow> int \<Rightarrow> int \<Rightarrow> bool \<Rightarrow> (jb, int) state" where
  "AtmiCtx_tpRunC env obj jargv nocheck = do {
     ctx \<leftarrow> ndrxj_get_ctx env obj True;
     if ctx = 0 then do {
       tpsetctxt TPNULLCONTEXT;
       fault ''DeleteGlobalRef of a local reference'';
       jni ''DeleteGlobalRef'' [I obj];
       State_Monad.return EXFAIL
     } else do {
       ctxpriv \<leftarrow> ndrx_ctx_priv_get;
       State_Monad.update (\<lambda>s. s\<lparr>M_jargv := jargv\<rparr>);
       sz \<leftarrow> (if jargv \<noteq> 0 then jni ''GetArrayLength'' [I jargv] else State_Monad.return 0);
       gobj \<leftarrow> jni ''NewGlobalRef'' [I obj];
       set_priv ctxpriv (\<lambda>p. p\<lparr>integptr1 := env, integptr2 := gobj, integptr3 := ctx,
         integlng4 := integlng4 p OR NDRXJ_CTXFLAGS_SRV\<rparr>);
       (ret, argv, args) \<leftarrow> run_server jargv sz nocheck;
       tpsetctxt TPNULLCONTEXT;
       whenM (argv \<noteq> 0) (do { free_args args; ex ''free'' [I argv] });
       jni ''DeleteGlobalRef'' [I gobj];
       State_Monad.return ret
     }
   }"

definition AtmiCtx_tpreturn :: "int \<Rightarrow> int \<Rightarrow> int \<Rightarrow> int \<Rightarrow> int \<Rightarrow> int \<Rightarrow> (jb, unit) state" where
  "AtmiCtx_tpreturn env obj rval rcode data flags = ctx_return (ndrxj_get_ctx env obj True) () (\<lambda>c. do {
     (ret, buf, len, _) \<leftarrow> ndrxj_atmi_TypedBuffer_get_buffer data 0 False True True;
     if ret \<noteq> EXSUCCEED then skip
     else do { ex ''tpreturn'' [I rval, I rcode, I buf, I len, I flags]; skip }
   })"

definition AtmiCtx_tpforward :: "int \<Rightarrow> int \<Rightarrow> int \<Rightarrow> int \<Rightarrow> int \<Rightarrow> (jb, unit) state" where
  "AtmiCtx_tpforward env obj svcname data flags = do {
     n_svcname \<leftarrow> ext (JNI ''GetStringUTFChars'' [I svcname]);
     c \<leftarrow> ndrxj_get_ctx env obj True;
     if c = 0 then skip else do {
       do {
         (ret, buf, len, _) \<leftarrow> ndrxj_atmi_TypedBuffer_get_buffer data 0 False True True;
         if ret \<noteq> EXSUCCEED then skip
         else do { ex ''tpforward'' [cstr n_svcname, I buf, I len, I flags]; skip } };
       whenM (copied n_svcname) (jni ''ReleaseStringUTFChars'' [I svcname]);
       tpsetctxt TPNULLCONTEXT;
       skip
     }
   }"

definition AtmiCtx_tpcontinue :: "int \<Rightarrow> int \<Rightarrow> (jb, unit) state" where
  "AtmiCtx_tpcontinue env obj = ctx_return (ndrxj_get_ctx env obj True) () (\<lambda>c. do { ex ''tpcontinue'' []; skip })"

definition AtmiCtx_tpsrvgetctxdata :: "int \<Rightarrow> int \<Rightarrow> (jb, int) state" where
  "AtmiCtx_tpsrvgetctxdata env obj = ctx_return (ndrxj_get_ctx env obj True) EXFAIL (\<lambda>c. do {
     ret \<leftarrow> ex ''tpsrvgetctxdata'' [];
     whenM (ret = 0) (throw_tperrno 0);
     State_Monad.return ret
   })"

text \<open>Calls of the core that return a status: an exception unless it is \<open>EXSUCCEED\<close>.\<close>

definition core_call :: "string \<Rightarrow> arg list \<Rightarrow> (jb, unit) state" where
  "core_call f as = do {
     r \<leftarrow> ex f as;
     if r \<noteq> EXSUCCEED then throw_tperrno 0 else skip
   }"

definition AtmiCtx_tpsrvsetctxdata :: "int \<Rightarrow> int \<Rightarrow> int \<Rightarrow> int \<Rightarrow> (jb, unit) state" where
  "AtmiCtx_tpsrvsetctxdata env obj dataptr flags =
     ctx_return (ndrxj_get_ctx env obj True) () (\<lambda>c. core_call ''tpsrvsetctxdata'' [I dataptr, I flags])"

definition AtmiCtx_tpsrvfreectxdata :: "int \<Rightarrow> int \<Rightarrow> int \<Rightarrow> (jb, unit) state" where
  "AtmiCtx_tpsrvfreectxdata env obj dataptr =
     ctx_return (ndrxj_get_ctx env obj True) () (\<lambda>c. do { ex ''tpsrvfreectxdata'' [I dataptr]; skip })"

subsection \<open>Client and transactions\<close>

definition AtmiCtx_tpinit :: "int \<Rightarrow> int \<Rightarrow> int \<Rightarrow> (jb, unit) state" where
  "AtmiCtx_tpinit env obj tpinfo = ctx_return (ndrxj_get_ctx env obj True) () (\<lambda>c. core_call ''tpinit'' [I 0])"

definition AtmiCtx_tpterm :: "int \<Rightarrow> int \<Rightarrow> (jb, unit) state" where
  "AtmiCtx_tpterm env obj = ctx_return (ndrxj_get_ctx env obj True) () (\<lambda>c. do { ex ''tpterm'' []; skip })"

definition AtmiCtx_tpopen :: "int \<Rightarrow> int \<Rightarrow> (jb, unit) state" where
  "AtmiCtx_tpopen env obj = ctx_return (ndrxj_get_ctx env obj True) () (\<lambda>c. core_call ''tpopen'' [])"

definition AtmiCtx_tpclose :: "int \<Rightarrow> int \<Rightarrow> (jb, unit) state" where
  "AtmiCtx_tpclose env obj = ctx_return (ndrxj_get_ctx env obj True) () (\<lambda>c. core_call ''tpclose'' [])"

definition AtmiCtx_tpbegin :: "int \<Rightarrow> int \<Rightarrow> int \<Rightarrow> int \<Rightarrow> (jb, unit) state" where
  "AtmiCtx_tpbegin env obj timeout flags =
     ctx_return (ndrxj_get_ctx env obj True) () (\<lambda>c. core_call ''tpbegin'' [I timeout, I flags])"

definition AtmiCtx_tpcommit :: "int \<Rightarrow> int \<Rightarrow> int \<Rightarrow> (jb, unit) state" where
  "AtmiCtx_tpcommit env obj flags = ctx_return (ndrxj_get_ctx env obj True) () (\<lambda>c. core_call ''tpcommit'' [I flags])"

definition AtmiCtx_tpabort :: "int \<Rightarrow> int \<Rightarrow> int \<Rightarrow> (jb, unit) state" where
  "AtmiCtx_tpabort env obj flags = ctx_return (ndrxj_get_ctx env obj True) () (\<lambda>c. core_call ''tpabort'' [I flags])"

definition AtmiCtx_tpsuspend :: "int \<Rightarrow> int \<Rightarrow> int \<Rightarrow> (jb, int) state" where
  "AtmiCtx_tpsuspend env obj flags = ctx_return (ndrxj_get_ctx env obj True) 0 (\<lambda>c. do {
     r \<leftarrow> ext (API ''tpsuspend'' [I flags]);
     if ri r \<noteq> EXSUCCEED then do { throw_tperrno 0; State_Monad.return 0 }
     else ndrxj_atmi_TPTRANID_translate2java 0 ((\<lambda>_. CLong 0)(''data'' := CBytes (rb r)))
   })"

definition AtmiCtx_tpresume :: "int \<Rightarrow> int \<Rightarrow> int \<Rightarrow> int \<Rightarrow> (jb, unit) state" where
  "AtmiCtx_tpresume env obj jtid flags = ctx_return (ndrxj_get_ctx env obj True) () (\<lambda>c. do {
     (ret, tid) \<leftarrow> ndrxj_atmi_TPTRANID_translate2c jtid (\<lambda>_. CLong 0);
     if ret \<noteq> EXSUCCEED then skip
     else core_call ''tpresume'' [Bs (c_bytes (tid ''data'')), I flags]
   })"

definition AtmiCtx_tpgetlev :: "int \<Rightarrow> int \<Rightarrow> (jb, int) state" where
  "AtmiCtx_tpgetlev env obj = ctx_return (ndrxj_get_ctx env obj True) EXFAIL (\<lambda>c. ex ''tpgetlev'' [])"

subsection \<open>Boolean expressions\<close>

definition throw_berror :: "string \<Rightarrow> (jb, unit) state" where
  "throw_berror pre = do {
     err \<leftarrow> ex ''Berror'' [];
     m \<leftarrow> ext (API ''Bstrerror'' [I err]);
     ndrxj_ubf_throw err (pre @ rs m)
   }"

definition AtmiCtx_Bboolco :: "int \<Rightarrow> int \<Rightarrow> int \<Rightarrow> (jb, int) state" where
  "AtmiCtx_Bboolco env obj jexpr = ctx_return (ndrxj_get_ctx env obj True) 0 (\<lambda>c.
     with_utf jexpr (\<lambda>n_expr. do {
       tree \<leftarrow> ex ''Bboolco'' [cstr n_expr];
       if tree = 0 then do { throw_berror ''Failed to compile: ''; State_Monad.return 0 }
       else do {
         ret \<leftarrow> ndrxj_BExprTree_new tree;
         whenM (ret = 0) (ex ''Btreefree'' [I tree]);
         State_Monad.return ret
       }
     }))"

definition bboolprcb_callback :: "int \<Rightarrow> int list \<Rightarrow> int \<Rightarrow> (jb, int) state" where
  "bboolprcb_callback outstream buffer datalen = do {
     ba \<leftarrow> jni ''NewByteArray'' [I datalen];
     if ba = 0 then do { NDRXJ_LOG_EXCEPTION; State_Monad.return EXFAIL } else do {
     jni ''SetByteArrayRegion'' [I ba, I 0, I datalen, Bs buffer];
     e \<leftarrow> jni ''ExceptionCheck'' [];
     if e \<noteq> 0 then do { NDRXJ_LOG_EXCEPTION; State_Monad.return EXFAIL } else do {
     context \<leftarrow> ext (API ''tpgetctxt'' [I 0]);
     mid \<leftarrow> getv ''OutputStream_mid_write'';
     java_call ''CallVoidMethod'' [I outstream, I mid, I ba];
     tpsetctxt (hd (ro context @ [0]));
     State_Monad.return EXSUCCEED
     }}
   }"

definition AtmiCtx_Bboolpr :: "int \<Rightarrow> int \<Rightarrow> int \<Rightarrow> int \<Rightarrow> (jb, unit) state" where
  "AtmiCtx_Bboolpr env obj compexpr outstream = ctx_return (ndrxj_get_ctx env obj True) () (\<lambda>c. do {
     tree \<leftarrow> ndrxj_BExprTree_ptr_get compexpr;
     if tree = 0 then skip else do { ex ''Bboolprcb'' [I tree, I outstream]; skip }
   })"

definition AtmiCtx_BboolsetcbfC :: "int \<Rightarrow> int \<Rightarrow> int \<Rightarrow> (jb, unit) state" where
  "AtmiCtx_BboolsetcbfC env obj funcname = do {
     n_funcname \<leftarrow> ext (JNI ''GetStringUTFChars'' [I funcname]);
     c \<leftarrow> ndrxj_get_ctx env obj True;
     if c = 0 then skip else do {
       do {
         r \<leftarrow> ex ''Bboolsetcbf'' [cstr n_funcname];
         whenM (r \<noteq> EXSUCCEED) (throw_berror ''Failed to call Bboolsetcbf(): '') };
       whenM (copied n_funcname) (jni ''ReleaseStringUTFChars'' [I funcname]);
       tpsetctxt TPNULLCONTEXT;
       skip
     }
   }"

subsection \<open>Every method works in the context of its object\<close>

lemma inner_core_call: "f \<notin> set ctx_fns \<Longrightarrow> keeps inner (core_call f as)"
  unfolding core_call_def by (intro inner_calls inner_bufs) (simp_all add: fns_defs)

lemma plain_throw_berror: "keeps plain (throw_berror pre)"
  unfolding throw_berror_def by (intro plain_calls) (simp_all add: fns_defs)

lemmas inner_atmi = inner_calls inner_bufs inner_conv inner_core_call plain_throw_berror [THEN keeps_plain_inner]

lemmas atmi_plain_defs = AtmiCtx_tplogqinfo_def AtmiCtx_userlogC_def AtmiCtx_getAtmiError_def AtmiCtx_tpreturn_def
  AtmiCtx_tpcontinue_def AtmiCtx_tpsrvgetctxdata_def AtmiCtx_tpsrvsetctxdata_def AtmiCtx_tpsrvfreectxdata_def
  AtmiCtx_tpinit_def AtmiCtx_tpterm_def AtmiCtx_tpopen_def AtmiCtx_tpclose_def AtmiCtx_tpbegin_def AtmiCtx_tpcommit_def
  AtmiCtx_tpabort_def AtmiCtx_tpsuspend_def AtmiCtx_tpresume_def AtmiCtx_tpgetlev_def AtmiCtx_Bboolco_def AtmiCtx_Bboolpr_def

lemma atmi_methods_native:
  assumes "cur_ctx (tr s) = 0"
  shows "native obj s (exec (AtmiCtx_tplogqinfo env obj lev flags) s)"
    "native obj s (exec (AtmiCtx_userlogC env obj msg) s)"
    "native obj s (exec (AtmiCtx_getAtmiError env obj) s)"
    "native obj s (exec (AtmiCtx_tpreturn env obj rval rcode data flags) s)"
    "native obj s (exec (AtmiCtx_tpcontinue env obj) s)"
    "native obj s (exec (AtmiCtx_tpsrvgetctxdata env obj) s)"
    "native obj s (exec (AtmiCtx_tpsrvsetctxdata env obj data flags) s)"
    "native obj s (exec (AtmiCtx_tpsrvfreectxdata env obj data) s)"
    "native obj s (exec (AtmiCtx_tpinit env obj data) s)"
    "native obj s (exec (AtmiCtx_tpterm env obj) s)"
    "native obj s (exec (AtmiCtx_tpopen env obj) s)"
    "native obj s (exec (AtmiCtx_tpclose env obj) s)"
    "native obj s (exec (AtmiCtx_tpbegin env obj timeout flags) s)"
    "native obj s (exec (AtmiCtx_tpcommit env obj flags) s)"
    "native obj s (exec (AtmiCtx_tpabort env obj flags) s)"
    "native obj s (exec (AtmiCtx_tpsuspend env obj flags) s)"
    "native obj s (exec (AtmiCtx_tpresume env obj data flags) s)"
    "native obj s (exec (AtmiCtx_tpgetlev env obj) s)"
    "native obj s (exec (AtmiCtx_Bboolco env obj msg) s)"
    "native obj s (exec (AtmiCtx_Bboolpr env obj data msg) s)"
  unfolding atmi_plain_defs
  by (rule atmi_native [OF _ assms], (intro inner_atmi; simp add: fns_defs))+

lemmas bracket_simps = around_def detach_def suffix_ConsI ctx_fns_def query_fns_def

lemma atmi_log_native:
  assumes "cur_ctx (tr s) = 0"
  shows "native obj s (exec (AtmiCtx_tplogC env obj lev file line msg) s)"
    "native obj s (exec (AtmiCtx_tplogDump env obj lev msg data) s)"
    "native obj s (exec (AtmiCtx_tplogDumpDiff env obj lev msg data data2) s)"
    "native obj s (exec (AtmiCtx_tpforward env obj msg data flags) s)"
    "native obj s (exec (AtmiCtx_BboolsetcbfC env obj msg) s)"
proof -
  note * = bracket_wp [OF _ assms]
  show "native obj s (exec (AtmiCtx_tplogC env obj lev file line msg) s)" unfolding AtmiCtx_tplogC_def
    by (rule wp_exec, rule wp_bind, rule wp_ext, rule wp_bind, rule wp_if; rule wp_ext wp_return; rule *;
        (intro inner_atmi wp_intros)?; simp add: bracket_simps no_res_def copied_def)
  show "native obj s (exec (AtmiCtx_tplogDump env obj lev msg data) s)" unfolding AtmiCtx_tplogDump_def
    by (rule wp_exec, (rule wp_bind, rule wp_ext)+, rule *; (intro inner_atmi wp_intros)?; simp add: bracket_simps special_fns_def java_fns_def)
  show "native obj s (exec (AtmiCtx_tplogDumpDiff env obj lev msg data data2) s)" unfolding AtmiCtx_tplogDumpDiff_def
    by (rule wp_exec, (rule wp_bind, rule wp_ext)+, rule *; (intro inner_atmi wp_intros)?; simp add: bracket_simps special_fns_def java_fns_def)
  show "native obj s (exec (AtmiCtx_tpforward env obj msg data flags) s)" unfolding AtmiCtx_tpforward_def
    by (rule wp_exec, rule wp_bind, rule wp_ext, rule *; (intro inner_atmi wp_intros)?; simp add: bracket_simps)
  show "native obj s (exec (AtmiCtx_BboolsetcbfC env obj msg) s)" unfolding AtmiCtx_BboolsetcbfC_def
    by (rule wp_exec, rule wp_bind, rule wp_ext, rule *; (intro inner_atmi wp_intros)?; simp add: bracket_simps)
qed

text \<open>The methods that do not fit the two shapes.\<close>

lemma inner_advertise:
  "keeps inner (do {
     n_svcname \<leftarrow> ext (JNI ''GetStringUTFChars'' [I svcname]);
     n_funcname \<leftarrow> ext (JNI ''GetStringUTFChars'' [I funcname]);
     r \<leftarrow> ex ''tpadvertise_full'' [cstr n_svcname, cstr n_funcname];
     whenM (r \<noteq> EXSUCCEED) (throw_tperrno 0);
     whenM (copied n_svcname) (jni ''ReleaseStringUTFChars'' [I svcname]);
     whenM (copied n_funcname) (jni ''ReleaseStringUTFChars'' [I funcname])
   })"
  by (rule keeps_wp) (intro wpx wp_keeps [OF plain_throw_tperrno [THEN keeps_plain_inner]];
    auto simp: frame_def ctx_fns_def suffix_Cons dest!: suffix_ConsD)

lemma alloc_tail:
  "wp (do { tpsetctxt TPNULLCONTEXT; whenM a (jni ''ReleaseStringUTFChars'' x); whenM b (jni ''ReleaseStringUTFChars'' y);
      State_Monad.return r })
    (\<lambda>_ t. detach s t \<and> copies (tr t) = copies (tr s) - (if a then 1 else 0) - (if b then 1 else 0)) s"
  by (intro wp_intros) (simp_all add: bracket_simps)

lemma native_detached:
  assumes "detach s s1" "inner s1 t"
  shows "native obj s t"
  unfolding native_def
proof (intro exI [of _ 0] conjI)
  show "suffix (tr s) (tr t)" by (rule suffix_order.trans [OF detachD(1) [OF assms(1)] frameD(1) [OF assms(2)]])
  show "cur_ctx (tr t) = 0" by (simp add: inner_cur_ctx [OF assms(2)] detachD(2) [OF assms(1)])
  show "api_ctx (tr t) \<subseteq> api_ctx (tr s) \<union> {0} \<times> UNIV"
    using inner_api [OF assms(2)] by (simp only: detachD(2,3) [OF assms(1)])
qed (simp_all add: srv_same_def frameD(4,5) [OF assms(2)] detachD(4,5) [OF assms(1)])

lemma atmi_other_native:
  assumes "cur_ctx (tr s) = 0"
  shows "native obj s (exec (AtmiCtx_tpadvertiseC env obj svcname funcname) s)"
    "native obj s (exec (AtmiCtx_tplogndrxC env obj lev file line msg) s)"
    "native obj s (exec AtmiCtx_tpnewctxt s)"
proof -
  show "native obj s (exec (AtmiCtx_tpadvertiseC env obj svcname funcname) s)" unfolding AtmiCtx_tpadvertiseC_def
    by (rule out_native [OF inner_advertise _ assms]) (intro inner_calls)
  have null: "native obj s t" if "inner s0 s1" "s1 = t \<or> detach s1 t" "around s s0" for s0 s1 t
    by (rule native_null [OF that(3) that(1) assms that(2)])
  show "native obj s (exec (AtmiCtx_tplogndrxC env obj lev file line msg) s)" unfolding AtmiCtx_tplogndrxC_def
    apply (rule wp_exec, (rule wp_bind, rule wp_ext)+, rule wp_bind, rule wp_keeps [OF get_ctx_noset], rule wp_if)
     apply (rule wp_return, rule null, assumption, simp, simp add: bracket_simps)
    apply (rule wp_bind, rule wp_keeps [where R = inner])
     apply (intro inner_atmi; simp add: ctx_fns_def)
    apply (intro wp_intros; rule null, erule inner.trans, assumption; simp add: bracket_simps)
    done
  show "native obj s (exec AtmiCtx_tpnewctxt s)" unfolding AtmiCtx_tpnewctxt_def
    by (rule wp_exec, intro wp_bind wp_ex wp_if wp_tpsetctxt wp_return wp_keeps [OF plain_throws(1)];
        rule native_detached [rotated], (rule plain_inner, assumption | rule inner.refl); simp add: bracket_simps)
qed

lemma inner_alloc:
  "keeps inner (do { data \<leftarrow> ex ''tpalloc'' as; if data = 0 then do { throw_tperrno 0; State_Monad.return 0 }
     else ndrxj_atmi_TypedBuffer_translate env obj True data sz ty 1 })"
  by (intro inner_atmi; simp add: ctx_fns_def)

definition within :: "int \<Rightarrow> int \<Rightarrow> jb \<Rightarrow> jb \<Rightarrow> bool" where
  "within env obj s t \<longleftrightarrow> inner s t \<or> (\<exists>c s1. attach env obj c s s1 \<and> inner s1 t)"

lemma within_native:
  assumes "within env obj s0 s2" "around s s0" "cur_ctx (tr s) = 0" "detach s2 t"
    "copies (tr t) - copies (tr s2) = copies (tr s) - copies (tr s0)"
  shows "native obj s t"
  using assms(1) unfolding within_def
proof (elim disjE exE conjE)
  assume "inner s0 s2"
  then show ?thesis using native_null [OF assms(2) _ assms(3), of s2 t obj] assms(4) by simp
next
  fix c s1
  assume *: "attach env obj c s0 s1" "inner s1 s2"
  show ?thesis
    by (rule nativeI [OF assms(2) * assms(4)]) (use assms(5) frameD(3) [OF *(2)] attachD(2) [OF *(1)] in simp)
qed

lemma within_flt [simp]: "within env obj (s\<lparr>flt := w\<rparr>) t = within env obj s t"
proof -
  have "inner (s\<lparr>flt := w\<rparr>) t = inner s t" for t by (simp add: frame_def)
  moreover have "attach env obj c (s\<lparr>flt := w\<rparr>) t = attach env obj c s t" for c t by (simp add: attach_def)
  ultimately show ?thesis by (simp add: within_def)
qed

lemma within_ctx:
  assumes "\<And>c. keeps inner (body c)"
  shows "wp (do { c \<leftarrow> ndrxj_get_ctx env obj True; if c = 0 then State_Monad.return d else body c }) (\<lambda>_. within env obj s) s"
  by (intro wp_bind wp_cons [OF get_ctx_wp] wp_if wp_return wp_keeps [OF assms])
     (auto simp: within_def intro: plain_inner)

lemma within_refl: "within env obj s s"
  by (simp add: within_def inner.refl)

lemma plain_within: "plain s t \<Longrightarrow> within env obj s t"
  by (simp add: within_def plain_inner)

lemma tpalloc_typed_within: "wp (tpalloc_typed env obj n m sz) (\<lambda>_. within env obj s) s"
  unfolding tpalloc_typed_def
  apply (rule wp_bind, rule wp_if)
   apply (rule wp_bind, rule wp_fault, rule wp_return, rule wp_if, rule wp_return, simp add: within_def frame_def)
   apply (rule wp_cons [OF within_ctx [OF inner_alloc]], simp)
  apply (rule wp_return, rule wp_if, rule wp_return, rule within_refl, rule within_ctx [OF inner_alloc])
  done

lemma tpalloc_native:
  assumes "cur_ctx (tr s) = 0"
  shows "native obj s (exec (AtmiCtx_tpalloc env obj btype bsubtype sz) s)"
proof (rule wp_exec)
  note fin = within_native [OF _ _ assms]
  show "wp (AtmiCtx_tpalloc env obj btype bsubtype sz) (\<lambda>_. native obj s) s"
    unfolding AtmiCtx_tpalloc_def
    by (rule wp_bind, rule wp_if; rule wp_ext wp_return; rule wp_bind, rule wp_if; rule wp_ext wp_return; rule wp_bind, rule wp_if;
        ((rule wp_bind, rule wp_keeps [OF plain_throws(1)], drule plain_within, rule wp_return) | rule wp_cons [OF tpalloc_typed_within]);
        rule wp_cons [OF alloc_tail], elim conjE, rule fin, assumption; simp add: bracket_simps no_res_def copied_def)
qed

subsection \<open>Calls that report a status\<close>

fun throw_ev :: "ev \<Rightarrow> bool" where
  "throw_ev (JNI f as) = (f = ''Throw'' \<or> f = ''ThrowNew'')"
| "throw_ev (API f as) = False"

lemma wp_conj: "wp m P s \<Longrightarrow> wp m Q s \<Longrightarrow> wp m (\<lambda>x t. P x t \<and> Q x t) s"
  by (simp add: wp_def)

lemma get_ctx_quiet:
  "wp (ndrxj_get_ctx env obj True) (\<lambda>c t. c \<noteq> 0 \<longrightarrow> dyn t = dyn s \<and> obs throw_ev (tr t) = obs throw_ev (tr s)) s"
  unfolding ndrxj_get_ctx_def by (intro wpx wp_keeps [OF plain_throws(1)]) simp_all

lemma throw_tperrno_wp:
  assumes "dyn_ok s" "able (orc s)"
  shows "wp (throw_tperrno data) (\<lambda>_ t. plain s t \<and>
    (\<exists>err msg. raised data err msg (tr t) \<and> (API ''tperrno'' [], err) \<in> calls (tr t))) s"
proof (rule wp_conj)
  show "wp (throw_tperrno data) (\<lambda>_. plain s) s" using plain_throw_tperrno by (simp add: keeps_def wp_def)
  have *: "dyn_ok (s\<lparr>tr := (e, r) # (e', r') # tr s\<rparr>)" for e r e' r'
    using assms(1) by (auto simp: dyn_ok_def suffix_ConsI intro: entry_ok_mono)
  show "wp (throw_tperrno data) (\<lambda>_ t. \<exists>err msg. raised data err msg (tr t) \<and> (API ''tperrno'' [], err) \<in> calls (tr t)) s"
    unfolding throw_tperrno_def
    by (intro wp_bind wp_ex wp_ext wp_cons [OF atmi_throw_wp]) (use assms(2) * excR_more in \<open>fastforce+\<close>)
qed

text \<open>\<open>status_ok f as\<close>: without a context nothing is asked of the core.  Otherwise the core sees exactly three calls: the
  thread is attached to the context of the object, \<open>f\<close> is called, and the thread is detached.  When \<open>f\<close> succeeds no
  exception is raised; when it fails, the exception of the error code that \<open>tperrno\<close> reports is raised.\<close>

definition status_ok :: "string \<Rightarrow> arg list \<Rightarrow> int \<Rightarrow> jb \<Rightarrow> jb \<Rightarrow> bool" where
  "status_ok f as obj s t \<longleftrightarrow>
     core (tr t) = core (tr s) \<and> (JNI ''GetLongField'' [I obj, I (gv s ''AtmiCtx_fid_ctx'')], 0) \<in> calls (tr t) \<or>
     (\<exists>c r1 r r2 h. c \<noteq> 0 \<and> (JNI ''GetLongField'' [I obj, I (gv s ''AtmiCtx_fid_ctx'')], c) \<in> calls (tr t) \<and>
        tr t = (API ''tpsetctxt'' [I TPNULLCONTEXT, I 0], r2) # h \<and>
        core h = (API f as, r) # (API ''tpsetctxt'' [I c, I 0], r1) # core (tr s) \<and>
        (if ri r = EXSUCCEED then obs throw_ev (tr t) = obs throw_ev (tr s)
         else \<exists>err msg. raised 0 err msg h \<and> (API ''tperrno'' [], err) \<in> calls h))"

lemma status_call:
  assumes f: "f \<notin> set query_fns" and s: "dyn_ok s" "able (orc s)"
  shows "status_ok f as obj s (exec (ctx_return (ndrxj_get_ctx env obj True) () (\<lambda>c. core_call f as)) s)"
proof (rule wp_exec)
  have att: "wp (do { r \<leftarrow> core_call f as; tpsetctxt TPNULLCONTEXT; State_Monad.return r }) (\<lambda>_. status_ok f as obj s) t"
    if t: "c \<noteq> 0" "attach env obj c s t" "dyn t = dyn s" "obs throw_ev (tr t) = obs throw_ev (tr s)" for c t
  proof -
    obtain r1 where core: "core (tr t) = (API ''tpsetctxt'' [I c, I 0], r1) # core (tr s)" using t(2) by (auto simp: attach_def)
    note suf = attachD(1) [OF t(2)] and get = attachD(5) [OF t(2)]
    have cfg: "orc t = orc s" "dynH t = dynH s" using attachD(3) [OF t(2)] by (simp_all add: cfg_def)
    have dyn: "dyn_ok (t\<lparr>tr := (e, q) # tr t\<rparr>)" for e q
      using s(1) suf cfg(2) t(3) by (auto simp: dyn_ok_def suffix_ConsI intro: entry_ok_mono)
    have fail: "status_ok f as obj s (drop_ctx r2 u)"
      if u: "plain (t\<lparr>tr := (API f as, r) # tr t\<rparr>) u" "ri r \<noteq> EXSUCCEED" "raised 0 err msg (tr u)"
        "(API ''tperrno'' [], err) \<in> calls (tr u)" for u r r2 err msg
      unfolding status_ok_def
    proof (intro disjI2 exI conjI)
      show "(JNI ''GetLongField'' [I obj, I (gv s ''AtmiCtx_fid_ctx'')], c) \<in> calls (tr (drop_ctx r2 u))"
        using get calls_suffix [OF frameD(1) [OF u(1)]] by auto
      show "core (tr u) = (API f as, r) # (API ''tpsetctxt'' [I c, I 0], r1) # core (tr s)"
        using frameD(2) [OF u(1)] f core by simp
    qed (use t(1) u(2-4) in auto)
    have ok: "status_ok f as obj s (drop_ctx r2 (t\<lparr>tr := (API f as, r) # tr t\<rparr>))" if "ri r = EXSUCCEED" for r r2
      unfolding status_ok_def using t(1,4) get f core that by (intro disjI2 exI [of _ c] exI) auto
    show ?thesis unfolding core_call_def
      apply (rule wp_bind, rule wp_bind, rule wp_ex, rule wp_if)
       apply (rule wp_cons [OF throw_tperrno_wp], rule dyn, simp add: cfg s)
       apply (rule wp_bind, rule wp_tpsetctxt, rule wp_return, elim conjE exE, rule fail, assumption+)
      apply (intro wp_bind wp_return wp_tpsetctxt, rule ok, simp)
      done
  qed
  show "wp (ctx_return (ndrxj_get_ctx env obj True) () (\<lambda>c. core_call f as)) (\<lambda>_. status_ok f as obj s) s"
    unfolding ctx_return_def
    apply (rule wp_bind, rule wp_cons [OF wp_conj [OF get_ctx_wp get_ctx_quiet]], rule wp_if, rule wp_return)
     apply (simp add: status_ok_def frame_def)
    subgoal for c t by (rule att [of c t]) simp_all
    done
qed

text \<open>C18. The methods that pass a status on from the core (\<open>tpinit\<close>, \<open>tpopen\<close>, \<open>tpclose\<close>, \<open>tpbegin\<close>, \<open>tpcommit\<close>, \<open>tpabort\<close> and
  \<open>tpsrvsetctxdata\<close>) call the function of the core of the same name once, with the arguments given, in the context of their object,
  with nothing in between that could reach another context; they raise an exception if and only if it fails, and it is the
  one of the error code.\<close>

theorem status_methods:
  assumes "dyn_ok s" "able (orc s)"
  shows "status_ok ''tpinit'' [I 0] obj s (exec (AtmiCtx_tpinit env obj tpinfo) s) \<and>
    status_ok ''tpopen'' [] obj s (exec (AtmiCtx_tpopen env obj) s) \<and>
    status_ok ''tpclose'' [] obj s (exec (AtmiCtx_tpclose env obj) s) \<and>
    status_ok ''tpbegin'' [I timeout, I flags] obj s (exec (AtmiCtx_tpbegin env obj timeout flags) s) \<and>
    status_ok ''tpcommit'' [I flags] obj s (exec (AtmiCtx_tpcommit env obj flags) s) \<and>
    status_ok ''tpabort'' [I flags] obj s (exec (AtmiCtx_tpabort env obj flags) s) \<and>
    status_ok ''tpsrvsetctxdata'' [I ptr, I flags] obj s (exec (AtmiCtx_tpsrvsetctxdata env obj ptr flags) s)"
  unfolding AtmiCtx_tpinit_def AtmiCtx_tpopen_def AtmiCtx_tpclose_def AtmiCtx_tpbegin_def AtmiCtx_tpcommit_def AtmiCtx_tpabort_def
    AtmiCtx_tpsrvsetctxdata_def
  by (intro conjI status_call assms) (simp_all add: query_fns_def)

theorem status_methods_witness:
  "dyn_ok (jb_init quiet) \<and> able quiet \<and> status_ok ''tpcommit'' [I 0] 7 (jb_init quiet) (exec (AtmiCtx_tpcommit 1 7 0) (jb_init quiet))"
proof -
  have a: "dyn_ok (jb_init quiet)" "able (orc (jb_init quiet))" "able quiet"
    by (simp_all add: dyn_ok_def jb_init_def able_def quiet_def)
  show ?thesis using status_methods [OF a(1,2), of 7 1] a(1,3) by blast
qed

subsection \<open>Callbacks\<close>

text \<open>The contexts in which application code was called.\<close>

fun java_ctx :: "trace \<Rightarrow> int set" where
  "java_ctx [] = {}"
| "java_ctx ((JNI f as, r) # t) = (if f \<in> set java_fns then insert (cur_ctx t) (java_ctx t) else java_ctx t)"
| "java_ctx ((API f as, r) # t) = java_ctx t"

definition restored :: "jb \<Rightarrow> jb \<Rightarrow> bool" where
  "restored s t \<longleftrightarrow> cur_ctx (tr t) = cur_ctx (tr s) \<and> java_ctx (tr t) \<subseteq> insert 0 (java_ctx (tr s))"

interpretation restored: run_rel restored
  by unfold_locales (auto simp: restored_def)

lemma plain_java_ctx: "plain s t \<Longrightarrow> java_ctx (tr t) = java_ctx (tr s)"
proof -
  have "core n = [] \<Longrightarrow> java_ctx (n @ u) = java_ctx u" for n u
  proof (induction n)
    case (Cons p n)
    then show ?case by (cases "p # n" rule: java_ctx.cases) (auto simp: java_fns_def split: if_splits)
  qed simp
  then show "plain s t \<Longrightarrow> java_ctx (tr t) = java_ctx (tr s)" by (auto simp: frame_def suffix_def obs_def)
qed

lemma plain_restored: "plain s t \<Longrightarrow> restored s t"
  using inner_cur_ctx [OF plain_inner] plain_java_ctx by (auto simp: restored_def)

lemma keeps_restored: "keeps plain m \<Longrightarrow> keeps restored m"
  by (simp add: keeps_def plain_restored)

lemma plain_delete_if: "keeps plain (delete_if r)"
  unfolding delete_if_def by (intro plain_calls) (simp_all add: fns_defs)

lemmas restored_rules = restored.keeps_rules plain_calls [THEN keeps_restored] plain_delete_if [THEN keeps_restored]

text \<open>The core of a callback: detach, call the application, attach again.\<close>

lemma detour_wp:
  assumes "cur_ctx (tr s) = c" "integptr3 (privs s c) = c" "\<forall>h p. integptr3 (reenter s h p c) = integptr3 (p c)" "f \<in> set java_fns"
    and "\<And>x. keeps restored (k x)"
  shows "wp (do { tpsetctxt TPNULLCONTEXT; mid \<leftarrow> getv v; x \<leftarrow> java_call f (as mid); p \<leftarrow> priv c; tpsetctxt (integptr3 p); k x })
    (\<lambda>_. restored s) s"
  unfolding java_call_def
  by (intro wp_bind wp_tpsetctxt wp_getv wp_jni wp_update wp_return wp_priv wp_keeps [OF assms(5)],
      erule restored.trans [rotated]) (use assms(1-4) in \<open>auto simp: restored_def java_fns_def\<close>)

lemma callbacks:
  assumes "cur_ctx (tr s) = c" "integptr3 (privs s c) = c" "\<forall>h p. integptr3 (reenter s h p c) = integptr3 (p c)"
  shows "wp ndrxj_tpsvrinit (\<lambda>_. restored s) s" "wp ndrxj_tpsvrdone (\<lambda>_. restored s) s" "wp (dispatch_call i) (\<lambda>_. restored s) s"
proof -
  have det: "wp (do { tpsetctxt TPNULLCONTEXT; mid \<leftarrow> getv v; x \<leftarrow> java_call f (as mid); p \<leftarrow> priv c; tpsetctxt (integptr3 p); k x })
    (\<lambda>_. restored s) t"
    if "plain s t" "f \<in> set java_fns" "\<And>x. keeps restored (k x)" for v f as t and k :: "int \<Rightarrow> (jb, 'a) state"
  proof (rule wp_cons [OF detour_wp [OF _ _ _ that(2,3)]])
    show "cur_ctx (tr t) = c" using plain_restored [OF that(1)] assms(1) by (simp add: restored_def)
    show "integptr3 (privs t c) = c" "\<forall>h p. integptr3 (reenter t h p c) = integptr3 (p c)"
      using that(1) assms(2,3) by (simp_all add: frame_def cfg_def)
  qed (use restored.trans [OF plain_restored [OF that(1)]] in blast)
  have step: "plain s (s\<lparr>tr := (JNI ''GetObjectField'' as, r) # tr s\<rparr>)" for as r
    by (simp add: frame_def suffix_ConsI)
  show "wp ndrxj_tpsvrdone (\<lambda>_. restored s) s" unfolding ndrxj_tpsvrdone_def
    apply (rule wp_bind, rule wp_priv_get, rule wp_bind, rule wp_priv, rule wp_bind, rule wp_getv, rule wp_bind, rule wp_jni, rule wp_if)
     apply (rule wp_return, rule plain_restored, rule step)
    unfolding assms(1) by (rule det [OF step]) (simp_all add: java_fns_def restored.keeps_return)
  show "wp ndrxj_tpsvrinit (\<lambda>_. restored s) s" unfolding ndrxj_tpsvrinit_def
    apply (rule wp_bind, rule wp_priv_get, rule wp_bind, rule wp_priv, rule wp_bind, rule wp_getv, rule wp_bind, rule wp_jni, rule wp_if)
     apply (rule wp_return, rule plain_restored, rule step)
    unfolding assms(1) by (rule wp_bind, rule wp_get, rule det [OF step]) (simp add: java_fns_def, (intro restored_rules; simp add: fns_defs))
  have del: "wp (do { delete_if a; delete_if b; delete_if d; delete_if e; delete_if f }) (\<lambda>_. restored s) t" if "restored s t" for a b d e f t
    by (rule wp_keeps [where R = restored], intro restored_rules, erule restored.trans [OF that])
  show "wp (dispatch_call i) (\<lambda>_. restored s) s" unfolding dispatch_call_def
    apply (rule wp_bind, rule wp_priv_get, rule wp_bind, rule wp_priv, rule wp_bind, rule wp_keeps [OF plain_TpSvcInfo])
    apply (intro wp_prod, rule wp_bind, rule wp_cons [where P = "\<lambda>_. restored s"])
     apply (rule wp_if, rule wp_return, erule plain_restored)
    unfolding assms(1)
     apply (erule det, simp add: java_fns_def, (intro restored_rules; simp add: fns_defs))
    apply (erule del)
    done
qed

lemma wp_ext_o: "Q (orc s (tr s) e) (s\<lparr>tr := (e, orc s (tr s) e) # tr s\<rparr>) \<Longrightarrow> wp (ext e) Q s"
  by (simp add: wp_def run_simps)

lemma print_callback:
  assumes "\<forall>h. ro (orc s h (API ''tpgetctxt'' [I 0])) = [cur_ctx h]"
  shows "wp (bboolprcb_callback os buf len) (\<lambda>_. restored s) s"
proof -
  have log: "wp (do { NDRXJ_LOG_EXCEPTION; State_Monad.return EXFAIL }) (\<lambda>_. restored s) t" if "restored s t" for t
    by (rule wp_keeps [where R = restored], intro restored_rules) (erule restored.trans [OF that])
  show ?thesis unfolding bboolprcb_callback_def java_call_def
    by (intro wp_bind wp_jni wp_if log wp_ext_o wp_getv wp_update wp_return wp_tpsetctxt)
       (auto simp: restored_def java_fns_def assms)
qed

text \<open>C34. The callbacks of the core (server initialisation, a service request, server shutdown, and printing of an expression) call
  the Java application with the thread attached to no context, so that it is free to use any context object, and return
  to the core with the thread attached to the context in which they were called.  This needs that the private data
  of the context names the context itself, that the application does not change that entry, and that \<open>tpgetctxt\<close>
  returns the current context.\<close>

theorem callbacks_restore:
  assumes "integptr3 (privs s (cur_ctx (tr s))) = cur_ctx (tr s)"
    "\<forall>h p. integptr3 (reenter s h p (cur_ctx (tr s))) = integptr3 (p (cur_ctx (tr s)))"
    "\<forall>h. ro (orc s h (API ''tpgetctxt'' [I 0])) = [cur_ctx h]"
  shows "restored s (exec ndrxj_tpsvrinit s) \<and> restored s (exec (dispatch_call svcinfo) s) \<and>
    restored s (exec ndrxj_tpsvrdone s) \<and> restored s (exec (bboolprcb_callback os buf len) s)"
  using callbacks [OF refl assms(1,2)] print_callback [OF assms(3)] by (simp add: wp_def)

theorem callbacks_restore_witness:
  "let s = (jb_init (\<lambda>h e. \<lparr>ri = 1, rs = [], rb = [], ro = [cur_ctx h], rl = []\<rparr>))
       \<lparr>tr := [(API ''tpsetctxt'' [I 5, I 0], no_res)], privs := \<lambda>c. no_priv\<lparr>integptr3 := c\<rparr>\<rparr>
   in cur_ctx (tr s) = 5 \<and> restored s (exec ndrxj_tpsvrinit s)"
  unfolding Let_def by (intro conjI callbacks_restore [THEN conjunct1]) (simp_all add: jb_init_def)

end
