(* ===== verification/Args.thy ===== *)
theory Args
  imports AtmiCtx
begin

section \<open>Arguments of the native methods, and requests to the core\<close>

text \<open>
  Several methods take optional Java strings: a NULL reference becomes a NULL \<open>char *\<close>, the others are taken in order
  and released in the same order at the exit (\<open>with_strs\<close>).  Output parameters of the core that a call does not
  set keep the value the C code gave them before (\<open>out_arg\<close>).  The second part states what a method that passes
  one request to the core does, and the rules to show it.
\<close>

fun take_strs :: "int list \<Rightarrow> (jb, xres list) state" where
  "take_strs [] = State_Monad.return []"
| "take_strs (j # js) = do {
     r \<leftarrow> (if j \<noteq> 0 then ext (JNI ''GetStringUTFChars'' [I j]) else State_Monad.return no_res);
     ns \<leftarrow> take_strs js;
     State_Monad.return (r # ns)
   }"

fun release_strs :: "int list \<Rightarrow> xres list \<Rightarrow> (jb, unit) state" where
  "release_strs (j # js) (r # ns) = do {
     whenM (copied r) (jni ''ReleaseStringUTFChars'' [I j]);
     release_strs js ns
   }"
| "release_strs js ns = skip"

definition with_strs :: "int list \<Rightarrow> (arg list \<Rightarrow> (jb, 'a) state) \<Rightarrow> (jb, 'a) state" where
  "with_strs js body = do {
     ns \<leftarrow> take_strs js;
     x \<leftarrow> body (map cstr ns);
     release_strs js ns;
     State_Monad.return x
   }"

definition out_arg :: "nat \<Rightarrow> int \<Rightarrow> xres \<Rightarrow> int" where
  "out_arg i d r = (if i < length (ro r) then ro r ! i else d)"

definition ncopied :: "xres list \<Rightarrow> int" where
  "ncopied ns = int (length (filter copied ns))"

lemma no_res_copied [simp]: "\<not> copied no_res"
  by (simp add: no_res_def copied_def)

definition moved :: "(ev \<Rightarrow> bool) \<Rightarrow> int \<Rightarrow> jb \<Rightarrow> jb \<Rightarrow> bool" where
  "moved P n s t \<longleftrightarrow> suffix (tr s) (tr t) \<and> obs P (tr t) = obs P (tr s) \<and> copies (tr t) = copies (tr s) + n \<and>
     privs t = privs s \<and> cfg t = cfg s"

lemma moved_frame: "moved P 0 = frame P"
  by (simp add: fun_eq_iff moved_def frame_def)

lemma moved_trans: "moved P m s t \<Longrightarrow> moved P n t u \<Longrightarrow> moved P (m + n) s u"
  by (auto simp: moved_def intro: suffix_order.trans)

lemma moved_refl: "moved P 0 s s"
  by (simp add: moved_def)

context frame_rel
begin

lemma str_events: "\<not> P (JNI ''GetStringUTFChars'' as)" "\<not> P (JNI ''ReleaseStringUTFChars'' as)"
  using jni_free [of "''GetStringUTFChars''" as] jni_free [of "''ReleaseStringUTFChars''" as] by (auto simp: java_fns_def)

lemma take_strs_wp: "wp (take_strs js) (\<lambda>ns t. length ns = length js \<and> moved P (ncopied ns) s t) s"
proof (induction js arbitrary: s)
  case Nil
  show ?case by (simp add: wp_def run_simps moved_refl ncopied_def)
next
  case (Cons j js)
  show ?case unfolding take_strs.simps
    by (intro wp_bind wp_if wp_return wp_ext wp_cons [OF Cons])
       (auto simp: moved_def str_events ncopied_def dest: suffix_ConsD)
qed

lemma release_strs_wp: "length ns = length js \<Longrightarrow> wp (release_strs js ns) (\<lambda>_ t. moved P (- ncopied ns) s t) s"
proof (induction js ns arbitrary: s rule: release_strs.induct)
  case (1 j js r ns)
  from 1 have IH: "wp (release_strs js ns) (\<lambda>_ t. moved P (- ncopied ns) s t) s" for s by simp
  show ?case unfolding release_strs.simps
    by (intro wp_bind wp_if wp_return wp_jni wp_cons [OF IH]) (auto simp: moved_def str_events ncopied_def dest: suffix_ConsD)
qed (simp_all add: wp_def run_simps moved_refl ncopied_def)

lemma keeps_with_strs:
  assumes "\<And>as. keeps (frame P) (body as)"
  shows "keeps (frame P) (with_strs js body)"
proof (rule keeps_wp)
  fix s
  have *: "frame P s u" if "moved P (ncopied ns) s t1" "frame P t1 t2" "moved P (- ncopied ns) t2 u" for ns t1 t2 u
    using moved_trans [OF moved_trans [OF that(1) that(2) [folded moved_frame]] that(3)] by (simp add: moved_frame)
  show "wp (with_strs js body) (\<lambda>_. frame P s) s" unfolding with_strs_def
    by (intro wp_bind wp_cons [OF take_strs_wp] wp_keeps [OF assms] wp_cons [OF release_strs_wp] wp_return; elim conjE)
       (auto intro: *)
qed

end

lemmas plain_with_strs = plain.keeps_with_strs
lemmas inner_with_strs = inner.keeps_with_strs

subsection \<open>One request to the core\<close>

text \<open>\<open>pd\<close>: a run that asks nothing of the core and keeps the cache of exception classes well typed.\<close>

definition pd :: "jb \<Rightarrow> jb \<Rightarrow> bool" where
  "pd s t \<longleftrightarrow> core (tr t) = core (tr s) \<and> cfg t = cfg s \<and> dynR s t"

interpretation pd: run_rel pd
  by unfold_locales (auto simp: pd_def dynR.refl intro: dynR.trans)

lemma keeps_pd: "keeps plain m \<Longrightarrow> keeps dynR m \<Longrightarrow> keeps pd m"
  by (simp add: keeps_def pd_def frame_def)

lemmas dynR_calls = dynR.keeps_rules dynR_steps dynR_throws dynR_LOG_EXCEPTION

lemma dynR_bufs: "keeps dynR (ndrxj_atmi_TypedBuffer_get_buffer data len0 w u p)" "keeps dynR (throw_tperrno data)"
  "keeps dynR (ndrxj_atmi_TypedBuffer_result_prep env ctx_obj data idata ilen odata olen itype)"
  unfolding ndrxj_atmi_TypedBuffer_get_buffer_def throw_tperrno_def ndrxj_atmi_TypedBuffer_result_prep_def
    ndrxj_atmi_TypedBuffer_translate_def translate_typed_def buffer_type_def if_True
  by (intro dynR_calls)+

lemma pd_bufs: "keeps pd (ndrxj_atmi_TypedBuffer_get_buffer data len0 w u p)" "keeps pd (throw_tperrno data)"
  "keeps pd (ndrxj_atmi_TypedBuffer_result_prep env ctx_obj data idata ilen odata olen itype)"
  by (intro keeps_pd dynR_bufs plain_bufs)+

lemma pdD:
  assumes "pd s t"
  shows "suffix (tr s) (tr t)" "core (tr t) = core (tr s)" "orc t = orc s" "dyn_ok s \<Longrightarrow> dyn_ok t" "gv t = gv s"
  using assms by (simp_all add: pd_def dynR_def cfg_def)

lemma pd_event: "\<not> core_ev e \<Longrightarrow> pd s (s\<lparr>tr := (e, r) # tr s\<rparr>)"
  by (auto simp: pd_def suffix_ConsI intro: dynR_same)

lemma dyn_ok_event: "dyn_ok s \<Longrightarrow> suffix (tr s) h \<Longrightarrow> dyn_ok (s\<lparr>tr := h\<rparr>)"
  by (auto simp: dyn_ok_def intro: entry_ok_mono)

text \<open>\<open>threw data err k h\<close>: between the traces \<open>k\<close> and \<open>h\<close> the exception of the error code that \<open>tperrno\<close> reported was raised.
  \<open>pending k h\<close>: an exception was raised, or the VM reported one.\<close>

definition threw :: "int \<Rightarrow> int \<Rightarrow> trace \<Rightarrow> trace \<Rightarrow> bool" where
  "threw data err k h \<longleftrightarrow> (\<exists>h' msg. suffix k h' \<and> suffix h' h \<and> raised data err msg h' \<and> (API ''tperrno'' [], err) \<in> calls h')"

definition pending :: "trace \<Rightarrow> trace \<Rightarrow> bool" where
  "pending k h \<longleftrightarrow> (\<exists>n e. h = n @ k \<and> e \<noteq> 0 \<and> (JNI ''ExceptionCheck'' [], e) \<in> calls n) \<or> (\<exists>d err. threw d err k h)"

lemma threw_mono: "threw d err k h \<Longrightarrow> suffix k' k \<Longrightarrow> suffix h h' \<Longrightarrow> threw d err k' h'"
  unfolding threw_def by (meson suffix_order.trans)

lemma pending_mono: "pending k h \<Longrightarrow> suffix k' k \<Longrightarrow> suffix h h' \<Longrightarrow> pending k' h'"
  unfolding pending_def
proof (elim disjE exE conjE)
  fix n e
  assume "h = n @ k" "suffix k' k" "suffix h h'" and e: "e \<noteq> 0" "(JNI ''ExceptionCheck'' [], e) \<in> calls n"
  then obtain a b where "h' = (a @ n @ b) @ k'" by (auto simp: suffix_def)
  then show "(\<exists>n e. h' = n @ k' \<and> e \<noteq> 0 \<and> (JNI ''ExceptionCheck'' [], e) \<in> calls n) \<or> (\<exists>d err. threw d err k' h')"
    using e by (auto simp: calls_append)
qed (use threw_mono in blast)

lemma atmi_throw_pd:
  assumes "dyn_ok s" "able (orc s)" "(API ''tperrno'' [], err) \<in> calls (tr s)" "suffix k (tr s)"
  shows "wp (ndrxj_atmi_throw d a err m) (\<lambda>_ t. pd s t \<and> threw d err k (tr t)) s"
proof (rule wp_cons [OF wp_conj [OF atmi_throw_wp [OF assms(1,2)] wp_keeps [OF keeps_pd [OF plain_throws(1) dynR_throws(1)], of s "\<lambda>_ t. pd s t"]]])
  fix t assume "(excR s t \<and> raised d err m (tr t)) \<and> pd s t"
  then have *: "raised d err m (tr t)" "pd s t" by blast+
  then have "suffix k (tr t)" "(API ''tperrno'' [], err) \<in> calls (tr t)"
    using assms(3,4) pdD(1) [OF *(2)] suffix_calls by (blast intro: suffix_order.trans)+
  then show "pd s t \<and> threw d err k (tr t)" using * unfolding threw_def by blast
qed

text \<open>\<open>asks f A P s x t\<close>, of the part of a method between the attachment to the context (\<open>s\<close>) and the exit (\<open>t\<close>, result \<open>x\<close>):
  either the core is not asked at all, and an exception is pending; or \<open>f\<close> is called once, with arguments that satisfy
  \<open>A\<close>, and \<open>P\<close> holds of the result of the method, the result of the call, and the traces just after the call and at the end.\<close>

definition asks :: "string \<Rightarrow> (trace \<Rightarrow> arg list \<Rightarrow> bool) \<Rightarrow> ('a \<Rightarrow> xres \<Rightarrow> trace \<Rightarrow> trace \<Rightarrow> bool) \<Rightarrow> jb \<Rightarrow> 'a \<Rightarrow> jb \<Rightarrow> bool" where
  "asks f A P s x t \<longleftrightarrow> suffix (tr s) (tr t) \<and>
     (core (tr t) = core (tr s) \<and> pending (tr s) (tr t) \<or>
      (\<exists>as r k. core (tr t) = (API f as, r) # core (tr s) \<and> A (tr t) as \<and> suffix ((API f as, r) # k) (tr t) \<and>
         suffix (tr s) k \<and> P x r ((API f as, r) # k) (tr t)))"

lemma asks_pre: "pd s s1 \<Longrightarrow> asks f A P s1 x t \<Longrightarrow> asks f A P s x t"
proof -
  assume pd: "pd s s1" and a: "asks f A P s1 x t"
  have suf: "suffix (tr s1) k \<Longrightarrow> suffix (tr s) k" for k using pdD(1) [OF pd] by (rule suffix_order.trans)
  have pend: "pending (tr s1) (tr t) \<Longrightarrow> pending (tr s) (tr t)" by (erule pending_mono [OF _ pdD(1) [OF pd]]) simp
  show "asks f A P s x t" using a suf pend unfolding asks_def pdD(2) [OF pd] by meson
qed

lemma asks_none:
  assumes "pd s t" "pending (tr s) (tr t)"
  shows "asks f A P s x t"
  unfolding asks_def using assms pdD(1,2) [OF assms(1)] by blast

lemma asks_ext:
  assumes "f \<notin> set query_fns"
    and "\<And>r t. t = s\<lparr>tr := (API f as, r) # tr s\<rparr> \<Longrightarrow> wp (m r) (\<lambda>x u. pd t u \<and> A (tr u) as \<and> P x r (tr t) (tr u)) t"
  shows "wp (do { r \<leftarrow> ext (API f as); m r }) (asks f A P s) s"
proof (intro wp_bind wpx_ext)
  fix r t
  assume t: "t = s\<lparr>tr := (API f as, r) # tr s\<rparr>"
  show "wp (m r) (asks f A P s) t"
  proof (rule wp_cons [OF assms(2) [OF t]])
    fix x u
    assume a: "pd t u \<and> A (tr u) as \<and> P x r (tr t) (tr u)"
    have "core (tr u) = (API f as, r) # core (tr s)" using pdD(2) [of t u] a assms(1) t by simp
    moreover have "suffix ((API f as, r) # tr s) (tr u)" using pdD(1) [of t u] a t by simp
    moreover have "P x r ((API f as, r) # tr s) (tr u)" using a t by simp
    ultimately show "asks f A P s x u" unfolding asks_def using a suffix_ConsD suffix_order.refl by metis
  qed
qed

lemma asks_with_utf:
  assumes "\<And>r t. t = s\<lparr>tr := (JNI ''GetStringUTFChars'' [I j], r) # tr s\<rparr> \<Longrightarrow> wp (body r) (asks f A P t) t"
    and A: "\<And>h as q. A h as \<Longrightarrow> A ((JNI ''ReleaseStringUTFChars'' [I j], q) # h) as"
    and P: "\<And>x r k h q. P x r k h \<Longrightarrow> P x r k ((JNI ''ReleaseStringUTFChars'' [I j], q) # h)"
  shows "wp (with_utf j body) (asks f A P s) s"
proof -
  have post: "asks f A P s x (u\<lparr>tr := (JNI ''ReleaseStringUTFChars'' [I j], q) # tr u\<rparr>)" if "asks f A P s x u" for x u q
  proof -
    have "pending (tr s) (tr u) \<Longrightarrow> pending (tr s) ((JNI ''ReleaseStringUTFChars'' [I j], q) # tr u)"
      by (erule pending_mono) (simp_all add: suffix_ConsI)
    then show ?thesis using that A P unfolding asks_def by simp (meson suffix_ConsI)
  qed
  have pre: "asks f A P s x u" if "asks f A P t x u" "t = s\<lparr>tr := (JNI ''GetStringUTFChars'' [I j], r) # tr s\<rparr>" for x r t u
    by (rule asks_pre [OF _ that(1)]) (simp add: that(2) pd_event)
  show ?thesis unfolding with_utf_def
    by (intro wp_bind wpx_ext wp_cons [OF assms(1)] wp_if wp_jni wp_return) (auto intro: post pre)
qed

text \<open>The whole method.  Without a context the core is not asked.\<close>

definition requested :: "string \<Rightarrow> int \<Rightarrow> (trace \<Rightarrow> arg list \<Rightarrow> bool) \<Rightarrow> ('a \<Rightarrow> xres \<Rightarrow> trace \<Rightarrow> trace \<Rightarrow> bool) \<Rightarrow> jb \<Rightarrow> 'a \<Rightarrow> jb \<Rightarrow> bool" where
  "requested f obj A P s x t \<longleftrightarrow> (\<exists>r2 h. tr t = (API ''tpsetctxt'' [I TPNULLCONTEXT, I 0], r2) # h \<and>
     (core h = core (tr s) \<and> (JNI ''GetLongField'' [I obj, I (gv s ''AtmiCtx_fid_ctx'')], 0) \<in> calls h \<or>
      (\<exists>c r1. c \<noteq> 0 \<and> (JNI ''GetLongField'' [I obj, I (gv s ''AtmiCtx_fid_ctx'')], c) \<in> calls h \<and>
        (core h = (API ''tpsetctxt'' [I c, I 0], r1) # core (tr s) \<and> pending (tr s) h \<or>
         (\<exists>as r k. core h = (API f as, r) # (API ''tpsetctxt'' [I c, I 0], r1) # core (tr s) \<and> A h as \<and>
            suffix ((API f as, r) # k) h \<and> suffix (tr s) k \<and> P x r ((API f as, r) # k) h)))))"

lemma requested_body:
  assumes s: "dyn_ok s" "able (orc s)"
    and body: "\<And>t. dyn_ok t \<Longrightarrow> able (orc t) \<Longrightarrow> gv t = gv s \<Longrightarrow> wp (body c) (asks f A P t) t"
    and t: "c \<noteq> 0" "attach env obj c s t" "dyn t = dyn s"
  shows "wp (do { r \<leftarrow> body c; tpsetctxt TPNULLCONTEXT; State_Monad.return r }) (requested f obj A P s) t"
proof -
  obtain r1 where core: "core (tr t) = (API ''tpsetctxt'' [I c, I 0], r1) # core (tr s)" using t(2) by (auto simp: attach_def)
  note suf = attachD(1) [OF t(2)] and get = attachD(5) [OF t(2)]
  have cfg: "orc t = orc s" "dynH t = dynH s" "gv t = gv s" using attachD(3) [OF t(2)] by (simp_all add: cfg_def)
  have dyn: "dyn_ok t" using s(1) suf cfg(2) t(3) by (auto simp: dyn_ok_def intro: entry_ok_mono)
  have "requested f obj A P s x (drop_ctx r2 u)" if "asks f A P t x u" for x u r2
  proof -
    have tu: "suffix (tr t) (tr u)" using that by (simp add: asks_def)
    have *: "(JNI ''GetLongField'' [I obj, I (gv s ''AtmiCtx_fid_ctx'')], c) \<in> calls (tr u)" using suffix_calls [OF tu] get by blast
    have pend: "pending (tr t) (tr u) \<Longrightarrow> pending (tr s) (tr u)" by (erule pending_mono [OF _ suf]) simp
    have suf': "suffix (tr t) k \<Longrightarrow> suffix (tr s) k" for k using suf by (rule suffix_order.trans)
    have "core (tr u) = (API ''tpsetctxt'' [I c, I 0], r1) # core (tr s) \<and> pending (tr s) (tr u) \<or>
       (\<exists>as r k. core (tr u) = (API f as, r) # (API ''tpsetctxt'' [I c, I 0], r1) # core (tr s) \<and> A (tr u) as \<and>
          suffix ((API f as, r) # k) (tr u) \<and> suffix (tr s) k \<and> P x r ((API f as, r) # k) (tr u))"
      using that pend suf' unfolding asks_def core by meson
    then show ?thesis unfolding requested_def using t(1) * by (intro exI [of _ r2] exI [of _ "tr u"]) auto
  qed
  then show ?thesis by (intro wp_bind wp_cons [OF body [OF dyn]] wp_tpsetctxt wp_return) (simp_all add: cfg s)
qed

lemma requested_wp:
  assumes s: "dyn_ok s" "able (orc s)"
    and body: "\<And>c t. dyn_ok t \<Longrightarrow> able (orc t) \<Longrightarrow> gv t = gv s \<Longrightarrow> wp (body c) (asks f A P t) t"
  shows "wp (ctx_out (ndrxj_get_ctx env obj True) d body) (requested f obj A P s) s"
proof -
  have att: "wp (do { r \<leftarrow> body c; tpsetctxt TPNULLCONTEXT; State_Monad.return r }) (requested f obj A P s) t"
    if "c \<noteq> 0" "attach env obj c s t" "dyn t = dyn s" for c t
    by (rule requested_body [OF s _ that]) (rule body)
  show ?thesis unfolding ctx_out_def
    apply (rule wp_bind, rule wp_cons [OF wp_conj [OF get_ctx_wp get_ctx_quiet]])
    subgoal for c t
      apply (cases "c = 0")
       apply (simp only: if_True simp_thms, intro wp_bind wp_return wp_tpsetctxt)
       apply (auto simp: requested_def frame_def) []
      apply (simp only: if_False simp_thms, elim conjE)
      apply (erule (2) att)
      done
    done
qed

text \<open>A method that returns at once when there is no context.\<close>

lemma requested_return:
  assumes s: "dyn_ok s" "able (orc s)"
    and body: "\<And>c t. dyn_ok t \<Longrightarrow> able (orc t) \<Longrightarrow> gv t = gv s \<Longrightarrow> wp (body c) (asks f A P t) t"
  shows "wp (ctx_return (ndrxj_get_ctx env obj True) d body) (\<lambda>x t. requested f obj A P s x t \<or>
    suffix (tr s) (tr t) \<and> core (tr t) = core (tr s) \<and> (JNI ''GetLongField'' [I obj, I (gv s ''AtmiCtx_fid_ctx'')], 0) \<in> calls (tr t)) s"
proof -
  have att: "wp (do { r \<leftarrow> body c; tpsetctxt TPNULLCONTEXT; State_Monad.return r }) (\<lambda>x t. requested f obj A P s x t \<or>
      suffix (tr s) (tr t) \<and> core (tr t) = core (tr s) \<and> (JNI ''GetLongField'' [I obj, I (gv s ''AtmiCtx_fid_ctx'')], 0) \<in> calls (tr t)) t"
    if "c \<noteq> 0" "attach env obj c s t" "dyn t = dyn s" for c t
    by (rule wp_cons [OF requested_body [OF s _ that]]) (auto intro: body)
  show ?thesis unfolding ctx_return_def
    apply (rule wp_bind, rule wp_cons [OF wp_conj [OF get_ctx_wp get_ctx_quiet]])
    subgoal for c t
      apply (cases "c = 0")
       apply (simp only: if_True simp_thms, intro wp_return)
       apply (auto simp: frame_def) []
      apply (simp only: if_False simp_thms, elim conjE)
      apply (erule (2) att)
      done
    done
qed

text \<open>Arguments that come from a Java string and from a buffer object (\<open>g\<close>: the field ids).\<close>

definition utf_arg :: "int \<Rightarrow> trace \<Rightarrow> arg \<Rightarrow> bool" where
  "utf_arg j h a \<longleftrightarrow> (\<exists>q. (JNI ''GetStringUTFChars'' [I j], q) \<in> set h \<and> a = cstr q)"

definition buffer_arg :: "(string \<Rightarrow> int) \<Rightarrow> int \<Rightarrow> trace \<Rightarrow> int \<Rightarrow> int \<Rightarrow> bool" where
  "buffer_arg g idata h b l \<longleftrightarrow> (if idata = 0 then b = 0 \<and> l = 0
     else (JNI ''GetLongField'' [I idata, I (g ''TypedBuffer_fid_cPtr'')], b) \<in> calls h \<and>
          (JNI ''GetLongField'' [I idata, I (g ''TypedBuffer_fid_len'')], l) \<in> calls h)"

lemma utf_arg_mono: "utf_arg j h a \<Longrightarrow> suffix h h' \<Longrightarrow> utf_arg j h' a"
  by (auto simp: utf_arg_def suffix_def)

lemma buffer_arg_mono: "buffer_arg g d h b l \<Longrightarrow> suffix h h' \<Longrightarrow> buffer_arg g d h' b l"
  using suffix_calls [of h h'] by (auto simp: buffer_arg_def split: if_splits)

lemma buffer_arg_Cons: "buffer_arg g d h b l \<Longrightarrow> buffer_arg g d (p # h) b l"
  by (erule buffer_arg_mono) (simp add: suffix_ConsI)

lemma pending_check: "ri r \<noteq> 0 \<Longrightarrow> suffix k h \<Longrightarrow> pending k ((JNI ''ExceptionCheck'' [], r) # h)"
  unfolding pending_def suffix_def by (elim exE, rule disjI1, rule exI [of _ "(JNI ''ExceptionCheck'' [], r) # n" for n]) auto

lemma get_buffer_wp:
  assumes "idata \<noteq> 0"
  shows "wp (ndrxj_atmi_TypedBuffer_get_buffer idata len0 False False False) (\<lambda>q t. pd s t \<and>
    (case q of (ret, b, l, f) \<Rightarrow> buffer_arg (gv s) idata (tr t) b l \<and> (ret \<noteq> EXSUCCEED \<longrightarrow> pending (tr s) (tr t)))) s"
proof (rule wp_conj [OF wp_keeps [OF pd_bufs(1)]])
  have log: "case (EXFAIL, b, l, f) of (ret, b, l, f) \<Rightarrow> buffer_arg (gv s) idata (tr t) b l \<and> (ret \<noteq> EXSUCCEED \<longrightarrow> pending (tr s) (tr t))"
    if "plain u t" "u = v\<lparr>tr := (JNI ''ExceptionCheck'' [], r) # tr v\<rparr>" "ri r \<noteq> 0" "buffer_arg (gv s) idata (tr v) b l" "suffix (tr s) (tr v)"
    for u v t b l r and f :: int
  proof -
    have "pending (tr s) (tr u)" using that(2,3,5) pending_check by simp
    then have "pending (tr s) (tr t)" by (rule pending_mono) (simp_all add: frameD(1) [OF that(1)])
    moreover have "suffix (tr v) (tr t)" using frameD(1) [OF that(1)] that(2) by (auto dest: suffix_ConsD)
    ultimately show ?thesis using buffer_arg_mono [OF that(4)] by simp
  qed
  show "wp (ndrxj_atmi_TypedBuffer_get_buffer idata len0 False False False) (\<lambda>q t.
    case q of (ret, b, l, f) \<Rightarrow> buffer_arg (gv s) idata (tr t) b l \<and> (ret \<noteq> EXSUCCEED \<longrightarrow> pending (tr s) (tr t))) s"
    unfolding ndrxj_atmi_TypedBuffer_get_buffer_def
    by (intro wpx wp_keeps [OF plain_LOG_EXCEPTION]; (rule log, assumption, assumption)?)
       (use assms in \<open>auto simp: buffer_arg_def suffix_ConsI\<close>)
qed

text \<open>\<open>cleared k h\<close>: after the trace \<open>k\<close> the
  VM was asked for an exception, and told to clear it if there was one.\<close>

definition cleared :: "trace \<Rightarrow> trace \<Rightarrow> bool" where
  "cleared k h \<longleftrightarrow> (\<exists>n r. h = n @ (JNI ''ExceptionCheck'' [], r) # k \<and> (ri r \<noteq> 0 \<longrightarrow> (\<exists>q. (JNI ''ExceptionClear'' [], q) \<in> set n)))"

text \<open>The steps of a run that asks nothing of the core, with the state before them (\<open>s0\<close>) in view.\<close>

lemma wpd_ext: "pd s0 s \<Longrightarrow> \<not> core_ev e \<Longrightarrow> (\<And>r t. pd s0 t \<Longrightarrow> t = s\<lparr>tr := (e, r) # tr s\<rparr> \<Longrightarrow> Q r t) \<Longrightarrow> wp (ext e) Q s"
  by (rule wpx_ext) (simp add: pd.trans [OF _ pd_event])

lemma wpd_query: "pd s0 s \<Longrightarrow> f \<in> set query_fns \<Longrightarrow> (\<And>r t. pd s0 t \<Longrightarrow> t = s\<lparr>tr := (API f as, r) # tr s\<rparr> \<Longrightarrow> Q (ri r) t) \<Longrightarrow> wp (ex f as) Q s"
  by (rule wpx_ex) (simp add: pd.trans [OF _ pd_event])

lemma wpd_throw:
  assumes "pd s0 s" "dyn_ok s0" "able (orc s0)" "(API ''tperrno'' [], err) \<in> calls (tr s)"
    and "\<And>t. pd s0 t \<Longrightarrow> threw d err (tr s0) (tr t) \<Longrightarrow> Q () t"
  shows "wp (ndrxj_atmi_throw d a err m) Q s"
  by (rule wp_cons [OF atmi_throw_pd [where k = "tr s0"]])
     (use assms pdD [OF assms(1)] pd.trans [OF assms(1)] in auto)

lemma wpd_keeps: "pd s0 s \<Longrightarrow> keeps pd m \<Longrightarrow> (\<And>x t. pd s0 t \<Longrightarrow> pd s t \<Longrightarrow> Q x t) \<Longrightarrow> wp m Q s"
  by (rule wp_keeps [where R = pd]) (auto intro: pd.trans)

subsection \<open>Callbacks\<close>

text \<open>\<open>detached f as s t\<close>: the application is called with the thread attached to no context, and then the thread is in the context it was in.\<close>

definition detached :: "string \<Rightarrow> arg list \<Rightarrow> jb \<Rightarrow> jb \<Rightarrow> bool" where
  "detached f as s t \<longleftrightarrow> cur_ctx (tr t) = cur_ctx (tr s) \<and> (\<exists>q k. suffix ((JNI f as, q) # k) (tr t) \<and> suffix (tr s) k \<and> cur_ctx k = 0)"

end
