(* ===== verification/Calls.thy ===== *)
theory Calls
  imports Args
begin

section \<open>Service calls and conversations (\<open>tpcallj.c\<close>, \<open>conversations.c\<close>)\<close>

text \<open>
  \<open>request_buffer\<close> is the common start of the methods that take a buffer which may come back changed: the pointer, length
  and type of the buffer object (\<open>itype0\<close> is the type assumed for no object), or \<open>None\<close> when an exception is set.
  \<open>send_buffer\<close> is the same without the type.
\<close>

definition request_buffer :: "int \<Rightarrow> string \<Rightarrow> (jb, (int \<times> int \<times> string) option) state" where
  "request_buffer idata itype0 =
     (if idata = 0 then State_Monad.return (Some (0, 0, itype0))
      else do {
        (ret, ibuf, ilen, _) \<leftarrow> ndrxj_atmi_TypedBuffer_get_buffer idata 0 False False False;
        if ret \<noteq> EXSUCCEED then State_Monad.return None else do {
        r \<leftarrow> ext (API ''tptypes'' [I ibuf]);
        if ri r = EXFAIL then do {
          err \<leftarrow> ex ''tperrno'' [];
          m \<leftarrow> ext (API ''tpstrerror'' [I err]);
          ndrxj_atmi_throw 0 0 err (''Failed to get odata type infos: '' @ rs m);
          State_Monad.return None
        } else State_Monad.return (Some (ibuf, ilen, type_out r))
        }
      })"

definition send_buffer :: "int \<Rightarrow> (jb, (int \<times> int) option) state" where
  "send_buffer idata =
     (if idata = 0 then State_Monad.return (Some (0, 0))
      else do {
        (ret, ibuf, ilen, _) \<leftarrow> ndrxj_atmi_TypedBuffer_get_buffer idata 0 False False False;
        State_Monad.return (if ret \<noteq> EXSUCCEED then None else Some (ibuf, ilen))
      })"

subsection \<open>Synchronous and asynchronous calls\<close>

text \<open>A failed service (\<open>TPESVCFAIL\<close>) returns a buffer as well, which goes into the exception.\<close>

definition reply_error :: "int \<Rightarrow> int \<Rightarrow> int \<Rightarrow> int \<Rightarrow> int \<Rightarrow> int \<Rightarrow> int \<Rightarrow> string \<Rightarrow> (jb, unit) state" where
  "reply_error env obj idata ibuf ilen obuf olen itype = do {
     err \<leftarrow> ex ''tperrno'' [];
     m \<leftarrow> ext (API ''tpstrerror'' [I err]);
     errdatabuf \<leftarrow> (if err = TPESVCFAIL
       then ndrxj_atmi_TypedBuffer_result_prep env obj idata ibuf ilen obuf olen itype
       else State_Monad.return idata);
     ndrxj_atmi_throw errdatabuf 0 err (rs m)
   }"

definition AtmiCtx_tpcall :: "int \<Rightarrow> int \<Rightarrow> int \<Rightarrow> int \<Rightarrow> int \<Rightarrow> (jb, int) state" where
  "AtmiCtx_tpcall env obj svc idata flags = ctx_out (ndrxj_get_ctx env obj True) 0 (\<lambda>c. do {
     q \<leftarrow> request_buffer idata ''NULL'';
     case q of None \<Rightarrow> State_Monad.return 0
     | Some (ibuf, ilen, itype) \<Rightarrow> with_utf svc (\<lambda>n_svc. do {
         r \<leftarrow> ext (API ''tpcall'' [cstr n_svc, I ibuf, I ilen, I flags]);
         let obuf = out_arg 0 ibuf r;
         let olen = out_arg 1 ilen r;
         if ri r \<noteq> EXSUCCEED then do {
           reply_error env obj idata ibuf ilen obuf olen itype;
           State_Monad.return 0
         } else do {
           ret \<leftarrow> ndrxj_atmi_TypedBuffer_result_prep env obj idata ibuf ilen obuf olen itype;
           jni ''ExceptionCheck'' [];
           State_Monad.return ret
         }
       })
   })"

definition AtmiCtx_tpacall :: "int \<Rightarrow> int \<Rightarrow> int \<Rightarrow> int \<Rightarrow> int \<Rightarrow> (jb, int) state" where
  "AtmiCtx_tpacall env obj svc idata flags = ctx_out (ndrxj_get_ctx env obj True) EXFAIL (\<lambda>c. do {
     q \<leftarrow> send_buffer idata;
     case q of None \<Rightarrow> State_Monad.return EXFAIL
     | Some (ibuf, ilen) \<Rightarrow> with_utf svc (\<lambda>n_svc. do {
         r \<leftarrow> ext (API ''tpacall'' [cstr n_svc, I ibuf, I ilen, I flags]);
         whenM (ri r = EXFAIL) (throw_tperrno idata);
         State_Monad.return (ri r)
       })
   })"

text \<open>Descriptor 0 means that nothing was received: the object of the caller is returned as it is.  The message is taken after the
  result has been prepared.\<close>

definition getrply_error :: "int \<Rightarrow> int \<Rightarrow> int \<Rightarrow> int \<Rightarrow> int \<Rightarrow> int \<Rightarrow> int \<Rightarrow> string \<Rightarrow> (jb, unit) state" where
  "getrply_error env obj idata ibuf ilen obuf olen itype = do {
     err \<leftarrow> ex ''tperrno'' [];
     errdatabuf \<leftarrow> (if err = TPESVCFAIL
       then ndrxj_atmi_TypedBuffer_result_prep env obj idata ibuf ilen obuf olen itype
       else State_Monad.return idata);
     m \<leftarrow> ext (API ''tpstrerror'' [I err]);
     ndrxj_atmi_throw errdatabuf 0 err (rs m)
   }"

definition AtmiCtx_tpgetrply :: "int \<Rightarrow> int \<Rightarrow> int \<Rightarrow> int \<Rightarrow> int \<Rightarrow> (jb, int) state" where
  "AtmiCtx_tpgetrply env obj cd idata flags = ctx_out (ndrxj_get_ctx env obj True) 0 (\<lambda>c. do {
     q \<leftarrow> request_buffer idata [];
     case q of None \<Rightarrow> State_Monad.return 0
     | Some (ibuf, ilen, itype) \<Rightarrow> do {
         r \<leftarrow> ext (API ''tpgetrply'' [I cd, I ibuf, I ilen, I flags]);
         let ocd = out_arg 0 cd r;
         let obuf = out_arg 1 ibuf r;
         let olen = out_arg 2 ilen r;
         if ri r \<noteq> EXSUCCEED then do {
           getrply_error env obj idata ibuf ilen obuf olen itype;
           State_Monad.return 0
         } else do {
           odata \<leftarrow> (if ocd = 0 then State_Monad.return idata
             else ndrxj_atmi_TypedBuffer_result_prep env obj idata ibuf ilen obuf olen itype);
           ndrxj_TpgetrplyResult_new ocd odata
         }
       }
   })"

subsection \<open>Conversations\<close>

definition AtmiCtx_tpconnect :: "int \<Rightarrow> int \<Rightarrow> int \<Rightarrow> int \<Rightarrow> int \<Rightarrow> (jb, int) state" where
  "AtmiCtx_tpconnect env obj svc idata flags = ctx_out (ndrxj_get_ctx env obj True) EXFAIL (\<lambda>c. do {
     q \<leftarrow> send_buffer idata;
     case q of None \<Rightarrow> State_Monad.return EXFAIL
     | Some (ibuf, ilen) \<Rightarrow> with_utf svc (\<lambda>n_svc. do {
         r \<leftarrow> ext (API ''tpconnect'' [cstr n_svc, I ibuf, I ilen, I flags]);
         whenM (ri r < 0) (throw_tperrno idata);
         State_Monad.return (ri r)
       })
   })"

text \<open>An event of the conversation (\<open>TPEEVENT\<close>) is not an error: it is part of the result.\<close>

definition AtmiCtx_tprecv :: "int \<Rightarrow> int \<Rightarrow> int \<Rightarrow> int \<Rightarrow> int \<Rightarrow> (jb, int) state" where
  "AtmiCtx_tprecv env obj cd idata flags = ctx_out (ndrxj_get_ctx env obj True) 0 (\<lambda>c. do {
     q \<leftarrow> request_buffer idata [];
     case q of None \<Rightarrow> State_Monad.return 0
     | Some (ibuf, ilen, itype) \<Rightarrow> do {
         r \<leftarrow> ext (API ''tprecv'' [I cd, I ibuf, I ilen, I flags]);
         err \<leftarrow> ex ''tperrno'' [];
         if ri r \<noteq> EXSUCCEED \<and> err \<noteq> TPEEVENT then do {
           m \<leftarrow> ext (API ''tpstrerror'' [I err]);
           ndrxj_atmi_throw idata 0 err (rs m);
           State_Monad.return 0
         } else do {
           odata \<leftarrow> ndrxj_atmi_TypedBuffer_result_prep env obj idata ibuf ilen (out_arg 0 ibuf r) (out_arg 1 ilen r) itype;
           ndrxj_TprecvResult_new cd odata (out_arg 2 0 r)
         }
       }
   })"

definition AtmiCtx_tpsend :: "int \<Rightarrow> int \<Rightarrow> int \<Rightarrow> int \<Rightarrow> int \<Rightarrow> (jb, int) state" where
  "AtmiCtx_tpsend env obj cd idata flags = ctx_out (ndrxj_get_ctx env obj True) 0 (\<lambda>c. do {
     q \<leftarrow> send_buffer idata;
     case q of None \<Rightarrow> State_Monad.return 0
     | Some (ibuf, ilen) \<Rightarrow> do {
         r \<leftarrow> ext (API ''tpsend'' [I cd, I ibuf, I ilen, I flags]);
         err \<leftarrow> ex ''tperrno'' [];
         whenM (ri r \<noteq> EXSUCCEED \<and> err \<noteq> TPEEVENT) (do {
           m \<leftarrow> ext (API ''tpstrerror'' [I err]);
           ndrxj_atmi_throw idata 0 err (rs m) });
         State_Monad.return (out_arg 0 0 r)
       }
   })"

text \<open>The error code is a variable that is never assigned; \<open>err0\<close> is what it happens to hold.\<close>

definition AtmiCtx_tpdiscon :: "int \<Rightarrow> int \<Rightarrow> int \<Rightarrow> int \<Rightarrow> (jb, unit) state" where
  "AtmiCtx_tpdiscon env obj cd err0 = ctx_out (ndrxj_get_ctx env obj True) () (\<lambda>c. do {
     ret \<leftarrow> ex ''tpdiscon'' [I cd];
     whenM (ret \<noteq> EXSUCCEED) (do {
       fault ''err uninitialised'';
       m \<leftarrow> ext (API ''tpstrerror'' [I err0]);
       ndrxj_atmi_throw 0 0 err0 (rs m) })
   })"

subsection \<open>Every method works in the context of its object\<close>

lemma plain_request: "keeps plain (request_buffer idata ty)" "keeps plain (send_buffer idata)"
  unfolding request_buffer_def send_buffer_def by (intro plain_calls plain_bufs; simp add: fns_defs)+

lemma plain_reply_error: "keeps plain (reply_error env obj idata ibuf ilen obuf olen itype)"
  "keeps plain (getrply_error env obj idata ibuf ilen obuf olen itype)"
  unfolding reply_error_def getrply_error_def by (intro plain_calls plain_bufs; simp add: fns_defs)+

lemmas inner_reqs = inner_atmi plain_request [THEN keeps_plain_inner] plain_reply_error [THEN keeps_plain_inner]

lemma calls_native:
  assumes "cur_ctx (tr s) = 0"
  shows "native obj s (exec (AtmiCtx_tpcall env obj svc idata flags) s)"
    "native obj s (exec (AtmiCtx_tpacall env obj svc idata flags) s)"
    "native obj s (exec (AtmiCtx_tpgetrply env obj cd idata flags) s)"
    "native obj s (exec (AtmiCtx_tpconnect env obj svc idata flags) s)"
    "native obj s (exec (AtmiCtx_tprecv env obj cd idata flags) s)"
    "native obj s (exec (AtmiCtx_tpsend env obj cd idata flags) s)"
    "native obj s (exec (AtmiCtx_tpdiscon env obj cd err0) s)"
  unfolding AtmiCtx_tpcall_def AtmiCtx_tpacall_def AtmiCtx_tpgetrply_def AtmiCtx_tpconnect_def AtmiCtx_tprecv_def
    AtmiCtx_tpsend_def AtmiCtx_tpdiscon_def
  by (rule atmi_native [OF _ assms], (intro inner_reqs; simp add: fns_defs))+

subsection \<open>One request, and an exception when it fails\<close>

lemma request_wp:
  assumes "dyn_ok s" "able (orc s)"
  shows "wp (request_buffer idata ty) (\<lambda>q t. pd s t \<and>
      (case q of None \<Rightarrow> pending (tr s) (tr t) | Some (b, l, _) \<Rightarrow> buffer_arg (gv s) idata (tr t) b l)) s"
    "wp (send_buffer idata) (\<lambda>q t. pd s t \<and>
      (case q of None \<Rightarrow> pending (tr s) (tr t) | Some (b, l) \<Rightarrow> buffer_arg (gv s) idata (tr t) b l)) s"
proof -
  show "wp (request_buffer idata ty) (\<lambda>q t. pd s t \<and>
      (case q of None \<Rightarrow> pending (tr s) (tr t) | Some (b, l, _) \<Rightarrow> buffer_arg (gv s) idata (tr t) b l)) s"
    unfolding request_buffer_def
    apply (rule wp_if, rule wp_return, simp add: buffer_arg_def pd.refl)
    apply (rule wp_bind, rule wp_cons [OF get_buffer_wp], assumption, elim conjE, intro wp_prod, simp only: prod.case, elim conjE)
    apply (rule wp_if, rule wp_return, simp)
    apply (rule wp_bind, erule wpd_ext, simp add: query_fns_def, rule wp_if)
     apply (rule wp_bind, erule wpd_query, simp add: query_fns_def)
     apply (rule wp_bind, erule wpd_ext, simp add: query_fns_def)
     apply (rule wp_bind, erule wpd_throw [OF _ assms], simp, rule wp_return, auto simp: pending_def) []
    apply (rule wp_return, simp add: buffer_arg_Cons)
    done
  show "wp (send_buffer idata) (\<lambda>q t. pd s t \<and>
      (case q of None \<Rightarrow> pending (tr s) (tr t) | Some (b, l) \<Rightarrow> buffer_arg (gv s) idata (tr t) b l)) s"
    unfolding send_buffer_def
    apply (rule wp_if, rule wp_return, simp add: buffer_arg_def pd.refl)
    apply (rule wp_bind, rule wp_cons [OF get_buffer_wp], assumption, elim conjE, intro wp_prod, simp only: prod.case, elim conjE)
    apply (rule wp_return, simp)
    done
qed

lemma reply_error_wp:
  assumes "dyn_ok s" "able (orc s)"
  shows "wp (reply_error env obj idata ibuf ilen obuf olen itype) (\<lambda>_ t. pd s t \<and>
      (\<exists>d err. threw d err (tr s) (tr t) \<and> (err \<noteq> TPESVCFAIL \<longrightarrow> d = idata))) s"
    "wp (getrply_error env obj idata ibuf ilen obuf olen itype) (\<lambda>_ t. pd s t \<and>
      (\<exists>d err. threw d err (tr s) (tr t) \<and> (err \<noteq> TPESVCFAIL \<longrightarrow> d = idata))) s"
proof -
  have mem: "(e, v) \<in> calls (tr t)" if "pd u t" "(e, v) \<in> calls (tr u)" for u t e v
    using suffix_calls [OF pdD(1) [OF that(1)]] that(2) by blast
  show "wp (reply_error env obj idata ibuf ilen obuf olen itype) (\<lambda>_ t. pd s t \<and>
      (\<exists>d err. threw d err (tr s) (tr t) \<and> (err \<noteq> TPESVCFAIL \<longrightarrow> d = idata))) s"
    unfolding reply_error_def
    apply (rule wp_bind, rule wpd_query [OF pd.refl], simp add: query_fns_def)
    apply (rule wp_bind, erule wpd_ext, simp add: query_fns_def)
    apply (rule wp_bind, rule wp_if)
     apply (erule wpd_keeps [OF _ pd_bufs(3)], erule wpd_throw [OF _ assms], erule mem, simp, blast)
    apply (rule wp_return, erule wpd_throw [OF _ assms], simp, blast)
    done
  show "wp (getrply_error env obj idata ibuf ilen obuf olen itype) (\<lambda>_ t. pd s t \<and>
      (\<exists>d err. threw d err (tr s) (tr t) \<and> (err \<noteq> TPESVCFAIL \<longrightarrow> d = idata))) s"
    unfolding getrply_error_def
    apply (rule wp_bind, rule wpd_query [OF pd.refl], simp add: query_fns_def)
    apply (rule wp_bind, rule wp_if)
     apply (erule wpd_keeps [OF _ pd_bufs(3)], rule wp_bind, erule wpd_ext, simp add: query_fns_def, erule wpd_throw [OF _ assms])
      apply (use mem in fastforce, blast)
    apply (rule wp_return, rule wp_bind, erule wpd_ext, simp add: query_fns_def, erule wpd_throw [OF _ assms], simp, blast)
    done
qed

lemma asks_request:
  assumes s: "dyn_ok s" "able (orc s)" "gv s = g"
    and m: "\<And>b l ty t. dyn_ok t \<Longrightarrow> able (orc t) \<Longrightarrow> buffer_arg g idata (tr t) b l \<Longrightarrow> wp (m b l ty) (asks f A P t) t"
  shows "wp (do { q \<leftarrow> request_buffer idata ty0;
    case q of None \<Rightarrow> State_Monad.return d | Some (b, l, ty) \<Rightarrow> m b l ty }) (asks f A P s) s"
proof -
  have "wp (m b l ty) (asks f A P s) t" if "pd s t" "buffer_arg g idata (tr t) b l" for b l ty t
    by (rule wp_cons [OF m asks_pre [OF that(1)]]) (simp_all add: s that pdD [OF that(1)])
  then show ?thesis
    by (intro wp_bind wp_cons [OF request_wp(1) [OF s(1,2)]] wp_option wp_prod wp_return) (auto intro: asks_none simp: s(3))
qed

lemma asks_send:
  assumes s: "dyn_ok s" "able (orc s)" "gv s = g"
    and m: "\<And>b l t. dyn_ok t \<Longrightarrow> able (orc t) \<Longrightarrow> buffer_arg g idata (tr t) b l \<Longrightarrow> wp (m b l) (asks f A P t) t"
  shows "wp (do { q \<leftarrow> send_buffer idata;
    case q of None \<Rightarrow> State_Monad.return d | Some (b, l) \<Rightarrow> m b l }) (asks f A P s) s"
proof -
  have "wp (m b l) (asks f A P s) t" if "pd s t" "buffer_arg g idata (tr t) b l" for b l t
    by (rule wp_cons [OF m asks_pre [OF that(1)]]) (simp_all add: s that pdD [OF that(1)])
  then show ?thesis
    by (intro wp_bind wp_cons [OF request_wp(2) [OF s(1,2)]] wp_option wp_prod wp_return) (auto intro: asks_none simp: s(3))
qed

text \<open>The arguments of a request: a service name and the buffer, or a descriptor and the buffer; then the flags.\<close>

definition svc_args :: "(string \<Rightarrow> int) \<Rightarrow> int \<Rightarrow> int \<Rightarrow> int \<Rightarrow> trace \<Rightarrow> arg list \<Rightarrow> bool" where
  "svc_args g svc idata flags h as \<longleftrightarrow> (\<exists>a b l. as = [a, I b, I l, I flags] \<and> utf_arg svc h a \<and> buffer_arg g idata h b l)"

definition cd_args :: "(string \<Rightarrow> int) \<Rightarrow> int \<Rightarrow> int \<Rightarrow> int \<Rightarrow> trace \<Rightarrow> arg list \<Rightarrow> bool" where
  "cd_args g cd idata flags h as \<longleftrightarrow> (\<exists>b l. as = [I cd, I b, I l, I flags] \<and> buffer_arg g idata h b l)"

text \<open>The outcome of a call with a reply, of one that returns a descriptor, and of one in a conversation.\<close>

definition reply_outcome :: "int \<Rightarrow> int \<Rightarrow> xres \<Rightarrow> trace \<Rightarrow> trace \<Rightarrow> bool" where
  "reply_outcome idata x r k h \<longleftrightarrow>
     (ri r \<noteq> EXSUCCEED \<longrightarrow> x = 0 \<and> (\<exists>d err. threw d err k h \<and> (err \<noteq> TPESVCFAIL \<longrightarrow> d = idata)))"

definition cd_outcome :: "(int \<Rightarrow> bool) \<Rightarrow> int \<Rightarrow> int \<Rightarrow> xres \<Rightarrow> trace \<Rightarrow> trace \<Rightarrow> bool" where
  "cd_outcome bad idata x r k h \<longleftrightarrow> x = ri r \<and>
     (if bad (ri r) then \<exists>err. threw idata err k h else obs throw_ev h = obs throw_ev k)"

definition conv_outcome :: "int \<Rightarrow> xres \<Rightarrow> trace \<Rightarrow> trace \<Rightarrow> bool" where
  "conv_outcome idata r k h \<longleftrightarrow> (ri r \<noteq> EXSUCCEED \<longrightarrow>
     (\<exists>n. h = n @ k \<and> (API ''tperrno'' [], TPEEVENT) \<in> calls n) \<or> (\<exists>err. err \<noteq> TPEEVENT \<and> threw idata err k h))"

lemma svc_asks:
  assumes "buffer_arg g idata (tr s) b l" "f \<notin> set query_fns"
    and post: "\<And>r t. dyn_ok t \<Longrightarrow> able (orc t) \<Longrightarrow> wp (m r) (\<lambda>x u. pd t u \<and> P x r (tr t) (tr u)) t"
    and P: "\<And>x r k h q. P x r k h \<Longrightarrow> P x r k ((JNI ''ReleaseStringUTFChars'' [I svc], q) # h)"
    and s: "dyn_ok s" "able (orc s)"
  shows "wp (with_utf svc (\<lambda>n. do { r \<leftarrow> ext (API f [cstr n, I b, I l, I flags]); m r })) (asks f (svc_args g svc idata flags) P s) s"
proof (rule asks_with_utf [OF asks_ext [OF assms(2)]])
  fix q t r u
  assume t: "t = s\<lparr>tr := (JNI ''GetStringUTFChars'' [I svc], q) # tr s\<rparr>"
    and u: "u = t\<lparr>tr := (API f [cstr q, I b, I l, I flags], r) # tr t\<rparr>"
  have A: "svc_args g svc idata flags (tr v) [cstr q, I b, I l, I flags]" if "pd u v" for v
  proof -
    have "suffix (tr s) (tr v)" "suffix ((JNI ''GetStringUTFChars'' [I svc], q) # tr s) (tr v)"
      using pdD(1) [OF that] t u by (auto dest: suffix_ConsD)
    moreover have "utf_arg svc ((JNI ''GetStringUTFChars'' [I svc], q) # tr s) (cstr q)" by (auto simp: utf_arg_def)
    ultimately show ?thesis unfolding svc_args_def using buffer_arg_mono [OF assms(1)] utf_arg_mono by blast
  qed
  have "dyn_ok u" "able (orc u)" using s by (simp_all add: t u dyn_ok_event suffix_ConsI)
  note post = post [OF this]
  show "wp (m r) (\<lambda>x v. pd u v \<and> svc_args g svc idata flags (tr v) [cstr q, I b, I l, I flags] \<and> P x r (tr u) (tr v)) u"
    by (rule wp_cons [OF post]) (simp add: A)
next
  show "svc_args g svc idata flags h as \<Longrightarrow> svc_args g svc idata flags ((JNI ''ReleaseStringUTFChars'' [I svc], q) # h) as" for h as q
    using buffer_arg_Cons utf_arg_mono [OF _ suffix_ConsI [OF suffix_order.refl]] by (force simp: svc_args_def)
qed (rule P)

lemma cd_asks:
  assumes "buffer_arg g idata (tr s) b l" "f \<notin> set query_fns"
    and post: "\<And>r t. dyn_ok t \<Longrightarrow> able (orc t) \<Longrightarrow> wp (m r) (\<lambda>x u. pd t u \<and> P x r (tr t) (tr u)) t"
    and s: "dyn_ok s" "able (orc s)"
  shows "wp (do { r \<leftarrow> ext (API f [I cd, I b, I l, I flags]); m r }) (asks f (cd_args g cd idata flags) P s) s"
proof (rule asks_ext [OF assms(2)])
  fix r u
  assume u: "u = s\<lparr>tr := (API f [I cd, I b, I l, I flags], r) # tr s\<rparr>"
  have A: "cd_args g cd idata flags (tr v) [I cd, I b, I l, I flags]" if "pd u v" for v
    using buffer_arg_mono [OF assms(1), of "tr v"] pdD(1) [OF that] u by (auto simp: cd_args_def dest: suffix_ConsD)
  have "dyn_ok u" "able (orc u)" using s by (simp_all add: u dyn_ok_event suffix_ConsI)
  note post = post [OF this]
  show "wp (m r) (\<lambda>x v. pd u v \<and> cd_args g cd idata flags (tr v) [I cd, I b, I l, I flags] \<and> P x r (tr u) (tr v)) u"
    by (rule wp_cons [OF post]) (simp add: A)
qed

lemma pd_results: "keeps pd (ndrxj_TpgetrplyResult_new cd d)" "keeps pd (ndrxj_TprecvResult_new cd d rv)"
  by (intro keeps_pd plain_results; unfold ndrxj_TpgetrplyResult_new_def ndrxj_TprecvResult_new_def; intro dynR_calls)+

lemma call_bodies:
  assumes s: "dyn_ok t" "able (orc t)"
  shows "wp (if ri r \<noteq> EXSUCCEED then do { reply_error env obj idata b l ob ol ty; State_Monad.return 0 }
      else do { ret \<leftarrow> ndrxj_atmi_TypedBuffer_result_prep env obj idata b l ob ol ty; jni ''ExceptionCheck'' []; State_Monad.return ret })
      (\<lambda>x u. pd t u \<and> reply_outcome idata x r (tr t) (tr u)) t"
    "wp (if ri r \<noteq> EXSUCCEED then do { getrply_error env obj idata b l ob ol ty; State_Monad.return 0 }
      else do { odata \<leftarrow> (if ocd = 0 then State_Monad.return idata
          else ndrxj_atmi_TypedBuffer_result_prep env obj idata b l ob ol ty); ndrxj_TpgetrplyResult_new ocd odata })
      (\<lambda>x u. pd t u \<and> reply_outcome idata x r (tr t) (tr u)) t"
    "wp (do { whenM bad (throw_tperrno idata); State_Monad.return (ri r) })
      (\<lambda>x u. pd t u \<and> x = ri r \<and> (if bad then \<exists>err. threw idata err (tr t) (tr u) else obs throw_ev (tr u) = obs throw_ev (tr t))) t"
proof -
  show "wp (if ri r \<noteq> EXSUCCEED then do { reply_error env obj idata b l ob ol ty; State_Monad.return 0 }
      else do { ret \<leftarrow> ndrxj_atmi_TypedBuffer_result_prep env obj idata b l ob ol ty; jni ''ExceptionCheck'' []; State_Monad.return ret })
      (\<lambda>x u. pd t u \<and> reply_outcome idata x r (tr t) (tr u)) t"
    by (intro wp_if wp_bind wp_cons [OF reply_error_wp(1) [OF assms]] wp_return wp_keeps [OF pd_bufs(3)] wp_jni)
       (auto simp: reply_outcome_def intro: pd.trans [OF _ pd_event])
  show "wp (if ri r \<noteq> EXSUCCEED then do { getrply_error env obj idata b l ob ol ty; State_Monad.return 0 }
      else do { odata \<leftarrow> (if ocd = 0 then State_Monad.return idata
          else ndrxj_atmi_TypedBuffer_result_prep env obj idata b l ob ol ty); ndrxj_TpgetrplyResult_new ocd odata })
      (\<lambda>x u. pd t u \<and> reply_outcome idata x r (tr t) (tr u)) t"
    by (intro wp_if wp_bind wp_cons [OF reply_error_wp(2) [OF assms]] wp_return wp_keeps [OF pd_bufs(3)] wp_keeps [OF pd_results(1)])
       (auto simp: reply_outcome_def intro: pd.trans)
  show "wp (do { whenM bad (throw_tperrno idata); State_Monad.return (ri r) })
      (\<lambda>x u. pd t u \<and> x = ri r \<and> (if bad then \<exists>err. threw idata err (tr t) (tr u) else obs throw_ev (tr u) = obs throw_ev (tr t))) t"
    unfolding throw_tperrno_def
    apply (rule wp_bind, rule wp_if)
     apply (rule wp_bind, rule wp_bind, rule wpd_query [OF pd.refl], simp add: query_fns_def)
     apply (rule wp_bind, erule wpd_ext, simp add: query_fns_def, erule wpd_throw [OF _ assms], simp)
     apply (rule wp_return, rule wp_return, auto) []
    apply (intro wp_return, simp add: pd.refl)
    done
qed

lemma conv_bodies:
  assumes s: "dyn_ok t" "able (orc t)"
  shows "wp (do { err \<leftarrow> ex ''tperrno'' [];
      if ri r \<noteq> EXSUCCEED \<and> err \<noteq> TPEEVENT then do { m \<leftarrow> ext (API ''tpstrerror'' [I err]); ndrxj_atmi_throw idata 0 err (rs m); State_Monad.return 0 }
      else do { odata \<leftarrow> ndrxj_atmi_TypedBuffer_result_prep env obj idata b l ob ol ty; ndrxj_TprecvResult_new cd odata rv } })
      (\<lambda>x u. pd t u \<and> conv_outcome idata r (tr t) (tr u)) t"
    "wp (do { err \<leftarrow> ex ''tperrno'' [];
      whenM (ri r \<noteq> EXSUCCEED \<and> err \<noteq> TPEEVENT) (do { m \<leftarrow> ext (API ''tpstrerror'' [I err]); ndrxj_atmi_throw idata 0 err (rs m) });
      State_Monad.return rv }) (\<lambda>x u. pd t u \<and> conv_outcome idata r (tr t) (tr u)) t"
proof -
  have ev: "conv_outcome idata r (tr t) (tr u)" if "pd v u" "v = t\<lparr>tr := (API ''tperrno'' [], q) # tr t\<rparr>" "\<not> (ri r \<noteq> EXSUCCEED \<and> ri q \<noteq> TPEEVENT)" for u v q
    using pdD(1) [OF that(1)] that(2,3) by (auto simp: conv_outcome_def suffix_def calls_append)
  have er: "conv_outcome idata r (tr t) (tr u)" if "threw idata err (tr t) (tr u)" "ri r \<noteq> EXSUCCEED \<and> err \<noteq> TPEEVENT" for u err
    using that by (auto simp: conv_outcome_def)
  show "wp (do { err \<leftarrow> ex ''tperrno'' [];
      if ri r \<noteq> EXSUCCEED \<and> err \<noteq> TPEEVENT then do { m \<leftarrow> ext (API ''tpstrerror'' [I err]); ndrxj_atmi_throw idata 0 err (rs m); State_Monad.return 0 }
      else do { odata \<leftarrow> ndrxj_atmi_TypedBuffer_result_prep env obj idata b l ob ol ty; ndrxj_TprecvResult_new cd odata rv } })
      (\<lambda>x u. pd t u \<and> conv_outcome idata r (tr t) (tr u)) t"
    apply (rule wp_bind, rule wpd_query [OF pd.refl], simp add: query_fns_def, rule wp_if)
     apply (rule wp_bind, erule wpd_ext, simp add: query_fns_def, rule wp_bind, erule wpd_throw [OF _ assms], simp)
     apply (rule wp_return, simp add: er)
    apply (rule wp_bind, erule wpd_keeps [OF _ pd_bufs(3)], erule wpd_keeps [OF _ pd_results(2)])
    apply (rule conjI, assumption, rule ev, erule (1) pd.trans, assumption+)
    done
  show "wp (do { err \<leftarrow> ex ''tperrno'' [];
      whenM (ri r \<noteq> EXSUCCEED \<and> err \<noteq> TPEEVENT) (do { m \<leftarrow> ext (API ''tpstrerror'' [I err]); ndrxj_atmi_throw idata 0 err (rs m) });
      State_Monad.return rv }) (\<lambda>x u. pd t u \<and> conv_outcome idata r (tr t) (tr u)) t"
    apply (rule wp_bind, rule wpd_query [OF pd.refl], simp add: query_fns_def, rule wp_bind, rule wp_if)
     apply (rule wp_bind, rule wp_bind, erule wpd_ext, simp add: query_fns_def, erule wpd_throw [OF _ assms], simp)
     apply (intro wp_return, simp add: er)
    apply (intro wp_return conjI, assumption, rule ev, rule pd.refl, assumption+)
    done
qed



end
