(* ===== verification/Queue.thy ===== *)
theory Queue
  imports Calls
begin

section \<open>Persistent queues (\<open>tpenqueue.c\<close>, \<open>tpdequeue.c\<close>)\<close>

text \<open>
  The queue is named by a queue space or, in the extended versions, by a node and a server.  The control structure is converted
  to C before and back to Java after the call.  \<open>queue_args\<close> is the common start: the checks and the two names.
  \<open>jqspace = 0\<close> selects the extended call; the sizes of the name buffers are those of the core.
\<close>

definition queue_args :: "int \<Rightarrow> int \<Rightarrow> int \<Rightarrow> int \<Rightarrow> int \<Rightarrow> int \<Rightarrow> (jb, (string \<times> string) option) state" where
  "queue_args jqspace nodeid srvid jqname jqctl idata =
     (if nodeid = EXFAIL \<and> srvid = EXFAIL \<and> jqspace = 0 then do {
        ndrxj_atmi_throw idata 0 TPEINVAL ''Null argument: jqspace''; State_Monad.return None }
      else if jqname = 0 then do {
        ndrxj_atmi_throw idata 0 TPEINVAL ''Null argument: jqname''; State_Monad.return None }
      else if jqctl = 0 then do {
        ndrxj_atmi_throw idata 0 TPEINVAL ''Null argument: jqctl''; State_Monad.return None }
      else do {
        sz \<leftarrow> field_size ''qspace'';
        (ret, qspace) \<leftarrow> (if jqspace \<noteq> 0 then ndrxj_cvt_jstr_to_c jqspace sz else State_Monad.return (EXSUCCEED, []));
        if ret \<noteq> EXSUCCEED then State_Monad.return None else do {
        sz \<leftarrow> field_size ''qname'';
        (ret, qname) \<leftarrow> ndrxj_cvt_jstr_to_c jqname sz;
        State_Monad.return (if ret \<noteq> EXSUCCEED then None else Some (qspace, qname))
        }
      })"

text \<open>The control structure as an argument and as a result: the fields in the order of the table, then the client id.  A call that
  reports no new field values leaves the structure alone.\<close>

definition qctl_args :: "cobj \<Rightarrow> arg list" where
  "qctl_args q = map (\<lambda>(_, f, _). case q f of CLong v \<Rightarrow> I v | CStr v \<Rightarrow> S v | CBytes v \<Rightarrow> Bs v) TPQCTL_fieldmap @ [S (c_str (q ''cltid''))]"

definition queue_fn :: "string \<Rightarrow> int \<Rightarrow> string" where
  "queue_fn f jqspace = (if jqspace \<noteq> 0 then f else f @ ''ex'')"

definition queue_id :: "int \<Rightarrow> string \<Rightarrow> int \<Rightarrow> int \<Rightarrow> arg list" where
  "queue_id jqspace qspace nodeid srvid = (if jqspace \<noteq> 0 then [S qspace] else [I nodeid, I srvid])"

text \<open>\<open>upd r q\<close>: what the core makes of the control structure.  When the call fails the exception is raised first and the control
  object updated afterwards.\<close>

definition tpenqueue_int ::
  "(xres \<Rightarrow> cobj \<Rightarrow> cobj) \<Rightarrow> int \<Rightarrow> int \<Rightarrow> int \<Rightarrow> int \<Rightarrow> int \<Rightarrow> int \<Rightarrow> int \<Rightarrow> int \<Rightarrow> int \<Rightarrow> (jb, unit) state"
where
  "tpenqueue_int upd env obj jqspace nodeid srvid jqname jqctl idata flags = ctx_out (ndrxj_get_ctx env obj True) () (\<lambda>c. do {
     a \<leftarrow> queue_args jqspace nodeid srvid jqname jqctl idata;
     case a of None \<Rightarrow> skip
     | Some (qspace, qname) \<Rightarrow> do {
         (ret, ibuf, ilen, _) \<leftarrow> ndrxj_atmi_TypedBuffer_get_buffer idata 0 False False False;
         if ret \<noteq> EXSUCCEED then skip else do {
         (ret, q) \<leftarrow> ndrxj_atmi_TPQCTL_translate2c jqctl (\<lambda>_. CLong 0);
         if ret \<noteq> EXSUCCEED then skip else do {
         r \<leftarrow> ext (API (queue_fn ''tpenqueue'' jqspace) (queue_id jqspace qspace nodeid srvid @ [S qname] @ qctl_args q @ [I ibuf, I ilen, I flags]));
         whenM (ri r \<noteq> EXSUCCEED) (do {
           err \<leftarrow> ex ''tperrno'' [];
           m \<leftarrow> ext (API ''tpstrerror'' [I err]);
           ndrxj_atmi_throw idata jqctl err (rs m) });
         ndrxj_atmi_TPQCTL_translate2java env obj jqctl (upd r q);
         skip
         }}
       }
   })"

definition tpdequeue_int ::
  "(xres \<Rightarrow> cobj \<Rightarrow> cobj) \<Rightarrow> int \<Rightarrow> int \<Rightarrow> int \<Rightarrow> int \<Rightarrow> int \<Rightarrow> int \<Rightarrow> int \<Rightarrow> int \<Rightarrow> int \<Rightarrow> (jb, int) state"
where
  "tpdequeue_int upd env obj jqspace nodeid srvid jqname jqctl idata flags = ctx_out (ndrxj_get_ctx env obj True) 0 (\<lambda>c. do {
     a \<leftarrow> queue_args jqspace nodeid srvid jqname jqctl idata;
     case a of None \<Rightarrow> State_Monad.return 0
     | Some (qspace, qname) \<Rightarrow> do {
         (ret, q) \<leftarrow> ndrxj_atmi_TPQCTL_translate2c jqctl (\<lambda>_. CLong 0);
         if ret \<noteq> EXSUCCEED then State_Monad.return 0 else do {
         b \<leftarrow> request_buffer idata ''NULL'';
         case b of None \<Rightarrow> State_Monad.return 0
         | Some (ibuf, ilen, itype) \<Rightarrow> do {
             r \<leftarrow> ext (API (queue_fn ''tpdequeue'' jqspace) (queue_id jqspace qspace nodeid srvid @ [S qname] @ qctl_args q @ [I ibuf, I ilen, I flags]));
             if ri r \<noteq> EXSUCCEED then do {
               err \<leftarrow> ex ''tperrno'' [];
               m \<leftarrow> ext (API ''tpstrerror'' [I err]);
               ndrxj_atmi_TPQCTL_translate2java env obj jqctl (upd r q);
               ndrxj_atmi_throw idata jqctl err (rs m);
               State_Monad.return 0
             } else do {
               retObj \<leftarrow> ndrxj_atmi_TypedBuffer_result_prep env obj idata ibuf ilen (out_arg 0 ibuf r) (out_arg 1 ilen r) itype;
               ndrxj_atmi_TPQCTL_translate2java env obj jqctl (upd r q);
               State_Monad.return retObj
             }
           }
         }
       }
   })"

definition AtmiCtx_tpenqueue :: "(xres \<Rightarrow> cobj \<Rightarrow> cobj) \<Rightarrow> int \<Rightarrow> int \<Rightarrow> int \<Rightarrow> int \<Rightarrow> int \<Rightarrow> int \<Rightarrow> int \<Rightarrow> (jb, unit) state" where
  "AtmiCtx_tpenqueue upd env obj jqspace jqname jqctl idata flags =
     tpenqueue_int upd env obj jqspace EXFAIL EXFAIL jqname jqctl idata flags"

definition AtmiCtx_tpenqueueex :: "(xres \<Rightarrow> cobj \<Rightarrow> cobj) \<Rightarrow> int \<Rightarrow> int \<Rightarrow> int \<Rightarrow> int \<Rightarrow> int \<Rightarrow> int \<Rightarrow> int \<Rightarrow> int \<Rightarrow> (jb, unit) state" where
  "AtmiCtx_tpenqueueex upd env obj nodeid srvid jqname jqctl idata flags =
     tpenqueue_int upd env obj 0 nodeid srvid jqname jqctl idata flags"

definition AtmiCtx_tpdequeue :: "(xres \<Rightarrow> cobj \<Rightarrow> cobj) \<Rightarrow> int \<Rightarrow> int \<Rightarrow> int \<Rightarrow> int \<Rightarrow> int \<Rightarrow> int \<Rightarrow> int \<Rightarrow> (jb, int) state" where
  "AtmiCtx_tpdequeue upd env obj jqspace jqname jqctl idata flags =
     tpdequeue_int upd env obj jqspace EXFAIL EXFAIL jqname jqctl idata flags"

definition AtmiCtx_tpdequeueex :: "(xres \<Rightarrow> cobj \<Rightarrow> cobj) \<Rightarrow> int \<Rightarrow> int \<Rightarrow> int \<Rightarrow> int \<Rightarrow> int \<Rightarrow> int \<Rightarrow> int \<Rightarrow> int \<Rightarrow> (jb, int) state" where
  "AtmiCtx_tpdequeueex upd env obj nodeid srvid jqname jqctl idata flags =
     tpdequeue_int upd env obj 0 nodeid srvid jqname jqctl idata flags"

lemma plain_queue_args: "keeps plain (queue_args jqspace nodeid srvid jqname jqctl idata)"
  unfolding queue_args_def by (intro plain_calls plain_conv plain_field_size; simp add: fns_defs)

lemmas queue_defs = AtmiCtx_tpenqueue_def AtmiCtx_tpenqueueex_def AtmiCtx_tpdequeue_def AtmiCtx_tpdequeueex_def

lemma queue_native:
  assumes "cur_ctx (tr s) = 0"
  shows "native obj s (exec (AtmiCtx_tpenqueue upd env obj jqspace jqname jqctl idata flags) s)"
    "native obj s (exec (AtmiCtx_tpenqueueex upd env obj nodeid srvid jqname jqctl idata flags) s)"
    "native obj s (exec (AtmiCtx_tpdequeue upd env obj jqspace jqname jqctl idata flags) s)"
    "native obj s (exec (AtmiCtx_tpdequeueex upd env obj nodeid srvid jqname jqctl idata flags) s)"
  unfolding queue_defs tpenqueue_int_def tpdequeue_int_def
  by (rule atmi_native [OF _ assms],
      (intro inner_reqs plain_queue_args [THEN keeps_plain_inner]; simp add: fns_defs queue_fn_def))+

end
