(* ===== verification/Logging.thy ===== *)
theory Logging
  imports Calls
begin

section \<open>Logging and request files (\<open>logging.c\<close>)\<close>

text \<open>
  The methods that log a Java exception print its backtrace with a message into one of the logs; the log is the event, and an empty
  backtrace is printed as \<open>no JNI exception\<close>.  The message is copied before the context is attached and
  released after it is dropped, also when there is no context.
\<close>

definition NDRXJ_LOG_EXCEPTION_E :: "string \<Rightarrow> arg list \<Rightarrow> int \<Rightarrow> (jb, unit) state" where
  "NDRXJ_LOG_EXCEPTION_E log as e = do {
     bt \<leftarrow> ndrxj_exception_backtrace e;
     ex log (as @ [S (if bt = [] then ''no JNI exception'' else bt)]);
     skip
   }"

definition log_ex :: "string \<Rightarrow> arg list \<Rightarrow> int \<Rightarrow> int \<Rightarrow> int \<Rightarrow> int \<Rightarrow> (jb, unit) state" where
  "log_ex log as env obj msg e = do {
     n_msg \<leftarrow> ext (JNI ''GetStringUTFChars'' [I msg]);
     do { c \<leftarrow> ndrxj_get_ctx env obj True;
          if c = 0 then skip else NDRXJ_LOG_EXCEPTION_E log (as @ [cstr n_msg]) e };
     tpsetctxt TPNULLCONTEXT;
     whenM (copied n_msg) (jni ''ReleaseStringUTFChars'' [I msg])
   }"

definition AtmiCtx_tplogubfex :: "int \<Rightarrow> int \<Rightarrow> int \<Rightarrow> int \<Rightarrow> int \<Rightarrow> (jb, unit) state" where
  "AtmiCtx_tplogubfex env obj lev msg e = log_ex ''UBF_LOG'' [I lev] env obj msg e"

definition AtmiCtx_tplogndrxex :: "int \<Rightarrow> int \<Rightarrow> int \<Rightarrow> int \<Rightarrow> int \<Rightarrow> (jb, unit) state" where
  "AtmiCtx_tplogndrxex env obj lev msg e = log_ex ''NDRX_LOG'' [I lev] env obj msg e"

definition AtmiCtx_tplogex :: "int \<Rightarrow> int \<Rightarrow> int \<Rightarrow> int \<Rightarrow> int \<Rightarrow> (jb, unit) state" where
  "AtmiCtx_tplogex env obj lev msg e = log_ex ''TP_LOG'' [I lev] env obj msg e"

definition AtmiCtx_userlogex :: "int \<Rightarrow> int \<Rightarrow> int \<Rightarrow> int \<Rightarrow> (jb, unit) state" where
  "AtmiCtx_userlogex env obj msg e = log_ex ''userlog'' [] env obj msg e"

subsection \<open>Request files\<close>

text \<open>The core may move the buffer, but the new address is not stored in the object.\<close>

definition AtmiCtx_tplogsetreqfile :: "int \<Rightarrow> int \<Rightarrow> int \<Rightarrow> int \<Rightarrow> int \<Rightarrow> (jb, unit) state" where
  "AtmiCtx_tplogsetreqfile env obj data filename filesvc = ctx_out (ndrxj_get_ctx env obj True) () (\<lambda>c. do {
     q \<leftarrow> send_buffer data;
     case q of None \<Rightarrow> skip
     | Some (buf, _) \<Rightarrow> with_strs [filename, filesvc] (\<lambda>as. do {
         r \<leftarrow> ex ''tplogsetreqfile'' (I buf # as);
         whenM (r \<noteq> EXSUCCEED) (throw_tperrno data) })
   })"

definition AtmiCtx_tploggetbufreqfile :: "int \<Rightarrow> int \<Rightarrow> int \<Rightarrow> (jb, int) state" where
  "AtmiCtx_tploggetbufreqfile env obj data = ctx_out (ndrxj_get_ctx env obj True) 0 (\<lambda>c.
     if data = 0 then do { ndrxj_nullptr_throw ''`data' cannot be NULL''; State_Monad.return 0 }
     else do {
     (ret, buf, len, _) \<leftarrow> ndrxj_atmi_TypedBuffer_get_buffer data 0 False False False;
     if ret \<noteq> EXSUCCEED then State_Monad.return 0 else do {
     r \<leftarrow> ext (API ''tploggetbufreqfile'' [I buf, I (int PATH_MAX + 1)]);
     if ri r \<noteq> EXSUCCEED then do { throw_tperrno data; State_Monad.return 0 }
     else jni ''NewStringUTF'' [S (rs r)]
     }})"

definition AtmiCtx_tplogdelbufreqfile :: "int \<Rightarrow> int \<Rightarrow> int \<Rightarrow> (jb, unit) state" where
  "AtmiCtx_tplogdelbufreqfile env obj data = ctx_out (ndrxj_get_ctx env obj True) () (\<lambda>c.
     if data = 0 then ndrxj_nullptr_throw ''`data' cannot be NULL''
     else do {
     (ret, buf, len, _) \<leftarrow> ndrxj_atmi_TypedBuffer_get_buffer data 0 False False False;
     if ret \<noteq> EXSUCCEED then skip else do {
     r \<leftarrow> ex ''tplogdelbufreqfile'' [I buf];
     whenM (r \<noteq> EXSUCCEED) (throw_tperrno data)
     }})"

definition AtmiCtx_tploggetreqfile :: "int \<Rightarrow> int \<Rightarrow> (jb, int) state" where
  "AtmiCtx_tploggetreqfile env obj = ctx_out (ndrxj_get_ctx env obj True) 0 (\<lambda>c. do {
     r \<leftarrow> ext (API ''tploggetreqfile'' [I (int PATH_MAX + 1)]);
     if ri r = 0 then State_Monad.return 0 else jni ''NewStringUTF'' [S (rs r)]
   })"

definition AtmiCtx_tplogsetreqfile_direct :: "int \<Rightarrow> int \<Rightarrow> int \<Rightarrow> (jb, unit) state" where
  "AtmiCtx_tplogsetreqfile_direct env obj filename = ctx_out (ndrxj_get_ctx env obj True) () (\<lambda>c.
     if filename = 0 then ndrxj_nullptr_throw ''`filename' cannot be NULL''
     else with_utf filename (\<lambda>n_filename. do { ex ''tplogsetreqfile_direct'' [cstr n_filename]; skip }))"

definition AtmiCtx_tplogclosereqfile :: "int \<Rightarrow> int \<Rightarrow> (jb, unit) state" where
  "AtmiCtx_tplogclosereqfile env obj = ctx_out (ndrxj_get_ctx env obj True) () (\<lambda>c. do { ex ''tplogclosereqfile'' []; skip })"

definition AtmiCtx_tplogconfig :: "int \<Rightarrow> int \<Rightarrow> int \<Rightarrow> int \<Rightarrow> int \<Rightarrow> int \<Rightarrow> int \<Rightarrow> (jb, unit) state" where
  "AtmiCtx_tplogconfig env obj logger lev debug_string module new_file = ctx_out (ndrxj_get_ctx env obj True) () (\<lambda>c.
     with_strs [debug_string, module, new_file] (\<lambda>as. do {
       r \<leftarrow> ex ''tplogconfig'' (I logger # I lev # as);
       whenM (r \<noteq> EXSUCCEED) (throw_tperrno 0) }))"

subsection \<open>Every method works in the context of its object\<close>

lemma plain_backtrace: "keeps plain (ndrxj_exception_backtrace e)"
  unfolding ndrxj_exception_backtrace_def
  by (intro plain.rules plain_backtrace_recursive) (simp_all add: fns_defs)

lemma inner_LOG_EXCEPTION_E: "log \<notin> set ctx_fns \<Longrightarrow> keeps inner (NDRXJ_LOG_EXCEPTION_E log as e)"
  unfolding NDRXJ_LOG_EXCEPTION_E_def by (intro inner_calls plain_backtrace [THEN keeps_plain_inner]) (simp_all add: fns_defs)

lemma reqfile_native:
  assumes "cur_ctx (tr s) = 0"
  shows "native obj s (exec (AtmiCtx_tplogsetreqfile env obj data filename filesvc) s)"
    "native obj s (exec (AtmiCtx_tploggetbufreqfile env obj data) s)"
    "native obj s (exec (AtmiCtx_tplogdelbufreqfile env obj data) s)"
    "native obj s (exec (AtmiCtx_tploggetreqfile env obj) s)"
    "native obj s (exec (AtmiCtx_tplogsetreqfile_direct env obj filename) s)"
    "native obj s (exec (AtmiCtx_tplogclosereqfile env obj) s)"
    "native obj s (exec (AtmiCtx_tplogconfig env obj logger lev debug_string module new_file) s)"
  unfolding AtmiCtx_tplogsetreqfile_def AtmiCtx_tploggetbufreqfile_def AtmiCtx_tplogdelbufreqfile_def AtmiCtx_tploggetreqfile_def
    AtmiCtx_tplogsetreqfile_direct_def AtmiCtx_tplogclosereqfile_def AtmiCtx_tplogconfig_def
  by (rule atmi_native [OF _ assms], (intro inner_reqs inner_with_strs; simp add: fns_defs))+

lemma log_ex_native:
  assumes "cur_ctx (tr s) = 0" "log \<notin> set ctx_fns"
  shows "native obj s (exec (log_ex log as env obj msg e) s)"
  unfolding log_ex_def
  by (rule wp_exec, rule wp_bind, rule wp_ext, rule wp_bind, rule wp_cons [OF within_ctx [OF inner_LOG_EXCEPTION_E [OF assms(2)]]],
      intro wp_bind wp_tpsetctxt wp_if wp_jni wp_return; erule within_native [OF _ _ assms(1)]; simp add: bracket_simps)

lemma logex_native:
  assumes "cur_ctx (tr s) = 0"
  shows "native obj s (exec (AtmiCtx_tplogubfex env obj lev msg e) s)"
    "native obj s (exec (AtmiCtx_tplogndrxex env obj lev msg e) s)"
    "native obj s (exec (AtmiCtx_tplogex env obj lev msg e) s)"
    "native obj s (exec (AtmiCtx_userlogex env obj msg e) s)"
  unfolding AtmiCtx_tplogubfex_def AtmiCtx_tplogndrxex_def AtmiCtx_tplogex_def AtmiCtx_userlogex_def
  by (rule log_ex_native [OF assms]; simp add: ctx_fns_def)+

end
