(* ===== verification/CtxUtil.thy ===== *)
theory CtxUtil
  imports Calls
begin

section \<open>Field names, timeouts and buffers of a context (\<open>AtmiCtx_Util.c\<close>)\<close>

text \<open>
  The native methods of a context that look up a field of the field tables, read and set the timeout of the thread, list the
  buffers the core has given out and close a call.  All but \<open>Bfldid\<close>, which throws before it has set a
  context when it is given no name, follow the discipline of the native methods.
\<close>

abbreviation BEINVAL :: int where "BEINVAL \<equiv> 14"
abbreviation BBADFLDID :: int where "BBADFLDID \<equiv> 0"

definition AtmiCtx_Btype :: "int \<Rightarrow> int \<Rightarrow> int \<Rightarrow> (jb, int) state" where
  "AtmiCtx_Btype env obj bfldid = ctx_out (ndrxj_get_ctx env obj True) 0 (\<lambda>c. do {
     cret \<leftarrow> ext (API ''Btype'' [I bfldid]);
     if ri cret = 0 then do { throw_berror []; State_Monad.return 0 } else jni ''NewStringUTF'' [S (rs cret)]
   })"

definition AtmiCtx_Bfname :: "int \<Rightarrow> int \<Rightarrow> int \<Rightarrow> (jb, int) state" where
  "AtmiCtx_Bfname env obj bfldid = ctx_out (ndrxj_get_ctx env obj True) 0 (\<lambda>c. do {
     cret \<leftarrow> ext (API ''Bfname'' [I bfldid]);
     if ri cret = 0 then do { throw_berror []; State_Monad.return 0 } else jni ''NewStringUTF'' [S (rs cret)]
   })"

definition AtmiCtx_Bfldid :: "int \<Rightarrow> int \<Rightarrow> int \<Rightarrow> (jb, int) state" where
  "AtmiCtx_Bfldid env obj fldnm =
     (if fldnm = 0 then do {
        ndrxj_ubf_throw BEINVAL ''ndrxj_Java_org_endurox_AtmiCtx_Bfldid: fldnm cannot be null'';
        tpsetctxt TPNULLCONTEXT;
        State_Monad.return BBADFLDID
      } else do {
        n_fldnm \<leftarrow> ext (JNI ''GetStringUTFChars'' [I fldnm]);
        ret \<leftarrow> do { c \<leftarrow> ndrxj_get_ctx env obj True;
               if c = 0 then State_Monad.return BBADFLDID else ex ''Bfldid'' [cstr n_fldnm] };
        whenM (copied n_fldnm) (jni ''ReleaseStringUTFChars'' [I fldnm]);
        tpsetctxt TPNULLCONTEXT;
        State_Monad.return ret
      })"

definition AtmiCtx_tptoutget :: "int \<Rightarrow> int \<Rightarrow> (jb, int) state" where
  "AtmiCtx_tptoutget env obj = ctx_out (ndrxj_get_ctx env obj True) EXFAIL (\<lambda>c. ex ''tptoutget'' [])"

definition AtmiCtx_tptoutset :: "int \<Rightarrow> int \<Rightarrow> int \<Rightarrow> (jb, unit) state" where
  "AtmiCtx_tptoutset env obj tout = ctx_out (ndrxj_get_ctx env obj True) () (\<lambda>c. core_call ''tptoutset'' [I tout])"

text \<open>The list of the core is an output parameter; it is freed at the exit in every case.\<close>

definition buffers_array :: "int list \<Rightarrow> (jb, int) state" where
  "buffers_array list = do {
     ret \<leftarrow> jni ''NewLongArray'' [I (int (length list))];
     if ret = 0 then do {
       ndrxj_atmi_throw 0 0 TPESYSTEM ''Failed to alloc java array!''; State_Monad.return 0
     } else if list = [] then State_Monad.return ret
     else do {
       jlong_list \<leftarrow> ex ''malloc'' [I (int (length list) * 8)];
       (if jlong_list = 0 then ndrxj_atmi_throw 0 0 TPESYSTEM ''Failed to alloc temp list - OOM?!''
        else do {
          jni ''SetLongArrayRegion'' [I ret, I 0, I (int (length list)), Bs list];
          ex ''free'' [I jlong_list];
          skip });
       State_Monad.return ret
     }
   }"

definition AtmiCtx_getBuffers :: "int \<Rightarrow> int \<Rightarrow> (jb, int) state" where
  "AtmiCtx_getBuffers env obj = do {
     c \<leftarrow> ndrxj_get_ctx env obj True;
     ret \<leftarrow> (if c = 0 then do { ex ''ndrx_growlist_free'' []; State_Monad.return 0 }
       else do {
         r \<leftarrow> ext (API ''ndrx_buffer_list'' []);
         ret \<leftarrow> (if ri r \<noteq> EXSUCCEED then do {
             ndrxj_atmi_throw 0 0 TPESYSTEM ''Failed to get buffers list!''; State_Monad.return 0 }
           else buffers_array (ro r));
         ex ''ndrx_growlist_free'' [];
         State_Monad.return ret
       });
     tpsetctxt TPNULLCONTEXT;
     State_Monad.return ret
   }"

definition AtmiCtx_tpurcode :: "int \<Rightarrow> int \<Rightarrow> (jb, int) state" where
  "AtmiCtx_tpurcode env obj = ctx_out (ndrxj_get_ctx env obj True) 0 (\<lambda>c. ex ''tpurcode'' [])"

definition AtmiCtx_tpcancel :: "int \<Rightarrow> int \<Rightarrow> int \<Rightarrow> (jb, unit) state" where
  "AtmiCtx_tpcancel env obj cd = ctx_out (ndrxj_get_ctx env obj True) () (\<lambda>c. do { ex ''tpcancel'' [I cd]; skip })"

subsection \<open>Every method works in the context of its object\<close>

lemma plain_buffers_array: "keeps plain (buffers_array list)"
  unfolding buffers_array_def by (intro plain_calls) (simp_all add: fns_defs)

lemma util_native:
  assumes "cur_ctx (tr s) = 0"
  shows "native obj s (exec (AtmiCtx_Btype env obj bfldid) s)"
    "native obj s (exec (AtmiCtx_Bfname env obj bfldid) s)"
    "native obj s (exec (AtmiCtx_tptoutget env obj) s)"
    "native obj s (exec (AtmiCtx_tptoutset env obj tout) s)"
    "native obj s (exec (AtmiCtx_tpurcode env obj) s)"
    "native obj s (exec (AtmiCtx_tpcancel env obj cd) s)"
    "native obj s (exec (AtmiCtx_getBuffers env obj) s)"
  unfolding AtmiCtx_Btype_def AtmiCtx_Bfname_def AtmiCtx_tptoutget_def AtmiCtx_tptoutset_def AtmiCtx_tpurcode_def
    AtmiCtx_tpcancel_def AtmiCtx_getBuffers_def
  by (rule atmi_native [OF _ assms] out_native [OF _ _ assms, where f = "\<lambda>x. x"];
      (intro inner_reqs plain_buffers_array [THEN keeps_plain_inner]; simp add: fns_defs)?)+

lemma Bfldid_native:
  assumes "cur_ctx (tr s) = 0"
  shows "native obj s (exec (AtmiCtx_Bfldid env obj fldnm) s)"
proof (rule wp_exec)
  have body: "keeps inner (ex ''Bfldid'' as)" for as by (intro inner_calls) (simp add: ctx_fns_def)
  show "wp (AtmiCtx_Bfldid env obj fldnm) (\<lambda>_. native obj s) s" unfolding AtmiCtx_Bfldid_def
    apply (rule wp_if)
     apply (rule wp_bind, rule wp_keeps [OF plain_throws(3)], intro wp_bind wp_tpsetctxt wp_return)
     apply (rule native_null [OF around_refl plain_inner assms], assumption, simp add: bracket_simps)
    apply (rule wp_bind, rule wp_ext, rule wp_bind, rule wp_cons [OF within_ctx [OF body]])
    apply (intro wp_bind wp_tpsetctxt wp_if wp_jni wp_return; erule within_native [OF _ _ assms]; simp add: bracket_simps)
    done
qed

end
