(* ===== verification/Unsol.thy ===== *)
theory Unsol
  imports Calls
begin

section \<open>Unsolicited messages (\<open>AtmiCtx_unsol.c\<close>)\<close>

text \<open>
  \<open>ndrx_unsol_dispatcher\<close> is called by the core, while a context is set, for a message that nobody asked for; it hands the
  message to the Java object of the context.  \<open>TPUNSOLERR\<close> is a value of the core's header.
\<close>

definition unsol_deliver :: "int \<Rightarrow> int \<Rightarrow> int \<Rightarrow> (jb, unit) state" where
  "unsol_deliver jobj jdata flags = do {
     ctx \<leftarrow> ext (API ''tpgetctxt'' [I 0]);
     mid \<leftarrow> getv ''AtmiCtx_mid_unsolDispatch'';
     java_call ''CallVoidMethod'' [I jobj, I mid, I jdata, I flags];
     tpsetctxt (hd (ro ctx @ [0]));
     skip
   }"

text \<open>The exit: whatever is pending is cleared, and the reference to the message is deleted.\<close>

definition unsol_exit :: "int \<Rightarrow> (jb, unit) state" where
  "unsol_exit jdata = do {
     e \<leftarrow> jni ''ExceptionCheck'' [];
     whenM (e \<noteq> 0) (do { NDRXJ_LOG_EXCEPTION; jni ''ExceptionClear'' [] });
     delete_if jdata
   }"

definition ndrx_unsol_dispatcher :: "int \<Rightarrow> int \<Rightarrow> int \<Rightarrow> (jb, unit) state" where
  "ndrx_unsol_dispatcher data len flags = do {
     ctxpriv \<leftarrow> ndrx_ctx_priv_get;
     p \<leftarrow> priv ctxpriv;
     jdata \<leftarrow> ndrxj_atmi_TypedBuffer_translate (integptr1 p) (integptr2 p) True data len None 0;
     e \<leftarrow> jni ''ExceptionCheck'' [];
     (if e \<noteq> 0 then skip else unsol_deliver (integptr2 p) jdata flags);
     unsol_exit jdata
   }"

abbreviation TPUNSOLERR :: int where "TPUNSOLERR \<equiv> EXFAIL"

text \<open>The argument 1 stands for the address of \<open>ndrx_unsol_dispatcher\<close>.\<close>

definition AtmiCtx_tpsetunsolC :: "int \<Rightarrow> int \<Rightarrow> int \<Rightarrow> (jb, unit) state" where
  "AtmiCtx_tpsetunsolC env obj jcb = ctx_return (ndrxj_get_ctx env obj True) () (\<lambda>c. do {
     r \<leftarrow> ex ''tpsetunsol'' [I (if jcb \<noteq> 0 then 1 else 0)];
     whenM (r = TPUNSOLERR) (throw_tperrno 0)
   })"

text \<open>After the exception for a missing client id the method goes on with the NULL reference.\<close>

definition AtmiCtx_tpnotify :: "int \<Rightarrow> int \<Rightarrow> int \<Rightarrow> int \<Rightarrow> int \<Rightarrow> (jb, unit) state" where
  "AtmiCtx_tpnotify env obj jclientid idata flags = ctx_return (ndrxj_get_ctx env obj True) () (\<lambda>c. do {
     whenM (jclientid = 0) (do {
       ndrxj_atmi_throw idata 0 TPEINVAL ''jclientid is NULL'';
       fault ''GetObjectField(NULL)'' });
     (ret, cltid) \<leftarrow> ndrxj_atmi_ClientId_translate_toc jclientid;
     if ret \<noteq> EXSUCCEED then do {
       e \<leftarrow> jni ''ExceptionCheck'' [];
       whenM (e = 0) (ndrxj_atmi_throw idata 0 TPESYSTEM ''Failed to translate jclientid to C'')
     } else do {
     q \<leftarrow> send_buffer idata;
     case q of None \<Rightarrow> skip
     | Some (ibuf, ilen) \<Rightarrow> do {
         r \<leftarrow> ex ''tpnotify'' [S cltid, I ibuf, I ilen, I flags];
         whenM (r \<noteq> EXSUCCEED) (throw_tperrno idata)
       }
     }
   })"

definition AtmiCtx_tpbroadcast :: "int \<Rightarrow> int \<Rightarrow> int \<Rightarrow> int \<Rightarrow> int \<Rightarrow> int \<Rightarrow> int \<Rightarrow> (jb, unit) state" where
  "AtmiCtx_tpbroadcast env obj lmid usrname cltname idata flags = ctx_return (ndrxj_get_ctx env obj True) () (\<lambda>c. do {
     q \<leftarrow> send_buffer idata;
     case q of None \<Rightarrow> skip
     | Some (ibuf, ilen) \<Rightarrow> with_strs [lmid, usrname, cltname] (\<lambda>as. do {
         r \<leftarrow> ex ''tpbroadcast'' (as @ [I ibuf, I ilen, I flags]);
         whenM (r \<noteq> EXSUCCEED) (throw_tperrno idata) })
   })"

definition AtmiCtx_tpchkunsol :: "int \<Rightarrow> int \<Rightarrow> (jb, int) state" where
  "AtmiCtx_tpchkunsol env obj = ctx_return (ndrxj_get_ctx env obj True) EXFAIL (\<lambda>c. do {
     ret \<leftarrow> ex ''tpchkunsol'' [];
     whenM (ret = EXFAIL) (throw_tperrno 0);
     State_Monad.return ret
   })"

lemma unsol_native:
  assumes "cur_ctx (tr s) = 0"
  shows "native obj s (exec (AtmiCtx_tpsetunsolC env obj jcb) s)"
    "native obj s (exec (AtmiCtx_tpnotify env obj jclientid idata flags) s)"
    "native obj s (exec (AtmiCtx_tpbroadcast env obj lmid usrname cltname idata flags) s)"
    "native obj s (exec (AtmiCtx_tpchkunsol env obj) s)"
  unfolding AtmiCtx_tpsetunsolC_def AtmiCtx_tpnotify_def AtmiCtx_tpbroadcast_def AtmiCtx_tpchkunsol_def
  by (rule atmi_native [OF _ assms], (intro inner_reqs inner_with_strs; simp add: fns_defs))+

subsection \<open>Delivery\<close>

lemma deliver_restored:
  assumes "\<forall>h. ro (orc s h (API ''tpgetctxt'' [I 0])) = [cur_ctx h]"
  shows "wp (unsol_deliver jobj jdata flags) (\<lambda>_. restored s) s"
  unfolding unsol_deliver_def java_call_def
  by (intro wp_bind wp_ext_o wp_getv wp_jni wp_update wp_return wp_tpsetctxt) (auto simp: restored_def java_fns_def assms)

lemma unsol_exit_wp: "wp (unsol_exit jdata) (\<lambda>_ t. plain s t \<and> cleared (tr s) (tr t)) s"
proof (rule wp_conj)
  have "keeps plain (unsol_exit jdata)" unfolding unsol_exit_def by (intro plain_calls plain_delete_if) (simp_all add: fns_defs)
  then show "wp (unsol_exit jdata) (\<lambda>_. plain s) s" by (simp add: keeps_def wp_def)
  have a: "cleared (tr s) (x @ (JNI ''ExceptionClear'' [], q) # tr t)"
    if "plain (s\<lparr>tr := (JNI ''ExceptionCheck'' [], r) # tr s\<rparr>) t" for r t q x
    using frameD(1) [OF that] unfolding cleared_def suffix_def by fastforce
  have b: "cleared (tr s) (x @ (JNI ''ExceptionCheck'' [], r) # tr s)" if "ri r = 0" for r x
    using that by (auto simp: cleared_def)
  show "wp (unsol_exit jdata) (\<lambda>_ t. cleared (tr s) (tr t)) s" unfolding unsol_exit_def delete_if_def
    by (intro wp_bind wp_jni wp_if wp_return wp_keeps [OF plain_LOG_EXCEPTION])
       (use a [where x = "[]"] a [where x = "[p]" for p] b [where x = "[]"] b [where x = "[p]" for p] in simp_all)
qed

lemma unsol_exit_done:
  assumes "restored s u"
  shows "wp (unsol_exit jdata) (\<lambda>_ t. restored s t \<and> (\<exists>k. core k = core (tr t) \<and> cleared k (tr t))) u"
proof (rule wp_cons [OF unsol_exit_wp])
  fix t
  assume a: "plain u t \<and> cleared (tr u) (tr t)"
  then show "restored s t \<and> (\<exists>k. core k = core (tr t) \<and> cleared k (tr t))"
    using restored.trans [OF assms plain_restored] frameD(2) [of _ u t] by metis
qed

text \<open>C20. An unsolicited message is delivered with the thread attached to no context, and afterwards the thread is attached to the context
  it was in, whether the message could be converted or not and whatever the handler did; and no exception, of the
  conversion or of the handler, is left pending when the core gets the control back: after the last call
  into Java the VM is asked for one and told to clear it.\<close>

theorem unsol_delivery:
  assumes "\<forall>h. ro (orc s h (API ''tpgetctxt'' [I 0])) = [cur_ctx h]" "t = exec (ndrx_unsol_dispatcher data len flags) s"
  shows "restored s t \<and> (\<exists>k. core k = core (tr t) \<and> cleared k (tr t))"
proof -
  have deliver: "wp (unsol_deliver jobj jdata flags) (\<lambda>_. restored s) u" if "plain s u" for jobj jdata u
  proof (rule wp_cons [OF deliver_restored])
    show "\<forall>h. ro (orc u h (API ''tpgetctxt'' [I 0])) = [cur_ctx h]" using assms(1) frameD(5) [OF that] by (simp add: cfg_def)
  qed (rule restored.trans [OF plain_restored [OF that]])
  have check: "plain s (u\<lparr>tr := (JNI ''ExceptionCheck'' [], r) # tr u\<rparr>)" if "plain s u" for u r
    using that by (simp add: frame_def suffix_ConsI java_fns_def)
  have "wp (ndrx_unsol_dispatcher data len flags) (\<lambda>_ t. restored s t \<and> (\<exists>k. core k = core (tr t) \<and> cleared k (tr t))) s"
    unfolding ndrx_unsol_dispatcher_def
    apply (rule wp_bind, rule wp_priv_get, rule wp_bind, rule wp_priv, rule wp_bind, rule wp_keeps [OF plain_translate])
    apply (rule wp_bind, rule wp_jni, rule wp_bind, rule wp_if)
     apply (rule wp_return, rule unsol_exit_done, rule plain_restored, erule check)
    apply (rule wp_cons [OF deliver], erule check, erule unsol_exit_done)
    done
  then show ?thesis using assms(2) by (simp add: wp_def)
qed

theorem unsol_delivery_witness:
  "let s = jb_init (\<lambda>h e. if e = API ''tpgetctxt'' [I 0] then quiet h e\<lparr>ro := [cur_ctx h]\<rparr> else quiet h e)
   in restored s (exec (ndrx_unsol_dispatcher 1 2 0) s)"
  using unsol_delivery [OF _ refl, of "jb_init (\<lambda>h e. if e = API ''tpgetctxt'' [I 0] then quiet h e\<lparr>ro := [cur_ctx h]\<rparr> else quiet h e)" 1 2 0]
  by (simp add: Let_def jb_init_def)

end
