(* ===== verification/XaConfig.thy ===== *)
theory XaConfig
  imports Prelude
begin

section \<open>The configuration of the XA driver (\<open>xaconfig.c\<close>, \<open>ndrxj_xa_init\<close> of \<open>AtmiCtx.java\<close>)\<close>

text \<open>
  The open string of the driver is a JSON text with the class of the data source and its settings.  The C side turns every setting
  into one string with the separator \<open>FS\<close> in between: \<open>name FS value\<close>, or \<open>name FS key FS value FS key FS value ...\<close> for a
  setting that is a set of properties.  The Java side splits the strings again and calls the method of
  the data source with that name.  The JSON parser is not part of this repository: its result is an argument.
\<close>

datatype json = JObj "(string \<times> json) list" | JStr string | JOther

definition NDRXJ_FS :: char where "NDRXJ_FS = CHR 0x1C"

definition tmpbuf_size :: nat where "tmpbuf_size = 2048"

subsection \<open>The C side\<close>

text \<open>\<open>exjson_object_get_string\<close> and \<open>exjson_object_get_object\<close> look a value up by its name.\<close>

definition get_string :: "(string \<times> json) list \<Rightarrow> string \<Rightarrow> string" where
  "get_string obj name = (case map_of obj name of Some (JStr v) \<Rightarrow> v | _ \<Rightarrow> [])"

definition get_object :: "(string \<times> json) list \<Rightarrow> string \<Rightarrow> (string \<times> json) list" where
  "get_object obj name = (case map_of obj name of Some (JObj v) \<Rightarrow> v | _ \<Rightarrow> [])"

text \<open>The loop over the properties of one setting; \<open>None\<close> is a value that is not a string.\<close>

fun set_props :: "(string \<times> json) list \<Rightarrow> nat \<Rightarrow> string \<Rightarrow> (string \<times> json) list \<Rightarrow> string option" where
  "set_props sub_obj2 n tmpbuf [] = Some tmpbuf"
| "set_props sub_obj2 n tmpbuf ((sub_name2, JStr _) # rest) =
     (let str_val = get_string sub_obj2 sub_name2;
          room = tmpbuf_size - length tmpbuf
      in set_props sub_obj2 (n + 1)
        (tmpbuf @ snprintf_buf room ((if n > 0 then [NDRXJ_FS] else []) @ sub_name2 @ [NDRXJ_FS] @ str_val)) rest)"
| "set_props sub_obj2 n tmpbuf (_ # rest) = None"

fun setting_text :: "ndrx_lib \<Rightarrow> (string \<times> json) list \<Rightarrow> string \<times> json \<Rightarrow> string option" where
  "setting_text L sub_obj (sub_name, JStr _) =
     Some (snprintf_buf tmpbuf_size (sub_name @ [NDRXJ_FS] @ get_string sub_obj sub_name))"
| "setting_text L sub_obj (sub_name, JObj _) =
     (let sub_obj2 = get_object sub_obj sub_name
      in set_props sub_obj2 0 (strcat_s L tmpbuf_size (strcpy_safe L tmpbuf_size sub_name) [NDRXJ_FS]) sub_obj2)"
| "setting_text L sub_obj (sub_name, JOther) = None"

fun set_loop :: "ndrx_lib \<Rightarrow> (string \<times> json) list \<Rightarrow> (string \<times> json) list \<Rightarrow> string list \<Rightarrow> int \<times> string list" where
  "set_loop L sub_obj [] sets = (EXSUCCEED, sets)"
| "set_loop L sub_obj (e # rest) sets =
     (case setting_text L sub_obj e of
        None \<Rightarrow> (EXFAIL, sets)
      | Some tmpbuf \<Rightarrow> (case string_list_add L sets tmpbuf of
          None \<Rightarrow> (EXFAIL, sets)
        | Some sets \<Rightarrow> set_loop L sub_obj rest sets))"

fun cfg_loop :: "ndrx_lib \<Rightarrow> nat \<Rightarrow> (string \<times> json) list \<Rightarrow> (string \<times> json) list \<Rightarrow> string \<Rightarrow> string list \<Rightarrow> int \<times> string \<times> string list" where
  "cfg_loop L clazz_bufsz root [] clazz sets = (EXSUCCEED, clazz, sets)"
| "cfg_loop L clazz_bufsz root ((name, v) # rest) clazz sets =
     (if name = ''class'' then
        (case v of JStr _ \<Rightarrow> cfg_loop L clazz_bufsz root rest (strcpy_safe L clazz_bufsz (get_string root name)) sets
         | _ \<Rightarrow> (EXFAIL, clazz, sets))
      else if name = ''set'' then
        (case v of JObj _ \<Rightarrow>
           (case set_loop L (get_object root name) (get_object root name) sets of (ret, sets) \<Rightarrow>
              if ret \<noteq> EXSUCCEED then (EXFAIL, clazz, sets) else cfg_loop L clazz_bufsz root rest clazz sets)
         | _ \<Rightarrow> (EXFAIL, clazz, sets))
      else cfg_loop L clazz_bufsz root rest clazz sets)"

text \<open>Return code, class and settings; the number of settings is the length of the list.\<close>

definition ndrxj_xa_cfgparse :: "ndrx_lib \<Rightarrow> json option \<Rightarrow> nat \<Rightarrow> int \<times> string \<times> string list" where
  "ndrxj_xa_cfgparse L root clazz_bufsz =
     (case root of Some (JObj root_object) \<Rightarrow> cfg_loop L clazz_bufsz root_object root_object [] []
      | _ \<Rightarrow> (EXFAIL, [], []))"

subsection \<open>The Java side\<close>

text \<open>\<open>String.split\<close> with a one character separator: trailing empty parts are dropped.\<close>

fun split_fs :: "string \<Rightarrow> string list" where
  "split_fs [] = [[]]"
| "split_fs (c # s) = (if c = NDRXJ_FS then [] # split_fs s
     else (case split_fs s of [] \<Rightarrow> [[c]] | p # ps \<Rightarrow> (c # p) # ps))"

definition java_split :: "string \<Rightarrow> string list" where
  "java_split s = (if NDRXJ_FS \<in> set s then rev (dropWhile (\<lambda>p. p = []) (rev (split_fs s))) else [s])"

datatype setting = Value string | Props "(string \<times> string) list"

text \<open>The loop over the properties: \<open>None\<close> is an index past the end of the array.\<close>

fun java_props :: "string list \<Rightarrow> (string \<times> string) list option" where
  "java_props [] = Some []"
| "java_props [k] = None"
| "java_props (k # v # rest) = map_option (\<lambda>ps. (k, v) # ps) (java_props rest)"

definition java_setting :: "string \<Rightarrow> (string \<times> setting) option" where
  "java_setting s =
     (case java_split s of
        name # key # v # rest \<Rightarrow> map_option (\<lambda>ps. (name, Props ps)) (java_props (key # v # rest))
      | [name, v] \<Rightarrow> Some (name, Value v)
      | _ \<Rightarrow> None)"

text \<open>What happens to one setting: \<open>JThrow\<close> is an exception that leaves the method.  \<open>methods\<close> are the methods of the class with their
  parameter types, and \<open>invoke\<close> says whether the conversion of the value and the call of the method succeed.  The
  list collects the calls.\<close>

datatype jres = JRet int | JThrow | JNext

definition java_types :: "string list" where
  "java_types = [''short'', ''java.lang.Short'', ''long'', ''java.lang.Long'', ''int'', ''java.lang.Integer'', ''byte'', ''java.lang.Byte'',
     ''float'', ''java.lang.Float'', ''double'', ''java.lang.Double'', ''boolean'', ''java.lang.Boolean'', ''java.lang.String'',
     ''java.util.Properties'']"

type_synonym java_calls = "(string \<times> string \<times> setting) list"

fun is_props :: "setting \<Rightarrow> bool" where
  "is_props (Props _) = True"
| "is_props (Value _) = False"

fun apply_setting :: "(string \<Rightarrow> string \<Rightarrow> setting \<Rightarrow> bool) \<Rightarrow> string \<Rightarrow> setting \<Rightarrow> (string \<times> string list) list \<Rightarrow> java_calls \<Rightarrow> jres \<times> java_calls" where
  "apply_setting invoke name v [] done = (JNext, done)"
| "apply_setting invoke name v ((m, ptypes) # ms) done =
     (if m = name then
        (case ptypes of [ptype] \<Rightarrow>
           if is_props v \<noteq> (ptype = ''java.util.Properties'') then (JRet 4, done)
           else if ptype \<in> set java_types then
             (if invoke m ptype v then apply_setting invoke name v ms (done @ [(m, ptype, v)]) else (JRet 4, done))
           else apply_setting invoke name v ms done
         | _ \<Rightarrow> apply_setting invoke name v ms done)
      else apply_setting invoke name v ms done)"

fun java_sets :: "(string \<Rightarrow> string \<Rightarrow> setting \<Rightarrow> bool) \<Rightarrow> (string \<times> string list) list \<Rightarrow> string list \<Rightarrow> java_calls \<Rightarrow> jres \<times> java_calls" where
  "java_sets invoke methods [] done = (JRet EXSUCCEED, done)"
| "java_sets invoke methods (s # sets) done =
     (case java_setting s of None \<Rightarrow> (JThrow, done)
      | Some (name, v) \<Rightarrow> (case apply_setting invoke name v methods done of
          (JNext, done) \<Rightarrow> java_sets invoke methods sets done
        | r \<Rightarrow> r))"

text \<open>\<open>cls\<close>: the methods of the class, if it is found; \<open>inst\<close>: it can be instantiated.  4 is \<open>TPEINVAL\<close>.\<close>

definition java_xa_init ::
  "(string \<Rightarrow> (string \<times> string list) list option) \<Rightarrow> (string \<Rightarrow> bool) \<Rightarrow> (string \<Rightarrow> string \<Rightarrow> setting \<Rightarrow> bool) \<Rightarrow> string \<Rightarrow> string list \<Rightarrow> jres \<times> java_calls"
where
  "java_xa_init cls inst invoke clazz sets =
     (case cls clazz of None \<Rightarrow> (JRet 4, [])
      | Some methods \<Rightarrow> if inst clazz then java_sets invoke methods sets [] else (JRet 4, []))"

subsection \<open>What the C side writes the Java side reads\<close>

text \<open>A setting as JSON, as the text in between, and the condition under which the text is unambiguous: no separator inside, a text that
  fits into the buffer, properties with different names, and a last value that is not empty.\<close>

fun setting_json :: "string \<times> setting \<Rightarrow> string \<times> json" where
  "setting_json (n, Value v) = (n, JStr v)"
| "setting_json (n, Props kvs) = (n, JObj (map (\<lambda>(k, v). (k, JStr v)) kvs))"

fun parts :: "string \<times> setting \<Rightarrow> string list" where
  "parts (n, Value v) = [n, v]"
| "parts (n, Props kvs) = n # concat (map (\<lambda>(k, v). [k, v]) kvs)"

fun join_fs :: "string list \<Rightarrow> string" where
  "join_fs [] = []"
| "join_fs (p # ps) = p @ concat (map (\<lambda>q. NDRXJ_FS # q) ps)"

definition setting_ok :: "string \<times> setting \<Rightarrow> bool" where
  "setting_ok s \<longleftrightarrow> (\<forall>p \<in> set (parts s). NDRXJ_FS \<notin> set p) \<and> length (join_fs (parts s)) < tmpbuf_size \<and>
     last (parts s) \<noteq> [] \<and> (case snd s of Value _ \<Rightarrow> True | Props kvs \<Rightarrow> kvs \<noteq> [] \<and> distinct (map fst kvs))"

lemma split_fs_nofs: "NDRXJ_FS \<notin> set p \<Longrightarrow> split_fs p = [p]"
  by (induction p) auto

lemma split_fs_append: "NDRXJ_FS \<notin> set p \<Longrightarrow> split_fs (p @ NDRXJ_FS # s) = p # split_fs s"
  by (induction p) auto

lemma split_fs_join: "ps \<noteq> [] \<Longrightarrow> \<forall>p \<in> set ps. NDRXJ_FS \<notin> set p \<Longrightarrow> split_fs (join_fs ps) = ps"
proof (induction ps)
  case (Cons p ps)
  then show ?case
  proof (cases ps)
    case (Cons q qs)
    then have "join_fs (p # ps) = p @ NDRXJ_FS # join_fs ps" by simp
    then show ?thesis using Cons.IH Cons.prems Cons by (simp add: split_fs_append)
  qed (simp add: split_fs_nofs)
qed simp

lemma java_split_join:
  assumes "1 < length ps" "\<forall>p \<in> set ps. NDRXJ_FS \<notin> set p" "last ps \<noteq> []"
  shows "java_split (join_fs ps) = ps"
proof -
  obtain p q qs where ps: "ps = p # q # qs" using assms(1) by (cases ps; cases "tl ps") auto
  have "rev (dropWhile (\<lambda>p. p = []) (rev ps)) = ps" using assms(3) by (cases ps rule: rev_cases) auto
  then show ?thesis using split_fs_join [of ps] assms(2) ps by (simp add: java_split_def)
qed

lemma java_props_pairs: "java_props (concat (map (\<lambda>(k, v). [k, v]) kvs)) = Some kvs"
  by (induction kvs) auto

lemma java_setting_parts: "setting_ok s \<Longrightarrow> java_setting (join_fs (parts s)) = Some s"
proof -
  assume ok: "setting_ok s"
  then have len: "1 < length (parts s)" by (cases s rule: parts.cases) (auto simp: setting_ok_def neq_Nil_conv)
  have "java_split (join_fs (parts s)) = parts s" using ok len by (intro java_split_join) (auto simp: setting_ok_def)
  then show ?thesis using ok java_props_pairs
    by (cases s rule: parts.cases) (auto simp: setting_ok_def java_setting_def neq_Nil_conv)
qed

definition prop_text :: "string \<times> string \<Rightarrow> string" where
  "prop_text kv = NDRXJ_FS # fst kv @ NDRXJ_FS # snd kv"

lemma join_props: "join_fs (parts (n, Props kvs)) = n @ concat (map prop_text kvs)"
  by (induction kvs) (auto simp: prop_text_def)

abbreviation prop_json :: "string \<times> string \<Rightarrow> string \<times> json" where
  "prop_json \<equiv> \<lambda>(k, v). (k, JStr v)"

lemma get_prop: "distinct (map fst kvs) \<Longrightarrow> (k, v) \<in> set kvs \<Longrightarrow> get_string (map prop_json kvs) k = v"
proof -
  assume "distinct (map fst kvs)" "(k, v) \<in> set kvs"
  then have "map_of (map prop_json kvs) k = Some (JStr v)" by (intro map_of_is_SomeI) (auto simp: o_def case_prod_beta image_iff intro!: bexI [of _ "(k, v)"])
  then show ?thesis by (simp add: get_string_def)
qed

lemma set_props_more:
  assumes "distinct (map fst all)"
  shows "set kvs \<subseteq> set all \<Longrightarrow> length tmpbuf + length (concat (map prop_text kvs)) < tmpbuf_size \<Longrightarrow>
    set_props (map prop_json all) (Suc n) tmpbuf (map prop_json kvs) = Some (tmpbuf @ concat (map prop_text kvs))"
proof (induction kvs arbitrary: n tmpbuf)
  case (Cons kv kvs)
  obtain k v where kv: "kv = (k, v)" by (cases kv)
  have "get_string (map prop_json all) k = v" using Cons.prems(1) assms kv by (simp add: get_prop)
  moreover have "snprintf_buf (tmpbuf_size - length tmpbuf) (prop_text kv) = prop_text kv"
    using Cons.prems(2) by (intro snprintf_buf_fits) simp
  ultimately show ?case using Cons.IH [of "tmpbuf @ prop_text kv" "Suc n"] Cons.prems kv by (simp add: prop_text_def)
qed simp

lemma set_props_first:
  assumes "distinct (map fst kvs)" "kvs \<noteq> []" "length name + length (concat (map prop_text kvs)) < tmpbuf_size"
  shows "set_props (map prop_json kvs) 0 (name @ [NDRXJ_FS]) (map prop_json kvs) = Some (name @ concat (map prop_text kvs))"
proof -
  obtain k v rest where kvs: "kvs = (k, v) # rest" using assms(2) by (cases kvs) auto
  have "snprintf_buf (tmpbuf_size - length (name @ [NDRXJ_FS])) (k @ NDRXJ_FS # v) = k @ NDRXJ_FS # v"
    using assms(3) kvs by (intro snprintf_buf_fits) (simp add: prop_text_def)
  moreover have "get_string (map prop_json kvs) k = v" using assms(1) kvs by (simp add: get_string_def)
  ultimately show ?thesis
    using set_props_more [OF assms(1), of rest "name @ prop_text (k, v)" 0] assms(3) kvs by (auto simp: prop_text_def)
qed

lemma map_of_json: "distinct (map fst ss) \<Longrightarrow> s \<in> set ss \<Longrightarrow> map_of (map setting_json ss) (fst s) = Some (snd (setting_json s))"
proof -
  have f: "fst (setting_json s) = fst s" for s by (cases s rule: setting_json.cases) auto
  assume d: "distinct (map fst ss)" and s: "s \<in> set ss"
  have "(fst s, snd (setting_json s)) = setting_json s" using f [of s] by (metis prod.collapse)
  then have "(fst s, snd (setting_json s)) \<in> set (map setting_json ss)" using s by simp
  moreover have "distinct (map fst (map setting_json ss))" using d by (simp add: f o_def)
  ultimately show ?thesis by (rule map_of_is_SomeI [rotated])
qed

lemma setting_text_json:
  assumes "ndrx_lib_ok L" "distinct (map fst ss)" "s \<in> set ss" "setting_ok s"
  shows "setting_text L (map setting_json ss) (setting_json s) = Some (join_fs (parts s))"
proof (cases s rule: parts.cases)
  case (1 n v)
  then show ?thesis using map_of_json [OF assms(2,3)] assms(4) by (simp add: get_string_def setting_ok_def snprintf_buf_fits)
next
  case (2 n kvs)
  have len: "length n + length (concat (map prop_text kvs)) < tmpbuf_size"
    using assms(4) 2 join_props [of n kvs] by (simp add: setting_ok_def del: parts.simps)
  moreover have "kvs \<noteq> []" using assms(4) 2 by (simp add: setting_ok_def)
  then have "length n + 1 < tmpbuf_size" using len by (cases kvs) (auto simp: prop_text_def)
  then have "strcat_s L tmpbuf_size (strcpy_safe L tmpbuf_size n) [NDRXJ_FS] = n @ [NDRXJ_FS]"
    using assms(1) by (simp add: strcpy_safe_fits strcat_s_fits)
  ultimately show ?thesis using map_of_json [OF assms(2,3)] assms(4) 2 set_props_first [of kvs n] join_props [of n kvs]
    by (simp add: get_object_def setting_ok_def del: parts.simps)
qed

lemma set_loop_json:
  assumes L: "ndrx_lib_ok L" "\<forall>xs x. string_list_add L xs x \<noteq> None" and d: "distinct (map fst all)"
  shows "set ss \<subseteq> set all \<Longrightarrow> \<forall>s \<in> set ss. setting_ok s \<Longrightarrow>
    set_loop L (map setting_json all) (map setting_json ss) sets = (EXSUCCEED, sets @ map (join_fs \<circ> parts) ss)"
proof (induction ss arbitrary: sets)
  case (Cons s ss)
  obtain ys where "string_list_add L sets (join_fs (parts s)) = Some ys" using L(2) by blast
  then have "string_list_add L sets (join_fs (parts s)) = Some (sets @ [join_fs (parts s)])"
    using string_list_add_Some [OF L(1)] by simp
  moreover have "setting_text L (map setting_json all) (setting_json s) = Some (join_fs (parts s))"
    using Cons.prems by (intro setting_text_json L(1) d) auto
  ultimately show ?case using Cons by simp
qed simp

lemma xa_settings_round_trip:
  assumes "ndrx_lib_ok L" "\<forall>xs x. string_list_add L xs x \<noteq> None" "length c < n"
    and "distinct (map fst ss)" "\<forall>s \<in> set ss. setting_ok s"
  shows "\<exists>sets. ndrxj_xa_cfgparse L (Some (JObj [(''class'', JStr c), (''set'', JObj (map setting_json ss))])) n = (EXSUCCEED, c, sets) \<and>
    map java_setting sets = map Some ss"
proof (intro exI conjI)
  show "ndrxj_xa_cfgparse L (Some (JObj [(''class'', JStr c), (''set'', JObj (map setting_json ss))])) n =
    (EXSUCCEED, c, map (join_fs \<circ> parts) ss)"
    using set_loop_json [OF assms(1,2,4) subset_refl assms(5), of "[]"] assms(1,3)
    by (simp add: ndrxj_xa_cfgparse_def get_string_def get_object_def strcpy_safe_fits)
  show "map java_setting (map (join_fs \<circ> parts) ss) = map Some ss" using assms(5) java_setting_parts by simp
qed

text \<open>\<open>settable methods invoke s\<close>: the class has a method of the name of the setting, with one parameter of a type that fits the value,
  and the call succeeds.\<close>

definition settable :: "(string \<times> string list) list \<Rightarrow> (string \<Rightarrow> string \<Rightarrow> setting \<Rightarrow> bool) \<Rightarrow> string \<times> setting \<Rightarrow> bool" where
  "settable methods invoke s \<longleftrightarrow> (case map_of methods (fst s) of
     Some [ty] \<Rightarrow> ty \<in> set java_types \<and> is_props (snd s) = (ty = ''java.util.Properties'') \<and> invoke (fst s) ty (snd s)
   | _ \<Rightarrow> False)"

definition setter_call :: "(string \<times> string list) list \<Rightarrow> string \<times> setting \<Rightarrow> string \<times> string \<times> setting" where
  "setter_call methods s = (fst s, hd (the (map_of methods (fst s))), snd s)"

lemma apply_setting_other: "name \<notin> fst ` set ms \<Longrightarrow> apply_setting invoke name v ms done = (JNext, done)"
  by (induction ms) auto

lemma apply_setting_once:
  "distinct (map fst ms) \<Longrightarrow> settable ms invoke s \<Longrightarrow>
   apply_setting invoke (fst s) (snd s) ms done = (JNext, done @ [setter_call ms s])"
proof (induction ms)
  case (Cons m ms)
  obtain n tys where m: "m = (n, tys)" by (cases m)
  show ?case
  proof (cases "n = fst s")
    case True
    then obtain ty where "tys = [ty]" using Cons.prems(2) m by (auto simp: settable_def split: list.splits)
    moreover have "apply_setting invoke (fst s) (snd s) ms d = (JNext, d)" for d
      using Cons.prems(1) True m by (intro apply_setting_other) auto
    ultimately show ?thesis using Cons.prems(2) True m by (simp add: settable_def setter_call_def)
  next
    case False
    then have "settable ms invoke s" "setter_call (m # ms) s = setter_call ms s"
      using Cons.prems(2) m by (auto simp: settable_def setter_call_def)
    then show ?thesis using Cons False m by simp
  qed
qed (simp add: settable_def)

lemma java_sets_all:
  "map java_setting sets = map Some ss \<Longrightarrow> distinct (map fst ms) \<Longrightarrow> \<forall>s \<in> set ss. settable ms invoke s \<Longrightarrow>
   java_sets invoke ms sets done = (JRet EXSUCCEED, done @ map (setter_call ms) ss)"
proof (induction ss arbitrary: sets "done")
  case (Cons s ss)
  then obtain x xs where sets: "sets = x # xs" "java_setting x = Some s" "map java_setting xs = map Some ss" by (cases sets) auto
  then show ?case using Cons.IH [OF sets(3)] Cons.prems apply_setting_once [of ms invoke s "done"] by (cases s) simp
qed simp

text \<open>C21. The XA data source is set up as it was configured.  For every configuration of a class and of settings that are unambiguous
  (\<open>setting_ok\<close>) and that the class can take (\<open>settable\<close>), the C side accepts the open string and
  returns the class, and the Java side, given the strings that the C side made, calls every setter exactly once, in the order of
  the configuration, with the configured value or the configured properties, and reports success.\<close>

theorem xa_configured:
  assumes "ndrx_lib_ok L" "\<forall>xs x. string_list_add L xs x \<noteq> None" "length c < n"
    and "distinct (map fst ss)" "\<forall>s \<in> set ss. setting_ok s"
    and "cls c = Some methods" "inst c" "distinct (map fst methods)" "\<forall>s \<in> set ss. settable methods invoke s"
  shows "\<exists>sets. ndrxj_xa_cfgparse L (Some (JObj [(''class'', JStr c), (''set'', JObj (map setting_json ss))])) n = (EXSUCCEED, c, sets) \<and>
    java_xa_init cls inst invoke c sets = (JRet EXSUCCEED, map (setter_call methods) ss)"
  using xa_settings_round_trip [OF assms(1-5)] java_sets_all [OF _ assms(8,9)] assms(6,7) by (fastforce simp: java_xa_init_def)

theorem xa_configured_witness:
  "let ss = [(''setUrl'', Value ''jdbc:x''), (''setProps'', Props [(''user'', ''u''), (''pass'', ''p'')])];
       ms = [(''setProps'', [''java.util.Properties'']), (''getUrl'', []), (''setUrl'', [''java.lang.String''])]
   in \<exists>sets. ndrxj_xa_cfgparse plain_lib (Some (JObj [(''class'', JStr ''C''), (''set'', JObj (map setting_json ss))])) 256 = (EXSUCCEED, ''C'', sets) \<and>
      java_xa_init (\<lambda>_. Some ms) (\<lambda>_. True) (\<lambda>_ _ _. True) ''C'' sets = (JRet EXSUCCEED, map (setter_call ms) ss)"
  unfolding Let_def
  by (rule xa_configured) (simp_all add: plain_lib_ok, simp_all add: plain_lib_def setting_ok_def settable_def NDRXJ_FS_def tmpbuf_size_def java_types_def)

text \<open>The settings that are left out above go wrong.  \<open>split\<close> drops trailing empty parts, so a set of properties whose only value
  is empty is read as the simple value that is the property's name, and a simple setting with an empty value, which
  the parser accepts, makes the Java side fail with an exception that no handler catches.\<close>

theorem xa_empty_value_lost:
  assumes "ndrx_lib_ok L" "name \<noteq> []" "key \<noteq> []" "NDRXJ_FS \<notin> set name" "NDRXJ_FS \<notin> set key" "length name + length key < 2040"
  shows "(\<exists>t. setting_text L [(name, JObj [(key, JStr [])])] (name, JObj [(key, JStr [])]) = Some t \<and> java_setting t = Some (name, Value key)) \<and>
    (\<exists>t. setting_text L [(name, JStr [])] (name, JStr []) = Some t \<and> java_setting t = None \<and>
      java_sets invoke methods [t] [] = (JThrow, []))"
proof -
  have s: "set_props (map prop_json [(key, [])]) 0 (name @ [NDRXJ_FS]) (map prop_json [(key, [])]) = Some (name @ concat (map prop_text [(key, [])]))"
    using assms(6) by (intro set_props_first) (simp_all add: prop_text_def tmpbuf_size_def)
  have t: "setting_text L [(name, JObj [(key, JStr [])])] (name, JObj [(key, JStr [])]) = Some (name @ NDRXJ_FS # key @ NDRXJ_FS # [])"
    using s assms(1,6) by (simp add: get_object_def strcpy_safe_fits strcat_s_fits tmpbuf_size_def prop_text_def del: set_props.simps)
  have "java_split (name @ NDRXJ_FS # key @ NDRXJ_FS # []) = [name, key]"
    using assms(2-5) by (simp add: java_split_def split_fs_append)
  then have 1: "java_setting (name @ NDRXJ_FS # key @ NDRXJ_FS # []) = Some (name, Value key)" by (simp add: java_setting_def)
  have "java_split (name @ NDRXJ_FS # []) = [name]" using assms(2,4) by (simp add: java_split_def split_fs_append)
  then have 2: "java_setting (name @ NDRXJ_FS # []) = None" by (simp add: java_setting_def)
  have "setting_text L [(name, JStr [])] (name, JStr []) = Some (name @ NDRXJ_FS # [])"
    using assms(6) by (simp add: get_string_def snprintf_buf_fits tmpbuf_size_def)
  then show ?thesis using t 1 2 by simp
qed

theorem xa_empty_value_lost_witness:
  "\<exists>t. setting_text plain_lib [(''setProps'', JObj [(''user'', JStr [])])] (''setProps'', JObj [(''user'', JStr [])]) = Some t \<and>
     java_setting t = Some (''setProps'', Value ''user'')"
  by (rule xa_empty_value_lost [THEN conjunct1]) (simp_all add: NDRXJ_FS_def)

end
