(* ===== verification/XaJava.thy ===== *)
theory XaJava
  imports XaConfig "HOL-Library.Word"
begin

unbundle bit_operations_syntax

section \<open>The XA adapter of \<open>AtmiCtx.java\<close>\<close>

text \<open>
  The Java side of the XA switch: the methods \<open>xa_open_entry\<close> to \<open>xa_recover_entry\<close>, which drive a JDBC \<open>XADataSource\<close> and map flags and
  error codes.  The driver is a parameter \<open>drv\<close>: what it answers to a call may depend on all calls before.  References are
  numbers, 0 is \<open>null\<close>; \<open>None\<close> is an exception that leaves the method.  The state is that of one \<open>AtmiCtx\<close> object, with
  the shared data source.
\<close>

subsection \<open>The driver\<close>

datatype dcall = GetXAConnection | GetXAResource int | Close int
  | Start int int "32 word" | End int int "32 word" | Rollback int int | Prepare int int | Commit int int bool | Forget int int
  | Recover int "32 word"

text \<open>\<open>Unchecked\<close> is an exception that is neither an \<open>SQLException\<close> nor an \<open>XAException\<close>.\<close>

datatype dres = Done int | SqlFail | XaFail int | Unchecked

type_synonym dhist = "(dcall \<times> dres) list"

record xj =
  xads :: bool
  xaConn :: int
  xaRes :: int
  hist :: dhist
  drv :: "dhist \<Rightarrow> dcall \<Rightarrow> dres"

definition drive :: "dcall \<Rightarrow> xj \<Rightarrow> dres \<times> xj" where
  "drive c s = (let r = drv s (hist s) c in (r, s\<lparr>hist := (c, r) # hist s\<rparr>))"

subsection \<open>Codes and flags\<close>

definition XA_OK :: int where "XA_OK = 0"
definition XAER_RMERR :: int where "XAER_RMERR = -3"
definition XAER_PROTO :: int where "XAER_PROTO = -6"

text \<open>The constants of \<open>javax.transaction.xa.XAException\<close> and of \<open>AtmiConst\<close>, in the order of the \<open>switch\<close>.\<close>

definition java_codes :: "int list" where
  "java_codes = [7, 8, 5, 6, 9, 100, 101, 102, 107, 103, 104, 105, 106, 3, 4, -2, -8, -5, -4, -9, -6, -7]"

definition c_codes :: "int list" where
  "c_codes =
     (let XA_RBBASE = 100; XA_RBTRANSIENT = XA_RBBASE + 7
      in [7, 8, 5, 6, 9, XA_RBBASE, XA_RBBASE + 1, XA_RBBASE + 2, XA_RBTRANSIENT, XA_RBBASE + 3, XA_RBBASE + 4, XA_RBBASE + 5, XA_RBBASE + 6,
          3, 4, -2, -8, -5, -4, -9, -6, -7])"

definition xa_jerror_map :: "int \<Rightarrow> int" where
  "xa_jerror_map jerr = (case map_of (zip java_codes c_codes) jerr of Some ret \<Rightarrow> ret | None \<Rightarrow> XAER_RMERR)"

text \<open>The flags in the order of the tests, as those of \<open>AtmiConst\<close> (\<open>long\<close>) and of \<open>XAResource\<close> (\<open>int\<close>).\<close>

definition flag_table :: "(64 word \<times> 32 word) list" where
  "flag_table = [(0x00200000, 0x00200000), (0x02000000, 0x02000000), (0x08000000, 0x08000000), (0x01000000, 0x01000000),
     (0x00800000, 0x00800000), (0x04000000, 0x04000000), (0x20000000, 0x20000000)]"

definition TMNOFLAGS :: "32 word" where "TMNOFLAGS = 0"

definition xa_xaresource_flags_map :: "64 word \<Rightarrow> 32 word" where
  "xa_xaresource_flags_map cflags =
     (let ret = fold (\<lambda>(c, j) ret. if 0 < sint (cflags AND c) then ret OR j else ret) flag_table 0
      in if ret = 0 then TMNOFLAGS else ret)"

subsection \<open>The methods\<close>

definition xa_is_open :: "xj \<Rightarrow> int" where
  "xa_is_open s = (if \<not> xads s then XAER_PROTO else if xaConn s \<noteq> 0 \<and> xaRes s \<noteq> 0 then XA_OK else XAER_RMERR)"

text \<open>\<open>xads = null\<close> passes the check of \<open>xa_open_entry\<close>; the call on it fails.\<close>

definition xa_open_entry :: "xj \<Rightarrow> int option \<times> xj" where
  "xa_open_entry s =
     (if xa_is_open s = XA_OK then (Some XAER_PROTO, s)
      else if \<not> xads s then (None, s)
      else (case drive GetXAConnection s of (r, s) \<Rightarrow>
        (case r of
           Done c \<Rightarrow>
             (let s = s\<lparr>xaConn := c\<rparr> in
              if c = 0 then (None, s)
              else (case drive (GetXAResource c) s of (r, s) \<Rightarrow>
                (case r of
                   Done x \<Rightarrow> (Some XA_OK, s\<lparr>xaRes := x\<rparr>)
                 | SqlFail \<Rightarrow> (Some XAER_RMERR, s\<lparr>xaConn := 0\<rparr>)
                 | _ \<Rightarrow> (None, s))))
         | SqlFail \<Rightarrow> (Some XAER_RMERR, s)
         | _ \<Rightarrow> (None, s))))"

definition xa_close_entry :: "xj \<Rightarrow> int option \<times> xj" where
  "xa_close_entry s =
     (if xaConn s = 0 then (Some XA_OK, s\<lparr>xaRes := 0\<rparr>)
      else (case drive (Close (xaConn s)) s of (r, s) \<Rightarrow>
        (case r of
           Done _ \<Rightarrow> (Some XA_OK, s\<lparr>xaConn := 0, xaRes := 0\<rparr>)
         | SqlFail \<Rightarrow> (Some XAER_RMERR, s\<lparr>xaRes := 0\<rparr>)
         | _ \<Rightarrow> (None, s))))"

text \<open>The common shape of the other methods: the driver is called if XA is open.\<close>

definition catch_xa :: "dres \<Rightarrow> int option" where
  "catch_xa r = (case r of Done _ \<Rightarrow> Some XA_OK | XaFail e \<Rightarrow> Some (xa_jerror_map e) | _ \<Rightarrow> None)"

definition xa_verb :: "dcall \<Rightarrow> xj \<Rightarrow> int option \<times> xj" where
  "xa_verb c s = (case drive c s of (r, s) \<Rightarrow> (catch_xa r, s))"

text \<open>\<open>xa_start_entry\<close> and \<open>xa_end_entry\<close> log the transaction id first, which fails on \<open>null\<close>.\<close>

definition xa_start_entry :: "int \<Rightarrow> 64 word \<Rightarrow> xj \<Rightarrow> int option \<times> xj" where
  "xa_start_entry xid flags s =
     (if xa_is_open s \<noteq> XA_OK then (Some (xa_is_open s), s) else if xid = 0 then (None, s)
      else xa_verb (Start (xaRes s) xid (xa_xaresource_flags_map flags)) s)"

definition xa_end_entry :: "int \<Rightarrow> 64 word \<Rightarrow> xj \<Rightarrow> int option \<times> xj" where
  "xa_end_entry xid flags s =
     (if xa_is_open s \<noteq> XA_OK then (Some (xa_is_open s), s) else if xid = 0 then (None, s)
      else xa_verb (End (xaRes s) xid (xa_xaresource_flags_map flags)) s)"

definition xa_rollback_entry :: "int \<Rightarrow> 64 word \<Rightarrow> xj \<Rightarrow> int option \<times> xj" where
  "xa_rollback_entry xid flags s =
     (if xa_is_open s \<noteq> XA_OK then (Some (xa_is_open s), s) else xa_verb (Rollback (xaRes s) xid) s)"

definition xa_prepare_entry :: "int \<Rightarrow> 64 word \<Rightarrow> xj \<Rightarrow> int option \<times> xj" where
  "xa_prepare_entry xid flags s =
     (if xa_is_open s \<noteq> XA_OK then (Some (xa_is_open s), s) else xa_verb (Prepare (xaRes s) xid) s)"

definition xa_commit_entry :: "int \<Rightarrow> 64 word \<Rightarrow> xj \<Rightarrow> int option \<times> xj" where
  "xa_commit_entry xid flags s =
     (if xa_is_open s \<noteq> XA_OK then (Some (xa_is_open s), s) else xa_verb (Commit (xaRes s) xid False) s)"

definition xa_forget_entry :: "int \<Rightarrow> 64 word \<Rightarrow> xj \<Rightarrow> int option \<times> xj" where
  "xa_forget_entry xid flags s =
     (if xa_is_open s \<noteq> XA_OK then (Some (xa_is_open s), s) else xa_verb (Forget (xaRes s) xid) s)"

text \<open>The fields \<open>ret\<close> and \<open>list\<close> of the result object.\<close>

definition xa_recover_entry :: "64 word \<Rightarrow> xj \<Rightarrow> (int \<times> int) option \<times> xj" where
  "xa_recover_entry flags s =
     (if xa_is_open s \<noteq> XA_OK then (Some (xa_is_open s, 0), s)
      else (case drive (Recover (xaRes s) (xa_xaresource_flags_map flags)) s of (r, s) \<Rightarrow>
        (case r of
           Done l \<Rightarrow> (Some (XA_OK, l), s)
         | XaFail e \<Rightarrow> (Some (xa_jerror_map e, 0), s)
         | _ \<Rightarrow> (None, s))))"

subsection \<open>Codes and flags are passed on\<close>

text \<open>Every error code of \<open>XAException\<close> is passed on unchanged, every other code becomes \<open>XAER_RMERR\<close>; no error becomes \<open>XA_OK\<close>.\<close>

lemma jerror_map: "xa_jerror_map e = (if e \<in> set java_codes then e else XAER_RMERR)"
  by (auto simp: xa_jerror_map_def java_codes_def c_codes_def)

lemma jerror_map_fails: "xa_jerror_map e \<noteq> XA_OK"
  by (auto simp: jerror_map java_codes_def XA_OK_def XAER_RMERR_def)

lemma flag_step:
  assumes "n < 31"
  shows "(if 0 < sint ((x :: 64 word) AND 2 ^ n) then r OR (2 ^ n :: 32 word) else r) = r OR (ucast x AND 2 ^ n)"
proof (cases "bit x n")
  case True
  then have x: "x AND 2 ^ n = 2 ^ n" by (intro bit_word_eqI) (auto simp: bit_simps)
  have "\<not> bit (2 ^ n :: 64 word) (64 - Suc 0)" "(2 ^ n :: 64 word) \<noteq> 0"
    using assms by (auto simp: bit_simps dest!: arg_cong [where f = "\<lambda>w. bit w n"])
  note b = this
  have "\<not> sint (2 ^ n :: 64 word) < 0" using b(1) bit_last_iff [of "2 ^ n :: 64 word"] by simp
  moreover have "sint (2 ^ n :: 64 word) \<noteq> 0" using b(2) by (simp only: signed_eq_0_iff not_False_eq_True)
  ultimately have "0 < sint (2 ^ n :: 64 word)" by linarith
  moreover have "(ucast x AND 2 ^ n :: 32 word) = 2 ^ n" using True assms by (intro bit_word_eqI) (auto simp: bit_simps)
  ultimately show ?thesis by (simp add: x)
next
  case False
  then have "x AND 2 ^ n = 0" "(ucast x AND 2 ^ n :: 32 word) = 0" by (intro bit_word_eqI; auto simp: bit_simps)+
  then show ?thesis by simp
qed

lemma flags_fold:
  "\<forall>n \<in> set ns. n < 31 \<Longrightarrow>
   fold (\<lambda>(c, j) ret. if 0 < sint ((x :: 64 word) AND c) then ret OR j else ret) (map (\<lambda>n. (2 ^ n, 2 ^ n)) ns) (ucast x AND m) =
     (ucast x AND fold (\<lambda>n m. m OR 2 ^ n) ns m :: 32 word)"
proof (induction ns arbitrary: m)
  case (Cons n ns)
  have "(if 0 < sint (x AND 2 ^ n) then (ucast x AND m) OR 2 ^ n else ucast x AND m) = (ucast x AND (m OR 2 ^ n) :: 32 word)"
    using flag_step [of n x "ucast x AND m"] Cons.prems by (simp add: bit.conj_disj_distrib)
  then show ?case using Cons by simp
qed simp

text \<open>The mapped flags are the given flags without those that \<open>XAResource\<close> does not know.\<close>

lemma flags_map_mask: "xa_xaresource_flags_map cflags = ucast cflags AND 0x2FA00000"
proof -
  have "flag_table = map (\<lambda>n. (2 ^ n, 2 ^ n)) [21, 25, 27, 24, 23, 26, 29]" by (simp add: flag_table_def)
  moreover have "fold (\<lambda>n m. m OR 2 ^ n) [21, 25, 27, 24, 23, 26, 29] 0 = (0x2FA00000 :: 32 word)" by simp
  ultimately show ?thesis using flags_fold [of "[21, 25, 27, 24, 23, 26, 29]" cflags 0]
    by (simp only: xa_xaresource_flags_map_def) (simp add: TMNOFLAGS_def Let_def del: fold_simps)
qed

subsection \<open>The life of a connection\<close>

text \<open>The calls of the core in any order, as steps; \<open>xa_init\<close> is a new object.  Whether \<open>ndrxj_xa_init\<close> creates the data source
  depends on the class.\<close>

definition xa_init :: "(dhist \<Rightarrow> dcall \<Rightarrow> dres) \<Rightarrow> xj" where
  "xa_init d = \<lparr>xads = False, xaConn = 0, xaRes = 0, hist = [], drv = d\<rparr>"

inductive xa_step :: "xj \<Rightarrow> xj \<Rightarrow> bool" where
  step_init: "xa_step s (s\<lparr>xads := xads s \<or> (cls (clazz :: string) \<noteq> (None :: (string \<times> string list) list option) \<and> inst clazz)\<rparr>)"
| step_open: "xa_step s (snd (xa_open_entry s))"
| step_close: "xa_step s (snd (xa_close_entry s))"
| step_start: "xa_step s (snd (xa_start_entry xid flags s))"
| step_end: "xa_step s (snd (xa_end_entry xid flags s))"
| step_rollback: "xa_step s (snd (xa_rollback_entry xid flags s))"
| step_prepare: "xa_step s (snd (xa_prepare_entry xid flags s))"
| step_commit: "xa_step s (snd (xa_commit_entry xid flags s))"
| step_forget: "xa_step s (snd (xa_forget_entry xid flags s))"
| step_recover: "xa_step s (snd (xa_recover_entry flags s))"

text \<open>\<open>session h\<close>: the last connection the driver gave out and that was not closed since, and the last resource it gave out for it.\<close>

fun session :: "dhist \<Rightarrow> int \<times> int" where
  "session [] = (0, 0)"
| "session ((GetXAConnection, Done c) # h) = (c, 0)"
| "session ((GetXAResource c, Done x) # h) = (if c = fst (session h) then (c, x) else session h)"
| "session ((Close c, Done _) # h) = (if c = fst (session h) then (0, 0) else session h)"
| "session (_ # h) = session h"

text \<open>\<open>legal c ss\<close>: the call \<open>c\<close> uses the connection or the resource of the session \<open>ss\<close>.\<close>

fun legal :: "dcall \<Rightarrow> int \<times> int \<Rightarrow> bool" where
  "legal GetXAConnection cx = True"
| "legal (GetXAResource k) cx = (k = fst cx \<and> k \<noteq> 0)"
| "legal (Close k) cx = (k = fst cx \<and> k \<noteq> 0)"
| "legal (Start r _ _) cx = (r = snd cx \<and> r \<noteq> 0)"
| "legal (End r _ _) cx = (r = snd cx \<and> r \<noteq> 0)"
| "legal (Rollback r _) cx = (r = snd cx \<and> r \<noteq> 0)"
| "legal (Prepare r _) cx = (r = snd cx \<and> r \<noteq> 0)"
| "legal (Commit r _ _) cx = (r = snd cx \<and> r \<noteq> 0)"
| "legal (Forget r _) cx = (r = snd cx \<and> r \<noteq> 0)"
| "legal (Recover r _) cx = (r = snd cx \<and> r \<noteq> 0)"

fun sound :: "dhist \<Rightarrow> bool" where
  "sound [] = True"
| "sound ((c, r) # h) = (legal c (session h) \<and> sound h)"

definition xinv :: "xj \<Rightarrow> bool" where
  "xinv s \<longleftrightarrow> sound (hist s) \<and> (xaConn s \<noteq> 0 \<longrightarrow> xads s \<and> fst (session (hist s)) = xaConn s) \<and>
     (xaRes s \<noteq> 0 \<longrightarrow> xaConn s \<noteq> 0 \<and> session (hist s) = (xaConn s, xaRes s))"

lemma xinv_open: "xinv s \<Longrightarrow> xa_is_open s = XA_OK \<Longrightarrow> session (hist s) = (xaConn s, xaRes s) \<and> xaRes s \<noteq> 0"
  by (auto simp: xinv_def xa_is_open_def XA_OK_def XAER_RMERR_def XAER_PROTO_def split: if_splits)

text \<open>A call on the resource of the open session keeps the invariant.\<close>

fun on_resource :: "dcall \<Rightarrow> bool" where
  "on_resource GetXAConnection = False"
| "on_resource (GetXAResource _) = False"
| "on_resource (Close _) = False"
| "on_resource _ = True"

lemma session_on_resource: "on_resource c \<Longrightarrow> session ((c, r) # h) = session h"
  by (cases c; cases r) auto

lemma drive_keeps:
  assumes "xinv s" "on_resource c" "legal c (session (hist s))"
  shows "xinv (snd (drive c s))"
  using assms session_on_resource [OF assms(2)] by (simp add: xinv_def drive_def Let_def)

lemma verb_keeps:
  assumes "xinv s" "xa_is_open s = XA_OK" "on_resource c" "xaRes s \<noteq> 0 \<Longrightarrow> legal c (xaConn s, xaRes s)"
  shows "xinv (snd (xa_verb c s))"
  using drive_keeps [OF assms(1,3)] assms(4) xinv_open [OF assms(1,2)] by (simp add: xa_verb_def drive_def Let_def)

lemma open_keeps: "xinv s \<Longrightarrow> xinv (snd (xa_open_entry s))"
  by (auto simp: xinv_def xa_open_entry_def xa_is_open_def XA_OK_def XAER_RMERR_def XAER_PROTO_def drive_def Let_def split: dres.splits)

lemma close_keeps: "xinv s \<Longrightarrow> xinv (snd (xa_close_entry s))"
  by (auto simp: xinv_def xa_close_entry_def drive_def Let_def split: dres.splits prod.splits)

lemma step_keeps: "xa_step s t \<Longrightarrow> xinv s \<Longrightarrow> xinv t"
proof (induction rule: xa_step.induct)
  case (step_init s cls clazz inst)
  then show ?case by (auto simp: xinv_def)
next
  case (step_recover s flags)
  show ?case
  proof (cases "xa_is_open s = XA_OK")
    case True
    then have "xinv (snd (drive (Recover (xaRes s) (xa_xaresource_flags_map flags)) s))"
      using xinv_open [OF step_recover] by (intro drive_keeps step_recover) auto
    then show ?thesis by (auto simp: xa_recover_entry_def True split: prod.split dres.split)
  qed (simp add: xa_recover_entry_def step_recover)
qed (auto simp: open_keeps close_keeps xa_start_entry_def xa_end_entry_def xa_rollback_entry_def xa_prepare_entry_def xa_commit_entry_def
       xa_forget_entry_def intro: verb_keeps)

text \<open>C23. The driver is used as the JDBC and JTA contracts ask.  Whatever calls of the XA switch arrive in whatever order, and whatever the
  driver answers, every call on a connection is made on the connection that the driver gave out last and that was not closed
  since, and every call of a transaction verb on the resource of that connection; and the adapter reports that XA is open only
  while it holds them.\<close>

theorem xa_driver_protocol:
  assumes "xa_step\<^sup>*\<^sup>* (xa_init d) s"
  shows "sound (hist s) \<and> (xa_is_open s = XA_OK \<longrightarrow> session (hist s) = (xaConn s, xaRes s) \<and> xaRes s \<noteq> 0)"
proof -
  have "xinv s" using assms
  proof (induction rule: rtranclp_induct)
    case base
    show ?case by (simp add: xinv_def xa_init_def)
  qed (rule step_keeps)
  moreover have "sound (hist s)" using \<open>xinv s\<close> by (simp add: xinv_def)
  ultimately show ?thesis using xinv_open by blast
qed

theorem xa_driver_protocol_witness:
  "let s = xa_init (\<lambda>h c. Done 7);
       t = snd (xa_start_entry 5 0 (snd (xa_open_entry (s\<lparr>xads := True\<rparr>))))
   in sound (hist t) \<and> length (hist t) = 3"
proof -
  let ?s = "xa_init (\<lambda>h c. Done 7)"
  let ?o = "snd (xa_open_entry (?s\<lparr>xads := True\<rparr>))"
  have "xa_step ?s (?s\<lparr>xads := True\<rparr>)" using step_init [of ?s "\<lambda>_. Some []" "[]" "\<lambda>_. True"] by simp
  then have "xa_step\<^sup>*\<^sup>* ?s (snd (xa_start_entry 5 0 ?o))"
    using step_open step_start by (meson rtranclp.rtrancl_into_rtrancl rtranclp.rtrancl_refl)
  moreover have "length (hist (snd (xa_start_entry 5 0 ?o))) = 3"
    by (simp add: xa_start_entry_def xa_open_entry_def xa_is_open_def xa_init_def XA_OK_def XAER_RMERR_def drive_def xa_verb_def Let_def)
  ultimately show ?thesis using xa_driver_protocol by (simp add: Let_def)
qed

subsection \<open>What the methods do\<close>

text \<open>\<open>verb_spec c m s\<close>: while XA is not open, \<open>m\<close> fails without a call of the driver.  While it is open, \<open>m\<close> makes the one call \<open>c\<close> and keeps the
  connection; it returns \<open>XA_OK\<close> exactly if the driver accepted the call, and the code of an \<open>XAException\<close> otherwise.\<close>

definition verb_spec :: "dcall \<Rightarrow> (xj \<Rightarrow> int option \<times> xj) \<Rightarrow> xj \<Rightarrow> bool" where
  "verb_spec c m s \<longleftrightarrow>
     (if xa_is_open s \<noteq> XA_OK then m s = (Some (xa_is_open s), s)
      else let r = drv s (hist s) c in
        snd (m s) = s\<lparr>hist := (c, r) # hist s\<rparr> \<and> (fst (m s) = Some XA_OK \<longleftrightarrow> (\<exists>v. r = Done v)) \<and>
        (\<forall>e. r = XaFail e \<longrightarrow> fst (m s) = Some (if e \<in> set java_codes then e else XAER_RMERR)))"

lemma verb_spec_verb: "(xa_is_open s \<noteq> XA_OK \<Longrightarrow> m s = (Some (xa_is_open s), s)) \<Longrightarrow> (xa_is_open s = XA_OK \<Longrightarrow> m s = xa_verb c s) \<Longrightarrow> verb_spec c m s"
  by (simp add: verb_spec_def xa_verb_def drive_def Let_def catch_xa_def jerror_map_fails jerror_map split: dres.split) (metis jerror_map jerror_map_fails)

lemma verb_specs:
  assumes "xid \<noteq> 0"
  shows "verb_spec (Start (xaRes s) xid (ucast flags AND 0x2FA00000)) (xa_start_entry xid flags) s"
    "verb_spec (End (xaRes s) xid (ucast flags AND 0x2FA00000)) (xa_end_entry xid flags) s"
    "verb_spec (Rollback (xaRes s) xid) (xa_rollback_entry xid flags) s" "verb_spec (Prepare (xaRes s) xid) (xa_prepare_entry xid flags) s"
    "verb_spec (Commit (xaRes s) xid False) (xa_commit_entry xid flags) s" "verb_spec (Forget (xaRes s) xid) (xa_forget_entry xid flags) s"
  using assms by (intro verb_spec_verb;
    simp add: xa_start_entry_def xa_end_entry_def xa_rollback_entry_def xa_prepare_entry_def xa_commit_entry_def xa_forget_entry_def flags_map_mask)+



text \<open>C26. Whatever happened to the connection, XA can be opened again: after a close that the driver answers, with success or with an
  \<open>SQLException\<close>, an open on a driver that gives out connections succeeds, and XA is open.\<close>

theorem xa_reopens:
  assumes "xads s" "xaConn s \<noteq> 0 \<longrightarrow> drv s (hist s) (Close (xaConn s)) \<in> {Done v, SqlFail}"
    and "\<forall>h. \<exists>c. c \<noteq> 0 \<and> drv s h GetXAConnection = Done c" "\<forall>h c. \<exists>x. x \<noteq> 0 \<and> drv s h (GetXAResource c) = Done x"
  shows "fst (xa_open_entry (snd (xa_close_entry s))) = Some XA_OK \<and> xa_is_open (snd (xa_open_entry (snd (xa_close_entry s)))) = XA_OK"
proof -
  define t where "t = snd (xa_close_entry s)"
  have "xaRes t = 0 \<and> xads t \<and> drv t = drv s" unfolding t_def using assms(1,2)
    by (auto simp: xa_close_entry_def drive_def Let_def)
  then have t: "xaRes t = 0" "xads t" "drv t = drv s" by auto
  obtain c where c: "c \<noteq> 0" "drv t (hist t) GetXAConnection = Done c" using assms(3) t(3) by metis
  obtain x where "x \<noteq> 0" "drv t ((GetXAConnection, Done c) # hist t) (GetXAResource c) = Done x" using assms(4) t(3) by metis
  then show ?thesis unfolding t_def [symmetric] using t c
    by (simp add: xa_open_entry_def xa_is_open_def drive_def XA_OK_def XAER_RMERR_def Let_def)
qed

theorem xa_reopens_witness:
  "let s = (xa_init (\<lambda>h c. if c = Close 6 then SqlFail else Done 7))\<lparr>xads := True, xaConn := 6, xaRes := 7\<rparr>
   in fst (xa_close_entry s) = Some XAER_RMERR \<and> fst (xa_open_entry (snd (xa_close_entry s))) = Some XA_OK"
  using xa_reopens [of "(xa_init (\<lambda>h c. if c = Close 6 then SqlFail else Done 7))\<lparr>xads := True, xaConn := 6, xaRes := 7\<rparr>" 0]
  by (simp add: Let_def xa_init_def) (simp add: xa_close_entry_def drive_def Let_def)

end
