(* ===== verification/Backtrace.thy ===== *)
theory Backtrace
  imports Jni
begin

section \<open>The loader's exception backtrace (\<open>libexjlds/except.c\<close>)\<close>

text \<open>
  \<open>backtrace_recursive\<close> prints an exception, its stack frames and then its causes.  The recursion over
  \<open>getCause\<close> is bounded by the fuel argument; running out of it is the fault \<open>recursion\<close> (a cyclic cause
  chain overflows the C stack).  The growing \<open>EX_string\<close> is the accumulator.
\<close>

text \<open>One message: \<open>toString\<close> of an object, appended with a newline.\<close>

definition append_msg :: "int \<Rightarrow> int \<Rightarrow> string \<Rightarrow> ('z jst_scheme, string) state" where
  "append_msg obj mid_toString s = do {
     msg_obj \<leftarrow> jni ''CallObjectMethod'' [I obj, I mid_toString];
     msg_str \<leftarrow> ext (JNI ''GetStringUTFChars'' [I msg_obj]);
     whenM (copied msg_str) (jni ''ReleaseStringUTFChars'' [I msg_obj]);
     jni ''DeleteLocalRef'' [I msg_obj];
     State_Monad.return (s @ rs msg_str @ [CHR 0x0A])
   }"

fun frames_loop :: "nat \<Rightarrow> int \<Rightarrow> int \<Rightarrow> int \<Rightarrow> string \<Rightarrow> ('z jst_scheme, string) state" where
  "frames_loop 0 i frames mid_frame_toString s = State_Monad.return s"
| "frames_loop (Suc n) i frames mid_frame_toString s = do {
     frame \<leftarrow> jni ''GetObjectArrayElement'' [I frames, I i];
     s \<leftarrow> append_msg frame mid_frame_toString s;
     jni ''DeleteLocalRef'' [I frame];
     frames_loop n (i + 1) frames mid_frame_toString s
   }"

fun backtrace_recursive ::
  "nat \<Rightarrow> int \<Rightarrow> string \<Rightarrow> int \<Rightarrow> int \<Rightarrow> int \<Rightarrow> int \<Rightarrow> ('z jst_scheme, string) state"
where
  "backtrace_recursive 0 exc s getCause getStackTrace toString frame_toString = do {
     fault ''recursion''; State_Monad.return s }"
| "backtrace_recursive (Suc fuel) exc s getCause getStackTrace toString frame_toString = do {
     frames \<leftarrow> jni ''CallObjectMethod'' [I exc, I getStackTrace];
     whenM (frames = 0) (fault ''GetArrayLength(NULL)'');
     frames_length \<leftarrow> jni ''GetArrayLength'' [I frames];
     s \<leftarrow> (if frames \<noteq> 0 then append_msg exc toString s else State_Monad.return s);
     s \<leftarrow> (if frames_length > 0 then frames_loop (nat frames_length) 0 frames frame_toString s
          else State_Monad.return s);
     s \<leftarrow> (if frames \<noteq> 0 then do {
            cause \<leftarrow> jni ''CallObjectMethod'' [I exc, I getCause];
            s \<leftarrow> (if cause \<noteq> 0
                 then backtrace_recursive fuel cause s getCause getStackTrace toString frame_toString
                 else State_Monad.return s);
            whenM (cause \<noteq> 0) (jni ''DeleteLocalRef'' [I cause]);
            State_Monad.return s
          } else State_Monad.return s);
     jni ''DeleteLocalRef'' [I frames];
     State_Monad.return s
   }"

text \<open>The part before \<open>out:\<close>: the result and the three references the clean-up deletes.\<close>

definition backtrace_body :: "nat \<Rightarrow> int \<Rightarrow> ('z jst_scheme, string option \<times> int \<times> int \<times> int) state" where
  "backtrace_body fuel exc_in = do {
     throwable_class \<leftarrow> jni ''FindClass'' [S ''java/lang/Throwable''];
     if throwable_class = 0 then State_Monad.return (None, 0, 0, 0) else do {
     getCause \<leftarrow> jni ''GetMethodID'' [I throwable_class, S ''getCause'', S ''()Ljava/lang/Throwable;''];
     if getCause = 0 then State_Monad.return (None, 0, throwable_class, 0) else do {
     getStackTrace \<leftarrow> jni ''GetMethodID'' [I throwable_class, S ''getStackTrace'', S ''()[Ljava/lang/StackTraceElement;''];
     if getStackTrace = 0 then State_Monad.return (None, 0, throwable_class, 0) else do {
     toString \<leftarrow> jni ''GetMethodID'' [I throwable_class, S ''toString'', S ''()Ljava/lang/String;''];
     if toString = 0 then State_Monad.return (None, 0, throwable_class, 0) else do {
     frame_class \<leftarrow> jni ''FindClass'' [S ''java/lang/StackTraceElement''];
     if frame_class = 0 then State_Monad.return (None, 0, throwable_class, 0) else do {
     frame_toString \<leftarrow> jni ''GetMethodID'' [I frame_class, S ''toString'', S ''()Ljava/lang/String;''];
     if frame_toString = 0 then State_Monad.return (None, 0, throwable_class, frame_class) else do {
     exc \<leftarrow> (if exc_in \<noteq> 0 then State_Monad.return exc_in else jni ''ExceptionOccurred'' []);
     t \<leftarrow> backtrace_recursive fuel exc [] getCause getStackTrace toString frame_toString;
     State_Monad.return (Some t, exc, throwable_class, frame_class)
     }}}}}}
   }"

definition ndrxj_ldr_exception_backtrace :: "nat \<Rightarrow> int \<Rightarrow> ('z jst_scheme, string option) state" where
  "ndrxj_ldr_exception_backtrace fuel exc_in = do {
     (ret, exc, throwable_class, frame_class) \<leftarrow> backtrace_body fuel exc_in;
     whenM (exc \<noteq> 0) (jni ''DeleteLocalRef'' [I exc]);
     whenM (throwable_class \<noteq> 0) (jni ''DeleteLocalRef'' [I throwable_class]);
     whenM (throwable_class \<noteq> 0) (jni ''DeleteLocalRef'' [I frame_class]);
     State_Monad.return ret
   }"

text \<open>The macro \<open>EXJLD_LOG_EXCEPTION\<close> of \<open>exj.c\<close>: backtrace of the pending exception, which is cleared.\<close>

definition EXJLD_LOG_EXCEPTION :: "nat \<Rightarrow> ('z jst_scheme, unit) state" where
  "EXJLD_LOG_EXCEPTION fuel = do {
     ndrxj_ldr_exception_backtrace fuel 0;
     jni ''ExceptionClear'' [];
     skip
   }"

subsection \<open>Native copies are balanced\<close>

lemma bal_append_msg: "keeps bal (append_msg obj m s)"
proof -
  let ?m = "\<lambda>msg_obj. do { r \<leftarrow> ext (JNI ''GetStringUTFChars'' [I msg_obj]);
      whenM (copied r) (jni ''ReleaseStringUTFChars'' [I msg_obj]);
      jni ''DeleteLocalRef'' [I msg_obj]; State_Monad.return (s @ rs r @ [CHR 0x0A]) }"
  have *: "keeps bal (?m x)" for x
    by (rule keepsI) (simp add: bal_def run_simps gets_copy_def releases_copy_def)
  show ?thesis unfolding append_msg_def by (rule bal.keeps_bind, rule bal_jni, simp, rule *)
qed

lemma bal_frames_loop: "keeps bal (frames_loop n i frames m s)"
  by (induction n i frames m s rule: frames_loop.induct) (auto intro!: bal_rules bal_append_msg)

lemma bal_backtrace_recursive: "keeps bal (backtrace_recursive fuel exc s a b c d)"
proof (induction fuel exc s a b c d rule: backtrace_recursive.induct)
  case (2 fuel exc s a b c d)
  show ?case unfolding backtrace_recursive.simps
    by (intro bal_rules bal_append_msg bal_frames_loop 2) simp_all
qed (auto intro!: bal_rules)

lemma bal_backtrace: "keeps bal (ndrxj_ldr_exception_backtrace fuel exc)"
  unfolding ndrxj_ldr_exception_backtrace_def backtrace_body_def
  by (intro bal_rules bal_backtrace_recursive) simp_all

lemma bal_LOG_EXCEPTION: "keeps bal (EXJLD_LOG_EXCEPTION fuel)"
  unfolding EXJLD_LOG_EXCEPTION_def by (intro bal_rules bal_backtrace) simp_all

end
