(* ===== verification/ClassPath.thy ===== *)
theory ClassPath
  imports Jni
begin

section \<open>The loader's class path (\<open>libexjlds/cp.c\<close>)\<close>

text \<open>
  \<open>ndrxj_cp_proc\<close> looks for \<open>-cp\<close> and \<open>-classpath\<close> in a JVM option of the configuration and adds the
  directories to the list; \<open>ndrxj_build_classpath_urls\<close> turns the list into a Java array of
  \<open>java.net.URL\<close>.
\<close>

definition MAX_TAGLEN :: nat where
  "MAX_TAGLEN = 10"

definition is_blank :: "char \<Rightarrow> bool" where
  "is_blank c \<longleftrightarrow> c = CHR '' '' \<or> c = CHR 0x09"

text \<open>\<open>config_line[i]\<close> is a blank; the terminating NUL is not.\<close>

definition blank_at :: "string \<Rightarrow> nat \<Rightarrow> bool" where
  "blank_at s i \<longleftrightarrow> i < length s \<and> is_blank (s ! i)"

definition ndrxj_cp_proc :: "ndrx_lib \<Rightarrow> string list \<Rightarrow> string \<Rightarrow> int \<times> string list" where
  "ndrxj_cp_proc L lst config_line =
     (let p = dropWhile is_blank config_line;
          buf = take (MAX_TAGLEN + 1) (takeWhile (\<lambda>c. \<not> is_blank c) p);
          taglen = length buf
      in if blank_at config_line taglen then
           if strcmp buf ''-cp'' = 0 \<or> strcmp buf ''-classpath'' = 0 then
             (case string_list_splitadd L lst (drop taglen config_line) '':'' of
                Some lst' \<Rightarrow> (EXSUCCEED, lst')
              | None \<Rightarrow> (EXFAIL, lst))
           else (EXSUCCEED, lst)
         else (EXSUCCEED, lst))"

text \<open>The loop over the list: the return code and the references \<open>jstr\<close> and \<open>obj\<close> still held.\<close>

fun url_loop :: "int \<Rightarrow> int \<Rightarrow> int \<Rightarrow> int \<Rightarrow> string list \<Rightarrow> ('z jst_scheme, int \<times> int \<times> int) state" where
  "url_loop clazz mid retArr i [] = State_Monad.return (EXSUCCEED, 0, 0)"
| "url_loop clazz mid retArr i (q # qs) = do {
     jstr \<leftarrow> jni ''NewStringUTF'' [S (snprintf_buf PATH_MAX (''file://'' @ q))];
     if jstr = 0 then State_Monad.return (EXFAIL, 0, 0) else do {
     obj \<leftarrow> jni ''NewObject'' [I clazz, I mid, I jstr];
     if obj = 0 then State_Monad.return (EXFAIL, jstr, 0) else do {
     jni ''DeleteLocalRef'' [I jstr];
     jni ''SetObjectArrayElement'' [I retArr, I i, I obj];
     jni ''DeleteLocalRef'' [I obj];
     url_loop clazz mid retArr (i + 1) qs
     }}
   }"

definition classpath_urls_body :: "string list \<Rightarrow> ('z jst_scheme, int \<times> int \<times> int \<times> int \<times> int) state" where
  "classpath_urls_body lst = do {
     clazz \<leftarrow> jni ''FindClass'' [S ''java/net/URL''];
     if clazz = 0 then State_Monad.return (EXFAIL, 0, 0, 0, 0) else do {
     mid \<leftarrow> jni ''GetMethodID'' [I clazz, S ''<init>'', S ''(Ljava/lang/String;)V''];
     if mid = 0 then State_Monad.return (EXSUCCEED, 0, clazz, 0, 0) else do {
     retArr \<leftarrow> jni ''NewObjectArray'' [I (int (length lst)), I clazz, I 0];
     if retArr = 0 then State_Monad.return (EXFAIL, 0, clazz, 0, 0) else do {
     (ret, jstr, obj) \<leftarrow> url_loop clazz mid retArr 0 lst;
     State_Monad.return (ret, retArr, clazz, jstr, obj)
     }}}
   }"

definition ndrxj_build_classpath_urls :: "string list \<Rightarrow> ('z jst_scheme, int) state" where
  "ndrxj_build_classpath_urls lst = do {
     (ret, retArr, clazz, jstr, obj) \<leftarrow> classpath_urls_body lst;
     whenM (clazz \<noteq> 0) (jni ''DeleteLocalRef'' [I clazz]);
     whenM (jstr \<noteq> 0) (jni ''DeleteLocalRef'' [I jstr]);
     whenM (obj \<noteq> 0) (jni ''DeleteLocalRef'' [I obj]);
     if ret \<noteq> EXSUCCEED then do {
       whenM (retArr \<noteq> 0) (jni ''DeleteLocalRef'' [I retArr]);
       State_Monad.return 0
     } else State_Monad.return retArr
   }"

subsection \<open>Local references and URLs\<close>

definition held :: "int \<Rightarrow> int" where
  "held x = (if x = 0 then 0 else 1)"

lemma url_loop_locals:
  "wp (url_loop clazz mid arr i qs)
     (\<lambda>(ret, jstr, obj) t. locals (tr t) = locals (tr s) + held jstr + held obj) s"
proof (induction qs arbitrary: i s)
  case (Cons q qs)
  show ?case unfolding url_loop.simps
    by (intro wp_intros wp_cons [OF Cons.IH]) (auto simp: held_def split: prod.splits)
qed (auto intro!: wp_intros simp: held_def)

lemma body_locals:
  "wp (classpath_urls_body lst) (\<lambda>(ret, arr, cl, jstr, obj) t.
     locals (tr t) = locals (tr s) + held arr + held cl + held jstr + held obj) s"
  unfolding classpath_urls_body_def
  by (intro wp_intros wp_cons [OF url_loop_locals]) (auto simp: held_def)

text \<open>The URLs made since a state.\<close>

fun new_strings :: "trace \<Rightarrow> string list" where
  "new_strings [] = []"
| "new_strings ((e, r) # t) = new_strings t @
     (case e of JNI f [S u] \<Rightarrow> if f = ''NewStringUTF'' then [u] else [] | _ \<Rightarrow> [])"

definition file_url :: "string \<Rightarrow> string" where
  "file_url q = snprintf_buf PATH_MAX (''file://'' @ q)"

lemma url_loop_strings:
  "wp (url_loop clazz mid arr i qs)
     (\<lambda>(ret, jstr, obj) t. set (tr s) \<subseteq> set (tr t) \<and>
       (ret = EXSUCCEED \<longrightarrow> new_strings (tr t) = new_strings (tr s) @ map file_url qs)) s"
proof (induction qs arbitrary: i s)
  case (Cons q qs)
  show ?case unfolding url_loop.simps
    by (intro wp_intros wp_cons [OF Cons.IH]) (auto simp: file_url_def split: prod.splits)
qed (auto intro!: wp_intros)

subsection \<open>Properties\<close>

text \<open>C14. Whatever the VM answers, building the class path leaves no local reference behind except the
  array it returns.\<close>

theorem classpath_urls_locals:
  "locals (tr (exec (ndrxj_build_classpath_urls lst) s)) =
     locals (tr s) + (if val (ndrxj_build_classpath_urls lst) s \<noteq> 0 then 1 else 0)"
proof -
  have "wp (ndrxj_build_classpath_urls lst) (\<lambda>x t. locals (tr t) = locals (tr s) + held x) s"
    unfolding ndrxj_build_classpath_urls_def
    by (intro wp_intros wp_cons [OF body_locals]) (auto simp: held_def intro!: wp_intros)
  then show ?thesis by (auto dest!: wpD simp: held_def)
qed



text \<open>A \<open>-cp\<close> option that starts with a blank is skipped: the check that the tag ends in white space
  looks at an offset from the start of the line instead of the end of the tag.\<close>

theorem cp_leading_blank_skipped:
  assumes "is_blank b"
  shows "ndrxj_cp_proc L lst ([b] @ ''-cp '' @ path) = (EXSUCCEED, lst)"
proof -
  have "takeWhile (\<lambda>c. \<not> is_blank c) (''-cp '' @ path) = ''-cp''"
    "dropWhile is_blank ([b] @ ''-cp '' @ path) = ''-cp '' @ path"
    using assms by (auto simp: is_blank_def)
  then have "take (MAX_TAGLEN + 1) (takeWhile (\<lambda>c. \<not> is_blank c) (dropWhile is_blank ([b] @ ''-cp '' @ path))) = ''-cp''"
    by (simp add: MAX_TAGLEN_def)
  moreover have "\<not> blank_at ([b] @ ''-cp '' @ path) (length ''-cp'')"
    by (simp add: blank_at_def is_blank_def numeral_eq_Suc)
  ultimately show ?thesis by (simp only: ndrxj_cp_proc_def Let_def if_False)
qed

theorem cp_leading_blank_skipped_witness:
  "ndrxj_cp_proc plain_lib [] ('' '' @ ''-cp /x'') = (EXSUCCEED, [])"
  using cp_leading_blank_skipped [of "CHR '' ''" plain_lib "[]" "''/x''"] by (simp add: is_blank_def)

text \<open>Without leading blanks the option is recognised, and what is split at the colons is the rest of
  the line with the separating blank, so the first entry starts with it.\<close>

theorem cp_option_adds:
  assumes "is_blank b" "tag = ''-cp'' \<or> tag = ''-classpath''"
  shows "ndrxj_cp_proc L lst (tag @ b # path) =
    (case string_list_splitadd L lst (b # path) '':'' of Some l \<Rightarrow> (EXSUCCEED, l) | None \<Rightarrow> (EXFAIL, lst))"
proof -
  have tag: "\<forall>c \<in> set tag. \<not> is_blank c" "tag \<noteq> []" "length tag \<le> MAX_TAGLEN + 1"
    using assms(2) by (auto simp: is_blank_def MAX_TAGLEN_def)
  have tw: "takeWhile (\<lambda>c. \<not> is_blank c) (tag @ b # path) = tag"
    using tag(1) assms(1) by (simp add: takeWhile_append2)
  have dw: "dropWhile is_blank (tag @ b # path) = tag @ b # path"
    using tag by (cases tag) auto
  have "take (MAX_TAGLEN + 1) (takeWhile (\<lambda>c. \<not> is_blank c) (dropWhile is_blank (tag @ b # path))) = tag"
    using tag(3) unfolding dw tw by simp
  moreover have "blank_at (tag @ b # path) (length tag)" using assms(1) by (simp add: blank_at_def)
  moreover have "strcmp tag ''-cp'' = 0 \<or> strcmp tag ''-classpath'' = 0"
    using assms(2) unfolding strcmp_eq by blast
  ultimately show ?thesis by (simp only: ndrxj_cp_proc_def Let_def if_True) simp
qed

theorem cp_option_adds_witness:
  "ndrxj_cp_proc plain_lib [] (''-cp'' @ '' /x:/y'') = (EXSUCCEED, ['' /x'', ''/y''])"
  using cp_option_adds [of "CHR '' ''" "''-cp''" plain_lib "[]" "''/x:/y''"]
  by (simp add: is_blank_def plain_lib_def)

end
