(* ===== verification/StaticLoader.thy ===== *)
theory StaticLoader
  imports Backtrace ClassPath
begin

section \<open>The static class loader (\<open>libexjlds/exj.c\<close>)\<close>

text \<open>
  The generated program calls \<open>ndrxj_run_main\<close> with the two index tables.  \<open>ndrxj_ldr_getvm\<close> creates the
  VM, \<open>create_loader\<close> defines the loader classes and registers \<open>getClassBytes\<close>/\<open>getResourceBytes\<close>, which
  search the sorted tables with \<open>getIndexBytes\<close>; \<open>ndrxj_FindClass\<close> resolves classes through that loader.

  State: the static variables of the file, on top of the call trace.  \<open>fuel\<close> bounds the depth of an
  exception's cause chain in the backtrace; \<open>L\<close> is the core library.
\<close>

record class_index =
  idx_cls :: string
  idx_data :: "int list"
  idx_len :: int

record ldr = jst +
  M_classLoaderClass :: int
  M_classLoader :: int
  M_classpath_url :: "string list"
  M_class_index :: "class_index list"
  M_class_index_len :: int
  M_res_index :: "class_index list"
  M_res_index_len :: int

subsection \<open>Searching the index\<close>

text \<open>C division truncates towards zero.\<close>

definition half :: "int \<Rightarrow> int" where
  "half x = (if 0 \<le> x then x div 2 else - ((- x) div 2))"

datatype search = Found int | Not_found | Out_of_bounds

text \<open>The loop of \<open>getIndexBytes\<close>; \<open>middle\<close> is \<open>(first + last) / 2\<close> at the loop head.\<close>

function index_search :: "class_index list \<Rightarrow> string \<Rightarrow> int \<Rightarrow> int \<Rightarrow> search" where
  "index_search index utf first final =
     (if first \<le> final then
        let middle = half (first + final)
        in if middle < 0 \<or> int (length index) \<le> middle then Out_of_bounds
           else
             let res = strcmp (idx_cls (index ! nat middle)) utf
             in if res < 0 then index_search index utf (middle + 1) final
                else if res = 0 then Found middle
                else index_search index utf first (middle - 1)
      else Not_found)"
  by pat_completeness auto
termination
  by (relation "measure (\<lambda>(index, utf, first, final). nat (final - first + 1))") (auto simp: half_def)

declare index_search.simps [simp del]

text \<open>The bytes of a row as a new Java array.\<close>

definition row_bytes :: "nat \<Rightarrow> class_index \<Rightarrow> ('z jst_scheme, int) state" where
  "row_bytes fuel e = do {
     ret \<leftarrow> jni ''NewByteArray'' [I (idx_len e)];
     if ret = 0 then do { EXJLD_LOG_EXCEPTION fuel; State_Monad.return 0 } else do {
     jni ''SetByteArrayRegion'' [I ret, I 0, I (idx_len e), Bs (idx_data e)];
     c \<leftarrow> jni ''ExceptionCheck'' [];
     if c \<noteq> 0 then do { EXJLD_LOG_EXCEPTION fuel; State_Monad.return 0 }
     else State_Monad.return ret
     }
   }"

definition getIndexBytes :: "nat \<Rightarrow> int \<Rightarrow> class_index list \<Rightarrow> int \<Rightarrow> ('z jst_scheme, int) state" where
  "getIndexBytes fuel cls index index_len = do {
     utf \<leftarrow> ext (JNI ''GetStringUTFChars'' [I cls]);
     ret \<leftarrow> (case index_search index (rs utf) 0 (index_len - 1) of
         Not_found \<Rightarrow> State_Monad.return 0
       | Out_of_bounds \<Rightarrow> do { fault ''index[middle]''; State_Monad.return 0 }
       | Found middle \<Rightarrow> row_bytes fuel (index ! nat middle));
     whenM (copied utf) (jni ''ReleaseStringUTFChars'' [I cls]);
     State_Monad.return ret
   }"

definition ndrxj_getResourceBytes :: "nat \<Rightarrow> int \<Rightarrow> ('z ldr_scheme, int) state" where
  "ndrxj_getResourceBytes fuel cls = do {
     s \<leftarrow> State_Monad.get; getIndexBytes fuel cls (M_res_index s) (M_res_index_len s) }"

definition ndrxj_getClassBytes :: "nat \<Rightarrow> int \<Rightarrow> ('z ldr_scheme, int) state" where
  "ndrxj_getClassBytes fuel cls = do {
     s \<leftarrow> State_Monad.get; getIndexBytes fuel cls (M_class_index s) (M_class_index_len s) }"

subsection \<open>Creating the loader\<close>

abbreviation ok :: "('s, int) state" where "ok \<equiv> State_Monad.return EXSUCCEED"
abbreviation fail :: "('s, int) state" where "fail \<equiv> State_Monad.return EXFAIL"

abbreviation log_fail :: "nat \<Rightarrow> ('z jst_scheme, int) state" where
  "log_fail fuel \<equiv> State_Monad.bind (EXJLD_LOG_EXCEPTION fuel) (\<lambda>_. State_Monad.return EXFAIL)"

text \<open>The system class loader as a global reference, 0 where the code fails.\<close>

definition system_loader :: "nat \<Rightarrow> int \<Rightarrow> ('z jst_scheme, int) state" where
  "system_loader fuel loaderClass = do {
     loaderMethod \<leftarrow> jni ''GetStaticMethodID'' [I loaderClass, S ''getSystemClassLoader'', S ''()Ljava/lang/ClassLoader;''];
     if loaderMethod = 0 then do { EXJLD_LOG_EXCEPTION fuel; State_Monad.return 0 } else do {
     loader \<leftarrow> jni ''CallStaticObjectMethod'' [I loaderClass, I loaderMethod];
     if loader = 0 then do { EXJLD_LOG_EXCEPTION fuel; State_Monad.return 0 } else
     jni ''NewGlobalRef'' [I loader]
     }
   }"

text \<open>One of the embedded loader classes, defined from its bytes.\<close>

definition define_loader_class :: "string \<Rightarrow> string \<Rightarrow> int \<Rightarrow> ('z jst_scheme, int) state" where
  "define_loader_class name bytes loader =
     jni ''DefineClass'' [S name, I loader, S bytes]"

text \<open>From the definition of \<open>StaticClassLoader\<close> on; the result is the code and \<open>cpUrls\<close>.\<close>

definition create_static_loader :: "nat \<Rightarrow> int \<Rightarrow> int \<Rightarrow> int \<Rightarrow> ('z ldr_scheme, int \<times> int) state" where
  "create_static_loader fuel class_getctors_method loader urlcon = do {
     cl \<leftarrow> define_loader_class ''org/endurox/loader/StaticClassLoader'' ''ndrx_G_resource_StaticClassLoader'' loader;
     if cl = 0 then do { EXJLD_LOG_EXCEPTION fuel; State_Monad.return (EXFAIL, 0) } else do {
     g \<leftarrow> jni ''NewGlobalRef'' [I cl];
     State_Monad.update (\<lambda>s. s\<lparr>M_classLoaderClass := g\<rparr>);
     jni ''CallObjectMethod'' [I g, I class_getctors_method];
     let m = [S ''getResourceBytes'', S ''(Ljava/lang/String;)[B'', S ''getClassBytes'', S ''(Ljava/lang/String;)[B''];
     jni ''RegisterNatives'' (I urlcon # m);
     jni ''RegisterNatives'' (I g # m);
     c \<leftarrow> jni ''ExceptionCheck'' [];
     if c \<noteq> 0 then do { EXJLD_LOG_EXCEPTION fuel; State_Monad.return (EXFAIL, 0) } else do {
     s \<leftarrow> State_Monad.get;
     cpUrls \<leftarrow> ndrxj_build_classpath_urls (M_classpath_url s);
     if cpUrls = 0 then do { EXJLD_LOG_EXCEPTION fuel; State_Monad.return (EXFAIL, 0) } else do {
     ldr_ctor \<leftarrow> jni ''GetMethodID'' [I g, S ''<init>'', S ''([Ljava/net/URL;)V''];
     if ldr_ctor = 0 then do { EXJLD_LOG_EXCEPTION fuel; State_Monad.return (EXFAIL, cpUrls) } else do {
     ldr_obj \<leftarrow> jni ''NewObject'' [I g, I ldr_ctor, I cpUrls];
     if ldr_obj = 0 then do { EXJLD_LOG_EXCEPTION fuel; State_Monad.return (EXFAIL, cpUrls) } else do {
     ldr_ref \<leftarrow> jni ''NewGlobalRef'' [I ldr_obj];
     State_Monad.update (\<lambda>s. s\<lparr>M_classLoader := ldr_ref\<rparr>);
     State_Monad.return (EXSUCCEED, cpUrls)
     }}}}}
   }"

definition create_loader_body :: "nat \<Rightarrow> int \<Rightarrow> int \<Rightarrow> ('z ldr_scheme, int \<times> int) state" where
  "create_loader_body fuel class_class loaderClass = do {
     if class_class = 0 then do { EXJLD_LOG_EXCEPTION fuel; State_Monad.return (EXFAIL, 0) } else
     if loaderClass = 0 then do { EXJLD_LOG_EXCEPTION fuel; State_Monad.return (EXFAIL, 0) } else do {
     getctors \<leftarrow> jni ''GetMethodID'' [I class_class, S ''getConstructors'', S ''()[Ljava/lang/reflect/Constructor;''];
     if getctors = 0 then do { EXJLD_LOG_EXCEPTION fuel; State_Monad.return (EXFAIL, 0) } else do {
     loader \<leftarrow> system_loader fuel loaderClass;
     if loader = 0 then State_Monad.return (EXFAIL, 0) else do {
     urlcon0 \<leftarrow> define_loader_class ''org/endurox/loader/BytesURLConnection'' ''ndrx_G_resource_BytesURLConnection'' loader;
     if urlcon0 = 0 then do { EXJLD_LOG_EXCEPTION fuel; State_Monad.return (EXFAIL, 0) } else do {
     urlcon \<leftarrow> jni ''NewGlobalRef'' [I urlcon0];
     urlh0 \<leftarrow> define_loader_class ''org/endurox/loader/BytesURLHandler'' ''ndrx_G_resource_BytesURLHandler'' loader;
     if urlh0 = 0 then do { EXJLD_LOG_EXCEPTION fuel; State_Monad.return (EXFAIL, 0) } else do {
     urlh \<leftarrow> jni ''NewGlobalRef'' [I urlh0];
     if urlh = 0 then do { EXJLD_LOG_EXCEPTION fuel; State_Monad.return (EXFAIL, 0) } else
     create_static_loader fuel getctors loader urlcon
     }}}}}
   }"

definition create_loader :: "nat \<Rightarrow> ('z ldr_scheme, int) state" where
  "create_loader fuel = do {
     class_class \<leftarrow> jni ''FindClass'' [S ''java/lang/Class''];
     loaderClass \<leftarrow> jni ''FindClass'' [S ''java/lang/ClassLoader''];
     (ret, cpUrls) \<leftarrow> create_loader_body fuel class_class loaderClass;
     whenM (cpUrls \<noteq> 0) (jni ''DeleteLocalRef'' [I cpUrls]);
     whenM (class_class \<noteq> 0) (jni ''DeleteLocalRef'' [I class_class]);
     State_Monad.return ret
   }"

subsection \<open>Resolving and running the main class\<close>

text \<open>Up to \<open>out:\<close>: the code, the class, the method, \<open>thread_class\<close> (\<open>None\<close>: never assigned) and the
  class name's Java string.\<close>

definition static_handler_body ::
  "nat \<Rightarrow> string \<Rightarrow> string \<Rightarrow> string \<Rightarrow> ('z ldr_scheme, int \<times> int \<times> int \<times> int option \<times> int) state"
where
  "static_handler_body fuel run_class_str static_method static_method_sign = do {
     s \<leftarrow> State_Monad.get;
     load_class \<leftarrow> jni ''GetMethodID'' [I (M_classLoaderClass s), S ''loadClass'', S ''(Ljava/lang/String;)Ljava/lang/Class;''];
     if load_class = 0 then do { EXJLD_LOG_EXCEPTION fuel; State_Monad.return (EXFAIL, 0, 0, None, 0) } else do {
     jrun_class_str \<leftarrow> jni ''NewStringUTF'' [S run_class_str];
     run_class \<leftarrow> jni ''CallObjectMethod'' [I (M_classLoader s), I load_class, I jrun_class_str];
     if run_class = 0 then do { EXJLD_LOG_EXCEPTION fuel; State_Monad.return (EXFAIL, 0, 0, None, jrun_class_str) } else do {
     run_mid \<leftarrow> jni ''GetStaticMethodID'' [I run_class, S static_method, S static_method_sign];
     if run_mid = 0 then do { EXJLD_LOG_EXCEPTION fuel; State_Monad.return (EXFAIL, run_class, 0, None, jrun_class_str) } else do {
     thread_class \<leftarrow> jni ''FindClass'' [S ''java/lang/Thread''];
     if thread_class = 0 then do { EXJLD_LOG_EXCEPTION fuel;
       State_Monad.return (EXFAIL, run_class, run_mid, Some 0, jrun_class_str) } else do {
     cur_thread_mid \<leftarrow> jni ''GetStaticMethodID'' [I thread_class, S ''currentThread'', S ''()Ljava/lang/Thread;''];
     if cur_thread_mid = 0 then do { EXJLD_LOG_EXCEPTION fuel;
       State_Monad.return (EXFAIL, run_class, run_mid, Some thread_class, jrun_class_str) } else do {
     cur_thread \<leftarrow> jni ''CallStaticObjectMethod'' [I thread_class, I cur_thread_mid];
     if cur_thread = 0 then do { EXJLD_LOG_EXCEPTION fuel;
       State_Monad.return (EXFAIL, run_class, run_mid, Some thread_class, jrun_class_str) } else do {
     set_ctx_mid \<leftarrow> jni ''GetMethodID'' [I thread_class, S ''setContextClassLoader'', S ''(Ljava/lang/ClassLoader;)V''];
     if set_ctx_mid = 0 then do { EXJLD_LOG_EXCEPTION fuel;
       State_Monad.return (EXFAIL, run_class, run_mid, Some thread_class, jrun_class_str) } else do {
     jni ''CallVoidMethod'' [I cur_thread, I set_ctx_mid, I (M_classLoader s)];
     c \<leftarrow> jni ''ExceptionCheck'' [];
     if c \<noteq> 0 then do { EXJLD_LOG_EXCEPTION fuel; jni ''ExceptionClear'' [];
       State_Monad.return (EXFAIL, run_class, run_mid, Some thread_class, jrun_class_str) }
     else State_Monad.return (EXSUCCEED, run_class, run_mid, Some thread_class, jrun_class_str)
     }}}}}}}
   }"

definition ndrxj_ldr_get_static_handler ::
  "nat \<Rightarrow> string \<Rightarrow> string \<Rightarrow> string \<Rightarrow> ('z ldr_scheme, int \<times> int \<times> int) state"
where
  "ndrxj_ldr_get_static_handler fuel run_class_str static_method static_method_sign = do {
     (ret, run_class, run_mid, thread_class, jstr) \<leftarrow>
       static_handler_body fuel run_class_str static_method static_method_sign;
     (case thread_class of
        None \<Rightarrow> fault ''DeleteLocalRef(thread_class)''
      | Some c \<Rightarrow> whenM (c \<noteq> 0) (jni ''DeleteLocalRef'' [I c]));
     whenM (jstr \<noteq> 0) (jni ''DeleteLocalRef'' [I jstr]);
     State_Monad.return (ret, run_class, run_mid)
   }"

fun set_args :: "nat \<Rightarrow> int \<Rightarrow> int \<Rightarrow> string list \<Rightarrow> ('z jst_scheme, int) state" where
  "set_args fuel args i [] = ok"
| "set_args fuel args i (a # as) = do {
     argString \<leftarrow> jni ''NewStringUTF'' [S a];
     if argString = 0 then log_fail fuel else do {
     jni ''SetObjectArrayElement'' [I args, I i, I argString];
     c \<leftarrow> jni ''ExceptionCheck'' [];
     if c \<noteq> 0 then log_fail fuel else do {
     jni ''DeleteLocalRef'' [I argString];
     set_args fuel args (i + 1) as
     }}
   }"

definition run_ldr_body :: "nat \<Rightarrow> string \<Rightarrow> string list \<Rightarrow> bool \<Rightarrow> ('z ldr_scheme, int \<times> int \<times> int \<times> int) state" where
  "run_ldr_body fuel main_class_str argv test_mode = do {
     str_class \<leftarrow> jni ''FindClass'' [S ''java/lang/String''];
     if str_class = 0 then do { EXJLD_LOG_EXCEPTION fuel; State_Monad.return (EXFAIL, 0, 0, 0) } else do {
     args \<leftarrow> jni ''NewObjectArray'' [I (int (length argv)), I str_class, I 0];
     if args = 0 then do { EXJLD_LOG_EXCEPTION fuel; State_Monad.return (EXFAIL, 0, str_class, 0) } else do {
     r \<leftarrow> set_args fuel args 0 argv;
     if r \<noteq> EXSUCCEED then State_Monad.return (EXFAIL, 0, str_class, args) else do {
     (ret, main_class, mid) \<leftarrow> ndrxj_ldr_get_static_handler fuel main_class_str ''main'' ''([Ljava/lang/String;)V'';
     if ret \<noteq> EXSUCCEED then State_Monad.return (EXFAIL, main_class, str_class, args) else
     if \<not> test_mode then do {
       jni ''CallStaticVoidMethod'' [I main_class, I mid, I args];
       c \<leftarrow> jni ''ExceptionCheck'' [];
       if c \<noteq> 0 then do { EXJLD_LOG_EXCEPTION fuel; jni ''ExceptionClear'' [];
         State_Monad.return (EXFAIL, main_class, str_class, args) }
       else State_Monad.return (EXSUCCEED, main_class, str_class, args)
     } else State_Monad.return (EXSUCCEED, main_class, str_class, args)
     }}}
   }"

definition run_ldr_main :: "nat \<Rightarrow> string \<Rightarrow> string list \<Rightarrow> bool \<Rightarrow> ('z ldr_scheme, int) state" where
  "run_ldr_main fuel main_class_str argv test_mode = do {
     (ret, main_class, str_class, args) \<leftarrow> run_ldr_body fuel main_class_str argv test_mode;
     whenM (main_class \<noteq> 0) (jni ''DeleteLocalRef'' [I main_class]);
     whenM (str_class \<noteq> 0) (jni ''DeleteLocalRef'' [I str_class]);
     whenM (args \<noteq> 0) (jni ''DeleteLocalRef'' [I args]);
     State_Monad.return ret
   }"

subsection \<open>The virtual machine\<close>

text \<open>The loop over the \<open>@java\<close> section: keys starting with \<open>opts\<close> are VM options, and class path options
  are also collected.\<close>

fun java_opts :: "ndrx_lib \<Rightarrow> (string \<times> string) list \<Rightarrow> string list \<Rightarrow> ('z ldr_scheme, int \<times> string list) state" where
  "java_opts L [] options = State_Monad.return (EXSUCCEED, options)"
| "java_opts L ((key, v) # kvs) options =
     (if take 4 key = ''opts'' then do {
        s \<leftarrow> State_Monad.get;
        let (r, l) = ndrxj_cp_proc L (M_classpath_url s) v;
        State_Monad.update (\<lambda>s. s\<lparr>M_classpath_url := l\<rparr>);
        if r \<noteq> EXSUCCEED then State_Monad.return (EXFAIL, options @ [v]) else java_opts L kvs (options @ [v])
      } else java_opts L kvs options)"

fun key_vals :: "string list \<Rightarrow> (string \<times> string) list" where
  "key_vals (k # v # xs) = (k, v) # key_vals xs"
| "key_vals xs = []"

text \<open>The configuration: result code and options; \<open>cfg\<close> NULL means there is no configuration.\<close>

definition load_java_config :: "ndrx_lib \<Rightarrow> ('z ldr_scheme, int \<times> string list) state" where
  "load_java_config L = do {
     c \<leftarrow> ext (API ''ndrx_cconfig_load_general'' []);
     if ri c \<noteq> EXSUCCEED then State_Monad.return (EXFAIL, []) else
     if ro c \<noteq> [] \<and> hd (ro c) \<noteq> 0 then do {
       kv \<leftarrow> ext (API ''ndrx_cconfig_get_cf'' [I (hd (ro c)), S ''@java'']);
       if ri kv \<noteq> EXSUCCEED then State_Monad.return (EXFAIL, []) else do {
       options \<leftarrow> ex ''calloc'' [I (int (length (key_vals (rl kv))))];
       if options = 0 then State_Monad.return (EXFAIL, []) else java_opts L (key_vals (rl kv)) []
       }
     } else State_Monad.return (EXSUCCEED, [])
   }"

definition getvm_body :: "nat \<Rightarrow> ndrx_lib \<Rightarrow> ('z ldr_scheme, int \<times> int) state" where
  "getvm_body fuel L = do {
     (r, options) \<leftarrow> load_java_config L;
     if r \<noteq> EXSUCCEED then State_Monad.return (EXFAIL, 0) else do {
     cp_env \<leftarrow> ext (API ''getenv'' [S ''CLASSPATH'']);
     s \<leftarrow> State_Monad.get;
     r \<leftarrow> (if ri cp_env \<noteq> 0 then
            (case string_list_splitadd L (M_classpath_url s) (rs cp_env) '':'' of
               None \<Rightarrow> fail
             | Some l \<Rightarrow> do { State_Monad.update (\<lambda>s. s\<lparr>M_classpath_url := l\<rparr>); ok })
          else ok);
     if r \<noteq> EXSUCCEED then State_Monad.return (EXFAIL, 0) else do {
     vm \<leftarrow> ext (API ''JNI_CreateJavaVM'' (map S options));
     let vmp = (if ro vm = [] then 0 else hd (ro vm));
     if ri vm < 0 then State_Monad.return (EXFAIL, vmp) else do {
     r \<leftarrow> create_loader fuel;
     c \<leftarrow> jni ''ExceptionCheck'' [];
     if c \<noteq> 0 then do { EXJLD_LOG_EXCEPTION fuel; State_Monad.return (EXFAIL, vmp) }
     else State_Monad.return (r, vmp)
     }}}
   }"

definition ndrxj_ldr_getvm ::
  "nat \<Rightarrow> ndrx_lib \<Rightarrow> class_index list \<Rightarrow> int \<Rightarrow> class_index list \<Rightarrow> int \<Rightarrow> ('z ldr_scheme, int) state"
where
  "ndrxj_ldr_getvm fuel L class_index class_index_len res_index res_index_len = do {
     State_Monad.update (\<lambda>s. s\<lparr>M_class_index := class_index, M_class_index_len := class_index_len,
       M_res_index := res_index, M_res_index_len := res_index_len\<rparr>);
     (ret, vm) \<leftarrow> getvm_body fuel L;
     s \<leftarrow> State_Monad.get;
     whenM (M_classpath_url s \<noteq> []) (ex ''ndrx_string_list_free'' [I 0]);
     if ret \<noteq> EXSUCCEED then State_Monad.return 0 else State_Monad.return vm
   }"

definition ndrxj_run_main ::
  "nat \<Rightarrow> ndrx_lib \<Rightarrow> string list \<Rightarrow> string \<Rightarrow> class_index list \<Rightarrow> int \<Rightarrow> class_index list \<Rightarrow> int \<Rightarrow> bool \<Rightarrow>
   ('z ldr_scheme, int) state"
where
  "ndrxj_run_main fuel L argv main_class class_index class_index_len emb_index emb_index_len test_mode = do {
     vm \<leftarrow> ndrxj_ldr_getvm fuel L class_index class_index_len emb_index emb_index_len;
     if vm = 0 then fail else do {
     r \<leftarrow> run_ldr_main fuel main_class (tl argv) test_mode;
     ex ''DestroyJavaVM'' [I vm];
     if r \<noteq> EXSUCCEED then fail else ok
     }
   }"

definition ndrxj_FindClass :: "ndrx_lib \<Rightarrow> string \<Rightarrow> ('z ldr_scheme, int) state" where
  "ndrxj_FindClass L name = do {
     s \<leftarrow> State_Monad.get;
     (ret, jclass_str) \<leftarrow>
       (if M_classLoaderClass s \<noteq> 0 then do {
          name_mod \<leftarrow> ex ''strdup'' [S name];
          if name_mod = 0 then State_Monad.return (0, 0) else do {
          load_class \<leftarrow> jni ''GetMethodID'' [I (M_classLoaderClass s), S ''loadClass'', S ''(Ljava/lang/String;)Ljava/lang/Class;''];
          if load_class = 0 then State_Monad.return (0, 0) else do {
          jclass_str \<leftarrow> jni ''NewStringUTF'' [S (strchr_repl L name (CHR ''/'') (CHR ''.''))];
          if jclass_str = 0 then State_Monad.return (0, 0) else do {
          ret \<leftarrow> jni ''CallObjectMethod'' [I (M_classLoader s), I load_class, I jclass_str];
          State_Monad.return (ret, jclass_str)
          }}}
        } else do {
          ret \<leftarrow> jni ''FindClass'' [S name];
          State_Monad.return (ret, 0)
        });
     whenM (jclass_str \<noteq> 0) (jni ''DeleteLocalRef'' [I jclass_str]);
     State_Monad.return ret
   }"

subsection \<open>Looking up a name in a sorted table\<close>

text \<open>The contract of a search by name, and what its clients conclude from it.\<close>

locale name_index =
  fixes key :: "'i \<Rightarrow> string"
    and find_at :: "'i list \<Rightarrow> string \<Rightarrow> nat option"
  assumes found: "sorted (map key xs) \<Longrightarrow> find_at xs k = Some i \<Longrightarrow> i < length xs \<and> key (xs ! i) = k"
    and missing: "sorted (map key xs) \<Longrightarrow> find_at xs k = None \<Longrightarrow> k \<notin> key ` set xs"
begin

lemma find_some_iff: "sorted (map key xs) \<Longrightarrow> (\<exists>i. find_at xs k = Some i) \<longleftrightarrow> k \<in> key ` set xs"
  using found [of xs k] missing [of xs k] by (cases "find_at xs k") force+

lemma find_value:
  assumes "sorted (map key xs)" "distinct (map key xs)"
  shows "map_option (\<lambda>i. f (xs ! i)) (find_at xs k) = map_of (map (\<lambda>x. (key x, f x)) xs) k"
proof (cases "find_at xs k")
  case None
  then have "k \<notin> key ` set xs" using missing assms(1) by blast
  then have "map_of (map (\<lambda>x. (key x, f x)) xs) k = None" by (auto simp: map_of_eq_None_iff)
  then show ?thesis using None by simp
next
  case (Some i)
  then have i: "i < length xs" "key (xs ! i) = k" using found [OF assms(1)] by auto
  have "map_of (map (\<lambda>x. (key x, f x)) xs) (key (xs ! i)) = Some (f (xs ! i))"
    using assms(2) i(1) by (intro map_of_is_SomeI) (auto simp: comp_def)
  then show ?thesis using Some i by simp
qed

end

lemma half_bounds: "f \<le> l \<Longrightarrow> f \<le> half (f + l) \<and> half (f + l) \<le> l"
  by (auto simp: half_def)

lemma half_pos: "0 \<le> f \<Longrightarrow> f \<le> l \<Longrightarrow> 0 \<le> half (f + l)"
  using half_bounds [of f l] by simp

lemma index_search_in_bounds:
  "0 \<le> f \<Longrightarrow> l < int (length index) \<Longrightarrow> index_search index utf f l \<noteq> Out_of_bounds"
proof (induction index utf f l rule: index_search.induct)
  case (1 index utf f l)
  show ?case
  proof (cases "f \<le> l")
    case True
    then have m: "0 \<le> half (f + l)" "half (f + l) < int (length index)" "f \<le> half (f + l)"
      using half_bounds [OF True] 1 by auto
    with 1 True show ?thesis
      by (subst index_search.simps) (auto simp: Let_def)
  qed (simp add: index_search.simps)
qed

lemma index_search_found:
  "index_search index utf f l = Found m \<Longrightarrow>
   0 \<le> m \<and> m < int (length index) \<and> idx_cls (index ! nat m) = utf"
proof (induction index utf f l rule: index_search.induct)
  case (1 index utf f l)
  from 1(3) show ?case
    by (subst (asm) index_search.simps) (use 1(1,2) in \<open>auto simp: Let_def cstr_simps split: if_splits\<close>)
qed

text \<open>The range always contains every occurrence of the name.\<close>

lemma index_search_missing:
  assumes "sorted (map idx_cls index)"
  shows "index_search index utf f l = Not_found \<Longrightarrow> 0 \<le> f \<Longrightarrow> l < int (length index) \<Longrightarrow>
    (\<And>i. i < length index \<Longrightarrow> idx_cls (index ! i) = utf \<Longrightarrow> f \<le> int i \<and> int i \<le> l) \<Longrightarrow>
    utf \<notin> idx_cls ` set index"
  using assms
proof (induction index utf f l rule: index_search.induct)
  case (1 index utf f l)
  have mono: "idx_cls (index ! i) \<le> idx_cls (index ! j)" if "i \<le> j" "j < length index" for i j
    using that 1(7) by (simp add: sorted_iff_nth_mono)
  show ?case
  proof (cases "f \<le> l")
    case False
    with 1(6) show ?thesis by (force simp: in_set_conv_nth)
  next
    case True
    define m where "m = half (f + l)"
    have m: "f \<le> m" "m \<le> l" "0 \<le> m" "m < int (length index)"
      using half_bounds [OF True] 1(4,5) by (auto simp: m_def)
    then have mn: "nat m < length index" by simp
    have in_range: "f \<le> int i \<and> int i \<le> l" if "i < length index" "idx_cls (index ! i) = utf" for i
      using 1(6) that by blast
    consider (less) "idx_cls (index ! nat m) < utf" | (eq) "idx_cls (index ! nat m) = utf"
      | (greater) "utf < idx_cls (index ! nat m)" by fastforce
    then show ?thesis
    proof cases
      case less
      have "index_search index utf (m + 1) l = Not_found"
        using 1(3) True m less by (subst (asm) index_search.simps) (simp add: Let_def m_def [symmetric] cstr_simps)
      moreover have "m + 1 \<le> int i \<and> int i \<le> l" if "i < length index" "idx_cls (index ! i) = utf" for i
        using in_range [OF that] mono [of i "nat m"] mn less that by (cases "i \<le> nat m") auto
      ultimately show ?thesis using 1(1) [OF True m_def] 1(5,7) m less by (simp add: cstr_simps)
    next
      case eq
      then show ?thesis
        using 1(3) True m by (subst (asm) index_search.simps) (simp add: Let_def m_def [symmetric] cstr_simps)
    next
      case greater
      have "index_search index utf f (m - 1) = Not_found"
        using 1(3) True m greater
        by (subst (asm) index_search.simps) (auto simp: Let_def m_def [symmetric] cstr_simps split: if_splits)
      moreover have "f \<le> int i \<and> int i \<le> m - 1" if "i < length index" "idx_cls (index ! i) = utf" for i
        using in_range [OF that] mono [of "nat m" i] greater that by (cases "nat m \<le> i") auto
      ultimately show ?thesis using 1(2) [OF True m_def] 1(4,5,7) m greater by (simp add: cstr_simps)
    qed
  qed
qed

definition index_find :: "class_index list \<Rightarrow> string \<Rightarrow> nat option" where
  "index_find index utf =
     (case index_search index utf 0 (int (length index) - 1) of Found m \<Rightarrow> Some (nat m) | _ \<Rightarrow> None)"

interpretation idx: name_index idx_cls index_find
proof
  fix xs :: "class_index list" and k i
  assume sorted: "sorted (map idx_cls xs)"
  show "i < length xs \<and> idx_cls (xs ! i) = k" if "index_find xs k = Some i"
    using that index_search_found [of xs k 0 "int (length xs) - 1"]
    by (auto simp: index_find_def split: search.splits)
  show "k \<notin> idx_cls ` set xs" if "index_find xs k = None"
  proof -
    have "index_search xs k 0 (int (length xs) - 1) = Not_found"
      using that index_search_in_bounds [of 0 "int (length xs) - 1" xs k]
      by (auto simp: index_find_def split: search.splits)
    then show ?thesis by (rule index_search_missing [OF sorted]) auto
  qed
qed

subsection \<open>Native copies and references\<close>

lemma bal_row_bytes: "keeps bal (row_bytes fuel e)"
  unfolding row_bytes_def by (intro bal_rules bal_LOG_EXCEPTION) simp_all

lemma bal_getIndexBytes: "keeps bal (getIndexBytes fuel c index n)"
proof -
  have inner: "keeps bal (case index_search index u 0 (n - 1) of
         Not_found \<Rightarrow> State_Monad.return 0
       | Out_of_bounds \<Rightarrow> do { fault ''index[middle]''; State_Monad.return 0 }
       | Found middle \<Rightarrow> row_bytes fuel (index ! nat middle))" for u
    by (cases "index_search index u 0 (n - 1)") (auto intro!: bal_rules bal_row_bytes)
  show ?thesis unfolding getIndexBytes_def by (rule bal_utf, rule inner)
qed

text \<open>The name a native read was asked for.\<close>

definition asked :: "int \<Rightarrow> 'z jst_scheme \<Rightarrow> string" where
  "asked c s = rs (orc s (tr s) (JNI ''GetStringUTFChars'' [I c]))"

lemma row_bytes_spec:
  "wp (row_bytes fuel e) (\<lambda>ret t. ret \<noteq> 0 \<longrightarrow>
     (\<exists>r. (JNI ''SetByteArrayRegion'' [I ret, I 0, I (idx_len e), Bs (idx_data e)], r) \<in> set (tr t))) s"
  unfolding row_bytes_def by (intro wp_intros wp_any [of _ "EXJLD_LOG_EXCEPTION fuel"]) auto

lemma getIndexBytes_spec:
  assumes sorted: "sorted (map idx_cls index)" and n: "n = int (length index)"
  shows "wp (getIndexBytes fuel c index n) (\<lambda>ret t.
      (asked c s \<notin> idx_cls ` set index \<longrightarrow> ret = 0 \<and> flt t = flt s \<and> length (tr t) \<le> length (tr s) + 2) \<and>
      (ret \<noteq> 0 \<longrightarrow> (\<exists>e r. e \<in> set index \<and> idx_cls e = asked c s \<and>
        (JNI ''SetByteArrayRegion'' [I ret, I 0, I (idx_len e), Bs (idx_data e)], r) \<in> set (tr t)))) s"
    (is "wp _ ?Q s")
proof -
  let ?k = "index_search index (asked c s) 0 (n - 1)"
  have oob: "?k \<noteq> Out_of_bounds"
    using index_search_in_bounds [of 0 "n - 1" index] n by simp
  show ?thesis
  proof (cases ?k)
    case (Found m)
    then have m: "index ! nat m \<in> set index" "idx_cls (index ! nat m) = asked c s"
      using index_search_found [of index "asked c s" 0 "n - 1" m] by auto
    then have mem: "asked c s \<in> idx_cls ` set index" by (metis image_eqI)
    show ?thesis unfolding getIndexBytes_def
      by (rule wp_bind, rule wp_ext_orc, fold asked_def, unfold Found search.case, rule wp_bind,
          rule wp_cons [OF row_bytes_spec], intro wp_intros) (use m mem in auto)
  next
    case Not_found
    show ?thesis unfolding getIndexBytes_def
      by (rule wp_bind, rule wp_ext_orc, fold asked_def, unfold Not_found search.case, intro wp_intros) simp_all
  qed (use oob in simp)
qed

text \<open>How often a function was called, and runs that do not call it.\<close>

definition uses :: "string \<Rightarrow> trace \<Rightarrow> nat" where
  "uses f t = length (filter (\<lambda>(e, r). case e of JNI g _ \<Rightarrow> g = f | API g _ \<Rightarrow> g = f) t)"

lemma uses_simps [simp]:
  "uses f [] = 0"
  "uses f ((JNI g as, r) # t) = (if g = f then Suc (uses f t) else uses f t)"
  "uses f ((API g as, r) # t) = (if g = f then Suc (uses f t) else uses f t)"
  by (simp_all add: uses_def)

definition no_use :: "string \<Rightarrow> 'z jst_scheme \<Rightarrow> 'z jst_scheme \<Rightarrow> bool" where
  "no_use f s t \<longleftrightarrow> uses f (tr t) = uses f (tr s)"

text \<open>The functions that only \<open>run_ldr_main\<close>, \<open>ndrxj_run_main\<close> and the clients of the loader call.  A relation on states that every other
  call keeps is kept by the operations of the loader.\<close>

definition main_calls :: "string set" where
  "main_calls = {''CallStaticVoidMethod'', ''DestroyJavaVM'', ''CallIntMethod'', ''tpsetctxt'', ''tpgetctxt'', ''tpnewctxt''}"

locale silent = run_rel R for R :: "'z ldr_scheme \<Rightarrow> 'z ldr_scheme \<Rightarrow> bool" +
  fixes X :: "string set"
  assumes special: "X \<subseteq> main_calls"
    and jni_rel: "g \<notin> X \<Longrightarrow> keeps R (jni g as)"
    and ext_rel: "g \<notin> X \<Longrightarrow> keeps R (ext (JNI g as))"
    and ex_rel: "g \<notin> X \<Longrightarrow> keeps R (ex g as)"
    and api_rel: "g \<notin> X \<Longrightarrow> keeps R (ext (API g as))"
    and fault_rel: "keeps R (fault w)"
    and upd_rel: "(\<And>s. jst.truncate (h s) = jst.truncate s) \<Longrightarrow> keeps R (State_Monad.update h)"
begin

lemmas rules = keeps_rules jni_rel ext_rel ex_rel api_rel fault_rel upd_rel

lemma other: "g \<notin> main_calls \<Longrightarrow> g \<notin> X"
  using special by blast

lemma rel_append_msg: "keeps R (append_msg obj m x)"
  unfolding append_msg_def by (intro rules other) (simp_all add: main_calls_def)

lemma rel_frames_loop: "keeps R (frames_loop n i frames m x)"
  by (induction n i frames m x rule: frames_loop.induct) (auto intro!: rules other rel_append_msg simp: main_calls_def)

lemma rel_backtrace_recursive: "keeps R (backtrace_recursive fuel exc x a b c d)"
proof (induction fuel exc x a b c d rule: backtrace_recursive.induct)
  case (2 fuel exc x a b c d)
  show ?case unfolding backtrace_recursive.simps
    by (intro rules other rel_append_msg rel_frames_loop 2) (simp_all add: main_calls_def)
qed (auto intro!: rules)

lemma rel_LOG_EXCEPTION: "keeps R (EXJLD_LOG_EXCEPTION fuel)"
  unfolding EXJLD_LOG_EXCEPTION_def ndrxj_ldr_exception_backtrace_def backtrace_body_def
  by (intro rules other rel_backtrace_recursive) (simp_all add: main_calls_def)

lemma rel_url_loop: "keeps R (url_loop a b c i qs)"
  by (induction qs arbitrary: i) (auto intro!: rules other simp: main_calls_def)

lemma rel_classpath_urls: "keeps R (ndrxj_build_classpath_urls lst)"
  unfolding ndrxj_build_classpath_urls_def classpath_urls_body_def
  by (intro rules other rel_url_loop) (simp_all add: main_calls_def)

lemma rel_create_loader: "keeps R (create_loader fuel)"
  unfolding create_loader_def create_loader_body_def create_static_loader_def system_loader_def define_loader_class_def
  by (intro rules other rel_LOG_EXCEPTION rel_classpath_urls) (simp_all add: main_calls_def jst.truncate_def)

lemma rel_java_opts: "keeps R (java_opts L kvs opts)"
proof (induction kvs arbitrary: opts)
  case (Cons kv kvs)
  then show ?case by (cases kv) (auto intro!: rules simp: jst.truncate_def)
qed (auto intro!: rules)

lemma rel_getvm: "keeps R (ndrxj_ldr_getvm fuel L a b c d)"
  unfolding ndrxj_ldr_getvm_def getvm_body_def load_java_config_def
  by (intro rules other rel_java_opts rel_create_loader rel_LOG_EXCEPTION) (simp_all add: main_calls_def jst.truncate_def)

lemma rel_static_handler: "keeps R (ndrxj_ldr_get_static_handler fuel a b c)"
  unfolding ndrxj_ldr_get_static_handler_def static_handler_body_def
  by (intro rules other rel_LOG_EXCEPTION) (simp_all add: main_calls_def)

lemma rel_set_args: "keeps R (set_args fuel args i as)"
  by (induction fuel args i as rule: set_args.induct) (auto intro!: rules other rel_LOG_EXCEPTION simp: main_calls_def)

lemma rel_run_ldr_main: "(''CallStaticVoidMethod'' \<in> X \<Longrightarrow> test_mode) \<Longrightarrow> keeps R (run_ldr_main fuel m argv test_mode)"
  unfolding run_ldr_main_def run_ldr_body_def
  by (intro rules rel_LOG_EXCEPTION rel_set_args rel_static_handler) (auto dest: subsetD [OF special] simp: main_calls_def)

end

lemma no_use_silent: "f \<in> main_calls \<Longrightarrow> silent (no_use f) {f}"
  by unfold_locales (auto simp: keeps_def run_simps no_use_def jst.truncate_def)

interpretation nu_main: silent "no_use ''CallStaticVoidMethod''" "{''CallStaticVoidMethod''}"
  by (rule no_use_silent) (simp add: main_calls_def)

interpretation nu_destroy: silent "no_use ''DestroyJavaVM''" "{''DestroyJavaVM''}"
  by (rule no_use_silent) (simp add: main_calls_def)

subsection \<open>Properties\<close>

text \<open>C4. The binary search terminates, never reads outside the table, and decides membership: on a table
  sorted by name it returns a row with the name asked for exactly when there is one.\<close>

theorem index_search_correct:
  assumes "sorted (map idx_cls index)"
  shows "case index_search index utf 0 (int (length index) - 1) of
      Found m \<Rightarrow> 0 \<le> m \<and> m < int (length index) \<and> idx_cls (index ! nat m) = utf
    | Not_found \<Rightarrow> utf \<notin> idx_cls ` set index
    | Out_of_bounds \<Rightarrow> False"
proof (cases "index_search index utf 0 (int (length index) - 1)")
  case (Found m)
  then show ?thesis using index_search_found [OF Found] by simp
next
  case Not_found
  then have "index_find index utf = None" by (simp add: index_find_def)
  with Not_found idx.missing [OF assms] show ?thesis by simp
next
  case Out_of_bounds
  then show ?thesis using index_search_in_bounds [of 0 "int (length index) - 1" index utf] by simp
qed

definition demo_index :: "class_index list" where
  "demo_index = [\<lparr>idx_cls = ''B'', idx_data = [2], idx_len = 1\<rparr>, \<lparr>idx_cls = ''a.A'', idx_data = [1, 1], idx_len = 2\<rparr>]"

lemma demo_index_sorted [simp]: "sorted (map idx_cls demo_index)"
  using strcmp_less [of "''B''" "''a.A''"] by (simp add: demo_index_def less_imp_le)

theorem index_search_correct_witness:
  "case index_search demo_index ''a.A'' 0 (int (length demo_index) - 1) of
      Found m \<Rightarrow> 0 \<le> m \<and> m < int (length demo_index) \<and> idx_cls (demo_index ! nat m) = ''a.A''
    | Not_found \<Rightarrow> ''a.A'' \<notin> idx_cls ` set demo_index
    | Out_of_bounds \<Rightarrow> False"
  using index_search_correct [OF demo_index_sorted] by blast

text \<open>On a sorted table without duplicates the search is the finite map from names to rows.\<close>

theorem index_find_map:
  assumes "sorted (map idx_cls index)" "distinct (map idx_cls index)"
  shows "map_option (\<lambda>i. idx_data (index ! i)) (index_find index utf) =
    map_of (map (\<lambda>e. (idx_cls e, idx_data e)) index) utf"
  using idx.find_value [OF assms] .

theorem index_find_map_witness:
  "map_option (\<lambda>i. idx_data (demo_index ! i)) (index_find demo_index ''B'') = Some [2]"
  using index_find_map [OF demo_index_sorted, of "''B''"] by (simp add: demo_index_def)


definition demo_ldr :: ldr where
  "demo_ldr = \<lparr>orc = quiet, tr = [], flt = [], M_classLoaderClass = 0, M_classLoader = 0, M_classpath_url = [],
     M_class_index = demo_index, M_class_index_len = 2, M_res_index = [], M_res_index_len = 0\<rparr>"


text \<open>Both native methods of the loader release every string copy they take, whatever the VM does.\<close>

theorem natives_release_copies:
  "copies (tr (exec (ndrxj_getClassBytes fuel c) s)) = copies (tr s) \<and>
   copies (tr (exec (ndrxj_getResourceBytes fuel c) s)) = copies (tr s)"
  unfolding ndrxj_getClassBytes_def ndrxj_getResourceBytes_def
  by (simp add: run_simps balD [OF bal_getIndexBytes])



text \<open>\<open>ndrxj_FindClass\<close> asks the static loader, when there is one, for the name with dots for slashes, and
  leaves behind no local reference but the class it returns.\<close>

theorem FindClass_spec:
  assumes "ndrx_lib_ok L"
  shows "locals (tr (exec (ndrxj_FindClass L name) s)) =
      locals (tr s) + (if val (ndrxj_FindClass L name) s = 0 then 0 else 1) \<and>
    (M_classLoaderClass s \<noteq> 0 \<and> val (ndrxj_FindClass L name) s \<noteq> 0 \<longrightarrow>
      new_strings (tr (exec (ndrxj_FindClass L name) s)) =
      new_strings (tr s) @ [map (\<lambda>c. if c = CHR ''/'' then CHR ''.'' else c) name])"
proof -
  have "wp (ndrxj_FindClass L name) (\<lambda>x t. locals (tr t) = locals (tr s) + (if x = 0 then 0 else 1) \<and>
      (M_classLoaderClass s \<noteq> 0 \<and> x \<noteq> 0 \<longrightarrow> new_strings (tr t) =
        new_strings (tr s) @ [map (\<lambda>c. if c = CHR ''/'' then CHR ''.'' else c) name])) s"
    unfolding ndrxj_FindClass_def by (intro wp_intros) (auto simp: strchr_repl_map [OF assms])
  then show ?thesis by (auto dest!: wpD)
qed

theorem FindClass_spec_witness:
  "new_strings (tr (exec (ndrxj_FindClass plain_lib ''a/B'') (demo_ldr\<lparr>M_classLoaderClass := 5\<rparr>))) = [''a.B'']"
  using FindClass_spec [OF plain_lib_ok, of "''a/B''" "demo_ldr\<lparr>M_classLoaderClass := 5\<rparr>"]
  by (simp add: ndrxj_FindClass_def run_simps demo_ldr_def quiet_def)

text \<open>When the main class cannot be loaded, the clean-up of \<open>ndrxj_ldr_get_static_handler\<close> uses
  \<open>thread_class\<close>, which no statement on that path has assigned.\<close>

theorem static_handler_uninitialised:
  assumes "val (static_handler_body fuel rc sm sg) s = (r, c, m, None, j)"
  shows "''DeleteLocalRef(thread_class)'' \<in> set (flt (exec (ndrxj_ldr_get_static_handler fuel rc sm sg) s)) \<and> r = EXFAIL"
proof -
  have "wp (static_handler_body fuel rc sm sg) (\<lambda>(r, c, m, th, j) t. th = None \<longrightarrow> r = EXFAIL) s"
    unfolding static_handler_body_def
    by (intro wp_intros wp_any [of _ "EXJLD_LOG_EXCEPTION fuel"]) auto
  then have "r = EXFAIL" using assms by (auto dest!: wpD)
  then show ?thesis using assms by (simp add: ndrxj_ldr_get_static_handler_def run_simps)
qed

theorem static_handler_uninitialised_witness:
  "''DeleteLocalRef(thread_class)'' \<in>
     set (flt (exec (ndrxj_ldr_get_static_handler 0 ''M'' ''main'' ''()V'') (demo_ldr\<lparr>orc := \<lambda>h e. (quiet h e)\<lparr>ri := 0\<rparr>\<rparr>)))"
proof -
  let ?s = "demo_ldr\<lparr>orc := \<lambda>h e. (quiet h e)\<lparr>ri := 0\<rparr>\<rparr>"
  have "val (static_handler_body 0 ''M'' ''main'' ''()V'') ?s = (EXFAIL, 0, 0, None, 0)"
    by (simp add: static_handler_body_def run_simps quiet_def demo_ldr_def)
  from static_handler_uninitialised [OF this] show ?thesis by blast
qed

end
