(* ===== verification/Xa.thy ===== *)
theory Xa
  imports Unsol XaJava StaticLoader
begin

section \<open>The XA switch (\<open>xaj.c\<close>, \<open>xatmsrv.c\<close>, \<open>exjdbc.c\<close>)\<close>

text \<open>
  The core calls the functions of an XA switch in the context of a transaction manager or of an application; they run the methods of
  the adapter on the Java object of the context.  A process that was not started by Java creates the VM when the switch is loaded
  and the object of a context when it is first used.  The variables of the loader library (theory \<open>StaticLoader\<close>) change only
  while the VM is created, so the operations that come later take the VM and those variables as an argument.
\<close>

subsection \<open>The VM and the context object (\<open>xatmsrv.c\<close>)\<close>

type_synonym jvm = "int \<times> ldr"

text \<open>A call of the loader library: it shares the trace with the caller.\<close>

definition enter_ldr :: "ldr \<Rightarrow> jb \<Rightarrow> ldr" where
  "enter_ldr L s = L\<lparr>orc := orc s, tr := tr s, flt := flt s\<rparr>"

definition with_ldr :: "ldr \<Rightarrow> (ldr, 'a) state \<Rightarrow> (jb, 'a \<times> ldr) state" where
  "with_ldr L m = do {
     s \<leftarrow> State_Monad.get;
     let t = exec m (enter_ldr L s);
     State_Monad.update (\<lambda>s. s\<lparr>tr := tr t, flt := flt t\<rparr>);
     State_Monad.return (val m (enter_ldr L s), t)
   }"

text \<open>The output parameter for the environment of the VM.\<close>

definition created_env :: "trace \<Rightarrow> int" where
  "created_env h =
     (case filter (\<lambda>(e, r). case e of API f _ \<Rightarrow> f = ''JNI_CreateJavaVM'' | _ \<Rightarrow> False) h of
        (_, r) # _ \<Rightarrow> (case ro r of _ # env # _ \<Rightarrow> env | _ \<Rightarrow> 0)
      | [] \<Rightarrow> 0)"

definition ndrxj_jvm_create :: "ndrx_lib \<Rightarrow> ldr \<Rightarrow> int \<Rightarrow> (jb, int \<times> jvm) state" where
  "ndrxj_jvm_create lib L ctxpriv = do {
     fuel \<leftarrow> do { s \<leftarrow> State_Monad.get; State_Monad.return (bt_fuel s) };
     (M_jvm, L) \<leftarrow> with_ldr L (ndrxj_ldr_getvm fuel lib [] 0 [] 0);
     if M_jvm = 0 then State_Monad.return (EXFAIL, 0, L) else do {
     env \<leftarrow> do { s \<leftarrow> State_Monad.get; State_Monad.return (created_env (tr s)) };
     set_priv ctxpriv (\<lambda>p. p\<lparr>integptr1 := env\<rparr>);
     State_Monad.return (EXSUCCEED, M_jvm, L)
     }
   }"

text \<open>The object is created by the factory method of the class, for the context the thread is attached to.\<close>

definition create_ctx :: "int \<Rightarrow> int \<Rightarrow> int \<Rightarrow> (jb, int) state" where
  "create_ctx ctxpriv ctx_class factory_mid = do {
     ctx \<leftarrow> ext (API ''tpgetctxt'' [I 0]);
     let ctx = hd (ro ctx @ [0]);
     tpsetctxt ctx;
     set_priv ctxpriv (\<lambda>p. p\<lparr>integptr3 := ctx\<rparr>);
     jctx \<leftarrow> jni ''CallStaticObjectMethod'' [I ctx_class, I factory_mid, I ctx];
     e \<leftarrow> jni ''ExceptionCheck'' [];
     if e \<noteq> 0 then do { NDRXJ_LOG_EXCEPTION; jni ''ExceptionClear'' []; State_Monad.return EXFAIL }
     else if jctx = 0 then State_Monad.return EXFAIL
     else do {
       jctx \<leftarrow> jni ''NewGlobalRef'' [I jctx];
       set_priv ctxpriv (\<lambda>p. p\<lparr>integptr2 := jctx, integlng4 := integlng4 p OR NDRXJ_CTXFLAGS_SRV\<rparr>);
       State_Monad.return EXSUCCEED
     }
   }"

definition ndrxj_alloc_context :: "jvm \<Rightarrow> int \<Rightarrow> (jb, int) state" where
  "ndrxj_alloc_context V ctxpriv = do {
     ex ''ndrx_ctx_auto'' [I 0];
     whenM (fst V = 0) (fault ''AttachCurrentThread: no VM'');
     r \<leftarrow> ext (API ''AttachCurrentThread'' [I (fst V)]);
     if ri r \<noteq> 0 then State_Monad.return EXFAIL else do {
     set_priv ctxpriv (\<lambda>p. p\<lparr>integptr1 := hd (ro r @ [0])\<rparr>);
     fuel \<leftarrow> do { s \<leftarrow> State_Monad.get; State_Monad.return (bt_fuel s) };
     (h, _) \<leftarrow> with_ldr (snd V)
       (ndrxj_ldr_get_static_handler fuel ''org.endurox.AtmiCtx'' ''createAtmiCtx'' ''(J)Lorg/endurox/AtmiCtx;'');
     case h of (ret, ctx_class, factory_mid) \<Rightarrow> do {
       ret \<leftarrow> (if ret \<noteq> EXSUCCEED then State_Monad.return EXFAIL else create_ctx ctxpriv ctx_class factory_mid);
       delete_if ctx_class;
       State_Monad.return ret
     }}
   }"

subsection \<open>The entries (\<open>xaj.c\<close>)\<close>

definition XAER_RMFAIL :: int where "XAER_RMFAIL = -7"

text \<open>The common start: the object of the context is created if there is none.  The common exit: a pending exception is logged and cleared, and
  turns success into an error.\<close>

definition xa_ctx :: "jvm \<Rightarrow> int \<Rightarrow> (jb, int) state" where
  "xa_ctx V ctxpriv = do {
     p \<leftarrow> priv ctxpriv;
     if integptr2 p = 0 then ndrxj_alloc_context V ctxpriv else State_Monad.return EXSUCCEED
   }"

definition xa_exit :: "int \<Rightarrow> int \<Rightarrow> (jb, int) state" where
  "xa_exit ctxpriv ret = do {
     p \<leftarrow> priv ctxpriv;
     whenM (integptr1 p = 0) (fault ''ExceptionCheck: no environment'');
     e \<leftarrow> jni ''ExceptionCheck'' [];
     if e \<noteq> 0 then do {
       NDRXJ_LOG_EXCEPTION;
       jni ''ExceptionClear'' [];
       State_Monad.return (if ret = XA_OK then XAER_RMERR else ret)
     } else State_Monad.return ret
   }"

definition xa_info_entry :: "jvm \<Rightarrow> string \<Rightarrow> int \<Rightarrow> (jb, int) state" where
  "xa_info_entry V mid flags = do {
     ctxpriv \<leftarrow> ndrx_ctx_priv_get;
     a \<leftarrow> xa_ctx V ctxpriv;
     if a \<noteq> EXSUCCEED then xa_exit ctxpriv XAER_RMFAIL else do {
     p \<leftarrow> priv ctxpriv;
     tpsetctxt TPNULLCONTEXT;
     mid \<leftarrow> getv mid;
     ret \<leftarrow> java_call ''CallIntMethod'' [I (integptr2 p), I mid, I flags];
     p \<leftarrow> priv ctxpriv;
     tpsetctxt (integptr3 p);
     xa_exit ctxpriv ret
     }
   }"

definition sw_open_entry :: "jvm \<Rightarrow> int \<Rightarrow> (jb, int) state" where
  "sw_open_entry V flags = xa_info_entry V ''AtmiCtx_mid_xa_open_entry'' flags"

definition sw_close_entry :: "jvm \<Rightarrow> int \<Rightarrow> (jb, int) state" where
  "sw_close_entry V flags = xa_info_entry V ''AtmiCtx_mid_xa_close_entry'' flags"

text \<open>A missing transaction id is noticed only after it has been converted; a failed conversion is not noticed.\<close>

definition xa_xid_entry :: "jvm \<Rightarrow> string \<Rightarrow> XID option \<Rightarrow> int \<Rightarrow> (jb, int) state" where
  "xa_xid_entry V mid xid flags = do {
     ctxpriv \<leftarrow> ndrx_ctx_priv_get;
     a \<leftarrow> xa_ctx V ctxpriv;
     if a \<noteq> EXSUCCEED then xa_exit ctxpriv XAER_RMFAIL else
     case xid of
       None \<Rightarrow> do { fault ''ndrxj_cvt_xid_to_java(NULL)''; xa_exit ctxpriv XAER_RMERR }
     | Some xid \<Rightarrow> do {
         p \<leftarrow> priv ctxpriv;
         jxid \<leftarrow> ndrxj_cvt_xid_to_java xid;
         tpsetctxt TPNULLCONTEXT;
         mid \<leftarrow> getv mid;
         ret \<leftarrow> java_call ''CallIntMethod'' [I (integptr2 p), I mid, I jxid, I flags];
         p \<leftarrow> priv ctxpriv;
         tpsetctxt (integptr3 p);
         ret \<leftarrow> xa_exit ctxpriv ret;
         delete_if jxid;
         State_Monad.return ret
       }
   }"

definition sw_start_entry :: "jvm \<Rightarrow> XID option \<Rightarrow> int \<Rightarrow> (jb, int) state" where
  "sw_start_entry V xid flags = xa_xid_entry V ''AtmiCtx_mid_xa_start_entry'' xid flags"

definition sw_end_entry :: "jvm \<Rightarrow> XID option \<Rightarrow> int \<Rightarrow> (jb, int) state" where
  "sw_end_entry V xid flags = xa_xid_entry V ''AtmiCtx_mid_xa_end_entry'' xid flags"

definition sw_rollback_entry :: "jvm \<Rightarrow> XID option \<Rightarrow> int \<Rightarrow> (jb, int) state" where
  "sw_rollback_entry V xid flags = xa_xid_entry V ''AtmiCtx_mid_xa_rollback_entry'' xid flags"

definition sw_prepare_entry :: "jvm \<Rightarrow> XID option \<Rightarrow> int \<Rightarrow> (jb, int) state" where
  "sw_prepare_entry V xid flags = xa_xid_entry V ''AtmiCtx_mid_xa_prepare_entry'' xid flags"

definition sw_commit_entry :: "jvm \<Rightarrow> XID option \<Rightarrow> int \<Rightarrow> (jb, int) state" where
  "sw_commit_entry V xid flags = xa_xid_entry V ''AtmiCtx_mid_xa_commit_entry'' xid flags"

definition sw_forget_entry :: "jvm \<Rightarrow> XID option \<Rightarrow> int \<Rightarrow> (jb, int) state" where
  "sw_forget_entry V xid flags = xa_xid_entry V ''AtmiCtx_mid_xa_forget_entry'' xid flags"

text \<open>The list of XIDs that \<open>xa_recover\<close> has written into the array of the caller is returned with the code.\<close>

fun recover_loop :: "int \<Rightarrow> int \<Rightarrow> nat \<Rightarrow> int \<Rightarrow> XID list \<Rightarrow> (jb, int \<times> XID list) state" where
  "recover_loop xarr i 0 ret done = State_Monad.return (ret, done)"
| "recover_loop xarr i (Suc n) ret done = do {
     jxid \<leftarrow> jni ''GetObjectArrayElement'' [I xarr, I i];
     (r, x) \<leftarrow> ndrxj_cvt_xid_to_c jxid;
     if r \<noteq> EXSUCCEED then State_Monad.return (XAER_RMERR, done)
     else recover_loop xarr (i + 1) n (ret + 1) (done @ [x])
   }"

definition recover_list :: "int \<Rightarrow> int \<Rightarrow> (jb, int \<times> int \<times> XID list) state" where
  "recover_list retObj xcount = do {
     whenM (retObj = 0) (fault ''GetIntField(NULL)'');
     fid \<leftarrow> getv ''XidList_fid_ret'';
     ret \<leftarrow> jni ''GetIntField'' [I retObj, I fid];
     if ret \<noteq> XA_OK then State_Monad.return (ret, 0, []) else do {
     fid \<leftarrow> getv ''XidList_fid_list'';
     xarr \<leftarrow> jni ''GetObjectField'' [I retObj, I fid];
     if xarr = 0 then State_Monad.return (ret, 0, []) else do {
     jcount \<leftarrow> jni ''GetArrayLength'' [I xarr];
     (ret, done) \<leftarrow> recover_loop xarr 0 (nat (min xcount jcount)) ret [];
     State_Monad.return (ret, xarr, done)
     }}
   }"

definition sw_recover_entry :: "jvm \<Rightarrow> bool \<Rightarrow> int \<Rightarrow> int \<Rightarrow> (jb, int \<times> XID list) state" where
  "sw_recover_entry V xid xcount flags = do {
     ctxpriv \<leftarrow> ndrx_ctx_priv_get;
     a \<leftarrow> xa_ctx V ctxpriv;
     if a \<noteq> EXSUCCEED then do { ret \<leftarrow> xa_exit ctxpriv XAER_RMFAIL; State_Monad.return (ret, []) }
     else if \<not> xid then do { ret \<leftarrow> xa_exit ctxpriv XAER_RMERR; State_Monad.return (ret, []) }
     else do {
       p \<leftarrow> priv ctxpriv;
       tpsetctxt TPNULLCONTEXT;
       mid \<leftarrow> getv ''AtmiCtx_mid_xa_recover_entry'';
       retObj \<leftarrow> java_call ''CallObjectMethod'' [I (integptr2 p), I mid, I flags];
       p \<leftarrow> priv ctxpriv;
       tpsetctxt (integptr3 p);
       (ret, xarr, done) \<leftarrow> recover_list retObj xcount;
       ret \<leftarrow> xa_exit ctxpriv ret;
       delete_if xarr;
       State_Monad.return (ret, done)
     }
   }"

definition sw_complete_entry :: "(jb, int) state" where
  "sw_complete_entry = State_Monad.return XAER_RMERR"

subsection \<open>Loading the switch\<close>

text \<open>The environment variable with the configuration, and the JSON parser, are parameters.\<close>

definition xa_init_call :: "int \<Rightarrow> int \<Rightarrow> int \<Rightarrow> int \<Rightarrow> (jb, int) state" where
  "xa_init_call jobj ctxClass jclazz jsets = do {
     mid \<leftarrow> jni ''GetMethodID'' [I ctxClass, S ''ndrxj_xa_init'', S ''(Ljava/lang/String;[Ljava/lang/String;)I''];
     if mid = 0 then State_Monad.return TPESYSTEM else do {
     ctx \<leftarrow> ext (API ''tpgetctxt'' [I 0]);
     ret \<leftarrow> java_call ''CallIntMethod'' [I jobj, I mid, I jclazz, I jsets];
     tpsetctxt (hd (ro ctx @ [0]));
     State_Monad.return (if ret \<noteq> EXSUCCEED then TPESYSTEM else EXSUCCEED)
     }
   }"

definition xa_init_java :: "int \<Rightarrow> string \<Rightarrow> string list \<Rightarrow> (jb, int \<times> int \<times> int \<times> int) state" where
  "xa_init_java ctxpriv cl sets = do {
     jsets \<leftarrow> ndrxj_cvt_arr_c_to_java sets (int (length sets));
     if jsets = 0 then State_Monad.return (TPESYSTEM, 0, 0, 0) else do {
     jclazz \<leftarrow> jni ''NewStringUTF'' [S cl];
     if jclazz = 0 then State_Monad.return (TPESYSTEM, 0, jsets, 0) else do {
     p \<leftarrow> priv ctxpriv;
     ctxClass \<leftarrow> jni ''GetObjectClass'' [I (integptr2 p)];
     if ctxClass = 0 then State_Monad.return (TPESYSTEM, 0, jsets, jclazz) else do {
     ret \<leftarrow> xa_init_call (integptr2 p) ctxClass jclazz jsets;
     State_Monad.return (ret, ctxClass, jsets, jclazz)
     }}}
   }"

definition xa_init_body :: "ndrx_lib \<Rightarrow> (string \<Rightarrow> json option) \<Rightarrow> jvm \<Rightarrow> int \<Rightarrow> (jb, int \<times> int \<times> int \<times> int) state" where
  "xa_init_body lib parse V ctxpriv = do {
     opensrv \<leftarrow> ext (API ''getenv'' [S ''NDRX_XA_OPEN_STR'']);
     a \<leftarrow> xa_ctx V ctxpriv;
     if a \<noteq> EXSUCCEED then State_Monad.return (EXFAIL, 0, 0, 0) else
     case ndrxj_xa_cfgparse lib (if ri opensrv = 0 then None else parse (rs opensrv)) PATH_MAX of (r, cl, sets) \<Rightarrow>
       if r \<noteq> EXSUCCEED \<or> cl = [] then State_Monad.return (TPEINVAL, 0, 0, 0)
       else xa_init_java ctxpriv cl sets
   }"

definition ndrxj_xa_init :: "ndrx_lib \<Rightarrow> (string \<Rightarrow> json option) \<Rightarrow> jvm \<Rightarrow> (jb, int) state" where
  "ndrxj_xa_init lib parse V = do {
     ctxpriv \<leftarrow> ndrx_ctx_priv_get;
     (ret, ctxClass, jsets, jclazz) \<leftarrow> xa_init_body lib parse V ctxpriv;
     p \<leftarrow> priv ctxpriv;
     whenM (integptr1 p = 0) (fault ''ExceptionCheck: no environment'');
     e \<leftarrow> jni ''ExceptionCheck'' [];
     whenM (e \<noteq> 0) NDRXJ_LOG_EXCEPTION;
     delete_if ctxClass;
     delete_if jsets;
     delete_if jclazz;
     State_Monad.return ret
   }"

text \<open>\<open>ndrx_get_xa_switch\<close> of \<open>exjdbc.c\<close>: the address of the switch, found in the process or in a library that is loaded.\<close>

definition find_switch :: "(jb, int \<times> int) state" where
  "find_switch = do {
     rmlib \<leftarrow> ext (API ''getenv'' [S ''NDRX_XA_RMLIB'']);
     sw \<leftarrow> ex ''dlsym'' [I 0, S ''ndrxjsw''];
     if sw \<noteq> 0 then State_Monad.return (sw, 0) else do {
     handle \<leftarrow> ex ''dlopen'' [S (rs rmlib)];
     if handle = 0 then State_Monad.return (0, 0) else do {
     sw \<leftarrow> ex ''dlsym'' [I handle, S ''ndrxjsw''];
     State_Monad.return (sw, handle)
     }}
   }"

definition init_switch :: "ndrx_lib \<Rightarrow> (string \<Rightarrow> json option) \<Rightarrow> ldr \<Rightarrow> int \<Rightarrow> (jb, int) state" where
  "init_switch lib parse L ctxpriv = do {
     p \<leftarrow> priv ctxpriv;
     (r, V) \<leftarrow> (if integptr2 p = 0 then ndrxj_jvm_create lib L ctxpriv else State_Monad.return (EXSUCCEED, 0, L));
     if r \<noteq> EXSUCCEED then State_Monad.return EXFAIL else do {
     r \<leftarrow> ndrxj_xa_init lib parse V;
     if r \<noteq> EXSUCCEED then State_Monad.return EXFAIL else do {
     ex ''ndrx_xa_noapisusp'' [I 1];
     State_Monad.return EXSUCCEED
     }}
   }"

definition ndrx_get_xa_switch :: "ndrx_lib \<Rightarrow> (string \<Rightarrow> json option) \<Rightarrow> ldr \<Rightarrow> (jb, int) state" where
  "ndrx_get_xa_switch lib parse L = do {
     ctxpriv \<leftarrow> ndrx_ctx_priv_get;
     (sw, handle) \<leftarrow> find_switch;
     ret \<leftarrow> (if sw = 0 then State_Monad.return EXFAIL else init_switch lib parse L ctxpriv);
     whenM (ret \<noteq> EXSUCCEED \<and> handle \<noteq> 0) (ex ''dlclose'' [I handle]);
     State_Monad.return (if ret \<noteq> EXSUCCEED then 0 else sw)
   }"

subsection \<open>One call of the adapter\<close>

text \<open>\<open>settled ret k x h\<close>: after the trace \<open>k\<close> the VM was asked for an exception; if there was one it was cleared and the code \<open>ret\<close> was
  made an error.\<close>

definition settled :: "int \<Rightarrow> trace \<Rightarrow> int \<Rightarrow> trace \<Rightarrow> bool" where
  "settled ret k x h \<longleftrightarrow> (\<exists>n r. h = n @ (JNI ''ExceptionCheck'' [], r) # k \<and>
     (if ri r \<noteq> 0 then x = (if ret = XA_OK then XAER_RMERR else ret) \<and> (\<exists>q. (JNI ''ExceptionClear'' [], q) \<in> set n) else x = ret))"

lemma settledI:
  assumes "h = n @ (JNI ''ExceptionCheck'' [], r) # k"
    and "ri r = 0 \<Longrightarrow> x = ret" "ri r \<noteq> 0 \<Longrightarrow> x = (if ret = XA_OK then XAER_RMERR else ret) \<and> (JNI ''ExceptionClear'' [], q) \<in> set n"
  shows "settled ret k x h"
  unfolding settled_def using assms by (intro exI [of _ n] exI [of _ r]) auto

lemma settled_mono: "settled ret k x h \<Longrightarrow> suffix h h' \<Longrightarrow> settled ret k x h'"
proof -
  assume "settled ret k x h" "suffix h h'"
  then obtain n r m where "h = n @ (JNI ''ExceptionCheck'' [], r) # k" "h' = m @ h"
    "if ri r \<noteq> 0 then x = (if ret = XA_OK then XAER_RMERR else ret) \<and> (\<exists>q. (JNI ''ExceptionClear'' [], q) \<in> set n) else x = ret"
    unfolding settled_def suffix_def by blast
  then show ?thesis unfolding settled_def by (intro exI [of _ "m @ n"] exI [of _ r]) auto
qed

lemma plain_xa_exit: "keeps plain (xa_exit h ret)"
proof -
  have "keeps plain (priv h)" by (simp add: keeps_def priv_def run_simps plain.refl)
  then show ?thesis unfolding xa_exit_def by (intro plain_calls) (simp_all add: fns_defs)
qed

lemma xa_exit_wp: "wp (xa_exit h ret) (\<lambda>x t. plain s t \<and> settled ret (tr s) x (tr t)) s"
proof (rule wp_conj)
  show "wp (xa_exit h ret) (\<lambda>_. plain s) s" using plain_xa_exit by (simp add: keeps_def wp_def)
  have logged: "wp (do { NDRXJ_LOG_EXCEPTION; jni ''ExceptionClear'' []; State_Monad.return (if ret = XA_OK then XAER_RMERR else ret) })
      (\<lambda>x t. settled ret (tr s) x (tr t)) t"
    if t: "tr t = (JNI ''ExceptionCheck'' [], r) # tr s" "ri r \<noteq> 0" for t r
  proof (rule wp_bind, rule wp_keeps [OF plain_LOG_EXCEPTION], rule wp_bind, rule wp_jni, rule wp_return)
    fix u q
    assume "plain t u"
    then obtain n where "tr u = n @ tr t" using frameD(1) [of core_ev t u] by (auto simp: suffix_def)
    then show "settled ret (tr s) (if ret = XA_OK then XAER_RMERR else ret) (tr (u\<lparr>tr := (JNI ''ExceptionClear'' [], q) # tr u\<rparr>))"
      using t by (intro settledI [where n = "(JNI ''ExceptionClear'' [], q) # n" and r = r and q = q]) auto
  qed
  have check: "wp (do { e \<leftarrow> jni ''ExceptionCheck'' []; if e \<noteq> 0 then do { NDRXJ_LOG_EXCEPTION; jni ''ExceptionClear'' [];
      State_Monad.return (if ret = XA_OK then XAER_RMERR else ret) } else State_Monad.return ret }) (\<lambda>x t. settled ret (tr s) x (tr t)) t"
    if t: "tr t = tr s" for t
    by (rule wp_bind, rule wp_jni, rule wp_if, erule logged [rotated], simp add: t, rule wp_return,
        rule settledI [where n = "[]"]) (auto simp: t)
  show "wp (xa_exit h ret) (\<lambda>x t. settled ret (tr s) x (tr t)) s" unfolding xa_exit_def
    by (rule wp_bind, rule wp_priv, rule wp_bind, rule wp_if, rule wp_bind, rule wp_fault)
       (rule wp_return, rule check, simp)+
qed

text \<open>\<open>xa_called as s x t\<close>: the run from \<open>s\<close> to \<open>t\<close> detached the thread, made the call \<open>CallIntMethod\<close> with the arguments \<open>as\<close>, attached the thread to the
  context it came from, and did nothing else in the core or the application; \<open>x\<close> is the code that Java
  returned, made an error if an exception was pending.\<close>

definition xa_called :: "arg list \<Rightarrow> jb \<Rightarrow> int \<Rightarrow> jb \<Rightarrow> bool" where
  "xa_called as s x t \<longleftrightarrow> (\<exists>a b r k.
     core (tr t) = (API ''tpsetctxt'' [I (cur_ctx (tr s)), I 0], a) # (JNI ''CallIntMethod'' as, r) #
       (API ''tpsetctxt'' [I TPNULLCONTEXT, I 0], b) # core (tr s) \<and>
     suffix (tr s) k \<and> core k = core (tr t) \<and> settled (ri r) k x (tr t))"

lemma xa_called_suffix: "xa_called as s x t \<Longrightarrow> suffix (tr s) (tr t)"
  unfolding xa_called_def settled_def suffix_def by auto

lemma xa_called_more: "xa_called as s x t \<Longrightarrow> plain t u \<Longrightarrow> xa_called as s x u"
  unfolding xa_called_def by (elim exE conjE, intro exI conjI) (assumption | erule settled_mono | simp add: frameD(1,2))+

text \<open>\<open>attached c s\<close>: the thread is in the context \<open>c\<close>, whose private data name the context, and the application does not change that.\<close>

definition attached :: "int \<Rightarrow> jb \<Rightarrow> bool" where
  "attached c s \<longleftrightarrow> cur_ctx (tr s) = c \<and> integptr3 (privs s c) = c \<and> (\<forall>h p. integptr3 (reenter s h p c) = integptr3 (p c))"

lemma attached_plain: "attached c s \<Longrightarrow> plain s t \<Longrightarrow> attached c t"
  using inner_cur_ctx [OF plain_inner, of s t] frameD(4,5) [of core_ev s t] by (auto simp: attached_def cfg_def)

lemma xa_calledI:
  assumes "plain u t \<and> settled (ri r) (tr u) x (tr t)"
    and "tr u = (API ''tpsetctxt'' [I (cur_ctx (tr s)), I 0], a) # (JNI ''CallIntMethod'' as, r) # (API ''tpsetctxt'' [I TPNULLCONTEXT, I 0], b) # tr s"
  shows "xa_called as s x t"
  unfolding xa_called_def
  by (intro exI [of _ a] exI [of _ b] exI [of _ r] exI [of _ "tr u"])
     (use frameD(2) [OF assms(1) [THEN conjunct1]] assms in \<open>simp add: query_fns_def suffix_ConsI\<close>)

lemma xa_call_wp:
  assumes "attached c s" "\<And>x t. xa_called (as (gv s v)) s x t \<Longrightarrow> Q x t"
  shows "wp (do { tpsetctxt TPNULLCONTEXT; mid \<leftarrow> getv v; ret \<leftarrow> java_call ''CallIntMethod'' (as mid); p \<leftarrow> priv c; tpsetctxt (integptr3 p);
      xa_exit c ret }) Q s"
  unfolding java_call_def
  by (intro wp_bind wp_tpsetctxt wp_getv wp_jni wp_update wp_return wp_priv, rule wp_cons [OF xa_exit_wp], rule assms(2), erule xa_calledI)
     (use assms(1) in \<open>simp add: attached_def\<close>)

lemma xa_call_then_wp:
  assumes "attached c s" "\<And>x t. xa_called (as (gv s v)) s x t \<Longrightarrow> wp (k x) Q t"
  shows "wp (do { tpsetctxt TPNULLCONTEXT; mid \<leftarrow> getv v; ret \<leftarrow> java_call ''CallIntMethod'' (as mid); p \<leftarrow> priv c; tpsetctxt (integptr3 p);
      x \<leftarrow> xa_exit c ret; k x }) Q s"
  unfolding java_call_def
  by (intro wp_bind wp_tpsetctxt wp_getv wp_jni wp_update wp_return wp_priv, rule wp_cons [OF xa_exit_wp], rule assms(2), erule xa_calledI)
     (use assms(1) in \<open>simp add: attached_def\<close>)

text \<open>\<open>xid_object g xid j h\<close>: \<open>j\<close> is the object that was made of the transaction id, or \<open>null\<close> if the VM could not make one.\<close>

definition xid_object :: "(string \<Rightarrow> int) \<Rightarrow> XID \<Rightarrow> int \<Rightarrow> trace \<Rightarrow> bool" where
  "xid_object g xid j h \<longleftrightarrow>
     (if j = 0 then \<exists>f as r. f \<in> {''NewByteArray'', ''NewObject''} \<and> (JNI f as, r) \<in> set h \<and> ri r = 0
      else \<exists>jba r q. ri r = j \<and>
        (JNI ''SetByteArrayRegion'' [I jba, I 0, I (int XIDDATASIZE), Bs (xdata xid)], q) \<in> set h \<and>
        (JNI ''NewObject'' [I (g ''ExXid''), I (g ''ExXid_mid_INIT''), I (formatID xid), I (gtrid_length xid), I (bqual_length xid), I jba], r) \<in> set h)"

lemma xid_object_mono: "xid_object g xid j h \<Longrightarrow> suffix h h' \<Longrightarrow> xid_object g xid j h'"
proof -
  assume "xid_object g xid j h" "suffix h h'"
  then show ?thesis using set_mono_suffix [of h h'] unfolding xid_object_def by (meson subsetD)
qed

lemma xid_object_wp: "wp (ndrxj_cvt_xid_to_java xid) (\<lambda>j t. plain s t \<and> xid_object (gv s) xid j (tr t)) s"
proof (rule wp_conj)
  show "wp (ndrxj_cvt_xid_to_java xid) (\<lambda>_. plain s) s" using plain_xid_to_java by (simp add: keeps_def wp_def)
  have null: "xid_object (gv s) xid 0 (m @ tr t)"
    if "plain (u\<lparr>tr := (JNI f as, r) # k\<rparr>) t" "f \<in> {''NewByteArray'', ''NewObject''}" "ri r = 0" for u t k m f as r
    unfolding xid_object_def using that set_mono_suffix [OF frameD(1) [OF that(1)]] by auto
  show "wp (ndrxj_cvt_xid_to_java xid) (\<lambda>j t. xid_object (gv s) xid j (tr t)) s"
    unfolding ndrxj_cvt_xid_to_java_def
    apply (rule wp_bind, rule wp_jni, rule wp_if, rule wp_bind, rule wp_keeps [OF plain_LOG_EXCEPTION], rule wp_return)
     apply (drule null [where m = "[]"], simp, assumption, simp)
    apply (rule wp_bind, rule wp_jni, rule wp_bind, rule wp_getv, rule wp_bind, rule wp_getv, rule wp_bind, rule wp_jni, rule wp_bind, rule wp_if)
     apply (rule wp_bind, rule wp_keeps [OF plain_LOG_EXCEPTION], rule wp_return, rule wp_bind, rule wp_jni, rule wp_return)
     apply (drule null [where m = "[p]" for p], simp, assumption, simp)
    apply (rule wp_return, rule wp_bind, rule wp_jni, rule wp_return, auto simp: xid_object_def)
    done
qed

subsection \<open>The first use of a context\<close>

text \<open>The calls that matter here: those of the adapter, and those that switch the context.  The loader makes none of them.\<close>

definition xa_fns :: "string set" where
  "xa_fns = {''CallIntMethod'', ''tpsetctxt'', ''tpgetctxt'', ''tpnewctxt''}"

fun xa_ev :: "ev \<Rightarrow> bool" where
  "xa_ev (JNI f as) = (f = ''CallIntMethod'')"
| "xa_ev (API f as) = (f \<in> xa_fns - {''CallIntMethod''})"

fun int_ev :: "ev \<Rightarrow> bool" where
  "int_ev (JNI f as) = (f = ''CallIntMethod'')"
| "int_ev (API f as) = False"

definition still :: "'z jst_scheme \<Rightarrow> 'z jst_scheme \<Rightarrow> bool" where
  "still s t \<longleftrightarrow> suffix (tr s) (tr t) \<and> obs xa_ev (tr t) = obs xa_ev (tr s)"

interpretation xs: silent still xa_fns
proof unfold_locales
  show "xa_fns \<subseteq> main_calls" by (simp add: xa_fns_def main_calls_def)
  show "still s t \<Longrightarrow> still t u \<Longrightarrow> still s u" for s t u :: "'z ldr_scheme" by (auto simp: still_def intro: suffix_order.trans)
qed (auto simp: still_def keeps_def run_simps suffix_ConsI jst.truncate_def xa_fns_def)

lemma cur_ctx_xa: "cur_ctx (obs xa_ev h) = cur_ctx h"
proof (induction h)
  case (Cons p h)
  then show ?case by (cases "p # h" rule: cur_ctx.cases) (auto simp: xa_fns_def)
qed simp

lemma int_xa: "obs int_ev (obs xa_ev h) = obs int_ev h"
  by (rule obs_obs) (case_tac e; simp add: xa_fns_def)

lemma stillD:
  assumes "still s t"
  shows "suffix (tr s) (tr t)" "cur_ctx (tr t) = cur_ctx (tr s)" "obs int_ev (tr t) = obs int_ev (tr s)"
  using assms cur_ctx_xa [of "tr s"] cur_ctx_xa [of "tr t"] int_xa [of "tr s"] int_xa [of "tr t"] by (simp_all add: still_def)

lemma plain_still: "plain s t \<Longrightarrow> still s t"
proof -
  have "obs xa_ev (core h) = obs xa_ev h" for h
  proof (rule obs_obs)
    show "xa_ev e \<Longrightarrow> core_ev e" for e by (cases e) (auto simp: xa_fns_def query_fns_def)
  qed
  note e = this [of "tr s"] this [of "tr t"]
  assume "plain s t"
  note p = frameD(1,2) [OF this]
  show "still s t" unfolding still_def using p(1) e unfolding p(2) by simp
qed

lemma with_ldr_wp:
  assumes "keeps still m" "\<And>x t f. still s t \<Longrightarrow> t = s\<lparr>tr := tr t, flt := f\<rparr> \<Longrightarrow> Q x t"
  shows "wp (with_ldr L m) Q s"
proof -
  let ?u = "exec m (enter_ldr L s)"
  have "still (enter_ldr L s) ?u" by (rule keepsD [OF assms(1)])
  then have "still s (s\<lparr>tr := tr ?u, flt := flt ?u\<rparr>)" by (simp add: still_def enter_ldr_def)
  from assms(2) [OF this] show ?thesis unfolding with_ldr_def by (intro wp_bind wp_get wp_let wp_update wp_return) simp
qed

text \<open>\<open>used s t\<close>: the adapter was not called, and the thread is in the context it was in.\<close>

definition used :: "jb \<Rightarrow> jb \<Rightarrow> bool" where
  "used s t \<longleftrightarrow> suffix (tr s) (tr t) \<and> obs int_ev (tr t) = obs int_ev (tr s) \<and> cur_ctx (tr t) = cur_ctx (tr s) \<and> cfg t = cfg s"

interpretation used: run_rel used
  by unfold_locales (auto simp: used_def intro: suffix_order.trans)

lemma plain_used: "plain s t \<Longrightarrow> used s t"
  using stillD [OF plain_still, of s t] by (simp add: used_def frame_def)

definition bound :: "int \<Rightarrow> int \<Rightarrow> jb \<Rightarrow> bool" where
  "bound c r t \<longleftrightarrow> (r = EXSUCCEED \<longrightarrow> integptr3 (privs t c) = c \<and> is_srv (privs t c))"

lemma srv_set: "is_srv (p\<lparr>integptr2 := a, integlng4 := x OR NDRXJ_CTXFLAGS_SRV\<rparr>)"
  by (simp add: is_srv_def NDRXJ_CTXFLAGS_SRV_def bit.conj_disj_distrib2 or_eq_0_iff)

lemma create_ctx_wp:
  assumes "cur_ctx (tr s) = c" "\<forall>h. ro (orc s h (API ''tpgetctxt'' [I 0])) = [cur_ctx h]"
  shows "wp (create_ctx c cls mid) (\<lambda>r t. used s t \<and> bound c r t) s"
proof -
  have log: "wp (do { NDRXJ_LOG_EXCEPTION; jni ''ExceptionClear'' []; State_Monad.return EXFAIL }) (\<lambda>r t. used s t \<and> bound c r t) t" if "used s t" for t
  proof (rule wp_bind, rule wp_keeps [OF plain_LOG_EXCEPTION], rule wp_bind, rule wp_jni, rule wp_return)
    fix u r
    assume "plain t u"
    then have "used s u" using used.trans [OF that] plain_used by blast
    then show "used s (u\<lparr>tr := (JNI ''ExceptionClear'' [], r) # tr u\<rparr>) \<and> bound c EXFAIL (u\<lparr>tr := (JNI ''ExceptionClear'' [], r) # tr u\<rparr>)"
      by (simp add: used_def suffix_ConsI bound_def)
  qed
  show ?thesis unfolding create_ctx_def
    by (intro wp_bind wp_let wp_ext_o wp_tpsetctxt wp_set_priv wp_jni wp_if log wp_return)
       (use assms in \<open>simp_all add: used_def bound_def suffix_ConsI srv_set\<close>)
qed

lemma alloc_context_wp:
  assumes "cur_ctx (tr s) = c" "\<forall>h. ro (orc s h (API ''tpgetctxt'' [I 0])) = [cur_ctx h]"
  shows "wp (ndrxj_alloc_context V c) (\<lambda>r t. used s t \<and> bound c r t) s"
proof -
  have del: "wp (do { delete_if k; State_Monad.return r }) (\<lambda>r t. used s t \<and> bound c r t) t" if "used s t \<and> bound c r t" for r t k
  proof (rule wp_bind, rule wp_keeps [OF plain_delete_if], rule wp_return)
    fix u
    assume "plain t u"
    then show "used s u \<and> bound c r u" using that used.trans [OF _ plain_used] frameD(4) [of core_ev t u] by (auto simp: bound_def)
  qed
  have create: "wp (do { r \<leftarrow> (if ret \<noteq> EXSUCCEED then State_Monad.return EXFAIL else create_ctx c cls mid); delete_if cls; State_Monad.return r })
      (\<lambda>r t. used s t \<and> bound c r t) t" if t: "used s t" for t ret cls mid
  proof (rule wp_bind, rule wp_if)
    show "wp (State_Monad.return EXFAIL) (\<lambda>r. wp (do { delete_if cls; State_Monad.return r }) (\<lambda>r t. used s t \<and> bound c r t)) t"
      by (rule wp_return, rule del) (simp add: t bound_def)
    have "cur_ctx (tr t) = c" "\<forall>h. ro (orc t h (API ''tpgetctxt'' [I 0])) = [cur_ctx h]" using t assms by (simp_all add: used_def cfg_def)
    then show "wp (create_ctx c cls mid) (\<lambda>r. wp (do { delete_if cls; State_Monad.return r }) (\<lambda>r t. used s t \<and> bound c r t)) t"
      by (rule wp_cons [OF create_ctx_wp], intro del) (use used.trans [OF t] in blast)
  qed
  have ldr: "used s u" if "used s t" "still t u" "u = t\<lparr>tr := tr u, flt := f\<rparr>" for t u f
  proof -
    have "cfg u = cfg t" by (subst that(3)) simp
    then have "used t u" using stillD [OF that(2)] by (simp add: used_def)
    then show ?thesis by (rule used.trans [OF that(1)])
  qed
  have handler: "wp (do { fuel \<leftarrow> do { s \<leftarrow> State_Monad.get; State_Monad.return (bt_fuel s) };
        (h, _) \<leftarrow> with_ldr L (ndrxj_ldr_get_static_handler fuel a b d);
        case h of (ret, cls, mid) \<Rightarrow> do { r \<leftarrow> (if ret \<noteq> EXSUCCEED then State_Monad.return EXFAIL else create_ctx c cls mid);
          delete_if cls; State_Monad.return r } })
      (\<lambda>r t. used s t \<and> bound c r t) t" if t: "used s t" for t L a b d
    by (rule wp_bind, rule wp_bind, rule wp_get, rule wp_return, rule wp_bind, rule with_ldr_wp [OF xs.rel_static_handler], intro wp_prod)
       (rule create, erule ldr [OF t])
  have attach: "wp (do { r \<leftarrow> ext (API ''AttachCurrentThread'' as);
        if ri r \<noteq> 0 then State_Monad.return EXFAIL else do {
          set_priv c (\<lambda>p. p\<lparr>integptr1 := hd (ro r @ [0])\<rparr>);
          fuel \<leftarrow> do { s \<leftarrow> State_Monad.get; State_Monad.return (bt_fuel s) };
          (h, _) \<leftarrow> with_ldr L (ndrxj_ldr_get_static_handler fuel a b d);
          case h of (ret, cls, mid) \<Rightarrow> do { r \<leftarrow> (if ret \<noteq> EXSUCCEED then State_Monad.return EXFAIL else create_ctx c cls mid);
            delete_if cls; State_Monad.return r } } })
      (\<lambda>r t. used s t \<and> bound c r t) t" if "used s t" for t as L a b d
    apply (rule wp_bind, rule wp_ext, rule wp_if)
     apply (rule wp_return, use that in \<open>simp add: used_def bound_def suffix_ConsI\<close>)
    by (rule wp_bind, rule wp_set_priv, rule handler) (use that in \<open>simp add: used_def suffix_ConsI\<close>)
  show ?thesis unfolding ndrxj_alloc_context_def
    by (rule wp_bind, rule wp_ex, rule wp_bind, rule wp_if, rule wp_bind, rule wp_fault)
       (rule wp_return, rule attach, simp add: used_def suffix_ConsI)+
qed

subsection \<open>The entries\<close>

text \<open>\<open>xa_outcome c A s x t\<close>: the adapter is called on the object of the context, with arguments that satisfy \<open>A\<close>.  If there is no object
  yet it is created first, and bound to the context; if that fails the entry fails and the adapter is not called.\<close>

definition xa_outcome :: "int \<Rightarrow> (int \<Rightarrow> trace \<Rightarrow> arg list \<Rightarrow> bool) \<Rightarrow> jb \<Rightarrow> int \<Rightarrow> jb \<Rightarrow> bool" where
  "xa_outcome c A s x t \<longleftrightarrow>
     (if integptr2 (privs s c) \<noteq> 0 then \<exists>as. A (integptr2 (privs s c)) (tr t) as \<and> xa_called as s x t
      else used s t \<and> x = XAER_RMFAIL \<or>
        (\<exists>u as. used s u \<and> integptr3 (privs u c) = c \<and> is_srv (privs u c) \<and> A (integptr2 (privs u c)) (tr t) as \<and> xa_called as u x t))"

text \<open>\<open>ready c s\<close>: the thread is in the context \<open>c\<close>; its private data, if they are set, and the core name it, and the application keeps them.\<close>

definition ready :: "int \<Rightarrow> jb \<Rightarrow> bool" where
  "ready c s \<longleftrightarrow> cur_ctx (tr s) = c \<and> (integptr2 (privs s c) \<noteq> 0 \<longrightarrow> integptr3 (privs s c) = c) \<and>
     (\<forall>h p. integptr3 (reenter s h p c) = integptr3 (p c)) \<and> (\<forall>h. ro (orc s h (API ''tpgetctxt'' [I 0])) = [cur_ctx h])"

lemma rmfail_wp: "used s t \<Longrightarrow> wp (xa_exit c XAER_RMFAIL) (\<lambda>x u. used s u \<and> x = XAER_RMFAIL) t"
proof (rule wp_cons [OF xa_exit_wp])
  fix x u
  assume "used s t" "plain t u \<and> settled XAER_RMFAIL (tr t) x (tr u)"
  then show "used s u \<and> x = XAER_RMFAIL"
    using used.trans [OF _ plain_used] by (auto simp: settled_def XAER_RMFAIL_def XA_OK_def split: if_splits)
qed

lemma xa_entry_wp:
  assumes "ready c s"
    and call: "\<And>u. attached c u \<Longrightarrow> gv u = gv s \<Longrightarrow> wp m (\<lambda>x t. \<exists>as. A (integptr2 (privs u c)) (tr t) as \<and> xa_called as u x t) u"
  shows "wp (do { a \<leftarrow> xa_ctx V c; if a \<noteq> EXSUCCEED then xa_exit c XAER_RMFAIL else m }) (xa_outcome c A s) s"
proof (cases "integptr2 (privs s c) = 0")
  case True
  have cont: "wp (if a \<noteq> EXSUCCEED then xa_exit c XAER_RMFAIL else m) (xa_outcome c A s) u" if u: "used s u \<and> bound c a u" for a u
  proof (rule wp_if)
    show "wp (xa_exit c XAER_RMFAIL) (xa_outcome c A s) u"
      by (rule wp_cons [OF rmfail_wp]) (use u True in \<open>auto simp: xa_outcome_def\<close>)
    assume "\<not> a \<noteq> EXSUCCEED"
    then have b: "integptr3 (privs u c) = c" "is_srv (privs u c)" using u by (auto simp: bound_def)
    then have "attached c u" "gv u = gv s" using u assms(1) by (auto simp: attached_def used_def ready_def cfg_def)
    then show "wp m (xa_outcome c A s) u"
      by (rule wp_cons [OF call]) (use u b True in \<open>auto simp: xa_outcome_def\<close>)
  qed
  have "wp (ndrxj_alloc_context V c) (\<lambda>a. wp (if a \<noteq> EXSUCCEED then xa_exit c XAER_RMFAIL else m) (xa_outcome c A s)) s"
    using assms(1) by (intro wp_cons [OF alloc_context_wp] cont) (auto simp: ready_def)
  then show ?thesis unfolding xa_ctx_def by (intro wp_bind wp_priv wp_if) (simp_all add: True)
next
  case False
  then have "attached c s" using assms(1) by (auto simp: attached_def ready_def)
  then have "wp m (xa_outcome c A s) s" by (rule wp_cons [OF call]) (use False in \<open>auto simp: xa_outcome_def\<close>)
  then show ?thesis unfolding xa_ctx_def using False
    by (intro wp_bind wp_priv wp_if wp_return) auto
qed

lemma xa_info_wp:
  assumes "ready c s"
  shows "wp (xa_info_entry V mid flags) (xa_outcome c (\<lambda>obj h as. as = [I obj, I (gv s mid), I flags]) s) s"
proof -
  have c: "cur_ctx (tr s) = c" using assms by (simp add: ready_def)
  show ?thesis unfolding xa_info_entry_def
  proof (rule wp_bind, rule wp_priv_get, unfold c, rule xa_entry_wp [OF assms], rule wp_bind, rule wp_priv, rule xa_call_wp)
    fix u x t
    assume "gv u = gv s" "xa_called [I (integptr2 (privs u c)), I (gv u mid), I flags] u x t"
    then show "\<exists>as. as = [I (integptr2 (privs u c)), I (gv s mid), I flags] \<and> xa_called as u x t" by simp
  qed
qed

lemma xa_called_start:
  assumes "plain s u" "xa_called as u x t"
  shows "xa_called as s x t"
proof -
  note p = inner_cur_ctx [OF plain_inner [OF assms(1)]] frameD(1,2) [OF assms(1)]
  show ?thesis using assms(2) suffix_order.trans [OF p(2)] unfolding xa_called_def p(1) p(3) by blast
qed

lemma xa_xid_wp:
  assumes "ready c s"
  shows "wp (xa_xid_entry V mid (Some xid) flags)
    (xa_outcome c (\<lambda>obj h as. \<exists>j. as = [I obj, I (gv s mid), I j, I flags] \<and> xid_object (gv s) xid j h) s) s"
proof -
  have c: "cur_ctx (tr s) = c" using assms by (simp add: ready_def)
  show ?thesis unfolding xa_xid_entry_def option.case
  proof (rule wp_bind, rule wp_priv_get, unfold c, rule xa_entry_wp [OF assms], rule wp_bind, rule wp_priv, rule wp_bind,
      rule wp_cons [OF xid_object_wp], rule xa_call_then_wp, rule attached_plain)
    fix u j v x t
    assume u: "gv u = gv s" "plain u v \<and> xid_object (gv u) xid j (tr v)"
      and t: "xa_called [I (integptr2 (privs u c)), I (gv v mid), I j, I flags] v x t"
    have "gv v = gv s" using u frameD(5) [of core_ev u v] by (auto dest: cfg_gv)
    then have t': "xa_called [I (integptr2 (privs u c)), I (gv s mid), I j, I flags] u x t"
      using xa_called_start [OF _ t] u(2) by simp
    have o: "xid_object (gv s) xid j (tr t)" using xid_object_mono [OF _ xa_called_suffix [OF t]] u by simp
    show "wp (do { delete_if j; State_Monad.return x })
      (\<lambda>x t. \<exists>as. (\<exists>j. as = [I (integptr2 (privs u c)), I (gv s mid), I j, I flags] \<and> xid_object (gv s) xid j (tr t)) \<and> xa_called as u x t) t"
    proof (rule wp_bind, rule wp_keeps [OF plain_delete_if], rule wp_return)
      fix w
      assume "plain t w"
      then show "\<exists>as. (\<exists>j. as = [I (integptr2 (privs u c)), I (gv s mid), I j, I flags] \<and> xid_object (gv s) xid j (tr w)) \<and> xa_called as u x w"
        using xa_called_more [OF t'] xid_object_mono [OF o frameD(1)] by blast
    qed
  qed auto
qed



subsection \<open>Recovery\<close>

lemma recover_loop_wp:
  "ret = int (length done) \<Longrightarrow>
   wp (recover_loop xarr i n ret done) (\<lambda>(r, out) t. plain s t \<and> length out \<le> length done + n \<and> (r = int (length out) \<or> r = XAER_RMERR)) s"
proof (induction n arbitrary: i ret "done" s)
  case (Suc n)
  let ?Q = "\<lambda>(r, out) t. plain s t \<and> length out \<le> length done + Suc n \<and> (r = int (length out) \<or> r = XAER_RMERR)"
  have more: "wp (recover_loop xarr (i + 1) n (ret + 1) (done @ [x])) ?Q u" if "plain s u" for x u
    by (rule wp_cons [OF Suc.IH]) (use Suc.prems plain.trans [OF that] in auto)
  have step: "plain s u" if "plain (s\<lparr>tr := (JNI ''GetObjectArrayElement'' as, r) # tr s\<rparr>) u" for as r u
    using plain.trans [OF _ that, of s] by (simp add: frame_def suffix_ConsI)
  show ?case unfolding recover_loop.simps
    apply (rule wp_bind, rule wp_jni, rule wp_bind, rule wp_keeps [OF plain_xid_to_c], rule wp_prod, rule wp_if)
     apply (rule wp_return, use step in auto) []
    apply (rule more, erule step)
    done
qed (auto simp: plain.refl intro!: wp_return)

lemma recover_list_wp:
  "wp (recover_list obj n) (\<lambda>(r, xarr, out) t. plain s t \<and> length out \<le> nat n \<and> (out \<noteq> [] \<longrightarrow> r = int (length out) \<or> r = XAER_RMERR)) s"
proof -
  let ?Q = "\<lambda>(r, xarr, out) t. plain s t \<and> length out \<le> nat n \<and> (out \<noteq> [] \<longrightarrow> r = int (length out) \<or> r = XAER_RMERR)"
  have loop: "wp (do { (ret, done) \<leftarrow> recover_loop xarr 0 (nat (min n j)) XA_OK []; State_Monad.return (ret, xarr, done) }) ?Q u" if "plain s u" for j u xarr
    by (rule wp_bind, rule wp_cons [OF recover_loop_wp], simp add: XA_OK_def, rule wp_prod, rule wp_return)
       (use plain.trans [OF that] in auto)
  have rest: "wp (do { fid \<leftarrow> getv ''XidList_fid_ret''; ret \<leftarrow> jni ''GetIntField'' [I obj, I fid];
     if ret \<noteq> XA_OK then State_Monad.return (ret, 0, []) else do {
     fid \<leftarrow> getv ''XidList_fid_list''; xarr \<leftarrow> jni ''GetObjectField'' [I obj, I fid];
     if xarr = 0 then State_Monad.return (ret, 0, []) else do {
     j \<leftarrow> jni ''GetArrayLength'' [I xarr];
     (ret, done) \<leftarrow> recover_loop xarr 0 (nat (min n j)) ret []; State_Monad.return (ret, xarr, done) }} }) ?Q u" if "plain s u" for u
    apply (rule wp_bind, rule wp_getv, rule wp_bind, rule wp_jni, rule wp_if, rule wp_return)
     apply (use that in \<open>simp add: frame_def suffix_ConsI\<close>) []
    apply (rule wp_bind, rule wp_getv, rule wp_bind, rule wp_jni, rule wp_if, rule wp_return)
     apply (use that in \<open>simp add: frame_def suffix_ConsI\<close>) []
    apply (rule wp_bind, rule wp_jni, simp only: not_not, rule loop)
    apply (use that in \<open>simp add: frame_def suffix_ConsI\<close>)
    done
  show ?thesis unfolding recover_list_def
    by (rule wp_bind, rule wp_if, rule wp_bind, rule wp_fault) (rule wp_return, rule rest, simp add: frame_def)+
qed

lemma recover_wp:
  assumes "attached c s" "integptr2 (privs s c) \<noteq> 0"
  shows "wp (sw_recover_entry V True n flags)
    (\<lambda>(r, out) t. cur_ctx (tr t) = c \<and> length out \<le> nat n \<and> (out \<noteq> [] \<longrightarrow> r = int (length out) \<or> r = XAER_RMERR)) s"
proof -
  let ?Q = "\<lambda>(r, out) t. cur_ctx (tr t) = c \<and> length out \<le> nat n \<and> (out \<noteq> [] \<longrightarrow> r = int (length out) \<or> r = XAER_RMERR)"
  have c: "cur_ctx (tr s) = c" using assms by (simp add: attached_def)
  have ctx: "cur_ctx (tr v) = c" if "cur_ctx (tr u) = c" "plain u v" for u v
    using inner_cur_ctx [OF plain_inner [OF that(2)]] that(1) by simp
  have exit: "wp (do { ret \<leftarrow> xa_exit c r; delete_if xarr; State_Monad.return (ret, out) }) ?Q u"
    if "cur_ctx (tr u) = c" "length out \<le> nat n \<and> (out \<noteq> [] \<longrightarrow> r = int (length out) \<or> r = XAER_RMERR)" for u r out xarr
  proof (rule wp_bind, rule wp_cons [OF xa_exit_wp], rule wp_bind, rule wp_keeps [OF plain_delete_if], rule wp_return)
    fix x v w
    assume v: "plain u v \<and> settled r (tr u) x (tr v)" "plain v w"
    have "r \<noteq> XA_OK \<longrightarrow> x = r" using v(1) by (auto simp: settled_def split: if_splits)
    then show "?Q (x, out) w" using that ctx [OF ctx [OF that(1)]] v by (auto simp: XA_OK_def XAER_RMERR_def)
  qed
  have list: "wp (do { (ret, xarr, done) \<leftarrow> recover_list obj n; ret \<leftarrow> xa_exit c ret; delete_if xarr; State_Monad.return (ret, done) }) ?Q u"
    if "cur_ctx (tr u) = c" for u obj
    by (rule wp_bind, rule wp_cons [OF recover_list_wp], intro wp_prod exit) (use ctx [OF that] in auto)
  show ?thesis unfolding sw_recover_entry_def xa_ctx_def java_call_def
    apply (rule wp_bind, rule wp_priv_get, unfold c, rule wp_bind, rule wp_bind, rule wp_priv)
    apply (simp only: assms(2) if_False simp_thms not_True_eq_False)
    apply (rule wp_return, simp only: if_False simp_thms not_True_eq_False)
    apply (rule wp_bind, rule wp_priv, rule wp_bind, rule wp_tpsetctxt, rule wp_bind, rule wp_getv, rule wp_bind, rule wp_bind, rule wp_jni, rule wp_bind, rule wp_update, rule wp_return,
       rule wp_bind, rule wp_priv, rule wp_bind, rule wp_tpsetctxt, rule list)
    using assms(1) apply (simp add: attached_def)
    done
qed



subsection \<open>Loading\<close>

lemma init_switch_wp: "wp (init_switch lib parse L c) (\<lambda>r t. r = EXSUCCEED \<longrightarrow> (\<exists>q. hd (tr t) = (API ''ndrx_xa_noapisusp'' [I 1], q))) s"
  unfolding init_switch_def
  by (rule wp_bind, rule wp_priv, rule wp_bind, rule wp_any, intro wp_prod wp_if wp_return, simp,
      rule wp_bind, rule wp_any, intro wp_if wp_return wp_bind wp_ex) auto

text \<open>Loading the switch hands out the switch that was found, as the last step after the data source was set up, or nothing; and when it
  hands out nothing, the library that it has opened is closed again.\<close>

theorem xa_switch_loaded:
  "case val find_switch s of (swt, handle) \<Rightarrow>
     let x = val (ndrx_get_xa_switch lib parse L) s; t = exec (ndrx_get_xa_switch lib parse L) s
     in x \<in> {0, swt} \<and> (x = 0 \<and> handle \<noteq> 0 \<longrightarrow> (\<exists>r. hd (tr t) = (API ''dlclose'' [I handle], r))) \<and>
       (x \<noteq> 0 \<longrightarrow> (\<exists>r. hd (tr t) = (API ''ndrx_xa_noapisusp'' [I 1], r)))"
proof -
  obtain swt handle where f: "val find_switch s = (swt, handle)" by fastforce
  let ?Q = "\<lambda>x t. x \<in> {0, swt} \<and> (x = 0 \<and> handle \<noteq> 0 \<longrightarrow> (\<exists>r. hd (tr t) = (API ''dlclose'' [I handle], r))) \<and>
    (x \<noteq> 0 \<longrightarrow> (\<exists>r. hd (tr t) = (API ''ndrx_xa_noapisusp'' [I 1], r)))"
  have found: "wp find_switch (\<lambda>x t. x = (swt, handle)) s" using f by (simp add: wp_def)
  have out: "wp (do { whenM (ret \<noteq> EXSUCCEED \<and> b \<noteq> 0) (ex ''dlclose'' [I b]); State_Monad.return (if ret \<noteq> EXSUCCEED then 0 else a) }) ?Q t"
    if "(swt, handle) = (a, b)" "ret = EXSUCCEED \<longrightarrow> a \<noteq> 0 \<and> (\<exists>q. hd (tr t) = (API ''ndrx_xa_noapisusp'' [I 1], q))" for ret t a b
    by (intro wp_bind wp_if wp_ex wp_return) (use that in auto)
  have "wp (ndrx_get_xa_switch lib parse L) ?Q s" unfolding ndrx_get_xa_switch_def
    by (rule wp_bind, rule wp_priv_get, rule wp_bind, rule wp_cons [OF found], hypsubst, rule wp_prod, rule wp_bind, rule wp_if, rule wp_return,
        erule out, simp, rule wp_cons [OF init_switch_wp], erule out, blast)
  then show ?thesis by (simp add: f wp_def Let_def)
qed

theorem xa_switch_loaded_witness:
  "let s = jb_init (\<lambda>h e. (quiet h e)\<lparr>ri := (case e of API f as \<Rightarrow> if f = ''dlopen'' then 7 else 0 | _ \<Rightarrow> 0)\<rparr>);
     m = ndrx_get_xa_switch plain_lib (\<lambda>_. None) demo_ldr
   in val find_switch s = (0, 7) \<and> val m s = 0 \<and> (\<exists>r. hd (tr (exec m s)) = (API ''dlclose'' [I 7], r))"
proof -
  define s where "s = jb_init (\<lambda>h e. (quiet h e)\<lparr>ri := (case e of API f as \<Rightarrow> if f = ''dlopen'' then 7 else 0 | _ \<Rightarrow> 0)\<rparr>)"
  have f: "val find_switch s = (0, 7)" by (simp add: s_def find_switch_def run_simps jb_init_def)
  show ?thesis using xa_switch_loaded [where s = s and lib = plain_lib and parse = "\<lambda>_. None" and L = demo_ldr] f by (simp add: Let_def flip: s_def)
qed

subsection \<open>From the core to the driver\<close>

text \<open>The run \<open>h\<close> of an entry in a VM in which allocations succeed and no exception is raised, and whose calls of the method \<open>mid\<close> of the object
  run the Java method \<open>jverb\<close> of the adapter in the state \<open>q\<close>.\<close>

definition vm_ok :: "trace \<Rightarrow> bool" where
  "vm_ok h \<longleftrightarrow> (\<forall>(e, r) \<in> set h. case e of
     JNI f as \<Rightarrow> if f = ''ExceptionCheck'' then ri r = 0 else if f \<in> {''NewByteArray'', ''NewObject''} then ri r \<noteq> 0 else True
   | API f as \<Rightarrow> True)"

definition runs_java :: "int \<Rightarrow> int \<Rightarrow> (int \<Rightarrow> 64 word \<Rightarrow> xj \<Rightarrow> int option \<times> xj) \<Rightarrow> xj \<Rightarrow> trace \<Rightarrow> bool" where
  "runs_java obj mid jverb q h \<longleftrightarrow> (\<forall>(e, r) \<in> set h. case e of
     JNI f [I a, I b, I j, I flags] \<Rightarrow> f = ''CallIntMethod'' \<and> a = obj \<and> b = mid \<longrightarrow> fst (jverb j (word_of_int flags) q) = Some (ri r)
   | _ \<Rightarrow> True)"

text \<open>\<open>linked\<close>: the entry succeeds exactly if XA is open and the driver accepts the call for the object made of the transaction id.\<close>

definition linked :: "(jb, int) state \<Rightarrow> string \<Rightarrow> (int \<Rightarrow> 64 word \<Rightarrow> xj \<Rightarrow> int option \<times> xj) \<Rightarrow> (int \<Rightarrow> dcall) \<Rightarrow> int \<Rightarrow> jb \<Rightarrow> xj \<Rightarrow> XID \<Rightarrow> bool" where
  "linked m mid jverb call c s q xid \<longleftrightarrow>
     (let h = tr (exec m s) in vm_ok h \<and> runs_java (integptr2 (privs s c)) (gv s mid) jverb q h \<longrightarrow>
       (\<exists>j. j \<noteq> 0 \<and> xid_object (gv s) xid j h \<and>
         (val m s = XA_OK \<longleftrightarrow> xa_is_open q = XA_OK \<and> (\<exists>v. drv q (hist q) (call j) = Done v))))"

text \<open>A function of the switch and the method of the adapter it calls.\<close>

locale xa_link =
  fixes sw :: "jvm \<Rightarrow> XID option \<Rightarrow> int \<Rightarrow> (jb, int) state" and mid :: string
    and jverb :: "int \<Rightarrow> 64 word \<Rightarrow> xj \<Rightarrow> int option \<times> xj" and call :: "xj \<Rightarrow> int \<Rightarrow> 64 word \<Rightarrow> dcall"
  assumes switch: "ready c s \<Longrightarrow>
      wp (sw V (Some xid) flags) (xa_outcome c (\<lambda>obj h as. \<exists>j. as = [I obj, I (gv s mid), I j, I flags] \<and> xid_object (gv s) xid j h) s) s"
    and java: "j \<noteq> 0 \<Longrightarrow> verb_spec (call q j f) (jverb j f) q"
begin

lemma verb_linked:
  assumes "ready c s" "integptr2 (privs s c) \<noteq> 0"
  shows "linked (sw V (Some xid) flags) mid jverb (\<lambda>j. call q j (word_of_int flags)) c s q xid"
  unfolding linked_def Let_def
proof
  let ?m = "sw V (Some xid) flags"
  let ?h = "tr (exec ?m s)"
  assume vm: "vm_ok ?h \<and> runs_java (integptr2 (privs s c)) (gv s mid) jverb q ?h"
  obtain j where j: "xid_object (gv s) xid j ?h" "xa_called [I (integptr2 (privs s c)), I (gv s mid), I j, I flags] s (val ?m s) (exec ?m s)"
    using switch [OF assms(1), of V xid flags] assms(2) by (auto simp: wp_def xa_outcome_def)
  obtain r k where "(JNI ''CallIntMethod'' [I (integptr2 (privs s c)), I (gv s mid), I j, I flags], r) \<in> set (core ?h)" and k: "settled (ri r) k (val ?m s) ?h"
    using j(2) unfolding xa_called_def by force
  then have "(JNI ''CallIntMethod'' [I (integptr2 (privs s c)), I (gv s mid), I j, I flags], r) \<in> set ?h" by (simp add: obs_def)
  then have "fst (jverb j (word_of_int flags) q) = Some (ri r)" using vm by (force simp: runs_java_def)
  moreover have "val ?m s = ri r" using k vm unfolding settled_def vm_ok_def by force
  moreover have "j \<noteq> 0" using j(1) vm unfolding xid_object_def vm_ok_def by (force split: if_splits)
  ultimately have "val ?m s = XA_OK \<longleftrightarrow> xa_is_open q = XA_OK \<and> (\<exists>v. drv q (hist q) (call q j (word_of_int flags)) = Done v)"
    using java [of j q "word_of_int flags"] by (auto simp: verb_spec_def Let_def split: if_splits)
  then show "\<exists>j. j \<noteq> 0 \<and> xid_object (gv s) xid j ?h \<and> (val ?m s = XA_OK \<longleftrightarrow> xa_is_open q = XA_OK \<and>
      (\<exists>v. drv q (hist q) (call q j (word_of_int flags)) = Done v))"
    using j(1) \<open>j \<noteq> 0\<close> by blast
qed

end

interpretation l_start: xa_link sw_start_entry "''AtmiCtx_mid_xa_start_entry''" xa_start_entry "\<lambda>q j f. Start (xaRes q) j (ucast f AND 0x2FA00000)"
  by unfold_locales (simp_all add: sw_start_entry_def xa_xid_wp verb_specs)

interpretation l_end: xa_link sw_end_entry "''AtmiCtx_mid_xa_end_entry''" xa_end_entry "\<lambda>q j f. End (xaRes q) j (ucast f AND 0x2FA00000)"
  by unfold_locales (simp_all add: sw_end_entry_def xa_xid_wp verb_specs)

interpretation l_rollback: xa_link sw_rollback_entry "''AtmiCtx_mid_xa_rollback_entry''" xa_rollback_entry "\<lambda>q j f. Rollback (xaRes q) j"
  by unfold_locales (simp_all add: sw_rollback_entry_def xa_xid_wp verb_specs)

interpretation l_prepare: xa_link sw_prepare_entry "''AtmiCtx_mid_xa_prepare_entry''" xa_prepare_entry "\<lambda>q j f. Prepare (xaRes q) j"
  by unfold_locales (simp_all add: sw_prepare_entry_def xa_xid_wp verb_specs)

interpretation l_commit: xa_link sw_commit_entry "''AtmiCtx_mid_xa_commit_entry''" xa_commit_entry "\<lambda>q j f. Commit (xaRes q) j False"
  by unfold_locales (simp_all add: sw_commit_entry_def xa_xid_wp verb_specs)

interpretation l_forget: xa_link sw_forget_entry "''AtmiCtx_mid_xa_forget_entry''" xa_forget_entry "\<lambda>q j f. Forget (xaRes q) j"
  by unfold_locales (simp_all add: sw_forget_entry_def xa_xid_wp verb_specs)

text \<open>C22. From the core to the database: in a VM that runs the adapter, a transaction verb that the core calls in a context with a Java object
  succeeds exactly if the connection is open and the driver accepts the call of the same verb, for the transaction of the
  caller, on the resource that is open, with the flags of the caller that drivers know.\<close>

theorem xa_end_to_end:
  assumes "ready c s" "integptr2 (privs s c) \<noteq> 0"
  shows "linked (sw_start_entry V (Some xid) flags) ''AtmiCtx_mid_xa_start_entry'' xa_start_entry
      (\<lambda>j. Start (xaRes q) j (ucast (word_of_int flags :: 64 word) AND 0x2FA00000)) c s q xid \<and>
    linked (sw_end_entry V (Some xid) flags) ''AtmiCtx_mid_xa_end_entry'' xa_end_entry
      (\<lambda>j. End (xaRes q) j (ucast (word_of_int flags :: 64 word) AND 0x2FA00000)) c s q xid \<and>
    linked (sw_rollback_entry V (Some xid) flags) ''AtmiCtx_mid_xa_rollback_entry'' xa_rollback_entry (\<lambda>j. Rollback (xaRes q) j) c s q xid \<and>
    linked (sw_prepare_entry V (Some xid) flags) ''AtmiCtx_mid_xa_prepare_entry'' xa_prepare_entry (\<lambda>j. Prepare (xaRes q) j) c s q xid \<and>
    linked (sw_commit_entry V (Some xid) flags) ''AtmiCtx_mid_xa_commit_entry'' xa_commit_entry (\<lambda>j. Commit (xaRes q) j False) c s q xid \<and>
    linked (sw_forget_entry V (Some xid) flags) ''AtmiCtx_mid_xa_forget_entry'' xa_forget_entry (\<lambda>j. Forget (xaRes q) j) c s q xid"
  using l_start.verb_linked [OF assms] l_end.verb_linked [OF assms] l_rollback.verb_linked [OF assms] l_prepare.verb_linked [OF assms]
    l_commit.verb_linked [OF assms] l_forget.verb_linked [OF assms] by (intro conjI)

definition demo_vm :: "trace \<Rightarrow> ev \<Rightarrow> xres" where
  "demo_vm h e = \<lparr>ri = (case e of JNI f as \<Rightarrow> if f \<in> {''ExceptionCheck'', ''CallIntMethod''} then 0 else 7 | API f as \<Rightarrow> 0),
     rs = [], rb = [], ro = [cur_ctx h], rl = []\<rparr>"

theorem xa_end_to_end_witness:
  "let s = (jb_init demo_vm)\<lparr>tr := [(API ''tpsetctxt'' [I 5, I 0], no_res)], privs := \<lambda>c. no_priv\<lparr>integptr1 := 2, integptr2 := 9, integptr3 := c\<rparr>\<rparr>
   in val (sw_commit_entry (3, demo_ldr) (Some \<lparr>formatID = 1, gtrid_length = 1, bqual_length = 1, xdata = [7, 8]\<rparr>) 0) s = XA_OK"
proof -
  define s where "s = (jb_init demo_vm)\<lparr>tr := [(API ''tpsetctxt'' [I 5, I 0], no_res)],
    privs := \<lambda>c. no_priv\<lparr>integptr1 := 2, integptr2 := 9, integptr3 := c\<rparr>\<rparr>"
  define q where "q = (xa_init (\<lambda>h c. Done 1))\<lparr>xads := True, xaConn := 1, xaRes := 1\<rparr>"
  define xid where "xid = \<lparr>formatID = 1, gtrid_length = 1, bqual_length = 1, xdata = [7, 8]\<rparr>"
  let ?m = "sw_commit_entry (3, demo_ldr) (Some xid) 0"
  have r: "ready 5 s" "integptr2 (privs s 5) \<noteq> 0" by (simp_all add: s_def ready_def jb_init_def no_priv_def demo_vm_def)
  have "linked ?m ''AtmiCtx_mid_xa_commit_entry'' xa_commit_entry (\<lambda>j. Commit (xaRes q) j False) 5 s q xid"
    using xa_end_to_end [OF r] by blast
  moreover have t: "vm_ok (tr (exec ?m s))" "runs_java (integptr2 (privs s 5)) (gv s ''AtmiCtx_mid_xa_commit_entry'') xa_commit_entry q (tr (exec ?m s))"
    by (simp_all add: s_def sw_commit_entry_def xa_xid_entry_def xa_ctx_def xa_exit_def ndrxj_cvt_xid_to_java_def priv_def ndrx_ctx_priv_get_def tpsetctxt_def
        java_call_def getv_def delete_if_def run_simps vm_ok_def runs_java_def jb_init_def demo_vm_def no_priv_def xa_commit_entry_def q_def xa_init_def
        xa_is_open_def xa_verb_def drive_def catch_xa_def XA_OK_def Let_def)
  moreover have "xa_is_open q = XA_OK" "drv q h d = Done 1" for h d by (simp_all add: q_def xa_init_def xa_is_open_def)
  ultimately show ?thesis by (auto simp: linked_def Let_def s_def xid_def)
qed

end
