(* ===== verification/Ubf.thy ===== *)
theory Ubf
  imports Args
begin

section \<open>Buffers of fields: adding, changing and reading fields\<close>

text \<open>
  \<open>TypedUbf_Badd.c\<close>, \<open>TypedUbf_Bchg.c\<close>, \<open>TypedUbf_Bget.c\<close>, \<open>TypedUbf_Baddfast.c\<close> and \<open>BFldLocInfo.c\<close>.  The native methods for the
  types of a field differ in the C value they pass on, so each file has one routine that does the work.  Values of the types
  \<open>float\<close> and \<open>double\<close> are represented by their bits.  The exceptions of the field library are classes named after the
  error code.
\<close>

abbreviation (input) BEUNIX :: int where "BEUNIX \<equiv> 8"
abbreviation (input) BEINVAL :: int where "BEINVAL \<equiv> 14"
abbreviation (input) BFLD_SHORT :: int where "BFLD_SHORT \<equiv> 0"
abbreviation (input) BFLD_LONG :: int where "BFLD_LONG \<equiv> 1"
abbreviation (input) BFLD_CHAR :: int where "BFLD_CHAR \<equiv> 2"
abbreviation (input) BFLD_FLOAT :: int where "BFLD_FLOAT \<equiv> 3"
abbreviation (input) BFLD_DOUBLE :: int where "BFLD_DOUBLE \<equiv> 4"
abbreviation (input) BFLD_STRING :: int where "BFLD_STRING \<equiv> 5"
abbreviation (input) BFLD_CARRAY :: int where "BFLD_CARRAY \<equiv> 6"

subsection \<open>What the methods share\<close>

text \<open>The C pointer of the buffer object, or the common exit.\<close>

definition ubf_ptr :: "int \<Rightarrow> 'a \<Rightarrow> (int \<Rightarrow> (jb, 'a) state) \<Rightarrow> (jb, 'a) state" where
  "ubf_ptr data d body = do {
     (ret, cdata, clen, _) \<leftarrow> ndrxj_atmi_TypedBuffer_get_buffer data 0 False False False;
     if ret \<noteq> EXSUCCEED then State_Monad.return d else body cdata
   }"

text \<open>\<open>%s\<close> of a name that may be NULL.\<close>

definition fmt_name :: "xres \<Rightarrow> string" where
  "fmt_name r = (if ri r = 0 then ''(null)'' else rs r)"

text \<open>The exception for the error \<open>err\<close> of an operation on the field \<open>bfldid\<close>.\<close>

definition throw_field :: "int \<Rightarrow> string \<Rightarrow> int \<Rightarrow> string \<Rightarrow> (jb, unit) state" where
  "throw_field err pre bfldid post = do {
     nm \<leftarrow> ext (API ''Bfname'' [I bfldid]);
     m \<leftarrow> ext (API ''Bstrerror'' [I err]);
     ndrxj_ubf_throw err (pre @ show_int bfldid @ '' ('' @ fmt_name nm @ '')'' @ post @ '': '' @ rs m)
   }"

definition field_error :: "string \<Rightarrow> int \<Rightarrow> string \<Rightarrow> (jb, unit) state" where
  "field_error pre bfldid post = do {
     err \<leftarrow> ex ''Berror'' [];
     ex ''Bfname'' [I bfldid];
     throw_field err pre bfldid post
   }"

text \<open>The exception for a NULL string.\<close>

definition null_field :: "string \<Rightarrow> int \<Rightarrow> (jb, unit) state" where
  "null_field func bfldid = do {
     nm \<leftarrow> ext (API ''Bfname'' [I bfldid]);
     ndrxj_ubf_throw BEINVAL (func @ '': Failed to add '' @ show_int bfldid @ '' ('' @ fmt_name nm @ '') - null value field'')
   }"

subsection \<open>Adding a field\<close>

text \<open>Here the line for the log asks for the name of the field before the error code is read.\<close>

definition ndrxj_ubf_CBadd :: "int \<Rightarrow> int \<Rightarrow> int \<Rightarrow> arg \<Rightarrow> int \<Rightarrow> int \<Rightarrow> (jb, unit) state" where
  "ndrxj_ubf_CBadd env data bfldid v len usrtype = ctx_return (ndrxj_TypedBuffer_get_ctx env data True) () (\<lambda>c.
     ubf_ptr data () (\<lambda>cdata. do {
       r \<leftarrow> ext (API ''CBadd'' [I cdata, I bfldid, v, I len, I usrtype]);
       if ri r \<noteq> EXSUCCEED then do {
         ex ''Bfname'' [I bfldid];
         err \<leftarrow> ex ''Berror'' [];
         throw_field err ''ndrxj_ubf_CBadd: Failed to add '' bfldid []
       } else skip
     }))"

definition TypedUbf_Badd_short :: "int \<Rightarrow> int \<Rightarrow> int \<Rightarrow> int \<Rightarrow> (jb, unit) state" where
  "TypedUbf_Badd_short env data bfldid v = ndrxj_ubf_CBadd env data bfldid (I v) 0 BFLD_SHORT"

definition TypedUbf_Badd_long :: "int \<Rightarrow> int \<Rightarrow> int \<Rightarrow> int \<Rightarrow> (jb, unit) state" where
  "TypedUbf_Badd_long env data bfldid v = ndrxj_ubf_CBadd env data bfldid (I v) 0 BFLD_LONG"

definition TypedUbf_Badd_byte :: "int \<Rightarrow> int \<Rightarrow> int \<Rightarrow> int \<Rightarrow> (jb, unit) state" where
  "TypedUbf_Badd_byte env data bfldid v = ndrxj_ubf_CBadd env data bfldid (I v) 0 BFLD_CHAR"

definition TypedUbf_Badd_float :: "int \<Rightarrow> int \<Rightarrow> int \<Rightarrow> int \<Rightarrow> (jb, unit) state" where
  "TypedUbf_Badd_float env data bfldid v = ndrxj_ubf_CBadd env data bfldid (I v) 0 BFLD_FLOAT"

definition TypedUbf_Badd_double :: "int \<Rightarrow> int \<Rightarrow> int \<Rightarrow> int \<Rightarrow> (jb, unit) state" where
  "TypedUbf_Badd_double env data bfldid v = ndrxj_ubf_CBadd env data bfldid (I v) 0 BFLD_DOUBLE"

definition TypedUbf_Badd_string :: "int \<Rightarrow> int \<Rightarrow> int \<Rightarrow> int \<Rightarrow> (jb, unit) state" where
  "TypedUbf_Badd_string env data bfldid js =
     (if js \<noteq> 0 then with_utf js (\<lambda>n_str. ndrxj_ubf_CBadd env data bfldid (cstr n_str) 0 BFLD_STRING)
      else null_field ''ndrxj_Java_org_endurox_TypedUbf_Badd__ILjava_lang_String_2'' bfldid)"

definition TypedUbf_Badd_bytes :: "int \<Rightarrow> int \<Rightarrow> int \<Rightarrow> int \<Rightarrow> (jb, unit) state" where
  "TypedUbf_Badd_bytes env data bfldid jb = with_bytes jb (\<lambda>n_carray. do {
     len \<leftarrow> jni ''GetArrayLength'' [I jb];
     ndrxj_ubf_CBadd env data bfldid (Bs (rb n_carray)) len BFLD_CARRAY
   })"

subsection \<open>Changing a field\<close>

definition ndrxj_ubf_CBchg :: "int \<Rightarrow> int \<Rightarrow> int \<Rightarrow> int \<Rightarrow> arg \<Rightarrow> int \<Rightarrow> int \<Rightarrow> (jb, unit) state" where
  "ndrxj_ubf_CBchg env data bfldid occ v len usrtype = ctx_return (ndrxj_TypedBuffer_get_ctx env data True) () (\<lambda>c.
     ubf_ptr data () (\<lambda>cdata. do {
       r \<leftarrow> ext (API ''CBchg'' [I cdata, I bfldid, I occ, v, I len, I usrtype]);
       if ri r \<noteq> EXSUCCEED then field_error ''ndrxj_ubf_CBchg: CBchg failed to change field '' bfldid [] else skip
     }))"

definition TypedUbf_Bchg_short :: "int \<Rightarrow> int \<Rightarrow> int \<Rightarrow> int \<Rightarrow> int \<Rightarrow> (jb, unit) state" where
  "TypedUbf_Bchg_short env data bfldid occ v = ndrxj_ubf_CBchg env data bfldid occ (I v) 0 BFLD_SHORT"

definition TypedUbf_Bchg_long :: "int \<Rightarrow> int \<Rightarrow> int \<Rightarrow> int \<Rightarrow> int \<Rightarrow> (jb, unit) state" where
  "TypedUbf_Bchg_long env data bfldid occ v = ndrxj_ubf_CBchg env data bfldid occ (I v) 0 BFLD_LONG"

definition TypedUbf_Bchg_byte :: "int \<Rightarrow> int \<Rightarrow> int \<Rightarrow> int \<Rightarrow> int \<Rightarrow> (jb, unit) state" where
  "TypedUbf_Bchg_byte env data bfldid occ v = ndrxj_ubf_CBchg env data bfldid occ (I v) 0 BFLD_CHAR"

definition TypedUbf_Bchg_float :: "int \<Rightarrow> int \<Rightarrow> int \<Rightarrow> int \<Rightarrow> int \<Rightarrow> (jb, unit) state" where
  "TypedUbf_Bchg_float env data bfldid occ v = ndrxj_ubf_CBchg env data bfldid occ (I v) 0 BFLD_FLOAT"

definition TypedUbf_Bchg_double :: "int \<Rightarrow> int \<Rightarrow> int \<Rightarrow> int \<Rightarrow> int \<Rightarrow> (jb, unit) state" where
  "TypedUbf_Bchg_double env data bfldid occ v = ndrxj_ubf_CBchg env data bfldid occ (I v) 0 BFLD_DOUBLE"

definition TypedUbf_Bchg_string :: "int \<Rightarrow> int \<Rightarrow> int \<Rightarrow> int \<Rightarrow> int \<Rightarrow> (jb, unit) state" where
  "TypedUbf_Bchg_string env data bfldid occ js =
     (if js \<noteq> 0 then with_utf js (\<lambda>n_str. ndrxj_ubf_CBchg env data bfldid occ (cstr n_str) 0 BFLD_STRING)
      else null_field ''ndrxj_Java_org_endurox_TypedUbf_Bchg__IILjava_lang_String_2'' bfldid)"

definition TypedUbf_Bchg_bytes :: "int \<Rightarrow> int \<Rightarrow> int \<Rightarrow> int \<Rightarrow> int \<Rightarrow> (jb, unit) state" where
  "TypedUbf_Bchg_bytes env data bfldid occ jb = with_bytes jb (\<lambda>n_carray. do {
     len \<leftarrow> jni ''GetArrayLength'' [I jb];
     ndrxj_ubf_CBchg env data bfldid occ (Bs (rb n_carray)) len BFLD_CARRAY
   })"

subsection \<open>Reading a field\<close>

text \<open>The core answers with the address of the value in the buffer.  Nothing is called between the answer and the reading of the value, so
  the value is part of the result: its length and its bits (or the string, or the bytes).\<close>

definition ndrxj_ubf_CBfind :: "int \<Rightarrow> int \<Rightarrow> int \<Rightarrow> int \<Rightarrow> int \<Rightarrow> (jb, int \<times> xres) state" where
  "ndrxj_ubf_CBfind env data bfldid occ usrtype = ctx_out (ndrxj_TypedBuffer_get_ctx env data True) (EXFAIL, no_res) (\<lambda>c.
     ubf_ptr data (EXFAIL, no_res) (\<lambda>cdata. do {
       r \<leftarrow> ext (API ''CBfind'' [I cdata, I bfldid, I occ, I usrtype]);
       if ri r = 0 then do {
         field_error ''ndrxj_ubf_CBfind: Failed to find '' bfldid ('' occ '' @ show_int occ);
         State_Monad.return (EXFAIL, r)
       } else State_Monad.return (EXSUCCEED, r)
     }))"

definition found_len :: "xres \<Rightarrow> int" where
  "found_len r = out_arg 0 0 r"

definition found_value :: "xres \<Rightarrow> int" where
  "found_value r = out_arg 1 0 r"

text \<open>\<open>d\<close> is the result \<open>EXFAIL\<close> in the type of the method.\<close>

definition get_value :: "int \<Rightarrow> int \<Rightarrow> int \<Rightarrow> int \<Rightarrow> int \<Rightarrow> int \<Rightarrow> (jb, int) state" where
  "get_value env data bfldid occ usrtype d = do {
     (ret, v) \<leftarrow> ndrxj_ubf_CBfind env data bfldid occ usrtype;
     State_Monad.return (if ret \<noteq> EXSUCCEED then d else found_value v)
   }"

definition TypedUbf_BgetShort :: "int \<Rightarrow> int \<Rightarrow> int \<Rightarrow> int \<Rightarrow> (jb, int) state" where
  "TypedUbf_BgetShort env data bfldid occ = get_value env data bfldid occ BFLD_SHORT EXFAIL"

definition TypedUbf_BgetLong :: "int \<Rightarrow> int \<Rightarrow> int \<Rightarrow> int \<Rightarrow> (jb, int) state" where
  "TypedUbf_BgetLong env data bfldid occ = get_value env data bfldid occ BFLD_LONG EXFAIL"

definition TypedUbf_BgetByte :: "int \<Rightarrow> int \<Rightarrow> int \<Rightarrow> int \<Rightarrow> (jb, int) state" where
  "TypedUbf_BgetByte env data bfldid occ = get_value env data bfldid occ BFLD_CHAR EXFAIL"

definition TypedUbf_BgetFloat :: "int \<Rightarrow> int \<Rightarrow> int \<Rightarrow> int \<Rightarrow> (jb, int) state" where
  "TypedUbf_BgetFloat env data bfldid occ = get_value env data bfldid occ BFLD_FLOAT 0xBF800000"

definition TypedUbf_BgetDouble :: "int \<Rightarrow> int \<Rightarrow> int \<Rightarrow> int \<Rightarrow> (jb, int) state" where
  "TypedUbf_BgetDouble env data bfldid occ = get_value env data bfldid occ BFLD_DOUBLE 0xBFF0000000000000"

definition TypedUbf_BgetString :: "int \<Rightarrow> int \<Rightarrow> int \<Rightarrow> int \<Rightarrow> (jb, int) state" where
  "TypedUbf_BgetString env data bfldid occ = do {
     (ret, v) \<leftarrow> ndrxj_ubf_CBfind env data bfldid occ BFLD_STRING;
     if ret \<noteq> EXSUCCEED then State_Monad.return 0 else jni ''NewStringUTF'' [S (rs v)]
   }"

definition TypedUbf_BgetByteArr :: "int \<Rightarrow> int \<Rightarrow> int \<Rightarrow> int \<Rightarrow> (jb, int) state" where
  "TypedUbf_BgetByteArr env data bfldid occ = do {
     (ret, v) \<leftarrow> ndrxj_ubf_CBfind env data bfldid occ BFLD_CARRAY;
     if ret \<noteq> EXSUCCEED then State_Monad.return 0 else do {
     arr \<leftarrow> jni ''NewByteArray'' [I (found_len v)];
     if arr = 0 then do { NDRXJ_LOG_EXCEPTION; State_Monad.return 0 } else do {
     jni ''SetByteArrayRegion'' [I arr, I 0, I (found_len v), Bs (rb v)];
     e \<leftarrow> jni ''ExceptionCheck'' [];
     whenM (e \<noteq> 0) NDRXJ_LOG_EXCEPTION;
     State_Monad.return arr
     }}
   }"

subsection \<open>Adding fields one after the other\<close>

text \<open>The place of the last addition is kept in a Java object.  The field id is not assigned when the first part fails.\<close>

definition ndrxj_BFldLocInfo_ptr_get :: "int \<Rightarrow> (jb, int \<times> int option) state" where
  "ndrxj_BFldLocInfo_ptr_get loc = do {
     objClass \<leftarrow> jni ''FindClass'' [S ''org/endurox/BFldLocInfo''];
     if objClass = 0 then do { NDRXJ_LOG_EXCEPTION; State_Monad.return (0, None) } else do {
     fid \<leftarrow> jni ''GetFieldID'' [I objClass, S ''cPtr_last_checked'', S ''J''];
     if fid = 0 then do { NDRXJ_LOG_EXCEPTION; State_Monad.return (0, None) } else do {
     joffset \<leftarrow> jni ''GetLongField'' [I loc, I fid];
     fid \<leftarrow> jni ''GetFieldID'' [I objClass, S ''last_Baddfast'', S ''I''];
     if fid = 0 then do { NDRXJ_LOG_EXCEPTION; State_Monad.return (0, None) } else do {
     lst \<leftarrow> jni ''GetIntField'' [I loc, I fid];
     State_Monad.return (joffset, Some lst)
     }}}
   }"

definition ndrxj_BFldLocInfo_ptr_set :: "int \<Rightarrow> int \<Rightarrow> int \<Rightarrow> (jb, unit) state" where
  "ndrxj_BFldLocInfo_ptr_set loc new_ptr last_Baddfast = do {
     objClass \<leftarrow> jni ''GetObjectClass'' [I loc];
     if objClass = 0 then NDRXJ_LOG_EXCEPTION else do {
     fid \<leftarrow> jni ''GetFieldID'' [I objClass, S ''cPtr_last_checked'', S ''J''];
     if fid = 0 then NDRXJ_LOG_EXCEPTION else do {
     jni ''SetLongField'' [I loc, I fid, I new_ptr];
     fid \<leftarrow> jni ''GetFieldID'' [I objClass, S ''last_Baddfast'', S ''I''];
     if fid = 0 then NDRXJ_LOG_EXCEPTION else do {
     jni ''SetIntField'' [I loc, I fid, I last_Baddfast];
     skip
     }}}
   }"

definition addfast_at :: "int \<Rightarrow> int \<Rightarrow> arg \<Rightarrow> int \<Rightarrow> int \<Rightarrow> int \<Rightarrow> int \<Rightarrow> (jb, unit) state" where
  "addfast_at data bfldid v len jfldloc ptr lst = ubf_ptr data () (\<lambda>cdata. do {
     r \<leftarrow> ext (API ''Baddfast'' [I cdata, I bfldid, v, I len, I ptr, I lst]);
     if ri r \<noteq> EXSUCCEED then throw_berror (''ndrxj_ubf_Baddfast: Failed to add '' @ show_int bfldid @ '': '')
     else ndrxj_BFldLocInfo_ptr_set jfldloc (out_arg 0 ptr r) (out_arg 1 lst r)
   })"

definition ndrxj_ubf_Baddfast :: "int \<Rightarrow> int \<Rightarrow> int \<Rightarrow> arg \<Rightarrow> int \<Rightarrow> int \<Rightarrow> int \<Rightarrow> (jb, unit) state" where
  "ndrxj_ubf_Baddfast env data bfldid v len usrtype jfldloc = ctx_return (ndrxj_TypedBuffer_get_ctx env data True) () (\<lambda>c. do {
     ft \<leftarrow> ex ''Bfldtype'' [I bfldid];
     if ft \<noteq> usrtype then do {
       ut \<leftarrow> ex ''Bfldtype'' [I usrtype];
       ndrxj_ubf_throw BEINVAL (''ndrxj_ubf_Baddfast: Invalid field type passed, for type '' @ show_int usrtype @ '' func got type '' @
         show_int ut @ '' field ('' @ show_int usrtype @ '') must be the same'')
     } else do {
     (ptr, lst) \<leftarrow> ndrxj_BFldLocInfo_ptr_get jfldloc;
     e \<leftarrow> jni ''ExceptionCheck'' [];
     if e \<noteq> 0 then skip else
     case lst of
       None \<Rightarrow> do { fault ''last_Baddfast: not assigned''; addfast_at data bfldid v len jfldloc ptr 0 }
     | Some lst \<Rightarrow> addfast_at data bfldid v len jfldloc ptr lst
     }
   })"

definition TypedUbf_Baddfast_short :: "int \<Rightarrow> int \<Rightarrow> int \<Rightarrow> int \<Rightarrow> int \<Rightarrow> (jb, unit) state" where
  "TypedUbf_Baddfast_short env data bfldid v fldloc = ndrxj_ubf_Baddfast env data bfldid (I v) 0 BFLD_SHORT fldloc"

definition TypedUbf_Baddfast_long :: "int \<Rightarrow> int \<Rightarrow> int \<Rightarrow> int \<Rightarrow> int \<Rightarrow> (jb, unit) state" where
  "TypedUbf_Baddfast_long env data bfldid v fldloc = ndrxj_ubf_Baddfast env data bfldid (I v) 0 BFLD_LONG fldloc"

definition TypedUbf_Baddfast_byte :: "int \<Rightarrow> int \<Rightarrow> int \<Rightarrow> int \<Rightarrow> int \<Rightarrow> (jb, unit) state" where
  "TypedUbf_Baddfast_byte env data bfldid v fldloc = ndrxj_ubf_Baddfast env data bfldid (I v) 0 BFLD_CHAR fldloc"

definition TypedUbf_Baddfast_float :: "int \<Rightarrow> int \<Rightarrow> int \<Rightarrow> int \<Rightarrow> int \<Rightarrow> (jb, unit) state" where
  "TypedUbf_Baddfast_float env data bfldid v fldloc = ndrxj_ubf_Baddfast env data bfldid (I v) 0 BFLD_FLOAT fldloc"

definition TypedUbf_Baddfast_double :: "int \<Rightarrow> int \<Rightarrow> int \<Rightarrow> int \<Rightarrow> int \<Rightarrow> (jb, unit) state" where
  "TypedUbf_Baddfast_double env data bfldid v fldloc = ndrxj_ubf_Baddfast env data bfldid (I v) 0 BFLD_DOUBLE fldloc"

definition TypedUbf_Baddfast_string :: "int \<Rightarrow> int \<Rightarrow> int \<Rightarrow> int \<Rightarrow> int \<Rightarrow> (jb, unit) state" where
  "TypedUbf_Baddfast_string env data bfldid js fldloc =
     with_utf js (\<lambda>n_str. ndrxj_ubf_Baddfast env data bfldid (cstr n_str) 0 BFLD_STRING fldloc)"

definition TypedUbf_Baddfast_bytes :: "int \<Rightarrow> int \<Rightarrow> int \<Rightarrow> int \<Rightarrow> int \<Rightarrow> (jb, unit) state" where
  "TypedUbf_Baddfast_bytes env data bfldid jb fldloc = with_bytes jb (\<lambda>n_carray. do {
     len \<leftarrow> jni ''GetArrayLength'' [I jb];
     ndrxj_ubf_Baddfast env data bfldid (Bs (rb n_carray)) len BFLD_CARRAY fldloc
   })"

subsection \<open>The context\<close>

lemma plain_ubf_errors: "keeps plain (throw_field err pre bfldid post)" "keeps plain (field_error pre bfldid post)" "keeps plain (null_field func bfldid)"
  unfolding throw_field_def field_error_def null_field_def by (intro plain_calls; simp add: fns_defs)+

lemma plain_ubf_loc: "keeps plain (ndrxj_BFldLocInfo_ptr_get loc)" "keeps plain (ndrxj_BFldLocInfo_ptr_set loc p l)"
  unfolding ndrxj_BFldLocInfo_ptr_get_def ndrxj_BFldLocInfo_ptr_set_def by (intro plain_calls; simp add: fns_defs)+

lemmas inner_ubf = inner_calls inner_bufs plain_ubf_errors [THEN keeps_plain_inner] plain_ubf_loc [THEN keeps_plain_inner]
  plain_throw_berror [THEN keeps_plain_inner]

lemma inner_ubf_ptr: "(\<And>c. keeps inner (body c)) \<Longrightarrow> keeps inner (ubf_ptr data d body)"
  unfolding ubf_ptr_def by (intro inner_ubf; simp)

lemma inner_addfast_at: "keeps inner (addfast_at data bfldid v len loc p l)"
  unfolding addfast_at_def by (intro inner_ubf inner_ubf_ptr) (simp_all add: fns_defs)

text \<open>A method that takes a copy first and releases it last, and one that goes on after the context was dropped.\<close>

lemma native_buf_around:
  assumes "native_buf data s1 t1" "suffix (tr s) (tr s1)" "suffix (tr t1) (tr t)" "cur_ctx (tr t) = cur_ctx (tr t1)"
    "api_ctx (tr s1) = api_ctx (tr s)" "api_ctx (tr t) = api_ctx (tr t1)" "copies (tr t) - copies (tr t1) = copies (tr s) - copies (tr s1)"
    "cfg s1 = cfg s" "cfg t = cfg t1" "privs s1 = privs s" "privs t = privs t1"
  shows "native_buf data s t"
proof -
  have gv: "gv s1 = gv s" using assms(8) by (simp add: cfg_def)
  have sub: "calls (tr t1) \<subseteq> calls (tr t)" using assms(3) by (rule suffix_calls)
  obtain obj where obj: "obj = 0 \<or> (JNI ''GetObjectField'' [I data, I (gv s ''TypedBuffer_fid_ctx'')], obj) \<in> calls (tr t)" "native obj s1 t1"
    using assms(1) sub unfolding native_buf_def gv by blast
  obtain c where c: "c = 0 \<or> (JNI ''GetLongField'' [I obj, I (gv s ''AtmiCtx_fid_ctx'')], c) \<in> calls (tr t)"
    "suffix (tr s1) (tr t1)" "cur_ctx (tr t1) = 0" "api_ctx (tr t1) \<subseteq> api_ctx (tr s1) \<union> {c} \<times> UNIV"
    "c \<noteq> 0 \<longrightarrow> copies (tr t1) = copies (tr s1)" "cfg t1 = cfg s1" "\<forall>x. x \<noteq> c \<longrightarrow> privs t1 x = privs s1 x" "srv_same s1 t1"
    using obj(2) sub unfolding native_def gv by blast
  have "suffix (tr s) (tr t)" using assms(2,3) c(2) by (meson suffix_order.trans)
  moreover have "c \<noteq> 0 \<longrightarrow> copies (tr t) = copies (tr s)" using c(5) assms(7) by auto
  moreover have "srv_same s t" using c(8) assms(10,11) by (simp add: srv_same_def)
  ultimately have "native obj s t" unfolding native_def using c(1,3,4,6,7) assms by (intro exI [of _ c]) simp
  then show ?thesis unfolding native_buf_def using obj(1) by blast
qed

lemma native_buf_copy:
  assumes "\<And>r s. cur_ctx (tr s) = 0 \<Longrightarrow> native_buf data s (exec (body r) s)" "cur_ctx (tr s) = 0"
  shows "native_buf data s (exec (with_utf j body) s)" "native_buf data s (exec (with_bytes j body) s)"
  unfolding with_utf_def with_bytes_def exec_bind run_simps
  by (rule native_buf_around [OF assms(1)]; simp add: run_simps assms(2) suffix_ConsI)+

lemma native_buf_jni:
  assumes "\<And>r s. cur_ctx (tr s) = 0 \<Longrightarrow> native_buf data s (exec (body r) s)" "cur_ctx (tr s) = 0" "f \<notin> special_fns"
  shows "native_buf data s (exec (do { x \<leftarrow> jni f as; body x }) s)"
  using assms(2,3) unfolding exec_bind run_simps by (intro native_buf_around [OF assms(1)]) (auto simp: run_simps suffix_ConsI fns_defs)

lemma ubf_routines_native:
  assumes "cur_ctx (tr s) = 0"
  shows "native_buf data s (exec (ndrxj_ubf_CBadd env data bfldid v len ty) s)"
    "native_buf data s (exec (ndrxj_ubf_CBchg env data bfldid occ v len ty) s)"
    "native_buf data s (exec (ndrxj_ubf_CBfind env data bfldid occ ty) s)"
    "native_buf data s (exec (ndrxj_ubf_Baddfast env data bfldid v len ty loc) s)"
  unfolding ndrxj_ubf_CBadd_def ndrxj_ubf_CBchg_def ndrxj_ubf_CBfind_def ndrxj_ubf_Baddfast_def
  by (rule buf_native [OF _ assms], (intro inner_ubf inner_ubf_ptr inner_addfast_at; simp add: fns_defs))+

lemma ubf_typed_native:
  assumes "cur_ctx (tr s) = 0"
  shows "native_buf data s (exec (TypedUbf_Badd_string env data bfldid js) s)" "native_buf data s (exec (TypedUbf_Badd_bytes env data bfldid js) s)"
    "native_buf data s (exec (TypedUbf_Bchg_string env data bfldid occ js) s)" "native_buf data s (exec (TypedUbf_Bchg_bytes env data bfldid occ js) s)"
    "native_buf data s (exec (TypedUbf_Baddfast_string env data bfldid js loc) s)" "native_buf data s (exec (TypedUbf_Baddfast_bytes env data bfldid js loc) s)"
  unfolding TypedUbf_Badd_string_def TypedUbf_Badd_bytes_def TypedUbf_Bchg_string_def TypedUbf_Bchg_bytes_def TypedUbf_Baddfast_string_def TypedUbf_Baddfast_bytes_def
  by ((simp only: exec_if if_split; intro conjI impI)?;
      (rule native_buf_copy native_buf_jni ubf_routines_native assms buf_unused [OF plain_ubf_errors(3)] | assumption | simp add: fns_defs)+)+

subsection \<open>One request to the core, and an exception when it fails\<close>

text \<open>\<open>ubf_threw k h\<close>: after the trace \<open>k\<close> the code of the error was read, and the exception of the class named after it was raised.\<close>

definition ubf_exc_name :: "string \<Rightarrow> string" where
  "ubf_exc_name code = snprintf_buf 256 (''org/endurox/exceptions/Ubf'' @ code @ ''Exception'')"

definition ubf_class :: "int \<Rightarrow> int \<Rightarrow> trace \<Rightarrow> bool" where
  "ubf_class err clz h \<longleftrightarrow> (\<exists>code c. (API ''Becodestr'' [I err], code) \<in> set h \<and> clz \<noteq> 0 \<and>
     (JNI ''FindClass'' [S (ubf_exc_name (rs code))], c) \<in> calls h \<and>
     (JNI ''NewWeakGlobalRef'' [I c], clz) \<in> calls h)"

definition ubf_threw :: "trace \<Rightarrow> trace \<Rightarrow> bool" where
  "ubf_threw k h \<longleftrightarrow> (\<exists>err clz msg q m n. h = n @ (JNI ''ThrowNew'' [I clz, S msg], q) # m @ k \<and>
     (API ''Berror'' [], err) \<in> calls m \<and> ubf_class err clz (m @ k))"

lemma ubf_throw_wp:
  assumes "dyn_ok s" "able (orc s)"
  shows "wp (ndrxj_ubf_throw err msg) (\<lambda>_ t. pd s t \<and>
    (\<exists>clz q m. tr t = (JNI ''ThrowNew'' [I clz, S (snprintf_buf ERROR_MAX msg)], q) # m @ tr s \<and> ubf_class err clz (m @ tr s))) s"
proof (rule wp_conj [OF wp_keeps [OF keeps_pd [OF plain_throws(3) dynR_throws(3)]]])
  show "wp (ndrxj_ubf_throw err msg) (\<lambda>_ t. \<exists>clz q m. tr t = (JNI ''ThrowNew'' [I clz, S (snprintf_buf ERROR_MAX msg)], q) # m @ tr s \<and>
    ubf_class err clz (m @ tr s)) s"
  proof -
    have thrown: "\<exists>m. tr u = m @ tr s \<and> ubf_class err (clazz e) (m @ tr s)"
      if t: "t = s\<lparr>tr := (API ''Becodestr'' [I err], code) # tr s\<rparr>" and u: "excR t u"
        and e: "entry_ok (tr u) e" "class_name e = ubf_exc_name (rs code)"
      for code t u e
    proof -
      have "suffix ((API ''Becodestr'' [I err], code) # tr s) (tr u)" using u t by (simp add: excR_def dynR_def)
      then obtain m where m: "tr u = m @ tr s" "(API ''Becodestr'' [I err], code) \<in> set (tr u)" by (auto simp: suffix_def)
      then show ?thesis using e unfolding entry_ok_def ubf_class_def by (intro exI [of _ m]) auto
    qed
    show ?thesis unfolding ndrxj_ubf_throw_def ubf_exc_name_def [symmetric]
      apply (rule wp_bind, rule wpx_ext, rule wp_bind, rule wp_cons [OF caches_single_wp [OF ubf_exc_name_def]])
       apply (simp add: prefix_snprintf_buf atmi_pfx_def ubf_exc_name_def)
      apply (rule wp_option, rule wp_fault, use assms(2) in simp)
      apply (rule wp_bind, rule wp_jni, rule wp_return)
      using assms(1) by (auto intro!: thrown simp: dyn_ok_event suffix_ConsI)
  qed
qed simp

lemma wpd_ubf_throw:
  assumes "pd s0 s" "dyn_ok s0" "able (orc s0)" "tr s = n @ tr s0" "(API ''Berror'' [], err) \<in> calls n"
    and "\<And>t. pd s0 t \<Longrightarrow> ubf_threw (tr s0) (tr t) \<Longrightarrow> Q () t"
  shows "wp (ndrxj_ubf_throw err msg) Q s"
proof (rule wp_cons [OF ubf_throw_wp])
  show "dyn_ok s" "able (orc s)" using assms(2,3) pdD [OF assms(1)] by simp_all
  fix x :: unit and t
  assume "pd s t \<and> (\<exists>clz q m. tr t = (JNI ''ThrowNew'' [I clz, S (snprintf_buf ERROR_MAX msg)], q) # m @ tr s \<and> ubf_class err clz (m @ tr s))"
  then obtain clz q m where t: "pd s t" "tr t = (JNI ''ThrowNew'' [I clz, S (snprintf_buf ERROR_MAX msg)], q) # (m @ n) @ tr s0" "ubf_class err clz ((m @ n) @ tr s0)"
    using assms(4) by auto
  have "(API ''Berror'' [], err) \<in> calls (m @ n)" using assms(5) by (simp add: calls_append)
  then have "ubf_threw (tr s0) (tr t)" unfolding ubf_threw_def t(2) using t(3) by (metis append_Nil)
  then show "Q x t" using assms(6) pd.trans [OF assms(1) t(1)] by simp
qed

lemma ubf_fails:
  assumes "dyn_ok s" "able (orc s)"
  shows "wp (throw_berror pre) (\<lambda>_ t. pd s t \<and> ubf_threw (tr s) (tr t)) s"
    "wp (field_error pre bfldid post) (\<lambda>_ t. pd s t \<and> ubf_threw (tr s) (tr t)) s"
    "wp (do { ex ''Bfname'' [I bfldid]; err \<leftarrow> ex ''Berror'' []; throw_field err pre bfldid post }) (\<lambda>_ t. pd s t \<and> ubf_threw (tr s) (tr t)) s"
proof -
  note throw2 = wpd_ubf_throw [OF _ assms, where n = "[_, _]"] and throw4 = wpd_ubf_throw [OF _ assms, where n = "[_, _, _, _]"]
  show "wp (throw_berror pre) (\<lambda>_ t. pd s t \<and> ubf_threw (tr s) (tr t)) s"
    unfolding throw_berror_def
    by (rule wp_bind, rule wpd_query [OF pd.refl], simp add: query_fns_def, rule wp_bind, erule wpd_ext, simp add: query_fns_def, erule throw2, simp, simp, simp)
  show "wp (field_error pre bfldid post) (\<lambda>_ t. pd s t \<and> ubf_threw (tr s) (tr t)) s"
    unfolding field_error_def throw_field_def
    by (rule wp_bind, rule wpd_query [OF pd.refl], simp add: query_fns_def, rule wp_bind, erule wpd_query, simp add: query_fns_def,
        rule wp_bind, erule wpd_ext, simp add: query_fns_def, rule wp_bind, erule wpd_ext, simp add: query_fns_def, erule throw4, simp, simp, simp)
  show "wp (do { ex ''Bfname'' [I bfldid]; err \<leftarrow> ex ''Berror'' []; throw_field err pre bfldid post }) (\<lambda>_ t. pd s t \<and> ubf_threw (tr s) (tr t)) s"
    unfolding throw_field_def
    by (rule wp_bind, rule wpd_query [OF pd.refl], simp add: query_fns_def, rule wp_bind, erule wpd_query, simp add: query_fns_def,
        rule wp_bind, erule wpd_ext, simp add: query_fns_def, rule wp_bind, erule wpd_ext, simp add: query_fns_def, erule throw4, simp, simp, simp)
qed

text \<open>The pointer of a buffer object; a NULL object gives NULL.\<close>

definition ptr_arg :: "(string \<Rightarrow> int) \<Rightarrow> int \<Rightarrow> trace \<Rightarrow> int \<Rightarrow> bool" where
  "ptr_arg g data h b \<longleftrightarrow> (if data = 0 then b = 0 else (JNI ''GetLongField'' [I data, I (g ''TypedBuffer_fid_cPtr'')], b) \<in> calls h)"

lemma ptr_arg_mono: "ptr_arg g d h b \<Longrightarrow> suffix h h' \<Longrightarrow> ptr_arg g d h' b"
  using suffix_calls [of h h'] by (auto simp: ptr_arg_def split: if_splits)

lemma get_ptr_wp:
  "wp (ndrxj_atmi_TypedBuffer_get_buffer data 0 False False False) (\<lambda>q t. pd s t \<and>
    (case q of (ret, b, l, f) \<Rightarrow> ptr_arg (gv s) data (tr t) b \<and> (ret \<noteq> EXSUCCEED \<longrightarrow> pending (tr s) (tr t)))) s"
proof (cases "data = 0")
  case True
  then show ?thesis unfolding ndrxj_atmi_TypedBuffer_get_buffer_def by (simp add: wp_return pd.refl ptr_arg_def)
next
  case False
  show ?thesis by (rule wp_cons [OF get_buffer_wp [OF False]]) (use False in \<open>auto simp: buffer_arg_def ptr_arg_def\<close>)
qed

lemma asks_ubf_ptr:
  assumes s: "dyn_ok s" "able (orc s)" "gv s = g"
    and m: "\<And>b t. dyn_ok t \<Longrightarrow> able (orc t) \<Longrightarrow> gv t = g \<Longrightarrow> suffix (tr s) (tr t) \<Longrightarrow> ptr_arg g data (tr t) b \<Longrightarrow> wp (m b) (asks f A P t) t"
  shows "wp (ubf_ptr data d m) (asks f A P s) s"
proof -
  have "wp (m b) (asks f A P s) t" if "pd s t" "ptr_arg g data (tr t) b" for b t
    by (rule wp_cons [OF m asks_pre [OF that(1)]]) (simp_all add: s that pdD [OF that(1)])
  then show ?thesis unfolding ubf_ptr_def
    by (intro wp_bind wp_cons [OF get_ptr_wp] wp_prod wp_if wp_return) (auto intro: asks_none simp: s(3))
qed

text \<open>The method as a whole: the context is that of the object in the field \<open>ctx\<close> of the buffer.  Without a context the core is not asked.\<close>

definition ubf_asked :: "string \<Rightarrow> int \<Rightarrow> (trace \<Rightarrow> arg list \<Rightarrow> bool) \<Rightarrow> ('a \<Rightarrow> xres \<Rightarrow> trace \<Rightarrow> trace \<Rightarrow> bool) \<Rightarrow> jb \<Rightarrow> 'a \<Rightarrow> jb \<Rightarrow> bool" where
  "ubf_asked f data A P s x t \<longleftrightarrow> (\<exists>q. let e = (JNI ''GetObjectField'' [I data, I (gv s ''TypedBuffer_fid_ctx'')], q) in
     requested f (ri q) A P (s\<lparr>tr := e # tr s\<rparr>) x t \<or>
     (\<exists>h. (tr t = h \<or> (\<exists>r. tr t = (API ''tpsetctxt'' [I TPNULLCONTEXT, I 0], r) # h)) \<and> suffix (e # tr s) h \<and> core h = core (tr s) \<and>
       (ri q = 0 \<or> (JNI ''GetLongField'' [I (ri q), I (gv s ''AtmiCtx_fid_ctx'')], 0) \<in> calls h)))"

lemma wp_bind_eq: "wp (State_Monad.bind m k) Q s \<longleftrightarrow> wp m (\<lambda>x t. wp (k x) Q t) s"
  by (simp add: wp_def run_simps)

lemma ubf_asked_wp:
  assumes s: "dyn_ok s" "able (orc s)"
    and body: "\<And>c t. dyn_ok t \<Longrightarrow> able (orc t) \<Longrightarrow> gv t = gv s \<Longrightarrow> wp (body c) (asks f A P t) t"
  shows "wp (ctx_return (ndrxj_TypedBuffer_get_ctx env data True) d body) (ubf_asked f data A P s) s" (is ?ret)
    and "wp (ctx_out (ndrxj_TypedBuffer_get_ctx env data True) d body) (ubf_asked f data A P s) s" (is ?out)
proof -
  define q where "q = orc s (tr s) (JNI ''GetObjectField'' [I data, I (gv s ''TypedBuffer_fid_ctx'')])"
  define s0 where "s0 = s\<lparr>tr := (JNI ''GetObjectField'' [I data, I (gv s ''TypedBuffer_fid_ctx'')], q) # tr s\<rparr>"
  have s0: "dyn_ok s0" "able (orc s0)" "gv s0 = gv s" using s by (simp_all add: s0_def dyn_ok_event suffix_ConsI)
  have req: "ubf_asked f data A P s x t" if "requested f (ri q) A P s0 x t" for x t
    using that unfolding ubf_asked_def s0_def Let_def by blast
  have none: "ubf_asked f data A P s x t" if "tr t = h \<or> (\<exists>r. tr t = (API ''tpsetctxt'' [I TPNULLCONTEXT, I 0], r) # h)" "suffix (tr s0) h"
    "core h = core (tr s0)" "ri q = 0 \<or> (JNI ''GetLongField'' [I (ri q), I (gv s ''AtmiCtx_fid_ctx'')], 0) \<in> calls h" for x t h
    using that unfolding ubf_asked_def s0_def Let_def by (intro exI [of _ q] disjI2 exI [of _ h]) simp
  have log: "plain s0 t \<Longrightarrow> suffix (tr s0) (tr t) \<and> core (tr t) = core (tr s0)" for t by (simp add: frame_def)
  have body0: "\<And>c t. dyn_ok t \<Longrightarrow> able (orc t) \<Longrightarrow> gv t = gv s0 \<Longrightarrow> wp (body c) (asks f A P t) t" using body s0(3) by simp
  have "wp (ctx_return (ndrxj_get_ctx env (ri q) True) d body) (ubf_asked f data A P s) s0"
    by (rule wp_cons [OF requested_return [OF s0(1,2) body0]]) (auto intro: req none simp: s0(3))
  then show ?ret unfolding ctx_return_def ndrxj_TypedBuffer_get_ctx_def wp_bind_eq
    by (intro wp_getv wp_jni_orc; unfold q_def [symmetric] s0_def [symmetric])
       (intro wp_if wp_bind wp_keeps [OF plain_LOG_EXCEPTION] wp_return; (auto dest: log intro: none)?)
  have "wp (ctx_out (ndrxj_get_ctx env (ri q) True) d body) (ubf_asked f data A P s) s0"
    by (rule wp_cons [OF requested_wp [OF s0(1,2) body0]]) (auto intro: req)
  then show ?out unfolding ctx_out_def ndrxj_TypedBuffer_get_ctx_def wp_bind_eq
    by (intro wp_getv wp_jni_orc; unfold q_def [symmetric] s0_def [symmetric])
       (intro wp_if wp_bind wp_keeps [OF plain_LOG_EXCEPTION] wp_return wp_tpsetctxt; (auto dest: log intro: none [where h = "tr _"])?)
qed

text \<open>The outcome of the call: nothing is raised, or the exception of the error code.\<close>

definition ubf_good :: "bool \<Rightarrow> trace \<Rightarrow> trace \<Rightarrow> bool" where
  "ubf_good ok k h \<longleftrightarrow> (if ok then obs throw_ev h = obs throw_ev k else ubf_threw k h)"

lemma ubf_good_more:
  assumes "ubf_good ok k h" "suffix h h'" "obs throw_ev h' = obs throw_ev h"
  shows "ubf_good ok k h'"
proof -
  have "ubf_threw k h \<Longrightarrow> ubf_threw k h'" using assms(2) unfolding ubf_threw_def suffix_def by (elim exE conjE) (metis append.assoc)
  then show ?thesis using assms by (auto simp: ubf_good_def)
qed

lemma asks_call:
  assumes s: "dyn_ok s" "able (orc s)" and "f \<notin> set query_fns" and A: "\<And>h. suffix (tr s) h \<Longrightarrow> A h as"
    and post: "\<And>r t. dyn_ok t \<Longrightarrow> able (orc t) \<Longrightarrow> wp (m r) (\<lambda>x u. pd t u \<and> P x r (tr t) (tr u)) t"
  shows "wp (do { r \<leftarrow> ext (API f as); m r }) (asks f A P s) s"
proof (rule asks_ext [OF assms(3)])
  fix r t
  assume t: "t = s\<lparr>tr := (API f as, r) # tr s\<rparr>"
  then have "dyn_ok t" "able (orc t)" using s by (simp_all add: dyn_ok_event suffix_ConsI)
  note p = post [OF this, of r]
  show "wp (m r) (\<lambda>x u. pd t u \<and> A (tr u) as \<and> P x r (tr t) (tr u)) t"
    by (rule wp_cons [OF p]) (use A pdD(1) [of t] t in \<open>auto dest: suffix_ConsD\<close>)
qed

lemma ubf_outcomes:
  assumes "wp E (\<lambda>_ u. pd t u \<and> ubf_threw (tr t) (tr u)) t"
  shows "wp (if bad then E else skip) (\<lambda>x u. pd t u \<and> ubf_good (\<not> bad) (tr t) (tr u)) t"
    "wp (do { whenM bad E; State_Monad.return v }) (\<lambda>x u. pd t u \<and> x = v \<and> ubf_good (\<not> bad) (tr t) (tr u)) t"
    "wp (if bad then do { E; State_Monad.return a } else State_Monad.return b)
      (\<lambda>x u. pd t u \<and> x = (if bad then a else b) \<and> ubf_good (\<not> bad) (tr t) (tr u)) t"
  by (intro wp_if wp_bind wp_cons [OF assms] wp_return; simp add: ubf_good_def pd.refl)+

text \<open>The method \<open>m\<close> makes one call of \<open>f\<close>, with arguments that satisfy \<open>A\<close>.  It raises nothing if the result of the call is good, and the
  exception of the error code otherwise; \<open>out\<close> relates its own result to that of the call.  \<open>own\<close>: arguments made of
  the pointer of the buffer.\<close>

definition ubf_op :: "string \<Rightarrow> int \<Rightarrow> (trace \<Rightarrow> arg list \<Rightarrow> bool) \<Rightarrow> (xres \<Rightarrow> bool) \<Rightarrow> ('a \<Rightarrow> xres \<Rightarrow> bool) \<Rightarrow> jb \<Rightarrow> (jb, 'a) state \<Rightarrow> bool" where
  "ubf_op f data A good out s m \<longleftrightarrow> ubf_asked f data A (\<lambda>x r k h. out x r \<and> ubf_good (good r) k h) s (val m s) (exec m s)"

definition own :: "(string \<Rightarrow> int) \<Rightarrow> int \<Rightarrow> (int \<Rightarrow> arg list) \<Rightarrow> trace \<Rightarrow> arg list \<Rightarrow> bool" where
  "own g data as h a \<longleftrightarrow> (\<exists>b. ptr_arg g data h b \<and> a = as b)"

lemma ubf_op_body:
  assumes s: "dyn_ok s" "able (orc s)"
    and body: "\<And>c t. dyn_ok t \<Longrightarrow> able (orc t) \<Longrightarrow> gv t = gv s \<Longrightarrow> wp (body c) (asks f A (\<lambda>x r k h. out x r \<and> ubf_good (good r) k h) t) t"
  shows "ubf_op f data A good out s (ctx_return (ndrxj_TypedBuffer_get_ctx env data True) d body)"
    "ubf_op f data A good out s (ctx_out (ndrxj_TypedBuffer_get_ctx env data True) d body)"
  unfolding ubf_op_def by (rule wpD [OF ubf_asked_wp(1) [OF s]] wpD [OF ubf_asked_wp(2) [OF s]], rule body, assumption+)+

lemma own_body:
  assumes t: "dyn_ok t" "able (orc t)" "gv t = g" and f: "f \<notin> set query_fns"
    and post: "\<And>b r t. dyn_ok t \<Longrightarrow> able (orc t) \<Longrightarrow> wp (m b r) (\<lambda>x u. pd t u \<and> out x r \<and> ubf_good (good r) (tr t) (tr u)) t"
  shows "wp (ubf_ptr data d (\<lambda>b. do { r \<leftarrow> ext (API f (as b)); m b r })) (asks f (own g data as) (\<lambda>x r k h. out x r \<and> ubf_good (good r) k h) t) t"
  by (rule asks_ubf_ptr [OF t], rule asks_call) (auto simp: f post own_def intro: ptr_arg_mono)

text \<open>The result may be computed from the result of another method.\<close>

lemma ubf_asked_out:
  assumes "ubf_asked f data A P s x t" "\<And>r k h. P x r k h \<Longrightarrow> P' y r k h"
  shows "ubf_asked f data A P' s y t"
proof -
  have "requested f obj A P u x t \<Longrightarrow> requested f obj A P' u y t" for obj u
    unfolding requested_def using assms(2) by meson
  then show ?thesis using assms(1) unfolding ubf_asked_def Let_def by (elim exE) (rule exI, erule disjE, blast, blast)
qed

lemma ubf_op_map:
  assumes "ubf_op f data A good out s m" "\<And>x r. out x r \<Longrightarrow> out' (g x) r"
  shows "ubf_op f data A good out' s (do { x \<leftarrow> m; State_Monad.return (g x) })"
  using ubf_asked_out [OF assms(1) [unfolded ubf_op_def], where P' = "\<lambda>x r k h. out' x r \<and> ubf_good (good r) k h"] assms(2)
  by (simp add: ubf_op_def run_simps)

lemma ubf_fields_asked:
  assumes s: "dyn_ok s" "able (orc s)"
  shows "ubf_op ''CBadd'' data (own (gv s) data (\<lambda>b. [I b, I bfldid, v, I len, I ty])) (\<lambda>r. ri r = EXSUCCEED) (\<lambda>x r. True) s
      (ndrxj_ubf_CBadd env data bfldid v len ty)"
    "ubf_op ''CBchg'' data (own (gv s) data (\<lambda>b. [I b, I bfldid, I occ, v, I len, I ty])) (\<lambda>r. ri r = EXSUCCEED) (\<lambda>x r. True) s
      (ndrxj_ubf_CBchg env data bfldid occ v len ty)"
    "ubf_op ''CBfind'' data (own (gv s) data (\<lambda>b. [I b, I bfldid, I occ, I ty])) (\<lambda>r. ri r \<noteq> 0)
      (\<lambda>x r. x = (if ri r = 0 then EXFAIL else EXSUCCEED, r)) s (ndrxj_ubf_CBfind env data bfldid occ ty)"
  unfolding ndrxj_ubf_CBadd_def ndrxj_ubf_CBchg_def ndrxj_ubf_CBfind_def
  by (rule ubf_op_body [OF s], rule own_body, assumption+, simp add: query_fns_def,
      rule wp_cons [OF ubf_outcomes(1) [OF ubf_fails(2)]] wp_cons [OF ubf_outcomes(1) [OF ubf_fails(3)]] wp_cons [OF ubf_outcomes(3) [OF ubf_fails(2)]]; simp)+

lemma get_value_asked:
  assumes "dyn_ok s" "able (orc s)"
  shows "ubf_op ''CBfind'' data (own (gv s) data (\<lambda>b. [I b, I bfldid, I occ, I ty])) (\<lambda>r. ri r \<noteq> 0)
    (\<lambda>x r. x = (if ri r = 0 then d else found_value r)) s (get_value env data bfldid occ ty d)"
  unfolding get_value_def case_prod_unfold by (rule ubf_op_map [OF ubf_fields_asked(3) [OF assms]]) simp

end
