(* ===== verification/UbfOps.thy ===== *)
theory UbfOps
  imports Ubf
begin

section \<open>Buffers of fields: operations on whole buffers\<close>

text \<open>
  \<open>TypedUbf_Del.c\<close>, \<open>TypedUbf_Proj.c\<close> and \<open>TypedUbf_Util.c\<close>: deleting fields, projections, the operations on two buffers,
  sizes and counters, iteration and JSON.
\<close>

abbreviation (input) BBADFLDID :: int where "BBADFLDID \<equiv> 0"
abbreviation (input) BFIRSTFLDID :: int where "BFIRSTFLDID \<equiv> 0"

subsection \<open>What the methods share\<close>

text \<open>The \<open>%p\<close> conversion, and the conversions to \<open>jboolean\<close> and \<open>int\<close>.\<close>

definition hex_char :: "nat \<Rightarrow> char" where
  "hex_char d = ''0123456789abcdef'' ! d"

fun show_hex :: "nat \<Rightarrow> string" where
  "show_hex n = (if n < 16 then [hex_char n] else show_hex (n div 16) @ [hex_char (n mod 16)])"

declare show_hex.simps [simp del]

definition show_ptr :: "int \<Rightarrow> string" where
  "show_ptr p = (if p = 0 then ''(nil)'' else ''0x'' @ show_hex (nat (p mod 2 ^ 64)))"

definition jboolean :: "int \<Rightarrow> int" where
  "jboolean i = i mod 256"

definition cint :: "int \<Rightarrow> int" where
  "cint i = (i + 2 ^ 31) mod 2 ^ 32 - 2 ^ 31"

text \<open>A method that works on its buffer in its context; \<open>d\<close> without a context, \<open>d'\<close> without the pointer.\<close>

definition ubf_method :: "int \<Rightarrow> int \<Rightarrow> 'a \<Rightarrow> 'a \<Rightarrow> (int \<Rightarrow> (jb, 'a) state) \<Rightarrow> (jb, 'a) state" where
  "ubf_method env data d d' body = ctx_return (ndrxj_TypedBuffer_get_ctx env data True) d (\<lambda>c. ubf_ptr data d' body)"

text \<open>The field ids of a Java array, terminated for C.\<close>

definition with_fields :: "string \<Rightarrow> int \<Rightarrow> (int \<Rightarrow> arg \<Rightarrow> (jb, unit) state) \<Rightarrow> (jb, unit) state" where
  "with_fields func bfldida body = do {
     len \<leftarrow> jni ''GetArrayLength'' [I bfldida];
     barra \<leftarrow> ex ''malloc'' [I (4 * (len + 1))];
     if barra = 0 then do {
       m \<leftarrow> ext (API ''strerror'' []);
       ndrxj_ubf_throw BEUNIX (func @ '': Failed to malloc '' @ show_int (4 * (len + 1)) @ '' bytes: '' @ rs m)
     } else do {
     jarr \<leftarrow> ext (JNI ''GetIntArrayElements'' [I bfldida]);
     body barra (Bs (take (nat len) (ro jarr) @ [BBADFLDID]));
     whenM (copied jarr) (jni ''ReleaseIntArrayElements'' [I bfldida]);
     ex ''free'' [I barra];
     skip
     }
   }"

subsection \<open>Deleting and projecting (\<open>TypedUbf_Del.c\<close>, \<open>TypedUbf_Proj.c\<close>)\<close>

definition TypedUbf_Bdel :: "int \<Rightarrow> int \<Rightarrow> int \<Rightarrow> int \<Rightarrow> (jb, unit) state" where
  "TypedUbf_Bdel env data bfldid occ = ubf_method env data () () (\<lambda>cdata. do {
     r \<leftarrow> ext (API ''Bdel'' [I cdata, I bfldid, I occ]);
     if ri r \<noteq> EXSUCCEED then field_error ''ndrxj_Java_org_endurox_TypedUbf_Bdel: Bdel failed '' bfldid [] else skip
   })"

definition TypedUbf_Bdelall :: "int \<Rightarrow> int \<Rightarrow> int \<Rightarrow> (jb, unit) state" where
  "TypedUbf_Bdelall env data bfldid = ubf_method env data () () (\<lambda>cdata. do {
     r \<leftarrow> ext (API ''Bdelall'' [I cdata, I bfldid]);
     if ri r \<noteq> EXSUCCEED then throw_berror (''ndrxj_Java_org_endurox_TypedUbf_Bdelall: Bdelall failed '' @ show_int bfldid @ '': '') else skip
   })"

definition TypedUbf_Bdelete :: "int \<Rightarrow> int \<Rightarrow> int \<Rightarrow> (jb, unit) state" where
  "TypedUbf_Bdelete env data bfldida = ctx_return (ndrxj_TypedBuffer_get_ctx env data True) () (\<lambda>c.
     with_fields ''ndrxj_Java_org_endurox_TypedUbf_Bdelete'' bfldida (\<lambda>barra fields. ubf_ptr data () (\<lambda>cdata. do {
       r \<leftarrow> ext (API ''Bdelete'' [I cdata, fields]);
       if ri r \<noteq> EXSUCCEED then throw_berror (''ndrxj_Java_org_endurox_TypedUbf_Bdelete: Bdelete '' @ show_ptr barra @ '': '') else skip
     })))"

definition TypedUbf_Bproj :: "int \<Rightarrow> int \<Rightarrow> int \<Rightarrow> (jb, unit) state" where
  "TypedUbf_Bproj env data bfldida = ctx_return (ndrxj_TypedBuffer_get_ctx env data True) () (\<lambda>c.
     with_fields ''ndrxj_Java_org_endurox_TypedUbf_Bproj'' bfldida (\<lambda>barra fields. ubf_ptr data () (\<lambda>cdata. do {
       r \<leftarrow> ext (API ''Bproj'' [I cdata, fields]);
       if ri r \<noteq> EXSUCCEED then throw_berror (''ndrxj_Java_org_endurox_TypedUbf_Bproj: Bproj '' @ show_ptr barra @ '': '') else skip
     })))"

subsection \<open>Two buffers\<close>

text \<open>The pointers of both buffers.\<close>

definition ubf_ptrs :: "int \<Rightarrow> int \<Rightarrow> 'a \<Rightarrow> (int \<Rightarrow> int \<Rightarrow> (jb, 'a) state) \<Rightarrow> (jb, 'a) state" where
  "ubf_ptrs data src d body = ubf_ptr data d (\<lambda>cdata_dst. ubf_ptr src d (\<lambda>cdata_src. body cdata_dst cdata_src))"

definition TypedUbf_Bconcat :: "int \<Rightarrow> int \<Rightarrow> int \<Rightarrow> (jb, unit) state" where
  "TypedUbf_Bconcat env data src = ctx_return (ndrxj_TypedBuffer_get_ctx env data True) () (\<lambda>c.
     ubf_ptrs data src () (\<lambda>dst src. do {
       r \<leftarrow> ext (API ''Bconcat'' [I dst, I src]);
       if ri r \<noteq> EXSUCCEED
       then throw_berror (''ndrxj_Java_org_endurox_TypedUbf_Bconcat: Bconcat failed on '' @ show_ptr dst @ '' buffer: '') else skip
     }))"

definition TypedUbf_Bcpy :: "int \<Rightarrow> int \<Rightarrow> int \<Rightarrow> (jb, unit) state" where
  "TypedUbf_Bcpy env data src = ctx_return (ndrxj_TypedBuffer_get_ctx env data True) () (\<lambda>c.
     ubf_ptrs data src () (\<lambda>dst src. do {
       r \<leftarrow> ext (API ''Bcpy'' [I dst, I src]);
       if ri r \<noteq> EXSUCCEED
       then throw_berror (''ndrxj_Java_org_endurox_TypedUbf_Bcpy: Bcpy failed on '' @ show_ptr dst @ '' buffer: '') else skip
     }))"

definition TypedUbf_Bupdate :: "int \<Rightarrow> int \<Rightarrow> int \<Rightarrow> (jb, unit) state" where
  "TypedUbf_Bupdate env data src = ctx_return (ndrxj_TypedBuffer_get_ctx env data True) () (\<lambda>c.
     ubf_ptrs data src () (\<lambda>dst src. do {
       r \<leftarrow> ext (API ''Bupdate'' [I dst, I src]);
       if ri r \<noteq> EXSUCCEED
       then throw_berror (''ndrxj_Java_org_endurox_TypedUbf_Bupdate: Bupdate failed on '' @ show_ptr dst @ '' buffer: '') else skip
     }))"

definition TypedUbf_Bjoin :: "int \<Rightarrow> int \<Rightarrow> int \<Rightarrow> (jb, unit) state" where
  "TypedUbf_Bjoin env data src = ctx_return (ndrxj_TypedBuffer_get_ctx env data True) () (\<lambda>c.
     ubf_ptrs data src () (\<lambda>dst src. do {
       r \<leftarrow> ext (API ''Bjoin'' [I dst, I src]);
       if ri r \<noteq> EXSUCCEED
       then throw_berror (''ndrxj_Java_org_endurox_TypedUbf_Bjoin: Bjoin failed on '' @ show_ptr dst @ '' buffer: '') else skip
     }))"

definition TypedUbf_Bojoin :: "int \<Rightarrow> int \<Rightarrow> int \<Rightarrow> (jb, unit) state" where
  "TypedUbf_Bojoin env data src = ctx_return (ndrxj_TypedBuffer_get_ctx env data True) () (\<lambda>c.
     ubf_ptrs data src () (\<lambda>dst src. do {
       r \<leftarrow> ext (API ''Bojoin'' [I dst, I src]);
       if ri r \<noteq> EXSUCCEED
       then throw_berror (''ndrxj_Java_org_endurox_TypedUbf_Bojoin: Bojoin failed on '' @ show_ptr dst @ '' buffer: '') else skip
     }))"

definition TypedUbf_Bprojcpy :: "int \<Rightarrow> int \<Rightarrow> int \<Rightarrow> int \<Rightarrow> (jb, unit) state" where
  "TypedUbf_Bprojcpy env data src bfldida = ctx_return (ndrxj_TypedBuffer_get_ctx env data True) () (\<lambda>c.
     ubf_ptrs data src () (\<lambda>dst src. with_fields ''ndrxj_Java_org_endurox_TypedUbf_Bprojcpy'' bfldida (\<lambda>barra fields. do {
       r \<leftarrow> ext (API ''Bprojcpy'' [I dst, I src, fields]);
       if ri r \<noteq> EXSUCCEED then throw_berror (''ndrxj_Java_org_endurox_TypedUbf_Bprojcpy: Bprojcpy '' @ show_ptr barra @ '': '') else skip
     })))"

text \<open>The result of the comparison says nothing about errors, so the error code decides.\<close>

definition TypedUbf_Bcmp :: "int \<Rightarrow> int \<Rightarrow> int \<Rightarrow> (jb, int) state" where
  "TypedUbf_Bcmp env data src = ctx_return (ndrxj_TypedBuffer_get_ctx env data True) EXSUCCEED (\<lambda>c.
     ubf_ptrs data src EXFAIL (\<lambda>dst src. do {
       r \<leftarrow> ext (API ''Bcmp'' [I dst, I src]);
       err \<leftarrow> ex ''Berror'' [];
       if err \<noteq> EXSUCCEED then do {
         throw_berror (''ndrxj_Java_org_endurox_TypedUbf_Bcmp: Bcmp failed on '' @ show_ptr dst @ '' vs '' @ show_ptr src @ '': '');
         State_Monad.return EXFAIL
       } else State_Monad.return (ri r)
     }))"

definition TypedUbf_Bsubset :: "int \<Rightarrow> int \<Rightarrow> int \<Rightarrow> (jb, int) state" where
  "TypedUbf_Bsubset env data src = ctx_return (ndrxj_TypedBuffer_get_ctx env data True) EXSUCCEED (\<lambda>c.
     ubf_ptrs data src (jboolean EXFAIL) (\<lambda>dst src. do {
       r \<leftarrow> ext (API ''Bsubset'' [I dst, I src]);
       if ri r = EXFAIL then do {
         throw_berror (''ndrxj_Java_org_endurox_TypedUbf_Bsubset: Bsubset failed on haystack '' @ show_ptr dst @ '' needle '' @ show_ptr src @ '': '');
         State_Monad.return (jboolean EXFAIL)
       } else State_Monad.return (jboolean (ri r))
     }))"

subsection \<open>Information about a buffer (\<open>TypedUbf_Util.c\<close>)\<close>

definition TypedUbf_Bpres :: "int \<Rightarrow> int \<Rightarrow> int \<Rightarrow> int \<Rightarrow> (jb, int) state" where
  "TypedUbf_Bpres env data bfldid occ = ubf_method env data 0 0 (\<lambda>cdata. do {
     r \<leftarrow> ext (API ''Bpres'' [I cdata, I bfldid, I occ]);
     State_Monad.return (jboolean (ri r))
   })"

definition TypedUbf_Bisubf :: "int \<Rightarrow> int \<Rightarrow> (jb, int) state" where
  "TypedUbf_Bisubf env data = ubf_method env data 0 0 (\<lambda>cdata. do {
     r \<leftarrow> ext (API ''Bisubf'' [I cdata]);
     State_Monad.return (jboolean (ri r))
   })"

definition TypedUbf_Blen :: "int \<Rightarrow> int \<Rightarrow> int \<Rightarrow> int \<Rightarrow> (jb, int) state" where
  "TypedUbf_Blen env data bfldid occ = ubf_method env data EXFAIL EXFAIL (\<lambda>cdata. do {
     r \<leftarrow> ext (API ''Blen'' [I cdata, I bfldid, I occ]);
     whenM (ri r = EXFAIL) (throw_berror (''ndrxj_Java_org_endurox_TypedUbf_Blen: Blen failed on '' @ show_ptr cdata @ '' buffer: ''));
     State_Monad.return (ri r)
   })"

definition TypedUbf_Bnext :: "int \<Rightarrow> int \<Rightarrow> bool \<Rightarrow> (jb, int) state" where
  "TypedUbf_Bnext env data frst = ctx_return (ndrxj_TypedBuffer_get_ctx env data True) 0 (\<lambda>c.
     let bfldid = (if frst then BFIRSTFLDID else BFIRSTFLDID + 1) in
     ubf_ptr data 0 (\<lambda>cdata. do {
       r \<leftarrow> ext (API ''Bnext'' [I cdata, I bfldid]);
       if ri r = EXFAIL then do {
         throw_berror (''ndrxj_Java_org_endurox_TypedUbf_Bnext: failed to Bnext '' @ show_ptr cdata @ '' buffer: '');
         State_Monad.return 0
       }
       else if ri r = 0 then State_Monad.return 0
       else ndrxj_BNextResult_new (out_arg 0 bfldid r) (out_arg 1 0 r) (out_arg 2 0 r)
     }))"

definition TypedUbf_Boccur :: "int \<Rightarrow> int \<Rightarrow> int \<Rightarrow> (jb, int) state" where
  "TypedUbf_Boccur env data bfldid = ubf_method env data EXFAIL EXFAIL (\<lambda>cdata. do {
     r \<leftarrow> ext (API ''Boccur'' [I cdata, I bfldid]);
     State_Monad.return (ri r)
   })"

definition TypedUbf_Bsizeof :: "int \<Rightarrow> int \<Rightarrow> (jb, int) state" where
  "TypedUbf_Bsizeof env data = ubf_method env data EXFAIL EXFAIL (\<lambda>cdata. do {
     r \<leftarrow> ext (API ''Bsizeof'' [I cdata]);
     State_Monad.return (ri r)
   })"

definition TypedUbf_Bunused :: "int \<Rightarrow> int \<Rightarrow> (jb, int) state" where
  "TypedUbf_Bunused env data = ubf_method env data EXFAIL EXFAIL (\<lambda>cdata. do {
     r \<leftarrow> ext (API ''Bunused'' [I cdata]);
     State_Monad.return (ri r)
   })"

definition TypedUbf_Bused :: "int \<Rightarrow> int \<Rightarrow> (jb, int) state" where
  "TypedUbf_Bused env data = ubf_method env data EXFAIL EXFAIL (\<lambda>cdata. do {
     r \<leftarrow> ext (API ''Bused'' [I cdata]);
     State_Monad.return (ri r)
   })"

definition TypedUbf_Bnum :: "int \<Rightarrow> int \<Rightarrow> (jb, int) state" where
  "TypedUbf_Bnum env data = ubf_method env data EXFAIL EXFAIL (\<lambda>cdata. do {
     r \<leftarrow> ext (API ''Bnum'' [I cdata]);
     State_Monad.return (ri r)
   })"

definition TypedUbf_Binit :: "int \<Rightarrow> int \<Rightarrow> (jb, int) state" where
  "TypedUbf_Binit env data = ubf_method env data EXFAIL EXFAIL (\<lambda>cdata. do {
     ret \<leftarrow> ex ''Bsizeof'' [I cdata];
     if ret = EXFAIL then do {
       throw_berror (''ndrxj_Java_org_endurox_TypedUbf_Binit: Failed to get '' @ show_ptr cdata @ '' buffer size: '');
       State_Monad.return ret
     } else do {
     r \<leftarrow> ex ''Binit'' [I cdata, I (cint ret)];
     whenM (r \<noteq> EXSUCCEED)
       (throw_berror (''ndrxj_Java_org_endurox_TypedUbf_Binit: Failed to init '' @ show_ptr cdata @ '' buffer to size '' @ show_int (cint ret) @ '': ''));
     State_Monad.return ret
     }
   })"

subsection \<open>JSON and logging\<close>

definition TypedUbf_tpjsontoubf :: "int \<Rightarrow> int \<Rightarrow> int \<Rightarrow> (jb, unit) state" where
  "TypedUbf_tpjsontoubf env data json = do {
     n_str \<leftarrow> ext (JNI ''GetStringUTFChars'' [I json]);
     c \<leftarrow> ndrxj_TypedBuffer_get_ctx env data True;
     (if c = 0 then skip else ubf_ptr data () (\<lambda>cdata. do {
       r \<leftarrow> ext (API ''tpjsontoubf'' [I cdata, cstr n_str]);
       if ri r \<noteq> EXSUCCEED then throw_tperrno data else skip
     }));
     whenM (copied n_str) (jni ''ReleaseStringUTFChars'' [I json]);
     tpsetctxt TPNULLCONTEXT;
     skip
   }"

text \<open>The text is written into a block that is never freed; what the core has written is part of its result.\<close>

definition TypedUbf_tpubftojson :: "int \<Rightarrow> int \<Rightarrow> (jb, int) state" where
  "TypedUbf_tpubftojson env data = do {
     (ok, json) \<leftarrow> ctx_out (ndrxj_TypedBuffer_get_ctx env data True) (False, []) (\<lambda>c. ubf_ptr data (False, []) (\<lambda>cdata. do {
       sz \<leftarrow> ex ''Bsizeof'' [I cdata];
       let bufsz = cint (sz * 10);
       tmp \<leftarrow> ex ''malloc'' [I bufsz];
       if tmp = 0 then do {
         m \<leftarrow> ext (API ''strerror'' []);
         ndrxj_ubf_throw BEUNIX (''Failed to malloc JSON temp buffer of '' @ show_int (cint tmp) @ '' (UBF size of multiplied by 10) bytes: '' @ rs m);
         State_Monad.return (False, [])
       } else do {
       r \<leftarrow> ext (API ''tpubftojson'' [I cdata, I tmp, I bufsz]);
       if ri r \<noteq> EXSUCCEED then do { throw_tperrno data; State_Monad.return (False, []) } else State_Monad.return (True, rs r)
       }
     }));
     if ok then jni ''NewStringUTF'' [S json] else State_Monad.return 0
   }"

definition TypedUbf_tplogprintubf :: "int \<Rightarrow> int \<Rightarrow> int \<Rightarrow> int \<Rightarrow> (jb, unit) state" where
  "TypedUbf_tplogprintubf env data lev title = ctx_out (ndrxj_TypedBuffer_get_ctx env data True) () (\<lambda>c. ubf_ptr data () (\<lambda>cdata.
     with_utf title (\<lambda>n_title. do { ex ''tplogprintubf'' [I lev, cstr n_title, I cdata]; skip })))"

subsection \<open>The context\<close>

lemma inner_with_fields: "(\<And>b a. keeps inner (body b a)) \<Longrightarrow> keeps inner (with_fields func bfldida body)"
  unfolding with_fields_def by (intro inner_ubf; simp add: fns_defs)

lemmas inner_ops = inner_ubf inner_ubf_ptr inner_with_fields plain_results(3) [THEN keeps_plain_inner]

lemma ubf_ops_native:
  assumes "cur_ctx (tr s) = 0"
  shows "native_buf data s (exec (TypedUbf_Bdel env data bfldid occ) s)"
    "native_buf data s (exec (TypedUbf_Bdelall env data bfldid) s)"
    "native_buf data s (exec (TypedUbf_Bdelete env data bfldida) s)"
    "native_buf data s (exec (TypedUbf_Bproj env data bfldida) s)"
    "native_buf data s (exec (TypedUbf_Bconcat env data src) s)"
    "native_buf data s (exec (TypedUbf_Bcpy env data src) s)"
    "native_buf data s (exec (TypedUbf_Bupdate env data src) s)"
    "native_buf data s (exec (TypedUbf_Bjoin env data src) s)"
    "native_buf data s (exec (TypedUbf_Bojoin env data src) s)"
    "native_buf data s (exec (TypedUbf_Bprojcpy env data src bfldida) s)"
    "native_buf data s (exec (TypedUbf_Bcmp env data src) s)"
    "native_buf data s (exec (TypedUbf_Bsubset env data src) s)"
    "native_buf data s (exec (TypedUbf_Bpres env data bfldid occ) s)"
    "native_buf data s (exec (TypedUbf_Bisubf env data) s)"
    "native_buf data s (exec (TypedUbf_Blen env data bfldid occ) s)"
    "native_buf data s (exec (TypedUbf_Bnext env data frst) s)"
    "native_buf data s (exec (TypedUbf_Boccur env data bfldid) s)"
    "native_buf data s (exec (TypedUbf_Bsizeof env data) s)"
    "native_buf data s (exec (TypedUbf_Bunused env data) s)"
    "native_buf data s (exec (TypedUbf_Bused env data) s)"
    "native_buf data s (exec (TypedUbf_Bnum env data) s)"
    "native_buf data s (exec (TypedUbf_Binit env data) s)"
    "native_buf data s (exec (TypedUbf_tplogprintubf env data lev title) s)"
  unfolding TypedUbf_Bdel_def TypedUbf_Bdelall_def TypedUbf_Bdelete_def TypedUbf_Bproj_def TypedUbf_Bconcat_def TypedUbf_Bcpy_def TypedUbf_Bupdate_def TypedUbf_Bjoin_def TypedUbf_Bojoin_def TypedUbf_Bprojcpy_def TypedUbf_Bcmp_def TypedUbf_Bsubset_def TypedUbf_Bpres_def TypedUbf_Bisubf_def TypedUbf_Blen_def TypedUbf_Bnext_def TypedUbf_Boccur_def TypedUbf_Bsizeof_def TypedUbf_Bunused_def TypedUbf_Bused_def TypedUbf_Bnum_def TypedUbf_Binit_def TypedUbf_tplogprintubf_def
    ubf_method_def ubf_ptrs_def Let_def
  by (rule buf_native [OF _ assms], (intro inner_ops; simp add: fns_defs))+

subsection \<open>One request to the core, and an exception when it fails\<close>

text \<open>The arguments made of the pointers of two buffers, and the array of field ids.\<close>

definition own2 :: "(string \<Rightarrow> int) \<Rightarrow> int \<Rightarrow> int \<Rightarrow> (int \<Rightarrow> int \<Rightarrow> arg list) \<Rightarrow> trace \<Rightarrow> arg list \<Rightarrow> bool" where
  "own2 g data src as h a \<longleftrightarrow> (\<exists>b b2. ptr_arg g data h b \<and> ptr_arg g src h b2 \<and> a = as b b2)"

definition fields_arg :: "int \<Rightarrow> trace \<Rightarrow> arg \<Rightarrow> bool" where
  "fields_arg bfldida h a \<longleftrightarrow> (\<exists>n q. (JNI ''GetArrayLength'' [I bfldida], n) \<in> calls h \<and> (JNI ''GetIntArrayElements'' [I bfldida], q) \<in> set h \<and>
     a = Bs (take (nat n) (ro q) @ [BBADFLDID]))"

definition own_fields :: "(string \<Rightarrow> int) \<Rightarrow> int \<Rightarrow> int \<Rightarrow> trace \<Rightarrow> arg list \<Rightarrow> bool" where
  "own_fields g data bfldida h a \<longleftrightarrow> (\<exists>b fs. ptr_arg g data h b \<and> fields_arg bfldida h fs \<and> a = [I b, fs])"

definition own2_fields :: "(string \<Rightarrow> int) \<Rightarrow> int \<Rightarrow> int \<Rightarrow> int \<Rightarrow> trace \<Rightarrow> arg list \<Rightarrow> bool" where
  "own2_fields g data src bfldida h a \<longleftrightarrow> (\<exists>b b2 fs. ptr_arg g data h b \<and> ptr_arg g src h b2 \<and> fields_arg bfldida h fs \<and> a = [I b, I b2, fs])"

lemma fields_arg_mono: "fields_arg f h a \<Longrightarrow> suffix h h' \<Longrightarrow> fields_arg f h' a"
  using suffix_calls [of h h'] set_mono_suffix [of h h'] unfolding fields_arg_def by blast

lemma own_fields_mono: "own_fields g d f h a \<Longrightarrow> suffix h h' \<Longrightarrow> own_fields g d f h' a" "own2_fields g d d2 f h a \<Longrightarrow> suffix h h' \<Longrightarrow> own2_fields g d d2 f h' a"
  unfolding own_fields_def own2_fields_def by (blast intro: fields_arg_mono ptr_arg_mono)+

lemma own2_body:
  assumes t: "dyn_ok t" "able (orc t)" "gv t = g" and f: "f \<notin> set query_fns"
    and post: "\<And>b b2 r t. dyn_ok t \<Longrightarrow> able (orc t) \<Longrightarrow> wp (m b b2 r) (\<lambda>x u. pd t u \<and> out x r \<and> ubf_good (good r) (tr t) (tr u)) t"
  shows "wp (ubf_ptrs data src d (\<lambda>b b2. do { r \<leftarrow> ext (API f (as b b2)); m b b2 r }))
    (asks f (own2 g data src as) (\<lambda>x r k h. out x r \<and> ubf_good (good r) k h) t) t"
  unfolding ubf_ptrs_def
proof (rule asks_ubf_ptr [OF t], rule asks_ubf_ptr, assumption+, rule asks_call)
  fix b b2 u v h
  assume "ptr_arg g data (tr u) b" "suffix (tr u) (tr v)" "ptr_arg g src (tr v) b2" "suffix (tr v) h"
  then show "own2 g data src as h (as b b2)" unfolding own2_def
    by (intro exI [of _ b] exI [of _ b2] conjI refl) (auto intro: ptr_arg_mono suffix_order.trans)
qed (simp_all add: f post)

text \<open>Giving back the array adds events that matter to nobody.\<close>

lemma asks_post:
  assumes "asks f A P s x u" "pd u v" "\<And>as. A (tr u) as \<Longrightarrow> A (tr v) as" "\<And>r k. P x r k (tr u) \<Longrightarrow> P x r k (tr v)"
  shows "asks f A P s x v"
proof -
  have suf: "suffix k (tr u) \<Longrightarrow> suffix k (tr v)" for k using pdD(1) [OF assms(2)] by (meson suffix_order.trans)
  have "pending (tr s) (tr u) \<Longrightarrow> pending (tr s) (tr v)" using pdD(1) [OF assms(2)] by (auto intro: pending_mono)
  then show ?thesis using assms(1,3,4) suf unfolding asks_def pdD(2) [OF assms(2)] by meson
qed

lemma pd_event2: "\<not> core_ev e \<Longrightarrow> \<not> core_ev e' \<Longrightarrow> pd s (s\<lparr>tr := (e, r) # (e', r') # tr s\<rparr>)"
  using pd.trans [OF pd_event [of e' s r'] pd_event [of e "s\<lparr>tr := (e', r') # tr s\<rparr>" r]] by simp

lemma asks_with_fields:
  assumes s: "dyn_ok s" "able (orc s)" "gv s = g"
    and body: "\<And>b fs t. dyn_ok t \<Longrightarrow> able (orc t) \<Longrightarrow> gv t = g \<Longrightarrow> suffix (tr s) (tr t) \<Longrightarrow> fields_arg bfldida (tr t) fs \<Longrightarrow>
      wp (body b fs) (asks f A (\<lambda>x r k h. True \<and> ubf_good (good r) k h) t) t"
    and A: "\<And>h h' as. A h as \<Longrightarrow> suffix h h' \<Longrightarrow> A h' as"
  shows "wp (with_fields func bfldida body) (asks f A (\<lambda>x r k h. True \<and> ubf_good (good r) k h) s) s"
proof -
  let ?P = "\<lambda>(x::unit) r k h. True \<and> ubf_good (good r) k h"
  have rel: "asks f A ?P s () v" if "asks f A ?P s x u" "pd u v" "obs throw_ev (tr v) = obs throw_ev (tr u)" for x u v
    by (rule asks_post [OF _ that(2)]) (use that A pdD(1) [OF that(2)] ubf_good_more in auto)
  have rest: "wp (do { body b fs; whenM (copied q) (jni ''ReleaseIntArrayElements'' [I bfldida]); ex ''free'' [I b]; skip }) (asks f A ?P s) t"
    if "pd s t" "fields_arg bfldida (tr t) fs" for b fs q t
  proof -
    have b: "wp (body b fs) (asks f A ?P t) t" using s that pdD [OF that(1)] by (intro body) simp_all
    show ?thesis
      by (intro wp_bind wp_cons [OF b] wp_if wp_jni wp_ex wp_return; drule asks_pre [OF that(1)]; erule rel)
         (auto simp: query_fns_def intro!: pd_event2 pd_event)
  qed
  show ?thesis unfolding with_fields_def
    apply (rule wp_bind, rule wpx_jni, rule wp_bind, rule wpa_malloc, rule wp_if)
     apply (use s(2) in simp)
    apply (rule wp_bind, rule wpx_ext, rule rest)
     apply (simp add: pd_def query_fns_def suffix_ConsI dynR_same)
    apply (auto simp: fields_arg_def)
    done
qed

lemma ops_asked:
  assumes s: "dyn_ok s" "able (orc s)"
  shows "ubf_op ''Bdel'' data (own (gv s) data (\<lambda>b. [I b, I bfldid, I occ])) (\<lambda>r. ri r = EXSUCCEED) (\<lambda>x r. True) s (TypedUbf_Bdel env data bfldid occ)"
    "ubf_op ''Bdelall'' data (own (gv s) data (\<lambda>b. [I b, I bfldid])) (\<lambda>r. ri r = EXSUCCEED) (\<lambda>x r. True) s (TypedUbf_Bdelall env data bfldid)"
    "ubf_op ''Blen'' data (own (gv s) data (\<lambda>b. [I b, I bfldid, I occ])) (\<lambda>r. ri r \<noteq> EXFAIL) (\<lambda>x r. x = ri r) s (TypedUbf_Blen env data bfldid occ)"
    "ubf_op ''Bpres'' data (own (gv s) data (\<lambda>b. [I b, I bfldid, I occ])) (\<lambda>r. True) (\<lambda>x r. x = jboolean (ri r)) s (TypedUbf_Bpres env data bfldid occ)"
    "ubf_op ''Bisubf'' data (own (gv s) data (\<lambda>b. [I b])) (\<lambda>r. True) (\<lambda>x r. x = jboolean (ri r)) s (TypedUbf_Bisubf env data)"
    "ubf_op ''Boccur'' data (own (gv s) data (\<lambda>b. [I b, I bfldid])) (\<lambda>r. True) (\<lambda>x r. x = ri r) s (TypedUbf_Boccur env data bfldid)"
    "ubf_op ''Bsizeof'' data (own (gv s) data (\<lambda>b. [I b])) (\<lambda>r. True) (\<lambda>x r. x = ri r) s (TypedUbf_Bsizeof env data)"
    "ubf_op ''Bunused'' data (own (gv s) data (\<lambda>b. [I b])) (\<lambda>r. True) (\<lambda>x r. x = ri r) s (TypedUbf_Bunused env data)"
    "ubf_op ''Bused'' data (own (gv s) data (\<lambda>b. [I b])) (\<lambda>r. True) (\<lambda>x r. x = ri r) s (TypedUbf_Bused env data)"
    "ubf_op ''Bnum'' data (own (gv s) data (\<lambda>b. [I b])) (\<lambda>r. True) (\<lambda>x r. x = ri r) s (TypedUbf_Bnum env data)"
  unfolding TypedUbf_Bdel_def TypedUbf_Bdelall_def TypedUbf_Blen_def TypedUbf_Bpres_def TypedUbf_Bisubf_def TypedUbf_Boccur_def TypedUbf_Bsizeof_def TypedUbf_Bunused_def TypedUbf_Bused_def TypedUbf_Bnum_def ubf_method_def
  by (rule ubf_op_body [OF s], rule own_body, assumption+, simp add: query_fns_def,
      (rule wp_cons [OF ubf_outcomes(1) [OF ubf_fails(2)]] wp_cons [OF ubf_outcomes(1) [OF ubf_fails(1)]] wp_cons [OF ubf_outcomes(2) [OF ubf_fails(1)]]
        wp_return); simp add: pd.refl ubf_good_def)+

lemma ops2_asked:
  assumes s: "dyn_ok s" "able (orc s)"
  shows "ubf_op ''Bconcat'' data (own2 (gv s) data src (\<lambda>b b2. [I b, I b2])) (\<lambda>r. ri r = EXSUCCEED) (\<lambda>x r. True) s (TypedUbf_Bconcat env data src)"
    "ubf_op ''Bcpy'' data (own2 (gv s) data src (\<lambda>b b2. [I b, I b2])) (\<lambda>r. ri r = EXSUCCEED) (\<lambda>x r. True) s (TypedUbf_Bcpy env data src)"
    "ubf_op ''Bupdate'' data (own2 (gv s) data src (\<lambda>b b2. [I b, I b2])) (\<lambda>r. ri r = EXSUCCEED) (\<lambda>x r. True) s (TypedUbf_Bupdate env data src)"
    "ubf_op ''Bjoin'' data (own2 (gv s) data src (\<lambda>b b2. [I b, I b2])) (\<lambda>r. ri r = EXSUCCEED) (\<lambda>x r. True) s (TypedUbf_Bjoin env data src)"
    "ubf_op ''Bojoin'' data (own2 (gv s) data src (\<lambda>b b2. [I b, I b2])) (\<lambda>r. ri r = EXSUCCEED) (\<lambda>x r. True) s (TypedUbf_Bojoin env data src)"
    "ubf_op ''Bsubset'' data (own2 (gv s) data src (\<lambda>b b2. [I b, I b2])) (\<lambda>r. ri r \<noteq> EXFAIL) (\<lambda>x r. x = jboolean (ri r)) s (TypedUbf_Bsubset env data src)"
  unfolding TypedUbf_Bconcat_def TypedUbf_Bcpy_def TypedUbf_Bupdate_def TypedUbf_Bjoin_def TypedUbf_Bojoin_def TypedUbf_Bsubset_def
  by (rule ubf_op_body [OF s], rule own2_body, assumption+, simp add: query_fns_def,
      (rule wp_cons [OF ubf_outcomes(1) [OF ubf_fails(1)]] wp_cons [OF ubf_outcomes(3) [OF ubf_fails(1)]]); simp add: jboolean_def)+

lemma fields_asked:
  assumes s: "dyn_ok s" "able (orc s)"
  shows "ubf_op ''Bdelete'' data (own_fields (gv s) data bfldida) (\<lambda>r. ri r = EXSUCCEED) (\<lambda>x r. True) s (TypedUbf_Bdelete env data bfldida)"
    "ubf_op ''Bproj'' data (own_fields (gv s) data bfldida) (\<lambda>r. ri r = EXSUCCEED) (\<lambda>x r. True) s (TypedUbf_Bproj env data bfldida)"
    "ubf_op ''Bprojcpy'' data (own2_fields (gv s) data src bfldida) (\<lambda>r. ri r = EXSUCCEED) (\<lambda>x r. True) s (TypedUbf_Bprojcpy env data src bfldida)"
  unfolding TypedUbf_Bdelete_def TypedUbf_Bproj_def TypedUbf_Bprojcpy_def
proof -
  have call: "wp (do { r \<leftarrow> ext (API f as); if ri r \<noteq> EXSUCCEED then throw_berror pre else skip })
      (asks f A (\<lambda>x r k h. True \<and> ubf_good (ri r = EXSUCCEED) k h) t) t"
    if "dyn_ok t" "able (orc t)" "f \<notin> set query_fns" "\<And>h. suffix (tr t) h \<Longrightarrow> A h as" for f as A pre t
    by (rule asks_call [OF that(1-3)], erule that(4), rule wp_cons [OF ubf_outcomes(1) [OF ubf_fails(1)]]) simp_all
  show "ubf_op ''Bdelete'' data (own_fields (gv s) data bfldida) (\<lambda>r. ri r = EXSUCCEED) (\<lambda>x r. True) s
    (ctx_return (ndrxj_TypedBuffer_get_ctx env data True) () (\<lambda>c. with_fields ''ndrxj_Java_org_endurox_TypedUbf_Bdelete'' bfldida
      (\<lambda>barra fields. ubf_ptr data () (\<lambda>cdata. do { r \<leftarrow> ext (API ''Bdelete'' [I cdata, fields]);
        if ri r \<noteq> EXSUCCEED then throw_berror (''ndrxj_Java_org_endurox_TypedUbf_Bdelete: Bdelete '' @ show_ptr barra @ '': '') else skip }))))"
    by (rule ubf_op_body [OF s], rule asks_with_fields, assumption+, rule asks_ubf_ptr, assumption+, rule call, assumption+, simp add: query_fns_def)
       (auto simp: own_fields_def intro: fields_arg_mono ptr_arg_mono suffix_order.trans)
  show "ubf_op ''Bproj'' data (own_fields (gv s) data bfldida) (\<lambda>r. ri r = EXSUCCEED) (\<lambda>x r. True) s
    (ctx_return (ndrxj_TypedBuffer_get_ctx env data True) () (\<lambda>c. with_fields ''ndrxj_Java_org_endurox_TypedUbf_Bproj'' bfldida
      (\<lambda>barra fields. ubf_ptr data () (\<lambda>cdata. do { r \<leftarrow> ext (API ''Bproj'' [I cdata, fields]);
        if ri r \<noteq> EXSUCCEED then throw_berror (''ndrxj_Java_org_endurox_TypedUbf_Bproj: Bproj '' @ show_ptr barra @ '': '') else skip }))))"
    by (rule ubf_op_body [OF s], rule asks_with_fields, assumption+, rule asks_ubf_ptr, assumption+, rule call, assumption+, simp add: query_fns_def)
       (auto simp: own_fields_def intro: fields_arg_mono ptr_arg_mono suffix_order.trans)
  show "ubf_op ''Bprojcpy'' data (own2_fields (gv s) data src bfldida) (\<lambda>r. ri r = EXSUCCEED) (\<lambda>x r. True) s
    (ctx_return (ndrxj_TypedBuffer_get_ctx env data True) () (\<lambda>c. ubf_ptrs data src () (\<lambda>dst src.
      with_fields ''ndrxj_Java_org_endurox_TypedUbf_Bprojcpy'' bfldida (\<lambda>barra fields. do { r \<leftarrow> ext (API ''Bprojcpy'' [I dst, I src, fields]);
        if ri r \<noteq> EXSUCCEED then throw_berror (''ndrxj_Java_org_endurox_TypedUbf_Bprojcpy: Bprojcpy '' @ show_ptr barra @ '': '') else skip }))))"
    unfolding ubf_ptrs_def
    by (rule ubf_op_body [OF s], rule asks_ubf_ptr, assumption+, rule asks_ubf_ptr, assumption+, rule asks_with_fields, assumption+, rule call, assumption+,
        simp add: query_fns_def)
       (auto simp: own2_fields_def intro: fields_arg_mono ptr_arg_mono suffix_order.trans)
qed

lemma ubf_threw_pre: "ubf_threw k' h \<Longrightarrow> suffix k k' \<Longrightarrow> ubf_threw k h"
  unfolding ubf_threw_def suffix_def
proof (elim exE conjE)
  fix err clz msg q m n z
  assume "h = n @ (JNI ''ThrowNew'' [I clz, S msg], q) # m @ k'" "(API ''Berror'' [], err) \<in> calls m" "ubf_class err clz (m @ k')" "k' = z @ k"
  then show "\<exists>err clz msg q m n. h = n @ (JNI ''ThrowNew'' [I clz, S msg], q) # m @ k \<and> (API ''Berror'' [], err) \<in> calls m \<and> ubf_class err clz (m @ k)"
    by (intro exI [of _ err] exI [of _ clz] exI [of _ msg] exI [of _ q] exI [of _ "m @ z"] exI [of _ n]) (simp add: calls_append)
qed

text \<open>The comparison reports an error apart from its result, and the iteration ends with a result of its own.\<close>

definition cmp_outcome :: "int \<Rightarrow> xres \<Rightarrow> trace \<Rightarrow> trace \<Rightarrow> bool" where
  "cmp_outcome x r k h \<longleftrightarrow> x = ri r \<and> (\<exists>q. ri q = EXSUCCEED \<and> h = (API ''Berror'' [], q) # k) \<or> x = EXFAIL \<and> ubf_threw k h"

definition next_outcome :: "int \<Rightarrow> xres \<Rightarrow> trace \<Rightarrow> trace \<Rightarrow> bool" where
  "next_outcome x r k h \<longleftrightarrow> (ri r = EXFAIL \<longrightarrow> x = 0 \<and> ubf_threw k h) \<and> (ri r = 0 \<longrightarrow> x = 0 \<and> h = k)"

lemma cmp_next_asked:
  assumes s: "dyn_ok s" "able (orc s)"
  shows "ubf_asked ''Bcmp'' data (own2 (gv s) data src (\<lambda>b b2. [I b, I b2])) cmp_outcome s
      (val (TypedUbf_Bcmp env data src) s) (exec (TypedUbf_Bcmp env data src) s)"
    "ubf_asked ''Bnext'' data (own (gv s) data (\<lambda>b. [I b, I (if frst then BFIRSTFLDID else BFIRSTFLDID + 1)])) next_outcome s
      (val (TypedUbf_Bnext env data frst) s) (exec (TypedUbf_Bnext env data frst) s)"
proof -
  have cmp: "wp (do { err \<leftarrow> ex ''Berror'' []; if err \<noteq> EXSUCCEED then do { throw_berror pre; State_Monad.return EXFAIL } else State_Monad.return (ri r) })
      (\<lambda>x u. pd t u \<and> cmp_outcome x r (tr t) (tr u)) t" if "dyn_ok t" "able (orc t)" for t pre and r :: xres
  proof (rule wp_bind, rule wpd_query [OF pd.refl], simp add: query_fns_def, rule wp_if)
    fix q u
    assume u: "pd t u" "u = t\<lparr>tr := (API ''Berror'' [], q) # tr t\<rparr>"
    have d: "dyn_ok u" "able (orc u)" using that pdD [OF u(1)] by simp_all
    show "wp (do { throw_berror pre; State_Monad.return EXFAIL }) (\<lambda>x v. pd t v \<and> cmp_outcome x r (tr t) (tr v)) u"
      by (intro wp_bind wp_cons [OF ubf_fails(1) [OF d]] wp_return)
         (use u in \<open>auto simp: cmp_outcome_def intro: pd.trans ubf_threw_pre suffix_ConsI\<close>)
    show "wp (State_Monad.return (ri r)) (\<lambda>x v. pd t v \<and> cmp_outcome x r (tr t) (tr v)) u" if "\<not> ri q \<noteq> EXSUCCEED"
      using u that by (auto intro!: wp_return simp: cmp_outcome_def)
  qed
  show "ubf_asked ''Bcmp'' data (own2 (gv s) data src (\<lambda>b b2. [I b, I b2])) cmp_outcome s
      (val (TypedUbf_Bcmp env data src) s) (exec (TypedUbf_Bcmp env data src) s)"
    unfolding TypedUbf_Bcmp_def ubf_ptrs_def
    by (rule wpD, rule ubf_asked_wp [OF s], rule asks_ubf_ptr, assumption+, rule asks_ubf_ptr, assumption+, rule asks_call, assumption+,
        simp add: query_fns_def, auto simp: own2_def intro: ptr_arg_mono suffix_order.trans) (rule cmp, assumption+)
  have nxt: "wp (if ri r = EXFAIL then do { throw_berror pre; State_Monad.return 0 } else if ri r = 0 then State_Monad.return 0
        else ndrxj_BNextResult_new a b c) (\<lambda>x u. pd t u \<and> next_outcome x r (tr t) (tr u)) t" if "dyn_ok t" "able (orc t)" for t pre a b c and r :: xres
    by (intro wp_if wp_bind wp_cons [OF ubf_fails(1) [OF that]] wp_return wp_keeps [OF keeps_pd [OF plain_results(3)]])
       (auto simp: next_outcome_def pd.refl ndrxj_BNextResult_new_def intro!: dynR_calls)
  show "ubf_asked ''Bnext'' data (own (gv s) data (\<lambda>b. [I b, I (if frst then BFIRSTFLDID else BFIRSTFLDID + 1)])) next_outcome s
      (val (TypedUbf_Bnext env data frst) s) (exec (TypedUbf_Bnext env data frst) s)"
    unfolding TypedUbf_Bnext_def Let_def
    by (rule wpD, rule ubf_asked_wp [OF s], rule asks_ubf_ptr, assumption+, rule asks_call, assumption+,
        simp add: query_fns_def, force simp: own_def intro: ptr_arg_mono) (rule nxt, assumption+)
qed



end
