(* ===== verification/UbfIo.thy ===== *)
theory UbfIo
  imports UbfOps
begin

section \<open>Buffers of fields: expressions, printing, reading and writing\<close>

text \<open>
  \<open>TypedUbf_Bbool.c\<close> and \<open>TypedUbf_Bprint.c\<close>.  In these methods the field library calls back: for a function in an expression, for a line of
  text, and for the blocks of a buffer that is written or read.  The buffer object of the evaluation in progress is a
  variable of the thread in the code (\<open>M_cb_ubf\<close>); here it is an argument of the callback.  What the library writes, and how much
  it asks for, is a parameter of the methods that write and read.
\<close>

subsection \<open>Expressions (\<open>TypedUbf_Bbool.c\<close>)\<close>

definition Bbool_callback_function :: "int \<Rightarrow> string \<Rightarrow> (jb, int) state" where
  "Bbool_callback_function cb_ubf funcname = do {
     context \<leftarrow> ext (API ''tpgetctxt'' [I 0]);
     jfuncname \<leftarrow> jni ''NewStringUTF'' [S funcname];
     e \<leftarrow> jni ''ExceptionCheck'' [];
     ret \<leftarrow> (if e \<noteq> 0 then do { NDRXJ_LOG_EXCEPTION; State_Monad.return EXFAIL }
       else do { mid \<leftarrow> getv ''TypedUbf_mid_boolcbfDispatch''; java_call ''CallLongMethod'' [I cb_ubf, I mid, I jfuncname] });
     delete_if jfuncname;
     tpsetctxt (hd (ro context @ [0]));
     State_Monad.return ret
   }"

text \<open>The exception for a NULL expression has a conversion without an argument.\<close>

definition null_expr :: "(jb, unit) state" where
  "null_expr = do {
     err \<leftarrow> ex ''Berror'' [];
     fault ''ndrxj_ubf_throw: missing argument'';
     ndrxj_ubf_throw err ''compiled expression must not be NULL: ''
   }"

definition TypedUbf_Bboolev :: "int \<Rightarrow> int \<Rightarrow> int \<Rightarrow> (jb, int) state" where
  "TypedUbf_Bboolev env data jexpr =
     (if jexpr = 0 then do { null_expr; tpsetctxt TPNULLCONTEXT; State_Monad.return 0 }
      else ctx_out (ndrxj_TypedBuffer_get_ctx env data True) 0 (\<lambda>c. do {
        tree \<leftarrow> ndrxj_BExprTree_ptr_get jexpr;
        if tree = 0 then State_Monad.return 0 else
        ubf_ptr data 0 (\<lambda>cdata. do {
          ret \<leftarrow> ex ''Bboolev'' [I cdata, I tree];
          if ret = EXFAIL then do { throw_berror ''Failed to execute Bboolev(): ''; State_Monad.return 0 }
          else State_Monad.return (if ret = 1 then 1 else 0)
        })
      }))"

text \<open>The result of \<open>Bfloatev\<close> is a \<open>double\<close>, given by its bits; \<open>EXFAIL\<close> is \<open>-1.0\<close>.\<close>

definition TypedUbf_Bfloatev :: "int \<Rightarrow> int \<Rightarrow> int \<Rightarrow> (jb, int) state" where
  "TypedUbf_Bfloatev env data jexpr =
     (if jexpr = 0 then do { null_expr; tpsetctxt TPNULLCONTEXT; State_Monad.return 0xBFF0000000000000 }
      else ctx_out (ndrxj_TypedBuffer_get_ctx env data True) 0xBFF0000000000000 (\<lambda>c. do {
        tree \<leftarrow> ndrxj_BExprTree_ptr_get jexpr;
        if tree = 0 then State_Monad.return 0xBFF0000000000000 else
        ubf_ptr data 0xBFF0000000000000 (\<lambda>cdata. do {
          jret \<leftarrow> ex ''Bfloatev'' [I cdata, I tree];
          err \<leftarrow> ex ''Berror'' [];
          whenM (err \<noteq> 0) (throw_berror ''Failed to execute Bfloatev(): '');
          State_Monad.return jret
        })
      }))"

definition quick_eval :: "int \<Rightarrow> arg \<Rightarrow> (jb, int) state" where
  "quick_eval cdata expr = do {
     tree \<leftarrow> ex ''Bboolco'' [expr];
     if tree = 0 then do { throw_berror ''Failed to compile: ''; State_Monad.return 0 } else do {
     ret \<leftarrow> ex ''Bboolev'' [I cdata, I tree];
     whenM (ret = EXFAIL) (throw_berror ''Failed to execute Bboolev(): '');
     ex ''Btreefree'' [I tree];
     State_Monad.return (if ret = 1 then 1 else 0)
     }
   }"

definition TypedUbf_Bqboolev :: "int \<Rightarrow> int \<Rightarrow> int \<Rightarrow> (jb, int) state" where
  "TypedUbf_Bqboolev env data jexprstr =
     (if jexprstr = 0 then do { null_expr; tpsetctxt TPNULLCONTEXT; State_Monad.return 0 }
      else do {
        n_jexprstr \<leftarrow> ext (JNI ''GetStringUTFChars'' [I jexprstr]);
        c \<leftarrow> ndrxj_TypedBuffer_get_ctx env data True;
        jret \<leftarrow> (if c = 0 then State_Monad.return 0 else ubf_ptr data 0 (\<lambda>cdata. quick_eval cdata (cstr n_jexprstr)));
        whenM (copied n_jexprstr) (jni ''ReleaseStringUTFChars'' [I jexprstr]);
        tpsetctxt TPNULLCONTEXT;
        State_Monad.return jret
      })"

subsection \<open>Printing and reading text (\<open>TypedUbf_Bprint.c\<close>)\<close>

definition TypedUbf_Bprint :: "int \<Rightarrow> int \<Rightarrow> (jb, unit) state" where
  "TypedUbf_Bprint env data = ubf_method env data () () (\<lambda>cdata. do {
     r \<leftarrow> ext (API ''Bprint'' [I cdata]);
     if ri r \<noteq> EXSUCCEED
     then throw_berror (''ndrxj_Java_org_endurox_TypedUbf_Bprint: failed to Bprint '' @ show_ptr cdata @ '' buffer: '') else skip
   })"

text \<open>The code and the line that was copied into the buffer of the library, of \<open>bufsz\<close> bytes.\<close>

definition Bextread_readf :: "ndrx_lib \<Rightarrow> int \<Rightarrow> nat \<Rightarrow> (jb, int \<times> string) state" where
  "Bextread_readf lib reader bufsz = do {
     context \<leftarrow> ext (API ''tpgetctxt'' [I 0]);
     mid \<leftarrow> getv ''BufferedReader_mid_readLine'';
     str \<leftarrow> java_call ''CallObjectMethod'' [I reader, I mid];
     tpsetctxt (hd (ro context @ [0]));
     if str = 0 then do {
       e \<leftarrow> jni ''ExceptionCheck'' [];
       if e \<noteq> 0 then do { NDRXJ_LOG_EXCEPTION; State_Monad.return (EXFAIL, []) } else State_Monad.return (0, [])
     } else with_utf str (\<lambda>n_str.
       let buffer = strcpy_safe lib bufsz (rs n_str) in State_Monad.return (int (length buffer) + 1, buffer))
   }"

definition TypedUbf_Bextread :: "int \<Rightarrow> int \<Rightarrow> int \<Rightarrow> (jb, unit) state" where
  "TypedUbf_Bextread env data reader = ubf_method env data () () (\<lambda>cdata. do {
     r \<leftarrow> ext (API ''Bextreadcb'' [I cdata, I reader]);
     if ri r \<noteq> EXSUCCEED then throw_berror ''Failed to call Bextreadcb(): '' else skip
   })"

subsection \<open>Reading and writing blocks\<close>

text \<open>The C array of the structure: its address and its bytes.\<close>

record rw_data =
  offset :: int
  buf :: int
  rbytes :: "int list"
  rsize :: int

text \<open>The code, and the bytes that were copied into the block of \<open>bufsz\<close> bytes.\<close>

definition Bread_readf :: "int \<Rightarrow> rw_data \<Rightarrow> (jb, int \<times> int list \<times> rw_data) state" where
  "Bread_readf bufsz ctl =
     (if offset ctl = 0 then
        if rsize ctl < bufsz then do {
          ndrxj_ubf_throw BEINVAL (''ERROR ! Requested '' @ show_int bufsz @ '' bytes, but our array has only '' @ show_int (rsize ctl));
          State_Monad.return (EXFAIL, [], ctl)
        } else State_Monad.return (bufsz, take (nat bufsz) (rbytes ctl), ctl\<lparr>offset := bufsz\<rparr>)
      else do {
        let ret = rsize ctl - offset ctl;
        whenM (ret > bufsz) (fault ''memcpy: past the end of the block'');
        State_Monad.return (ret, take (nat ret) (drop (nat (offset ctl)) (rbytes ctl)), ctl)
      })"

text \<open>The library asks for blocks of the sizes \<open>bs\<close>, until the callback fails.\<close>

fun read_blocks :: "int list \<Rightarrow> rw_data \<Rightarrow> (jb, bool \<times> int list list) state" where
  "read_blocks [] ctl = State_Monad.return (True, [])"
| "read_blocks (b # bs) ctl = do {
     (n, bytes, ctl) \<leftarrow> Bread_readf b ctl;
     if n < 0 then State_Monad.return (False, []) else do {
       (ok, blocks) \<leftarrow> read_blocks bs ctl;
       State_Monad.return (ok, bytes # blocks)
     }
   }"

definition TypedUbf_Bread :: "(xres \<Rightarrow> int list) \<Rightarrow> int \<Rightarrow> int \<Rightarrow> int \<Rightarrow> (jb, unit) state" where
  "TypedUbf_Bread asked env data jb = do {
     n_array \<leftarrow> ext (JNI ''GetByteArrayElements'' [I jb]);
     c \<leftarrow> ndrxj_TypedBuffer_get_ctx env data True;
     if c = 0 then skip else do {
     ubf_ptr data () (\<lambda>cdata. do {
       len \<leftarrow> jni ''GetArrayLength'' [I jb];
       r \<leftarrow> ext (API ''Breadcb'' [I cdata]);
       (ok, blocks) \<leftarrow> read_blocks (asked r) \<lparr>offset = 0, buf = ri n_array, rbytes = rb n_array, rsize = len\<rparr>;
       if \<not> ok \<or> ri r \<noteq> EXSUCCEED then throw_berror ''Failed to call Breadcb(): '' else skip
     });
     whenM (copied n_array) (jni ''ReleaseByteArrayElements'' [I jb]);
     tpsetctxt TPNULLCONTEXT;
     skip
     }
   }"

text \<open>The message for a block that could not be allocated has three conversions and two arguments.\<close>

definition no_block :: "string \<Rightarrow> int \<Rightarrow> (jb, unit) state" where
  "no_block what n = do {
     m \<leftarrow> ext (API ''strerror'' []);
     fault ''ndrxj_ubf_throw: missing argument'';
     ndrxj_ubf_throw BEUNIX (what @ show_int n @ '' bytes: '' @ rs m)
   }"

definition Bwrite_writef :: "int list \<Rightarrow> rw_data \<Rightarrow> (jb, int \<times> rw_data) state" where
  "Bwrite_writef buffer ctl = do {
     let bufsz = int (length buffer);
     let newsz = offset ctl + bufsz;
     p \<leftarrow> (if buf ctl = 0 then ex ''malloc'' [I bufsz] else ex ''realloc'' [I (buf ctl), I newsz]);
     if p = 0 then do {
       (if buf ctl = 0 then no_block ''Failed to malloc '' bufsz else no_block ''Failed to realloc '' newsz);
       State_Monad.return (EXFAIL, ctl\<lparr>buf := 0\<rparr>)
     } else State_Monad.return (bufsz, ctl\<lparr>buf := p, rbytes := take (nat (offset ctl)) (rbytes ctl) @ buffer, offset := offset ctl + bufsz\<rparr>)
   }"

text \<open>The library writes the blocks \<open>bs\<close>, until the callback does not take one.\<close>

fun write_blocks :: "int list list \<Rightarrow> rw_data \<Rightarrow> (jb, bool \<times> rw_data) state" where
  "write_blocks [] ctl = State_Monad.return (True, ctl)"
| "write_blocks (b # bs) ctl = do {
     (n, ctl) \<leftarrow> Bwrite_writef b ctl;
     if n \<noteq> int (length b) then State_Monad.return (False, ctl) else write_blocks bs ctl
   }"

definition rw_init :: rw_data where
  "rw_init = \<lparr>offset = 0, buf = 0, rbytes = [], rsize = 0\<rparr>"

definition written_array :: "rw_data \<Rightarrow> (jb, int) state" where
  "written_array ctl = do {
     ret \<leftarrow> jni ''NewByteArray'' [I (offset ctl)];
     if ret = 0 then do { NDRXJ_LOG_EXCEPTION; State_Monad.return 0 } else do {
     jni ''SetByteArrayRegion'' [I ret, I 0, I (offset ctl), Bs (take (nat (offset ctl)) (rbytes ctl))];
     e \<leftarrow> jni ''ExceptionCheck'' [];
     whenM (e \<noteq> 0) NDRXJ_LOG_EXCEPTION;
     State_Monad.return ret
     }
   }"

definition TypedUbf_Bwrite :: "(xres \<Rightarrow> int list list) \<Rightarrow> int \<Rightarrow> int \<Rightarrow> (jb, int) state" where
  "TypedUbf_Bwrite writes env data = ubf_method env data 0 0 (\<lambda>cdata. do {
     r \<leftarrow> ext (API ''Bwritecb'' [I cdata]);
     (ok, ctl) \<leftarrow> write_blocks (writes r) rw_init;
     ret \<leftarrow> (if \<not> ok \<or> ri r \<noteq> EXSUCCEED then do { throw_berror ''Failed to call Bwritecb(): ''; State_Monad.return 0 } else written_array ctl);
     whenM (buf ctl \<noteq> 0) (ex ''free'' [I (buf ctl)]);
     State_Monad.return ret
   })"

subsection \<open>The context\<close>

lemma inner_write_blocks: "keeps inner (write_blocks bs ctl)"
proof (induction bs arbitrary: ctl)
  case (Cons b bs)
  have "keeps inner (Bwrite_writef b ctl)" for ctl
    unfolding Bwrite_writef_def no_block_def Let_def by (intro inner_ubf; simp add: fns_defs)
  with Cons show ?case by (auto intro!: inner_ubf)
qed (auto intro: inner_ubf)

lemma ubf_io_native:
  assumes "cur_ctx (tr s) = 0"
  shows "native_buf data s (exec (TypedUbf_Bprint env data) s)"
    "native_buf data s (exec (TypedUbf_Bextread env data reader) s)"
    "native_buf data s (exec (TypedUbf_Bwrite writes env data) s)"
    "jexpr \<noteq> 0 \<Longrightarrow> native_buf data s (exec (TypedUbf_Bboolev env data jexpr) s)"
    "jexpr \<noteq> 0 \<Longrightarrow> native_buf data s (exec (TypedUbf_Bfloatev env data jexpr) s)"
  unfolding TypedUbf_Bprint_def TypedUbf_Bextread_def TypedUbf_Bwrite_def TypedUbf_Bboolev_def TypedUbf_Bfloatev_def ubf_method_def written_array_def
  by ((simp only: if_False simp_thms)?, rule buf_native [OF _ assms], (intro inner_ops inner_write_blocks plain_results [THEN keeps_plain_inner]; simp add: fns_defs))+

subsection \<open>What is written is read back\<close>

lemma Bwrite_writef_wp:
  assumes "\<forall>h as. ri (orc s h (API ''malloc'' as)) \<noteq> 0" "\<forall>h as. ri (orc s h (API ''realloc'' as)) \<noteq> 0"
    and "offset ctl = int (length (rbytes ctl))"
  shows "wp (Bwrite_writef b ctl) (\<lambda>(n, ctl') t. n = int (length b) \<and> rbytes ctl' = rbytes ctl @ b \<and>
    offset ctl' = int (length (rbytes ctl')) \<and> orc t = orc s \<and> flt t = flt s) s"
  using assms unfolding Bwrite_writef_def by (simp add: wp_def run_simps Let_def)

lemma write_blocks_wp:
  assumes "\<forall>h as. ri (orc s h (API ''malloc'' as)) \<noteq> 0" "\<forall>h as. ri (orc s h (API ''realloc'' as)) \<noteq> 0"
    and "offset ctl = int (length (rbytes ctl))"
  shows "wp (write_blocks bs ctl) (\<lambda>(ok, ctl') t. ok \<and> rbytes ctl' = rbytes ctl @ concat bs \<and>
    offset ctl' = int (length (rbytes ctl')) \<and> flt t = flt s) s"
  using assms
proof (induction bs arbitrary: ctl s)
  case (Cons b bs)
  show ?case unfolding write_blocks.simps
  proof (rule wp_bind, rule wp_cons [OF Bwrite_writef_wp [OF Cons.prems]], clarify)
    fix ctl' :: rw_data and t :: jb
    assume a: "rbytes ctl' = rbytes ctl @ b" "offset ctl' = int (length (rbytes ctl'))" "orc t = orc s" "flt t = flt s"
    show "wp (if int (length b) \<noteq> int (length b) then State_Monad.return (False, ctl') else write_blocks bs ctl')
      (\<lambda>(ok, ctl') t. ok \<and> rbytes ctl' = rbytes ctl @ concat (b # bs) \<and> offset ctl' = int (length (rbytes ctl')) \<and> flt t = flt s) t"
      using Cons.IH [of t ctl'] Cons.prems a by (simp add: wp_def)
  qed
qed (simp add: wp_return)



text \<open>An array that is longer than the library was told is copied past the end of its block.\<close>

theorem read_past_block:
  assumes "0 < hdr" "hdr \<le> rsize ctl" "rsize ctl > hdr + rest" "offset ctl = 0"
  shows "''memcpy: past the end of the block'' \<in> set (flt (exec (read_blocks [hdr, rest] ctl) s))"
  using assms by (simp add: Bread_readf_def run_simps Let_def)

subsection \<open>Callbacks\<close>

lemma eval_callback:
  assumes "\<forall>h. ro (orc s h (API ''tpgetctxt'' [I 0])) = [cur_ctx h]"
  shows "wp (Bbool_callback_function u fn) (\<lambda>_ t. cur_ctx (tr t) = cur_ctx (tr s) \<and>
    ((\<exists>j. detached ''CallLongMethod'' [I u, I (gv s ''TypedUbf_mid_boolcbfDispatch''), I j] s t) \<or> pending (tr s) (tr t))) s"
proof -
  let ?Q = "\<lambda>t. cur_ctx (tr t) = cur_ctx (tr s) \<and>
    ((\<exists>j. detached ''CallLongMethod'' [I u, I (gv s ''TypedUbf_mid_boolcbfDispatch''), I j] s t) \<or> pending (tr s) (tr t))"
  have tail: "wp (do { delete_if j; tpsetctxt (cur_ctx (tr s)); State_Monad.return r }) (\<lambda>_. ?Q) v"
    if "pending (tr s) (tr v) \<or> (\<exists>j q k. suffix ((JNI ''CallLongMethod'' [I u, I (gv s ''TypedUbf_mid_boolcbfDispatch''), I j], q) # k) (tr v) \<and> suffix (tr s) k \<and> cur_ctx k = 0)"
    for j v and r :: int
  proof (intro wp_bind wp_keeps [OF plain_delete_if] wp_tpsetctxt wp_return)
    fix w and q :: xres
    assume w: "plain v w"
    have suf: "suffix k (tr v) \<Longrightarrow> suffix k ((API ''tpsetctxt'' [I (cur_ctx (tr s)), I 0], q) # tr w)" for k
      using frameD(1) [OF w] by (meson suffix_ConsI suffix_order.trans)
    have "pending (tr s) (tr v) \<Longrightarrow> pending (tr s) ((API ''tpsetctxt'' [I (cur_ctx (tr s)), I 0], q) # tr w)"
      by (erule pending_mono [OF _ suffix_order.refl suf [OF suffix_order.refl]])
    then show "?Q (w\<lparr>tr := (API ''tpsetctxt'' [I (cur_ctx (tr s)), I 0], q) # tr w\<rparr>)"
      using that suf unfolding detached_def by (auto simp del: suffix_Cons)
  qed
  have log: "pending (tr s) (tr t)" if "plain v t" "v = w\<lparr>tr := (JNI ''ExceptionCheck'' [], r) # tr w\<rparr>" "ri r \<noteq> 0" "suffix (tr s) (tr w)" for v w t r
    using pending_mono [OF pending_check [OF that(3,4)] suffix_order.refl, of "tr t"] frameD(1) [OF that(1)] that(2) by simp
  show ?thesis unfolding Bbool_callback_function_def java_call_def
    apply (rule wp_bind, rule wp_ext_o, simp only: assms append_Cons list.sel)
    apply (rule wp_bind, rule wpx_jni, rule wp_bind, rule wpx_jni, rule wp_bind, rule wp_if)
     apply (rule wp_bind, rule wp_keeps [OF plain_LOG_EXCEPTION], rule wp_return, rule tail, rule disjI1, erule (2) log, simp add: suffix_ConsI)
    apply (rule wp_bind, rule wp_getv, rule wp_bind, rule wpx_jni, rule wp_bind, rule wpx_update, rule wp_return, rule tail, rule disjI2)
    apply (intro exI conjI, rule suffix_order.eq_refl, simp, auto simp: suffix_ConsI)
    done
qed

lemma line_callback:
  assumes "\<forall>h. ro (orc s h (API ''tpgetctxt'' [I 0])) = [cur_ctx h]" "ndrx_lib_ok lib" "0 < bufsz"
  shows "wp (Bextread_readf lib reader bufsz) (\<lambda>x t. detached ''CallObjectMethod'' [I reader, I (gv s ''BufferedReader_mid_readLine'')] s t \<and>
    fst x \<le> int bufsz \<and> (fst x > 0 \<longrightarrow> fst x = int (length (snd x)) + 1)) s"
proof -
  let ?d = "detached ''CallObjectMethod'' [I reader, I (gv s ''BufferedReader_mid_readLine'')] s"
  have keep: "?d t" if "?d v" "suffix (tr v) (tr t)" "cur_ctx (tr t) = cur_ctx (tr v)" for v t
    using that unfolding detached_def by (elim conjE exE) (intro conjI exI, simp, erule (1) suffix_order.trans)
  have plain: "?d t" if "?d v" "plain v t" for v t
    using keep [OF that(1)] frameD(1) [OF that(2)] inner_cur_ctx [OF plain_inner [OF that(2)]] by blast
  have lt: "length (strcpy_safe lib bufsz x) < bufsz" for x using assms(2,3) unfolding ndrx_lib_ok_def by blast
  have len: "int (length (strcpy_safe lib bufsz x)) + 1 \<le> int bufsz" for x using lt [of x] by linarith
  have rest: "wp (if str = 0 then do {
       e \<leftarrow> jni ''ExceptionCheck'' [];
       if e \<noteq> 0 then do { NDRXJ_LOG_EXCEPTION; State_Monad.return (EXFAIL, []) } else State_Monad.return (0, [])
     } else with_utf str (\<lambda>n_str. let buffer = strcpy_safe lib bufsz (rs n_str) in State_Monad.return (int (length buffer) + 1, buffer)))
     (\<lambda>x t. ?d t \<and> fst x \<le> int bufsz \<and> (fst x > 0 \<longrightarrow> fst x = int (length (snd x)) + 1)) v" if v: "?d v" for v str
  proof -
    have e: "?d (v\<lparr>tr := (JNI ''ExceptionCheck'' [], r) # tr v\<rparr>)" for r by (rule keep [OF v]) (simp_all add: suffix_ConsI)
    show ?thesis unfolding with_utf_def Let_def
      by (intro wp_if wp_bind wp_jni wp_ext wp_keeps [OF plain_LOG_EXCEPTION] wp_return)
         (auto simp: len suffix_ConsI intro: keep [OF v] plain [OF e] e)
  qed
  show ?thesis unfolding Bextread_readf_def java_call_def
    apply (rule wp_bind, rule wp_ext_o, simp only: assms append_Cons list.sel)
    apply (rule wp_bind, rule wp_getv, rule wp_bind, rule wp_bind, rule wpx_jni, rule wp_bind, rule wpx_update, rule wp_return)
    apply (rule wp_bind, rule wpx_tpsetctxt, rule rest, unfold detached_def, rule conjI, simp)
    apply (intro exI conjI, erule ssubst, erule ssubst, simp, rule suffix_ConsI, rule suffix_order.refl, simp_all add: suffix_ConsI)
    done
qed

text \<open>C31. A callback of the field library into the application, for a function of an expression or for a line of text, calls it with the thread attached to no
  context and returns to the library in the context it was called in; and the line that is returned fits into the buffer
  of the library with its terminating zero.\<close>

theorem ubf_callbacks:
  assumes "\<forall>h. ro (orc s h (API ''tpgetctxt'' [I 0])) = [cur_ctx h]" "ndrx_lib_ok lib" "0 < bufsz"
  shows "(let t = exec (Bbool_callback_function u fn) s in cur_ctx (tr t) = cur_ctx (tr s) \<and>
       ((\<exists>j. detached ''CallLongMethod'' [I u, I (gv s ''TypedUbf_mid_boolcbfDispatch''), I j] s t) \<or> pending (tr s) (tr t))) \<and>
    (let t = exec (Bextread_readf lib reader bufsz) s; x = val (Bextread_readf lib reader bufsz) s in
       detached ''CallObjectMethod'' [I reader, I (gv s ''BufferedReader_mid_readLine'')] s t \<and> fst x \<le> int bufsz \<and>
       (fst x > 0 \<longrightarrow> fst x = int (length (snd x)) + 1))"
  using eval_callback [OF assms(1)] line_callback [OF assms] by (simp add: wp_def Let_def)

theorem ubf_callbacks_witness:
  "let s = (jb_init (\<lambda>h e. (quiet h e)\<lparr>ro := [cur_ctx h]\<rparr>))\<lparr>tr := [(API ''tpsetctxt'' [I 5, I 0], no_res)]\<rparr>
   in cur_ctx (tr (exec (Bbool_callback_function 3 ''f'') s)) = 5 \<and> fst (val (Bextread_readf plain_lib 4 16) s) \<le> 16"
proof -
  define s where "s = (jb_init (\<lambda>h e. (quiet h e)\<lparr>ro := [cur_ctx h]\<rparr>))\<lparr>tr := [(API ''tpsetctxt'' [I 5, I 0], no_res)]\<rparr>"
  have "\<forall>h. ro (orc s h (API ''tpgetctxt'' [I 0])) = [cur_ctx h]" by (simp add: s_def jb_init_def)
  from ubf_callbacks [OF this plain_lib_ok, of 16 3 "''f''" 4] show ?thesis by (simp add: Let_def s_def)
qed

end
