(* ===== verification/Marshal.thy ===== *)
theory Marshal
  imports Prelude
begin

section \<open>Java objects and buffers of fields\<close>

text \<open>
  \<open>TypedUbfMarshaller.java\<close> copies the annotated fields of a Java object into a buffer of fields and back, for all occurrences of a field or for
  one of them.  The operations of the buffer are the parameter \<open>ubf_api\<close>; an object is the list of its declared
  fields with their Java types, annotations and values.  Numbers of all types are integers here (floating point numbers
  by their bits), the bytes of a \<open>Byte[]\<close> can be null.  Occurrence numbers are below the largest \<open>int\<close>.
\<close>

subsection \<open>Values, fields and the buffer\<close>

datatype kind = KShort | KLong | KByte | KFloat | KDouble | KString | KCarray

datatype uval = Num int | Str string | Byt "int option list"

datatype jval = Null | One uval | Arr "uval option list"

datatype mexc = NotPres | Syntax | Unix | NullPointer | OutOfBounds | Other int

record 'b ubf_api =
  bchg :: "'b \<Rightarrow> int \<Rightarrow> int \<Rightarrow> kind \<Rightarrow> uval \<Rightarrow> mexc option \<times> 'b"
  bget :: "'b \<Rightarrow> int \<Rightarrow> int \<Rightarrow> kind \<Rightarrow> mexc + uval"
  boccur :: "'b \<Rightarrow> int \<Rightarrow> mexc + int"
  bfname :: "int \<Rightarrow> mexc option"

record ubf_field =
  bfldid :: int
  ubfmin :: int
  ojbmin :: int

text \<open>\<open>readable\<close> and \<open>writable\<close>: the accessors \<open>PropertyDescriptor\<close> asks for exist, and the getter returns, the setter accepts what it is given.\<close>

record jfield =
  fname :: string
  fldtyp :: string
  anno :: "ubf_field option"
  readable :: bool
  writable :: bool
  fval :: jval

text \<open>The names of the supported types.\<close>

definition array_types :: "(string \<times> kind) list" where
  "array_types = [(''[S'', KShort), (''[Ljava.lang.Short;'', KShort), (''[J'', KLong), (''[Ljava.lang.Long;'', KLong),
     (''[B'', KByte), (''[Ljava.lang.Byte;'', KByte), (''[F'', KFloat), (''[Ljava.lang.Float;'', KFloat),
     (''[D'', KDouble), (''[Ljava.lang.Double;'', KDouble), (''[Ljava.lang.String;'', KString),
     (''[[B'', KCarray), (''[[Ljava.lang.Byte;'', KCarray)]"

definition scalar_types :: "(string \<times> kind) list" where
  "scalar_types = [(''short'', KShort), (''java.lang.Short'', KShort), (''long'', KLong), (''java.lang.Long'', KLong),
     (''byte'', KByte), (''java.lang.Byte'', KByte), (''float'', KFloat), (''java.lang.Float'', KFloat),
     (''double'', KDouble), (''java.lang.Double'', KDouble), (''java.lang.String'', KString)]"

definition is_array :: "string \<Rightarrow> bool" where
  "is_array t \<longleftrightarrow> t \<noteq> [] \<and> hd t = CHR ''[''"

text \<open>The exception of a missing field: its message names the field, and the lookup of the name can raise its own.\<close>

definition not_present :: "'b ubf_api \<Rightarrow> int \<Rightarrow> mexc" where
  "not_present U fid = (case bfname U fid of Some e \<Rightarrow> e | None \<Rightarrow> NotPres)"

subsection \<open>From the object to the buffer\<close>

definition invokeGetter :: "jfield \<Rightarrow> mexc + jval" where
  "invokeGetter f = (if readable f then Inr (fval f) else Inl Unix)"

fun has_null :: "uval \<Rightarrow> bool" where
  "has_null (Byt bs) = (None \<in> set bs)"
| "has_null v = False"

text \<open>The loop over the elements, with the number \<open>n\<close> of those already stored.  A null ends the loop; an array of \<open>Byte\<close> objects is read before it is
  tested (\<open>strict\<close>).\<close>

fun chg_items :: "'b ubf_api \<Rightarrow> kind \<Rightarrow> bool \<Rightarrow> int \<Rightarrow> int \<Rightarrow> uval option list \<Rightarrow> 'b \<Rightarrow> mexc option \<times> int \<times> 'b" where
  "chg_items U k strict fid n [] ub = (None, n, ub)"
| "chg_items U k strict fid n (None # vs) ub = (if strict then Some NullPointer else None, n, ub)"
| "chg_items U k strict fid n (Some v # vs) ub =
     (if strict \<and> has_null v then (Some NullPointer, n, ub)
      else case bchg U ub fid n k v of (Some e, ub) \<Rightarrow> (Some e, n, ub) | (None, ub) \<Rightarrow> chg_items U k strict fid (n + 1) vs ub)"

fun elems :: "jval \<Rightarrow> uval option list" where
  "elems Null = []"
| "elems (Arr vs) = vs"
| "elems (One v) = [Some v]"

definition val_occs :: "jfield \<Rightarrow> int" where
  "val_occs f = (if fval f = Null then 0 else if is_array (fldtyp f) then int (length (elems (fval f))) else 1)"

definition marshal_value :: "'b ubf_api \<Rightarrow> jfield \<Rightarrow> int \<Rightarrow> int \<Rightarrow> int \<Rightarrow> 'b \<Rightarrow> mexc option \<times> int \<times> 'b" where
  "marshal_value U f fid occStart occStop ub =
     (if fval f = Null then (None, 0, ub)
      else if is_array (fldtyp f) then
        (case map_of array_types (fldtyp f) of
           None \<Rightarrow> (None, 0, ub)
         | Some k \<Rightarrow>
             if occStart < 0 then (Some OutOfBounds, 0, ub)
             else chg_items U k (fldtyp f = ''[[Ljava.lang.Byte;'') fid 0
                 (drop (nat occStart) (take (nat occStop) (elems (fval f)))) ub)
      else
        (case (map_of scalar_types (fldtyp f), fval f) of
           (Some k, One v) \<Rightarrow> (case bchg U ub fid 0 k v of (Some e, ub) \<Rightarrow> (Some e, 0, ub) | (None, ub) \<Rightarrow> (None, 1, ub))
         | _ \<Rightarrow> (Some Syntax, 0, ub)))"

text \<open>For one occurrence at most one element can be required.\<close>

definition min_flds :: "int \<Rightarrow> int \<Rightarrow> int" where
  "min_flds occ m = (if occ \<noteq> -1 \<and> m > 1 then 1 else m)"

definition marshal_field :: "'b ubf_api \<Rightarrow> int \<Rightarrow> jfield \<Rightarrow> 'b \<Rightarrow> mexc option \<times> 'b" where
  "marshal_field U occ f ub =
     (case anno f of None \<Rightarrow> (None, ub) | Some a \<Rightarrow>
      case invokeGetter f of Inl e \<Rightarrow> (Some e, ub) | Inr _ \<Rightarrow>
        let occs = val_occs f;
          occStart = (if occ = -1 then 0 else occ);
          occStop = (if occ = -1 then occs else occ + 1);
          minFlds = min_flds occ (ojbmin a)
        in if minFlds > occs then (Some (not_present U (bfldid a)), ub)
           else if occStop > occs then (if minFlds > 0 then Some (not_present U (bfldid a)) else None, ub)
           else case marshal_value U f (bfldid a) occStart occStop ub of
               (Some e, _, ub) \<Rightarrow> (Some e, ub)
             | (None, occsProc, ub) \<Rightarrow> (if occsProc < minFlds then Some (not_present U (bfldid a)) else None, ub))"

fun marshal :: "'b ubf_api \<Rightarrow> int \<Rightarrow> jfield list \<Rightarrow> 'b \<Rightarrow> mexc option \<times> 'b" where
  "marshal U occ [] ub = (None, ub)"
| "marshal U occ (f # fs) ub = (case marshal_field U occ f ub of (Some e, ub) \<Rightarrow> (Some e, ub) | (None, ub) \<Rightarrow> marshal U occ fs ub)"

subsection \<open>From the buffer to the object\<close>

definition invokeSetter :: "jfield \<Rightarrow> jval \<Rightarrow> mexc + jfield" where
  "invokeSetter f v = (if writable f then Inr (f\<lparr>fval := v\<rparr>) else Inl Unix)"

text \<open>The loop over the occurrences from \<open>i\<close> on: the values, or the exception and the number of passes begun.\<close>

fun get_items :: "'b ubf_api \<Rightarrow> 'b \<Rightarrow> int \<Rightarrow> kind \<Rightarrow> int \<Rightarrow> nat \<Rightarrow> (mexc \<times> int) + uval list" where
  "get_items U ub fid k i 0 = Inr []"
| "get_items U ub fid k i (Suc n) =
     (case bget U ub fid i k of
        Inl e \<Rightarrow> Inl (e, 1)
      | Inr v \<Rightarrow> (case get_items U ub fid k (i + 1) n of Inl (e, m) \<Rightarrow> Inl (e, m + 1) | Inr vs \<Rightarrow> Inr (v # vs)))"

text \<open>The part that is guarded by the handler: the exception that ends it, the count of the fields, and the new state of the field.  The count is kept
  for arrays of \<open>short\<close> and for single values only, and before the value is read.\<close>

definition counted :: "kind \<Rightarrow> int \<Rightarrow> int" where
  "counted k n = (if k = KShort then n else 0)"

definition unmarshal_value :: "'b ubf_api \<Rightarrow> jfield \<Rightarrow> int \<Rightarrow> int \<Rightarrow> int \<Rightarrow> 'b \<Rightarrow> mexc option \<times> int \<times> jfield" where
  "unmarshal_value U f fid occStart occStop ub =
     (case map_of array_types (fldtyp f) of
        Some k \<Rightarrow>
          (case get_items U ub fid k occStart (nat (occStop - occStart)) of
             Inl (e, n) \<Rightarrow> (Some e, counted k n, f)
           | Inr vs \<Rightarrow>
               (case invokeSetter f (Arr (map Some vs)) of
                  Inl e \<Rightarrow> (Some e, counted k (int (length vs)), f)
                | Inr f \<Rightarrow> (None, counted k (int (length vs)), f)))
      | None \<Rightarrow>
          if occStart < occStop then
            (case map_of scalar_types (fldtyp f) of
               None \<Rightarrow> (Some Syntax, 1, f)
             | Some k \<Rightarrow>
                 (case bget U ub fid occStart k of
                    Inl e \<Rightarrow> (Some e, 1, f)
                  | Inr v \<Rightarrow> (case invokeSetter f (One v) of Inl e \<Rightarrow> (Some e, 1, f) | Inr f \<Rightarrow> (None, 1, f))))
          else (None, 0, f))"

definition unmarshal_field :: "'b ubf_api \<Rightarrow> int \<Rightarrow> 'b \<Rightarrow> jfield \<Rightarrow> mexc option \<times> jfield" where
  "unmarshal_field U occ ub f =
     (case anno f of None \<Rightarrow> (None, f) | Some a \<Rightarrow>
      case (if occ = -1 then boccur U ub (bfldid a) else Inr (occ + 1)) of Inl e \<Rightarrow> (Some e, f) | Inr occStop \<Rightarrow>
      let occStart = (if occ = -1 then 0 else occ);
        minFlds = min_flds occ (ubfmin a)
      in case unmarshal_value U f (bfldid a) occStart occStop ub of
           (e, occsProc, f) \<Rightarrow>
             if e \<noteq> None \<and> e \<noteq> Some NotPres then (e, f)
             else (if occsProc < minFlds then Some (not_present U (bfldid a)) else None, f))"

fun unmarshal :: "'b ubf_api \<Rightarrow> int \<Rightarrow> 'b \<Rightarrow> jfield list \<Rightarrow> mexc option \<times> jfield list" where
  "unmarshal U occ ub [] = (None, [])"
| "unmarshal U occ ub (f # fs) =
     (case unmarshal_field U occ ub f of
        (Some e, f) \<Rightarrow> (Some e, f # fs)
      | (None, f) \<Rightarrow> (case unmarshal U occ ub fs of (e, fs) \<Rightarrow> (e, f # fs)))"

subsection \<open>What the buffer does\<close>

text \<open>The documented behaviour of the buffer the marshaller relies on: storing at the first free occurrence adds one occurrence, which reads back as the value
  when it fits the type of the field, and changes neither the occurrences before it nor the other fields.\<close>

definition same_at :: "'b ubf_api \<Rightarrow> int \<Rightarrow> 'b \<Rightarrow> 'b \<Rightarrow> bool" where
  "same_at U g ub ub' \<longleftrightarrow> boccur U ub' g = boccur U ub g \<and> (\<forall>i k. bget U ub' g i k = bget U ub g i k)"

definition ubf_ok :: "'b ubf_api \<Rightarrow> (int \<Rightarrow> kind \<Rightarrow> uval \<Rightarrow> bool) \<Rightarrow> bool" where
  "ubf_ok U fits \<longleftrightarrow>
     (\<forall>ub ub' fid n k v. boccur U ub fid = Inr n \<and> bchg U ub fid n k v = (None, ub') \<longrightarrow>
        boccur U ub' fid = Inr (n + 1) \<and> (fits fid k v \<longrightarrow> bget U ub' fid n k = Inr v) \<and>
        (\<forall>i k'. i < n \<longrightarrow> bget U ub' fid i k' = bget U ub fid i k') \<and> (\<forall>g. g \<noteq> fid \<longrightarrow> same_at U g ub ub'))"

lemma ubf_okD:
  assumes "ubf_ok U fits" and "boccur U ub fid = Inr n" and "bchg U ub fid n k v = (None, ub')"
  shows "boccur U ub' fid = Inr (n + 1)"
    and "fits fid k v \<Longrightarrow> bget U ub' fid n k = Inr v"
    and "i < n \<Longrightarrow> bget U ub' fid i k' = bget U ub fid i k'"
    and "g \<noteq> fid \<Longrightarrow> same_at U g ub ub'"
  using assms unfolding ubf_ok_def by blast+

lemma same_at_refl [simp]: "same_at U g ub ub"
  by (simp add: same_at_def)

lemma same_at_trans: "same_at U g a b \<Longrightarrow> same_at U g b c \<Longrightarrow> same_at U g a c"
  by (simp add: same_at_def)

text \<open>The elements before the first null, of the whole value or of one element of it.\<close>

definition present :: "uval option list \<Rightarrow> uval list" where
  "present vs = map the (takeWhile (\<lambda>v. v \<noteq> None) vs)"

definition items :: "int \<Rightarrow> jfield \<Rightarrow> uval list" where
  "items occ f = present (if occ = -1 then elems (fval f) else take 1 (drop (nat occ) (elems (fval f))))"

lemma present_simps [simp]:
  "present [] = []" "present (None # vs) = []" "present (Some v # vs) = v # present vs"
  by (simp_all add: present_def)

definition kind_of :: "string \<Rightarrow> kind option" where
  "kind_of t = (case map_of array_types t of Some k \<Rightarrow> Some k | None \<Rightarrow> map_of scalar_types t)"

text \<open>The value of a field has the shape its type says, and the type is a supported one.\<close>

definition supported :: "jfield \<Rightarrow> bool" where
  "supported f \<longleftrightarrow> (case fval f of
       Null \<Rightarrow> kind_of (fldtyp f) \<noteq> None
     | Arr _ \<Rightarrow> map_of array_types (fldtyp f) \<noteq> None
     | One _ \<Rightarrow> map_of scalar_types (fldtyp f) \<noteq> None)"

lemma array_type: "map_of array_types t = Some k \<Longrightarrow> is_array t"
  by (auto simp: array_types_def is_array_def split: if_splits)

lemma scalar_type: "map_of scalar_types t = Some k \<Longrightarrow> \<not> is_array t \<and> map_of array_types t = None"
  by (auto simp: scalar_types_def array_types_def is_array_def split: if_splits)

lemma supported_array:
  assumes "supported f" and "fval f \<noteq> Null" and "is_array (fldtyp f)"
  obtains k vs where "map_of array_types (fldtyp f) = Some k" and "kind_of (fldtyp f) = Some k" and "fval f = Arr vs"
proof (cases "fval f")
  case (Arr vs)
  with assms that show thesis by (auto simp: supported_def kind_of_def)
qed (use assms scalar_type in \<open>auto simp: supported_def\<close>)

lemma supported_scalar:
  assumes "supported f" and "fval f \<noteq> Null" and "\<not> is_array (fldtyp f)"
  obtains k v where "map_of scalar_types (fldtyp f) = Some k" and "kind_of (fldtyp f) = Some k" and "fval f = One v"
proof (cases "fval f")
  case (One v)
  with assms obtain k where "map_of scalar_types (fldtyp f) = Some k" by (auto simp: supported_def)
  with scalar_type [OF this] One that show thesis by (auto simp: kind_of_def)
qed (use assms array_type in \<open>auto simp: supported_def\<close>)

subsection \<open>Storing a field\<close>

text \<open>The buffer holds exactly these values of the field.\<close>

definition holds :: "'b ubf_api \<Rightarrow> 'b \<Rightarrow> int \<Rightarrow> kind \<Rightarrow> uval list \<Rightarrow> bool" where
  "holds U ub fid k xs \<longleftrightarrow> boccur U ub fid = Inr (int (length xs)) \<and> (\<forall>j < length xs. bget U ub fid (int j) k = Inr (xs ! j))"

lemma holds_same: "holds U ub fid k xs \<Longrightarrow> same_at U fid ub ub' \<Longrightarrow> holds U ub' fid k xs"
  by (simp add: holds_def same_at_def)

lemma holds_chg:
  assumes ok: "ubf_ok U fits" and h: "holds U ub fid k xs" and c: "bchg U ub fid (int (length xs)) k v = (None, ub')" and f: "fits fid k v"
  shows "holds U ub' fid k (xs @ [v])"
proof -
  have n: "boccur U ub fid = Inr (int (length xs))" using h by (simp add: holds_def)
  note d = ubf_okD [OF ok n c]
  have "bget U ub' fid (int j) k = Inr ((xs @ [v]) ! j)" if "j < length (xs @ [v])" for j
  proof (cases "j < length xs")
    case True
    with d(3) [of "int j" k] h show ?thesis by (simp add: holds_def nth_append)
  next
    case False
    with that have "j = length xs" by simp
    with d(2) f show ?thesis by (simp add: nth_append)
  qed
  with d(1) show ?thesis by (simp add: holds_def algebra_simps)
qed

lemma chg_items_holds:
  assumes ok: "ubf_ok U fits"
  shows "chg_items U k st fid (int (length xs)) vs ub = (None, m, ub') \<Longrightarrow> holds U ub fid k xs \<Longrightarrow>
    (\<forall>v \<in> set (present vs). fits fid k v) \<Longrightarrow>
    holds U ub' fid k (xs @ present vs) \<and> m = int (length xs + length (present vs)) \<and> (\<forall>g. g \<noteq> fid \<longrightarrow> same_at U g ub ub')"
proof (induction vs arbitrary: xs ub)
  case (Cons x vs)
  show ?case
  proof (cases x)
    case (Some v)
    with Cons.prems obtain ub1 where c: "bchg U ub fid (int (length xs)) k v = (None, ub1)"
      and rest: "chg_items U k st fid (int (length (xs @ [v]))) vs ub1 = (None, m, ub')"
      by (auto split: if_splits option.splits prod.splits simp: algebra_simps)
    have n: "boccur U ub fid = Inr (int (length xs))" using Cons.prems(2) by (simp add: holds_def)
    have h1: "holds U ub1 fid k (xs @ [v])" using Cons.prems Some by (intro holds_chg [OF ok _ c]) auto
    from Cons.IH [OF rest h1] Cons.prems(3) Some ubf_okD(4) [OF ok n c] show ?thesis
      by (auto intro: same_at_trans)
  qed (use Cons.prems in \<open>auto split: if_splits\<close>)
qed auto

lemma marshal_value_holds:
  assumes ok: "ubf_ok U fits" and s: "supported f" and k: "kind_of (fldtyp f) = Some k" and h: "holds U ub fid k []"
    and occ: "-1 \<le> occ" and fit: "\<forall>v \<in> set (items occ f). fits fid k v"
    and within: "(if occ = -1 then val_occs f else occ + 1) \<le> val_occs f"
    and m: "marshal_value U f fid (if occ = -1 then 0 else occ) (if occ = -1 then val_occs f else occ + 1) ub = (None, n, ub')"
  shows "holds U ub' fid k (items occ f) \<and> n = int (length (items occ f)) \<and> (\<forall>g. g \<noteq> fid \<longrightarrow> same_at U g ub ub')"
proof (cases "fval f = Null")
  case True
  with m h show ?thesis by (simp add: marshal_value_def items_def)
next
  case nn: False
  show ?thesis
  proof (cases "is_array (fldtyp f)")
    case True
    from supported_array [OF s nn True] k obtain vs where t: "map_of array_types (fldtyp f) = Some k" and v: "fval f = Arr vs"
      by (metis option.inject)
    define ws where "ws = (if occ = -1 then vs else take 1 (drop (nat occ) vs))"
    have ws: "drop (nat (if occ = -1 then 0 else occ)) (take (nat (if occ = -1 then val_occs f else occ + 1)) vs) = ws"
      using occ v True by (auto simp: ws_def val_occs_def drop_take nat_add_distrib)
    have it: "items occ f = present ws" by (simp add: items_def v ws_def)
    from m t v True occ have "chg_items U k (fldtyp f = ''[[Ljava.lang.Byte;'') fid (int (length ([] :: uval list))) ws ub = (None, n, ub')"
      by (simp add: marshal_value_def ws [symmetric] split: if_splits)
    from chg_items_holds [OF ok this h] fit it show ?thesis by simp
  next
    case False
    from supported_scalar [OF s nn False] k obtain v where t: "map_of scalar_types (fldtyp f) = Some k" and v: "fval f = One v"
      by (metis option.inject)
    have it: "items occ f = [v]" using occ within v False by (auto simp: items_def val_occs_def split: if_splits)
    from m t v False have c: "bchg U ub fid (int (length ([] :: uval list))) k v = (None, ub')" and n: "n = 1"
      by (auto simp: marshal_value_def split: option.splits prod.splits)
    have z: "boccur U ub fid = Inr (int (length ([] :: uval list)))" using h by (simp add: holds_def)
    from holds_chg [OF ok h c] ubf_okD(4) [OF ok z c] fit it n show ?thesis by simp
  qed
qed

lemma items_none:
  assumes "supported f" and "-1 \<le> occ" and "(if occ = -1 then val_occs f else occ + 1) > val_occs f"
  shows "items occ f = []"
proof (cases "fval f = Null")
  case nn: False
  show ?thesis
  proof (cases "is_array (fldtyp f)")
    case True
    from supported_array [OF assms(1) nn True] obtain vs where v: "fval f = Arr vs" by metis
    with assms(2,3) True have "occ \<noteq> -1" "length vs \<le> nat occ" by (simp_all add: val_occs_def split: if_splits)
    with v show ?thesis by (simp add: items_def)
  next
    case False
    from supported_scalar [OF assms(1) nn False] obtain v where v: "fval f = One v" by metis
    with assms(2,3) False have "occ \<noteq> -1" "1 \<le> nat occ" by (simp_all add: val_occs_def split: if_splits)
    with v show ?thesis by (simp add: items_def)
  qed
qed (simp add: items_def)

lemma marshal_field_holds:
  assumes ok: "ubf_ok U fits" and s: "supported f" and a: "anno f = Some a" and k: "kind_of (fldtyp f) = Some k"
    and h: "holds U ub (bfldid a) k []" and occ: "-1 \<le> occ" and fit: "\<forall>v \<in> set (items occ f). fits (bfldid a) k v"
    and m: "marshal_field U occ f ub = (None, ub')"
  shows "holds U ub' (bfldid a) k (items occ f) \<and> min_flds occ (ojbmin a) \<le> int (length (items occ f)) \<and>
    (\<forall>g. g \<noteq> bfldid a \<longrightarrow> same_at U g ub ub')"
proof (cases "(if occ = -1 then val_occs f else occ + 1) > val_occs f")
  case True
  with m a h items_none [OF s occ True] show ?thesis
    by (auto simp: marshal_field_def invokeGetter_def Let_def split: if_splits)
next
  case False
  with m a obtain n where
    v: "marshal_value U f (bfldid a) (if occ = -1 then 0 else occ) (if occ = -1 then val_occs f else occ + 1) ub = (None, n, ub')"
    and n: "min_flds occ (ojbmin a) \<le> n"
    by (auto simp: marshal_field_def invokeGetter_def Let_def split: if_splits option.splits prod.splits)
  from marshal_value_holds [OF ok s k h occ fit _ v] False n show ?thesis by simp
qed

text \<open>The identifiers of the annotated fields.\<close>

definition fids :: "jfield list \<Rightarrow> int list" where
  "fids fs = map bfldid (List.map_filter anno fs)"

lemma fids_simps [simp]:
  "fids [] = []" "fids (f # fs) = (case anno f of None \<Rightarrow> fids fs | Some a \<Rightarrow> bfldid a # fids fs)"
  by (simp_all add: fids_def map_filter_def split: option.splits)

text \<open>An object that can be stored in the buffer: supported types, values that fit, a field of the buffer for each, none of them in the
  buffer.\<close>

definition storable :: "'b ubf_api \<Rightarrow> (int \<Rightarrow> kind \<Rightarrow> uval \<Rightarrow> bool) \<Rightarrow> int \<Rightarrow> jfield list \<Rightarrow> 'b \<Rightarrow> bool" where
  "storable U fits occ fs ub \<longleftrightarrow> distinct (fids fs) \<and>
     (\<forall>f \<in> set fs. \<forall>a. anno f = Some a \<longrightarrow> supported f \<and> boccur U ub (bfldid a) = Inr 0 \<and>
        (\<forall>v \<in> set (items occ f). fits (bfldid a) (the (kind_of (fldtyp f))) v))"

lemma supported_kind: "supported f \<Longrightarrow> \<exists>k. kind_of (fldtyp f) = Some k"
  by (auto simp: supported_def kind_of_def split: jval.splits option.splits)

text \<open>The buffer holds the elements of every annotated field, and at least as many as are required.\<close>

definition all_stored :: "'b ubf_api \<Rightarrow> int \<Rightarrow> jfield list \<Rightarrow> 'b \<Rightarrow> bool" where
  "all_stored U occ fs ub \<longleftrightarrow> (\<forall>f \<in> set fs. \<forall>a. anno f = Some a \<longrightarrow>
     holds U ub (bfldid a) (the (kind_of (fldtyp f))) (items occ f) \<and> min_flds occ (ojbmin a) \<le> int (length (items occ f)))"

lemma all_stored_Cons:
  "all_stored U occ (f # fs) ub \<longleftrightarrow> all_stored U occ fs ub \<and> (\<forall>a. anno f = Some a \<longrightarrow>
     holds U ub (bfldid a) (the (kind_of (fldtyp f))) (items occ f) \<and> min_flds occ (ojbmin a) \<le> int (length (items occ f)))"
  by (auto simp: all_stored_def)

lemma storable_later:
  assumes "storable U fits occ (f # fs) ub" and "anno f = Some a" and "\<forall>g. g \<noteq> bfldid a \<longrightarrow> same_at U g ub ub'"
  shows "storable U fits occ fs ub'"
proof -
  have "bfldid b \<noteq> bfldid a" if "g \<in> set fs" "anno g = Some b" for g b
    using assms(1,2) that by (force simp: storable_def fids_def map_filter_def)
  with assms show ?thesis by (auto simp: storable_def same_at_def)
qed

lemma marshal_stores:
  assumes ok: "ubf_ok U fits" and occ: "-1 \<le> occ"
  shows "marshal U occ fs ub = (None, ub') \<Longrightarrow> storable U fits occ fs ub \<Longrightarrow>
    all_stored U occ fs ub' \<and> (\<forall>g. g \<notin> set (fids fs) \<longrightarrow> same_at U g ub ub')"
proof (induction fs arbitrary: ub)
  case (Cons f fs)
  from Cons.prems(1) obtain ub1 where m: "marshal_field U occ f ub = (None, ub1)" and rest: "marshal U occ fs ub1 = (None, ub')"
    by (auto split: option.splits prod.splits)
  show ?case
  proof (cases "anno f")
    case None
    with m have "ub1 = ub" by (simp add: marshal_field_def)
    with Cons.IH [OF rest] Cons.prems(2) None show ?thesis by (simp add: storable_def all_stored_def)
  next
    case (Some a)
    from Cons.prems(2) Some have sup: "supported f" and z: "boccur U ub (bfldid a) = Inr 0" and new: "bfldid a \<notin> set (fids fs)"
      and fit: "\<forall>v \<in> set (items occ f). fits (bfldid a) (the (kind_of (fldtyp f))) v"
      by (simp_all add: storable_def)
    from supported_kind [OF sup] obtain k where k: "kind_of (fldtyp f) = Some k" by blast
    have h: "holds U ub (bfldid a) k []" using z by (simp add: holds_def)
    have f1: "holds U ub1 (bfldid a) k (items occ f)" "min_flds occ (ojbmin a) \<le> int (length (items occ f))"
      "\<forall>g. g \<noteq> bfldid a \<longrightarrow> same_at U g ub ub1"
      using marshal_field_holds [OF ok sup Some k h occ _ m] fit k by simp_all
    from Cons.IH [OF rest storable_later [OF Cons.prems(2) Some f1(3)]]
    have r: "all_stored U occ fs ub'" "\<forall>g. g \<notin> set (fids fs) \<longrightarrow> same_at U g ub1 ub'" by simp_all
    from holds_same [OF f1(1)] r(2) new have "holds U ub' (bfldid a) k (items occ f)" by blast
    with r f1 Some k show ?thesis by (auto simp: all_stored_Cons intro: same_at_trans)
  qed
qed (simp add: all_stored_def)

subsection \<open>Reading a field\<close>

lemma get_items_all:
  "(\<forall>j < length xs. bget U ub fid (i + int j) k = Inr (xs ! j)) \<Longrightarrow> get_items U ub fid k i (length xs) = Inr xs"
proof (induction xs arbitrary: i)
  case (Cons x xs)
  have "\<forall>j < length xs. bget U ub fid ((i + 1) + int j) k = Inr (xs ! j)"
    using Cons.prems by (fastforce simp: algebra_simps dest: spec [of _ "Suc _"])
  from Cons.IH [OF this] Cons.prems show ?case by (fastforce dest: spec [of _ 0])
qed simp

text \<open>What a field of the object becomes, and how many fields of the buffer are counted for it.\<close>

definition received :: "uval list \<Rightarrow> jfield \<Rightarrow> jfield" where
  "received xs f =
     (if is_array (fldtyp f) then f\<lparr>fval := Arr (map Some xs)\<rparr>
      else case xs of [] \<Rightarrow> f | x # _ \<Rightarrow> f\<lparr>fval := One x\<rparr>)"

definition noticed :: "string \<Rightarrow> uval list \<Rightarrow> int" where
  "noticed t xs = (case map_of array_types t of Some k \<Rightarrow> counted k (int (length xs)) | None \<Rightarrow> if xs = [] then 0 else 1)"

lemma unmarshal_value_received:
  assumes k: "kind_of (fldtyp f) = Some k" and h: "holds U ub fid k xs" and w: "writable f"
  shows "unmarshal_value U f fid 0 (int (length xs)) ub = (None, noticed (fldtyp f) xs, received xs f)"
proof (cases "map_of array_types (fldtyp f)")
  case None
  with k have t: "map_of scalar_types (fldtyp f) = Some k" by (simp add: kind_of_def)
  with scalar_type [OF t] h w None show ?thesis
    by (cases xs) (auto simp: unmarshal_value_def noticed_def received_def holds_def invokeSetter_def)
next
  case (Some k')
  with k have e: "k' = k" by (simp add: kind_of_def)
  from h have "get_items U ub fid k 0 (length xs) = Inr xs" by (intro get_items_all) (simp add: holds_def)
  with Some e array_type [OF Some] w show ?thesis
    by (simp add: unmarshal_value_def noticed_def received_def invokeSetter_def)
qed

lemma unmarshal_field_received:
  assumes a: "anno f = Some a" and k: "kind_of (fldtyp f) = Some k" and h: "holds U ub (bfldid a) k xs" and w: "writable f"
    and m: "ubfmin a \<le> noticed (fldtyp f) xs"
  shows "unmarshal_field U (-1) ub f = (None, received xs f)"
proof -
  have "boccur U ub (bfldid a) = Inr (int (length xs))" using h by (simp add: holds_def)
  with a m unmarshal_value_received [OF k h w] show ?thesis
    by (simp add: unmarshal_field_def min_flds_def Let_def)
qed

subsection \<open>The round trip\<close>

text \<open>The object that is filled declares the same fields.\<close>

definition same_decl :: "jfield \<Rightarrow> jfield \<Rightarrow> bool" where
  "same_decl f g \<longleftrightarrow> fname g = fname f \<and> fldtyp g = fldtyp f \<and> anno g = anno f \<and> writable g"

definition refilled :: "int \<Rightarrow> jfield \<Rightarrow> jfield \<Rightarrow> jfield" where
  "refilled occ f g = (if anno f = None then g else received (items occ f) g)"

definition minimum_noticed :: "int \<Rightarrow> jfield \<Rightarrow> bool" where
  "minimum_noticed occ f \<longleftrightarrow> (case anno f of None \<Rightarrow> True | Some a \<Rightarrow> ubfmin a \<le> noticed (fldtyp f) (items occ f))"

lemma unmarshal_refilled:
  "list_all2 same_decl fs gs \<Longrightarrow> all_stored U occ fs ub \<Longrightarrow> list_all (minimum_noticed occ) fs \<Longrightarrow>
    list_all (\<lambda>f. anno f \<noteq> None \<longrightarrow> supported f) fs \<Longrightarrow>
    unmarshal U (-1) ub gs = (None, map2 (refilled occ) fs gs)"
proof (induction rule: list_all2_induct)
  case (Cons f fs g gs)
  have "unmarshal_field U (-1) ub g = (None, refilled occ f g)"
  proof (cases "anno f")
    case None
    with Cons.hyps show ?thesis by (simp add: unmarshal_field_def refilled_def same_decl_def)
  next
    case (Some a)
    with Cons.prems have "supported f" by simp
    from supported_kind [OF this] obtain k where k: "kind_of (fldtyp f) = Some k" by blast
    with Some Cons.prems Cons.hyps show ?thesis
      by (auto simp: all_stored_Cons minimum_noticed_def same_decl_def refilled_def intro!: unmarshal_field_received)
  qed
  with Cons.IH Cons.prems show ?case by (simp add: all_stored_Cons)
qed simp

text \<open>A buffer as a function from the fields to their occurrences.\<close>

definition list_ubf :: "(int \<Rightarrow> uval list) ubf_api" where
  "list_ubf = \<lparr>
     bchg = (\<lambda>ub fid n k v. let xs = ub fid in
       (None, ub(fid := if nat n < length xs then xs[nat n := v] else xs @ replicate (nat n - length xs) (Num 0) @ [v]))),
     bget = (\<lambda>ub fid i k. if 0 \<le> i \<and> nat i < length (ub fid) then Inr (ub fid ! nat i) else Inl NotPres),
     boccur = (\<lambda>ub fid. Inr (int (length (ub fid)))),
     bfname = (\<lambda>fid. None)\<rparr>"

lemma list_ubf_ok: "ubf_ok list_ubf (\<lambda>fid k v. True)"
  by (auto simp: ubf_ok_def list_ubf_def same_at_def Let_def nth_append)

definition demo_object :: "jval \<Rightarrow> jval \<Rightarrow> jval \<Rightarrow> jfield list" where
  "demo_object p n c =
     [\<lparr>fname = ''prices'', fldtyp = ''[Ljava.lang.Long;'', anno = Some \<lparr>bfldid = 100, ubfmin = 0, ojbmin = 2\<rparr>,
        readable = True, writable = True, fval = p\<rparr>,
      \<lparr>fname = ''name'', fldtyp = ''java.lang.String'', anno = Some \<lparr>bfldid = 200, ubfmin = 1, ojbmin = 1\<rparr>,
        readable = True, writable = True, fval = n\<rparr>,
      \<lparr>fname = ''cached'', fldtyp = ''int'', anno = None, readable = False, writable = True, fval = c\<rparr>]"

text \<open>C29. An object that the marshaller stores in a buffer reads back as stored.  When \<open>marshal\<close> reports no error for an object with supported types, in a buffer without
  its fields, then every annotated field holds, in order, the elements up to the first null (of the whole array, or the requested element only),
  at least as many as \<open>ojbmin\<close> requires; and \<open>unmarshal\<close> of all occurrences into an object with the same declarations succeeds and gives its
  annotated fields these values, leaving the other fields alone, if the minimums are within what \<open>unmarshal\<close> counts.\<close>

theorem marshal_round_trip:
  assumes ok: "ubf_ok U fits" and occ: "-1 \<le> occ" and st: "storable U fits occ fs ub" and m: "marshal U occ fs ub = (None, ub')"
    and decl: "list_all2 same_decl fs gs" and mins: "list_all (minimum_noticed occ) fs"
  shows "all_stored U occ fs ub' \<and> unmarshal U (-1) ub' gs = (None, map2 (refilled occ) fs gs)"
proof -
  have all: "all_stored U occ fs ub'" using marshal_stores [OF ok occ m st] by blast
  have "list_all (\<lambda>f. anno f \<noteq> None \<longrightarrow> supported f) fs" using st by (auto simp: storable_def list_all_iff)
  from unmarshal_refilled [OF decl all mins this] all show ?thesis by blast
qed

theorem marshal_round_trip_witness:
  "unmarshal list_ubf (-1)
     (snd (marshal list_ubf (-1) (demo_object (Arr [Some (Num 5), Some (Num 7), None, Some (Num 9)]) (One (Str ''ab'')) Null) (\<lambda>_. [])))
     (demo_object Null Null (One (Num 1))) = (None, demo_object (Arr [Some (Num 5), Some (Num 7)]) (One (Str ''ab'')) (One (Num 1)))"
proof -
  define fs where "fs = demo_object (Arr [Some (Num 5), Some (Num 7), None, Some (Num 9)]) (One (Str ''ab'')) Null"
  define gs where "gs = demo_object Null Null (One (Num 1))"
  have s: "storable list_ubf (\<lambda>fid k v. True) (-1) fs (\<lambda>_. [])"
    by (simp add: storable_def fs_def demo_object_def supported_def list_ubf_def array_types_def scalar_types_def)
  have m: "marshal list_ubf (-1) fs (\<lambda>_. []) = (None, snd (marshal list_ubf (-1) fs (\<lambda>_. [])))"
    by (simp add: fs_def demo_object_def list_ubf_def marshal_field_def invokeGetter_def val_occs_def is_array_def min_flds_def
        marshal_value_def array_types_def scalar_types_def Let_def)
  have d: "list_all2 same_decl fs gs" by (simp add: fs_def gs_def demo_object_def same_decl_def)
  have n: "list_all (minimum_noticed (-1)) fs"
    by (simp add: fs_def demo_object_def minimum_noticed_def noticed_def items_def array_types_def counted_def)
  have r: "map2 (refilled (-1)) fs gs = demo_object (Arr [Some (Num 5), Some (Num 7)]) (One (Str ''ab'')) (One (Num 1))"
    by (simp add: fs_def gs_def demo_object_def refilled_def received_def items_def is_array_def)
  from marshal_round_trip [OF list_ubf_ok _ s m d n] r show ?thesis by (simp add: fs_def gs_def)
qed

subsection \<open>The minimums\<close>

text \<open>C33. What \<open>ubfmin\<close> requires is not what is there.  For arrays of any type but \<open>short\<close> the fields of the buffer are never counted, so a positive
  \<open>ubfmin\<close> makes \<open>unmarshal\<close> fail whatever the buffer holds.  For a single value of a given occurrence the count is taken before the read, so
  a required field that is missing goes unnoticed and the object keeps its old value.\<close>

theorem unmarshal_minimum:
  assumes a: "anno f = Some a" and p: "0 < ubfmin a"
  shows "(map_of array_types (fldtyp f) = Some k \<and> k \<noteq> KShort \<longrightarrow> fst (unmarshal_field U occ ub f) \<noteq> None) \<and>
    (map_of scalar_types (fldtyp f) = Some k \<and> 0 \<le> occ \<and> bget U ub (bfldid a) occ k = Inl NotPres \<longrightarrow>
      unmarshal_field U occ ub f = (None, f))"
proof (intro conjI impI)
  assume k: "map_of array_types (fldtyp f) = Some k \<and> k \<noteq> KShort"
  have "0 < min_flds occ (ubfmin a)" using p by (simp add: min_flds_def)
  with k a show "fst (unmarshal_field U occ ub f) \<noteq> None"
    by (auto simp: unmarshal_field_def unmarshal_value_def counted_def Let_def split: sum.splits prod.splits if_splits)
next
  assume k: "map_of scalar_types (fldtyp f) = Some k \<and> 0 \<le> occ \<and> bget U ub (bfldid a) occ k = Inl NotPres"
  then have t: "map_of array_types (fldtyp f) = None" and o: "occ \<noteq> -1" using scalar_type by auto
  have "min_flds occ (ubfmin a) \<le> 1" using o by (simp add: min_flds_def)
  with k t o a show "unmarshal_field U occ ub f = (None, f)"
    by (simp add: unmarshal_field_def unmarshal_value_def Let_def)
qed

theorem unmarshal_minimum_witness:
  "unmarshal_field list_ubf 3 (\<lambda>_. []) (demo_object Null Null Null ! 1) = (None, demo_object Null Null Null ! 1)"
  using unmarshal_minimum [where U = list_ubf and occ = 3 and ub = "\<lambda>_. []" and k = KString and f = "demo_object Null Null Null ! 1"]
  by (simp add: demo_object_def scalar_types_def list_ubf_def)

text \<open>A single value is not stored for an occurrence other than 0.\<close>

lemma scalar_other_occurrence:
  assumes "map_of scalar_types (fldtyp f) = Some k" and "anno f = Some a" and "ojbmin a \<le> 0" and "readable f" and "1 \<le> occ"
  shows "marshal_field U occ f ub = (None, ub)"
  using assms scalar_type [OF assms(1)]
  by (auto simp: marshal_field_def invokeGetter_def val_occs_def min_flds_def Let_def)

end
