(* ===== verification/TermSig.thy ===== *)
theory TermSig
  imports Args
begin

section \<open>Termination signals (\<open>TermSigHandler.c\<close>)\<close>

text \<open>
  A Java program can install an object that is run when the process is told to terminate.  The signals are waited for in a thread of
  its own, which is started by the first installation.  The static variables of the file are shared by all threads; they are used with the
  lock held, except for the first test of \<open>M_is_set\<close>, so an operation is a step on them.  Each thread has its own trace.
\<close>

record sig_vars =
  M_is_set :: bool
  M_vm :: int
  M_runner :: int
  M_is_set_lock :: bool

definition sig_init :: sig_vars where
  "sig_init = \<lparr>M_is_set = False, M_vm = 0, M_runner = 0, M_is_set_lock = False\<rparr>"

definition MUTEX_LOCK_V :: "sig_vars \<Rightarrow> (jb, sig_vars) state" where
  "MUTEX_LOCK_V v = (if M_is_set_lock v then do { fault ''mutex: never released''; State_Monad.return v }
     else State_Monad.return (v\<lparr>M_is_set_lock := True\<rparr>))"

abbreviation (input) SIGHUP :: int where "SIGHUP \<equiv> 1"
abbreviation (input) SIGINT :: int where "SIGINT \<equiv> 2"
abbreviation (input) SIGTERM :: int where "SIGTERM \<equiv> 15"

subsection \<open>The thread that waits for signals\<close>

text \<open>The start of the thread: its context, or nothing when the process ends because the VM does not take the thread.\<close>

definition sig_thread_start :: "sig_vars \<Rightarrow> (jb, int option) state" where
  "sig_thread_start v = do {
     ctx \<leftarrow> ex ''tpnewctxt'' [I 0, I 1];
     ex ''pthread_sigmask'' [I SIGTERM, I SIGINT, I SIGHUP];
     r \<leftarrow> ext (JNI ''AttachCurrentThreadAsDaemon'' [I (M_vm v)]);
     if ri r \<noteq> EXSUCCEED then do { ex ''exit'' [I EXFAIL]; State_Monad.return None }
     else State_Monad.return (Some ctx)
   }"

text \<open>One pass of the endless loop, with the variables at that moment.\<close>

definition sig_pass :: "int \<Rightarrow> sig_vars \<Rightarrow> (jb, sig_vars) state" where
  "sig_pass ctx v = do {
     ex ''sigwait'' [I SIGTERM, I SIGINT, I SIGHUP];
     v \<leftarrow> MUTEX_LOCK_V v;
     tpsetctxt TPNULLCONTEXT;
     mid \<leftarrow> getv ''Runnable_mid_run'';
     whenM (M_runner v \<noteq> 0) (java_call ''CallObjectMethod'' [I (M_runner v), I mid]);
     tpsetctxt ctx;
     State_Monad.return (v\<lparr>M_is_set_lock := False\<rparr>)
   }"

text \<open>The handler of the signals.\<close>

definition sig_handler :: "int \<Rightarrow> (jb, unit) state" where
  "sig_handler sig = do { ex ''pthread_kill'' [I SIGTERM]; skip }"

subsection \<open>Installing the object\<close>

definition start_monitor :: "sig_vars \<Rightarrow> (jb, int \<times> sig_vars) state" where
  "start_monitor v = do {
     ex ''sigaction'' [I SIGTERM];
     ex ''sigaction'' [I SIGINT];
     ex ''sigaction'' [I SIGHUP];
     r \<leftarrow> ext (JNI ''GetJavaVM'' []);
     let v = v\<lparr>M_vm := out_arg 0 (M_vm v) r\<rparr>;
     if ri r \<noteq> EXSUCCEED then do {
       ndrxj_atmi_throw 0 0 TPESYSTEM ''Failed to get VM!'';
       State_Monad.return (EXFAIL, v)
     } else do {
       ex ''pthread_attr_init'' [];
       ex ''ndrx_platf_stack_set'' [];
       ex ''pthread_create'' [];
       State_Monad.return (EXSUCCEED, v)
     }
   }"

definition set_runner :: "int \<Rightarrow> sig_vars \<Rightarrow> (jb, sig_vars) state" where
  "set_runner runner v = do {
     whenM (M_runner v \<noteq> 0) (jni ''DeleteGlobalRef'' [I (M_runner v)]);
     if runner \<noteq> 0 then do {
       g \<leftarrow> jni ''NewGlobalRef'' [I runner];
       State_Monad.return (v\<lparr>M_runner := g\<rparr>)
     } else State_Monad.return (v\<lparr>M_runner := 0\<rparr>)
   }"

text \<open>The lock is released at the exit only if it was taken by the first part.\<close>

definition install_body :: "int \<Rightarrow> sig_vars \<Rightarrow> (jb, sig_vars) state" where
  "install_body runner v =
     (if \<not> M_is_set v then do {
        v \<leftarrow> MUTEX_LOCK_V v;
        (ret, v) \<leftarrow> (if \<not> M_is_set v then start_monitor v else State_Monad.return (EXSUCCEED, v));
        v \<leftarrow> (if ret \<noteq> EXSUCCEED then State_Monad.return v else set_runner runner v);
        State_Monad.return (v\<lparr>M_is_set_lock := False\<rparr>)
      } else do {
        v \<leftarrow> MUTEX_LOCK_V v;
        set_runner runner v
      })"

definition AtmiCtx_installTermSigHandler :: "int \<Rightarrow> int \<Rightarrow> int \<Rightarrow> sig_vars \<Rightarrow> (jb, sig_vars) state" where
  "AtmiCtx_installTermSigHandler env atmiCtxObj runner v =
     ctx_return (ndrxj_get_ctx env atmiCtxObj True) v (\<lambda>c. install_body runner v)"

subsection \<open>All interleavings\<close>

inductive sig_step :: "sig_vars \<Rightarrow> sig_vars \<Rightarrow> bool" where
  install: "sig_step v (val (AtmiCtx_installTermSigHandler env obj runner v) s)"
| signal: "sig_step v (val (sig_pass ctx v) s)"

inductive_cases sig_stepE: "sig_step v v'"

text \<open>Between the operations the lock is free, and \<open>M_is_set\<close> is still as it was.\<close>

definition at_rest :: "sig_vars \<Rightarrow> bool" where
  "at_rest v \<longleftrightarrow> \<not> M_is_set v \<and> \<not> M_is_set_lock v"

lemma install_body_wp:
  assumes "at_rest v"
  shows "wp (install_body runner v) (\<lambda>v' t. at_rest v') s"
  using assms unfolding install_body_def MUTEX_LOCK_V_def start_monitor_def set_runner_def at_rest_def
  by (intro wp_intros wp_prod wp_keeps [OF plain_throws(1)]) (auto simp: wp_def run_simps Let_def split: prod.splits)

lemma install_at_rest: "at_rest v \<Longrightarrow> at_rest (val (AtmiCtx_installTermSigHandler env obj runner v) s)"
proof -
  assume v: "at_rest v"
  have "wp (AtmiCtx_installTermSigHandler env obj runner v) (\<lambda>v' t. at_rest v') s"
    unfolding AtmiCtx_installTermSigHandler_def ctx_return_def
    by (intro wp_bind wp_any wp_if wp_return v wp_cons [OF install_body_wp [OF v]] wp_tpsetctxt)
  then show ?thesis by (simp add: wp_def)
qed

lemma detachedI:
  assumes "tr t = (API ''tpsetctxt'' [I (cur_ctx (tr s)), I 0], q1) # (JNI f as, q2) # (API ''tpsetctxt'' [I 0, I 0], q3) # u" "suffix (tr s) u"
  shows "detached f as s t"
  unfolding detached_def assms(1)
  by (intro conjI exI, simp, rule suffix_ConsI, rule suffix_order.refl, rule suffix_ConsI, rule assms(2), simp)

text \<open>A pass of the thread that was in its context: the variables are as before, and the object is run with no context set.\<close>

lemma sig_pass_wp:
  assumes "at_rest v" "cur_ctx (tr s) = ctx"
  shows "wp (sig_pass ctx v) (\<lambda>v' t. v' = v \<and> cur_ctx (tr t) = ctx \<and> flt t = flt s \<and>
    (M_runner v \<noteq> 0 \<longrightarrow> detached ''CallObjectMethod'' [I (M_runner v), I (gv s ''Runnable_mid_run'')] s t)) s"
proof -
  have v: "MUTEX_LOCK_V v = State_Monad.return (v\<lparr>M_is_set_lock := True\<rparr>)" "v\<lparr>M_is_set_lock := False\<rparr> = v"
    using assms(1) by (simp_all add: MUTEX_LOCK_V_def at_rest_def)
  show ?thesis unfolding sig_pass_def v java_call_def
    apply (rule wp_bind, rule wp_ex, rule wp_bind, rule wp_return, rule wp_bind, rule wp_tpsetctxt, rule wp_bind, rule wp_getv, rule wp_bind, rule wp_if)
     apply (rule wp_bind, rule wp_bind, rule wp_jni, rule wp_bind, rule wp_update, rule wp_return, rule wp_return, rule wp_bind, rule wp_tpsetctxt, rule wp_return)
     apply (intro conjI impI, simp add: v(2), simp, simp, rule detachedI, simp add: assms(2), rule suffix_ConsI, simp)
    apply (rule wp_return, rule wp_bind, rule wp_tpsetctxt, rule wp_return)
    apply (simp add: v(2))
    done
qed

lemma sig_pass_at_rest: "at_rest v \<Longrightarrow> at_rest (val (sig_pass ctx v) s)"
  by (simp add: sig_pass_def MUTEX_LOCK_V_def at_rest_def java_call_def run_simps)

lemma sig_reach_at_rest: "sig_step\<^sup>*\<^sup>* sig_init v \<Longrightarrow> at_rest v"
proof (induction rule: rtranclp_induct)
  case (step v v')
  from step(2,3) show ?case by (auto elim!: sig_stepE intro: install_at_rest sig_pass_at_rest)
qed (simp add: at_rest_def sig_init_def)

lemma inner_install_body: "keeps inner (install_body runner v)"
  unfolding install_body_def MUTEX_LOCK_V_def start_monitor_def set_runner_def
  by (intro inner_calls) (simp_all add: fns_defs)

text \<open>C32. The object for termination signals is run safely in every interleaving of installations and signals.  The lock is free between the
  operations.  A signal runs the object that is installed, if any, with the thread attached to no context, returns to the context of the signal
  thread, never waits for a lock that is not released, and changes no variable; an installation works in the context of its own object only
  and drops it at the end.\<close>

theorem term_signals:
  assumes "sig_step\<^sup>*\<^sup>* sig_init v" "cur_ctx (tr s) = ctx" "cur_ctx (tr s') = 0"
  shows "\<not> M_is_set_lock v \<and>
    (let t = exec (sig_pass ctx v) s in
       val (sig_pass ctx v) s = v \<and> cur_ctx (tr t) = ctx \<and> flt t = flt s \<and>
       (M_runner v \<noteq> 0 \<longrightarrow> detached ''CallObjectMethod'' [I (M_runner v), I (gv s ''Runnable_mid_run'')] s t)) \<and>
    native obj s' (exec (AtmiCtx_installTermSigHandler env obj runner v) s')"
proof -
  note r = sig_reach_at_rest [OF assms(1)]
  show ?thesis unfolding AtmiCtx_installTermSigHandler_def
    using r sig_pass_wp [OF r assms(2)] atmi_native(1) [OF inner_install_body assms(3)] by (simp add: at_rest_def wp_def Let_def)
qed

definition sig_demo_vm :: "trace \<Rightarrow> ev \<Rightarrow> xres" where
  "sig_demo_vm h e = (quiet h e)\<lparr>ri := (if e = JNI ''GetJavaVM'' [] then 0 else 1)\<rparr>"

lemma demo_install: "M_runner (val (AtmiCtx_installTermSigHandler 1 2 3 sig_init) (jb_init sig_demo_vm)) = 1"
proof -
  let ?s = "jb_init sig_demo_vm"
  have ri: "ri (sig_demo_vm h (JNI f as)) = 1" if "f \<noteq> ''GetJavaVM''" for h f as using that by (simp add: sig_demo_vm_def)
  have g: "val (ndrxj_get_ctx 1 2 True) ?s \<noteq> 0" unfolding ndrxj_get_ctx_def
    by (simp add: run_simps jb_init_def ri getv_def)
  have o: "orc (exec (ndrxj_get_ctx 1 2 True) ?s) = sig_demo_vm"
    using wpD [OF get_ctx_wp, of 1 2 ?s] g attachD(3) by (fastforce simp: cfg_def jb_init_def)
  have "M_runner (val (install_body 3 sig_init) t) = 1" if "orc t = sig_demo_vm" for t
    unfolding install_body_def MUTEX_LOCK_V_def start_monitor_def set_runner_def
    by (simp add: run_simps sig_init_def that ri Let_def) (simp add: sig_demo_vm_def)
  with g o show ?thesis by (simp add: AtmiCtx_installTermSigHandler_def ctx_return_def run_simps)
qed

theorem term_signals_witness:
  "let v = val (AtmiCtx_installTermSigHandler 1 2 3 sig_init) (jb_init sig_demo_vm);
     s = (jb_init quiet)\<lparr>tr := [(API ''tpsetctxt'' [I 5, I 0], no_res)]\<rparr>
   in sig_step\<^sup>*\<^sup>* sig_init v \<and> M_runner v = 1 \<and> cur_ctx (tr (exec (sig_pass 5 v) s)) = 5 \<and>
     detached ''CallObjectMethod'' [I 1, I (gv s ''Runnable_mid_run'')] s (exec (sig_pass 5 v) s)"
proof -
  define v where "v = val (AtmiCtx_installTermSigHandler 1 2 3 sig_init) (jb_init sig_demo_vm)"
  define s where "s = (jb_init quiet)\<lparr>tr := [(API ''tpsetctxt'' [I 5, I 0], no_res)]\<rparr>"
  have v: "sig_step\<^sup>*\<^sup>* sig_init v" unfolding v_def by (rule r_into_rtranclp) (rule sig_step.install)
  have m: "M_runner v = 1" unfolding v_def by (rule demo_install)
  have c: "cur_ctx (tr s) = 5" "cur_ctx (tr (jb_init quiet)) = 0" by (simp_all add: s_def jb_init_def)
  from term_signals [OF v c] v m show ?thesis by (simp add: Let_def flip: v_def s_def)
qed

text \<open>As \<open>M_is_set\<close> is never set, every installation starts another thread.\<close>

definition calls_since :: "trace \<Rightarrow> ev \<Rightarrow> trace \<Rightarrow> bool" where
  "calls_since k e h \<longleftrightarrow> (\<exists>q u. suffix ((e, q) # u) h \<and> suffix k u)"

lemma calls_since_now: "suffix k u \<Longrightarrow> calls_since k e ((e, q) # u)"
  unfolding calls_since_def by blast

lemma calls_since_later: "calls_since k e h \<Longrightarrow> calls_since k e (x # h)"
  unfolding calls_since_def by (blast intro: suffix_ConsI)

lemma monitor_started_again:
  assumes "sig_step\<^sup>*\<^sup>* sig_init v" "\<forall>h. ri (orc s h (JNI ''GetJavaVM'' [])) = 0"
  shows "calls_since (tr s) (API ''pthread_create'' []) (tr (exec (install_body runner v) s))"
proof -
  have v: "\<not> M_is_set v" "MUTEX_LOCK_V v = State_Monad.return (v\<lparr>M_is_set_lock := True\<rparr>)"
    using sig_reach_at_rest [OF assms(1)] by (simp_all add: MUTEX_LOCK_V_def at_rest_def)
  show ?thesis unfolding install_body_def v start_monitor_def set_runner_def using assms(2) v(1)
    by (simp add: run_simps Let_def) (intro conjI impI; (rule calls_since_now calls_since_later)+; simp add: suffix_ConsI)
qed

end
