(* ===== verification/Spec2Isabelle.thy ===== *)
theory Spec2Isabelle
  imports Linker Queue Logging CtxUtil Xa UbfIo Marshal TermSig
begin

text \<open>
  \<^bold>\<open>The program.\<close>  The repository is the Java side of the Enduro/X middleware.  It has three parts.

  \<^enum> The Java linker \<open>exjld\<close> (\<open>src/exjld\<close>) packs the class files of a Java server into one executable: it unpacks JAR
    files, embeds every file as C data, and generates a table of classes and a \<open>main\<close>.  The runtime of the executable
    (\<open>src/libexjlds\<close>) starts a Java VM with a class loader that finds the classes in the table.
  \<^enum> The binding (\<open>src/libsrc/c\<close>, \<open>src/include/libsrc.h\<close>) implements the native methods of the Java API
    (\<open>AtmiCtx\<close>, the typed buffers and the structures passed with them) on the Enduro/X core.
    The Java class \<open>TypedUbfMarshaller\<close> copies objects to buffers of fields and back.
  \<^enum> The XA driver (\<open>src/xadrv\<close>, \<open>xaj.c\<close>, the XA methods of \<open>AtmiCtx.java\<close>) lets the transaction manager of the core use a JDBC data source.

  \<^bold>\<open>Parameters.\<close>  The Enduro/X core, the Java VM and the operating system are not part of the repository.  The linker theories
  take the core's string, list and hash functions as the records \<open>ndrx_lib\<close> and \<open>exhash\<close> with their documented
  behaviour \<open>ndrx_lib_ok\<close> and \<open>exhash_ok\<close>; the file walk, the outcome of allocations and the schedule of the thread
  pool are arguments.  In the loader and the binding every call of the VM or of the core is an event of a trace whose
  result comes from an arbitrary environment \<open>orc\<close> that sees the whole history (theory \<open>Jni\<close>).

  \<^bold>\<open>Theories of the linker and loader.\<close>

  \<^item> \<open>Prelude\<close>: C strings, \<open>snprintf\<close>, decimal numbers, hash tables, the state monad with \<open>exec\<close>, \<open>val\<close>, the relation
    \<open>keeps R m\<close> (locale \<open>run_rel\<close>) and the weakest preconditions \<open>wp\<close>.
  \<^item> \<open>FindClasses\<close> (\<open>findclasses.c\<close>): the walk over the work directory; one correctly named job per file (\<open>scan_jobs\<close>), distinct
    names (\<open>scan_names_ok\<close>) and distinct output files (\<open>embpaths_distinct\<close>).
  \<^item> \<open>Resources\<close> (\<open>resources.c\<close>): the worker function, as a function and as interleaved critical sections (\<open>pool_step\<close>).  Every
    schedule ends (\<open>pool_terminates\<close>), a pool without error has filled the hashes exactly (\<open>pool_complete\<close>), distinct names
    exclude false errors and dangling elements, and duplicates expose a race (\<open>duplicate_race\<close>).
  \<^item> \<open>Codegen\<close> (\<open>codegen.c\<close>): the text of \<open>jmain.c\<close> and the build command; the printed table reads back
    (\<open>class_table_reads_back\<close>), the symbols agree with the embedded files (\<open>symbols_match\<close>).
  \<^item> \<open>Linker\<close> (\<open>exjld.c\<close>): \<open>main\<close> in phases; what a successful link has done (\<open>link_success\<close>), clean-up.
  \<^item> \<open>Jni\<close>: events, native copies and local references.
  \<^item> \<open>Backtrace\<close>, \<open>ClassPath\<close>, \<open>StaticLoader\<close> (\<open>except.c\<close>, \<open>cp.c\<close>, \<open>exj.c\<close>): the binary search (\<open>index_search_correct\<close>), the
    native methods of the class loader (\<open>getClassBytes_serves_index\<close>), the class path and the life of the VM.
  \<^item> This theory composes the two sides: after a successful link the loader finds the bytes of every class file under its
    Java name and nothing else (\<open>linked_classes_load\<close>).

  \<^bold>\<open>Theories of the binding.\<close>  The state \<open>jb\<close> extends the trace by the static variables of the library; one definition per C
  function, named after it (native methods without the prefix \<open>ndrxj_Java_org_endurox_\<close>).

  \<^item> \<open>MetaCache\<close> (\<open>MetaCache.c\<close>): the id tables and the cache of exception classes.
  \<^item> \<open>Exceptions\<close> (\<open>exceptions.c\<close>): backtraces and the \<open>throw\<close> functions; the relation \<open>frame\<close> with its two instances \<open>plain\<close> (a
    helper that calls neither the core nor the application) and \<open>inner\<close> (a run that does not switch the thread's
    context), interpreted from one locale.
  \<^item> \<open>Raise\<close>: the cache is well typed (\<open>exception_cache_typed\<close>), and which exception is raised (\<open>atmi_throw_raises\<close>).
  \<^item> \<open>Context\<close> (\<open>ndrxj_get_ctx\<close>): attaching a thread to the XATMI context of an object; \<open>native\<close> is the contract of a native
    method about contexts, private data and native copies.
  \<^item> \<open>Buffers\<close> (\<open>TypedBuffer.c\<close>, \<open>TypedString.c\<close>, \<open>TypedJson.c\<close>, \<open>TypedCarray.c\<close>, \<open>TpTypesResult.c\<close>): the buffer classes; writes stay
    inside the buffer (\<open>setters_in_bounds\<close>), and a result is described by the right object (\<open>result_prep_object\<close>).
  \<^item> \<open>Convert\<close> (\<open>util.c\<close> and the structure classes): conversions by field tables and of XIDs (\<open>xid_round_trip\<close>).
  \<^item> \<open>AtmiCtx\<close> (\<open>AtmiCtx.c\<close>): all native methods of the class and the callbacks of a server.  Every method satisfies \<open>native\<close>;
    the calls that report a status are exact (\<open>status_methods\<close>), and callbacks restore the context (\<open>callbacks_restore\<close>).
  \<^item> \<open>Args\<close>: optional string arguments, and \<open>requested\<close>, what it means that a method makes one request to the core.
  \<^item> \<open>Calls\<close> (\<open>tpcallj.c\<close>, \<open>conversations.c\<close>): calls and conversations (\<open>requests_once\<close>).
  \<^item> \<open>Queue\<close> (\<open>tpenqueue.c\<close>, \<open>tpdequeue.c\<close>), \<open>Logging\<close> (\<open>logging.c\<close>), \<open>CtxUtil\<close> (\<open>AtmiCtx_Util.c\<close>): the remaining native methods of
    \<open>AtmiCtx\<close>; each satisfies \<open>native\<close>.
  \<^item> \<open>Unsol\<close> (\<open>AtmiCtx_unsol.c\<close>): unsolicited messages (\<open>unsol_delivery\<close>).
  \<^item> \<open>XaConfig\<close> (\<open>xaconfig.c\<close>, \<open>ndrxj_xa_init\<close> of \<open>AtmiCtx.java\<close>): the settings of the XA data source, from the JSON text to the
    calls of its setters (\<open>xa_configured\<close>).
  \<^item> \<open>XaJava\<close> (the XA methods of \<open>AtmiCtx.java\<close>): the adapter between the switch and the JDBC driver as a step relation; the driver
    is used as its contract asks (\<open>xa_driver_protocol\<close>), each verb is one call (\<open>xa_verbs\<close>), XA can be opened again (\<open>xa_reopens\<close>).
  \<^item> \<open>Xa\<close> (\<open>xaj.c\<close>, \<open>xatmsrv.c\<close>, \<open>exjdbc.c\<close>): the entries of the XA switch and its loading; what the core asks is what the driver
    does (\<open>xa_switch\<close>, \<open>xa_end_to_end\<close>).
  \<^item> \<open>Ubf\<close>, \<open>UbfOps\<close> (\<open>TypedUbf_Badd.c\<close>, \<open>TypedUbf_Bchg.c\<close>, \<open>TypedUbf_Bget.c\<close>, \<open>TypedUbf_Baddfast.c\<close>, \<open>BFldLocInfo.c\<close>; \<open>TypedUbf_Del.c\<close>,
    \<open>TypedUbf_Proj.c\<close>, \<open>TypedUbf_Util.c\<close>): the native methods of buffers of fields; each is one request to the field library with the
    outcome of that request (\<open>ubf_requests\<close>).
  \<^item> \<open>UbfIo\<close> (\<open>TypedUbf_Bbool.c\<close>, \<open>TypedUbf_Bprint.c\<close>): expressions and streams with their callbacks (\<open>ubf_callbacks\<close>,
    \<open>ubf_write_read\<close>).
  \<^item> \<open>Marshal\<close> (\<open>TypedUbfMarshaller.java\<close>): Java objects in buffers of fields; the round trip (\<open>marshal_round_trip\<close>) and what the
    minimums really require (\<open>unmarshal_minimum\<close>).
  \<^item> \<open>TermSig\<close> (\<open>TermSigHandler.c\<close>): termination signals and the object they run, in every interleaving (\<open>term_signals\<close>).
  \<^bold>\<open>Bounds and fuel.\<close>  Loops over arrays and lists are structural.  The binary search has a termination measure.  The recursion
  of a backtrace over the causes of an exception is bounded by a fuel \<open>bt_fuel\<close> that stands for the depth the C stack holds;
  running out is the fault \<open>recursion\<close>, and no theorem relies on a particular depth except that one frame fits.  Integers of
  the core and of Java are mathematical where no operation can overflow; the cast of an XID's format id to \<open>int\<close> is written
  out.  Buffer sizes of the C code (\<open>PATH_MAX\<close>, 256, 1024, \<open>XIDDATASIZE\<close>) are kept.

  \<^bold>\<open>Not modelled.\<close>  Log output (\<open>NDRX_LOG\<close>, \<open>UBF_LOG\<close>, \<open>userlog\<close> of diagnostics) has no effect on the state.  \<open>zip.c\<close>, \<open>zip.h\<close> and \<open>miniz.h\<close> are a
  vendored library; unpacking a JAR is an action with a return code.  \<open>loader.c\<close> and \<open>exjglue.h\<close> are generated wrappers that
  resolve and forward symbols.  The remaining Java sources declare native methods, constants, value holders and one exception class per
  error code.  The contents of a buffer of fields belong to the core: the native methods are modelled up to their requests, and the
  marshaller works on any buffer with the documented behaviour \<open>ubf_ok\<close>.
\<close>

section \<open>From the linker to the loader\<close>

text \<open>The table the compiled program hands to the loader: each row's symbol stands for the bytes \<open>bytes sym\<close>
  that the embedding step generated for it.\<close>

definition runtime_index :: "(string \<Rightarrow> int list) \<Rightarrow> (string \<times> string \<times> string) list \<Rightarrow> class_index list" where
  "runtime_index bytes rows =
     map (\<lambda>(n, sym, _). \<lparr>idx_cls = n, idx_data = bytes sym, idx_len = int (length (bytes sym))\<rparr>) rows"

text \<open>What a lookup of a class name delivers at run time.\<close>

definition loaded :: "class_index list \<Rightarrow> string \<Rightarrow> int list option" where
  "loaded index n = map_option (\<lambda>i. idx_data (index ! i)) (index_find index n)"

lemma runtime_index_rows:
  "runtime_index bytes (map (row_of pfx) els) =
     map (\<lambda>el. \<lparr>idx_cls = r_resname el, idx_data = bytes (res_symbol pfx el),
       idx_len = int (length (bytes (res_symbol pfx el)))\<rparr>) els"
  by (simp add: runtime_index_def row_of_def comp_def)

lemma loaded_map_of:
  assumes "sorted (map r_resname els)" "distinct (map r_resname els)"
  shows "loaded (runtime_index bytes (map (row_of pfx) els)) n =
    map_of (map (\<lambda>el. (r_resname el, bytes (res_symbol pfx el))) els) n"
  unfolding loaded_def runtime_index_rows
  by (subst idx.find_value) (use assms in \<open>simp_all add: comp_def\<close>)

lemma entry_name_chars:
  assumes "ndrx_lib_ok L" "length f < PATH_MAX"
  shows "set (entry_name L b f) \<subseteq> insert (CHR ''.'') (set f)"
proof -
  let ?m = "map dirsep_to_dot (dropWhile lead_char f)"
  have "set ?m \<subseteq> insert (CHR ''.'') (set f)"
    by (auto simp: dirsep_to_dot_def dest: set_dropWhileD)
  then have "set (take k ?m) \<subseteq> insert (CHR ''.'') (set f)" "set ?m \<subseteq> insert (CHR ''.'') (set f)" for k
    using set_take_subset [of k ?m] by blast+
  moreover have "set (dropWhile lead_char f) \<subseteq> insert (CHR ''.'') (set f)" by (auto dest: set_dropWhileD)
  ultimately show ?thesis unfolding entry_name_fits [OF assms] Let_def by presburger
qed

text \<open>The class elements of a finished link are the filled elements of the class jobs.\<close>

lemma class_elements:
  assumes "mset (map res_proj els) = mset (map (\<lambda>d. res_fill E d 0) ds)"
  shows "res_proj ` set els = (\<lambda>d. res_fill E d 0) ` set ds"
    "\<And>f. mset (map (f \<circ> res_proj) els) = mset (map (\<lambda>d. f (res_fill E d 0)) ds)"
proof -
  show "res_proj ` set els = (\<lambda>d. res_fill E d 0) ` set ds"
    using arg_cong [OF assms, of set_mset] by simp
  show "mset (map (f \<circ> res_proj) els) = mset (map (\<lambda>d. f (res_fill E d 0)) ds)" for f
    using arg_cong [OF assms, of "image_mset f"] by (simp add: image_mset.compositionality comp_def)
qed

lemma res_symbol_proj: "res_symbol pfx (res_proj el) = res_symbol pfx el"
  by (simp add: res_symbol_def)

text \<open>The lookup table of a list of class jobs with distinct names.\<close>

lemma loaded_jobs:
  assumes E: "pool_env_ok E" and els: "mset (map res_proj els) = mset (map (\<lambda>d. res_fill E d 0) ds)"
    and sorted: "sorted (map r_resname els)" and nm: "distinct (map d_resname ds)"
    and len: "\<And>d. d \<in> set ds \<Longrightarrow> length (d_resname d) \<le> PATH_MAX"
    and b: "\<And>d. d \<in> set ds \<Longrightarrow> bytes (res_symbol pfx (res_fill E d 0)) = content (d_respath d)"
  shows "loaded (runtime_index bytes (map (row_of pfx) els)) n =
    map_of (map (\<lambda>d. (d_resname d, content (d_respath d))) ds) n"
proof -
  let ?g = "\<lambda>el. (r_resname el, bytes (res_symbol pfx el))"
  have gp: "?g \<circ> res_proj = ?g" by (simp add: fun_eq_iff res_symbol_proj)
  have names: "map (\<lambda>d. r_resname (res_fill E d 0)) ds = map d_resname ds"
    using len by (simp add: res_fill_name [OF E])
  have pairs: "mset (map ?g els) = mset (map (\<lambda>d. (d_resname d, content (d_respath d))) ds)"
    using class_elements(2) [OF els, of ?g] unfolding gp
    by (simp add: res_fill_name [OF E len] b cong: map_cong)
  have "mset (map r_resname els) = mset (map d_resname ds)"
    using arg_cong [OF pairs, of "image_mset fst"] by (simp add: image_mset.compositionality comp_def)
  then have dist: "distinct (map r_resname els)" using nm by (metis mset_eq_imp_distinct_iff)
  have "set (map ?g els) = set (map (\<lambda>d. (d_resname d, content (d_respath d))) ds)"
    using pairs by (metis set_mset_mset)
  then have "map_of (map ?g els) = map_of (map (\<lambda>d. (d_resname d, content (d_respath d))) ds)"
    using dist nm by (intro map_of_inject_set [THEN iffD2]) (simp_all add: comp_def)
  then show ?thesis using loaded_map_of [OF sorted dist] by simp
qed

text \<open>Names without a double quote need no escaping, and the printed table reads back.\<close>

lemma job_name_no_quote:
  assumes L: "ndrx_lib_ok L" and d: "job_ok L d" "clean_path (d_respath d)" "dquote \<notin> set (d_respath d)"
  shows "dquote \<notin> set (d_resname d)"
  using d entry_name_chars [OF L, of "d_respath d" "is_class_path (d_respath d)"]
  by (auto simp: job_ok_def clean_path_def)

lemma table_of_jobs:
  assumes E: "pool_env_ok E" and els: "mset (map res_proj els) = mset (map (\<lambda>d. res_fill E d 0) ds)"
    and ds: "\<And>d. d \<in> set ds \<Longrightarrow> length (d_resname d) \<le> PATH_MAX \<and> dquote \<notin> set (d_resname d)"
  shows "read_table ''ndrxj_G_class_index'' (class_table els @ rest) = Some (map (row_of ''class'') els)"
  unfolding class_table_shape
proof (intro read_table_rows ballI)
  fix el assume "el \<in> set els"
  then obtain d where d: "d \<in> set ds" "res_proj el = res_fill E d 0"
    using class_elements(1) [OF els] by blast
  then have "r_resname el = d_resname d" using ds res_fill_name [OF E, of d 0] by (metis res_proj_sel(1))
  then show "dquote \<notin> set (r_resname el)" using ds d(1) by simp
qed simp

text \<open>The jobs for the class hash, one per class file.\<close>

definition class_jobs :: "scan_state \<Rightarrow> resgen_thread_data list" where
  "class_jobs sc = filter (\<lambda>d. d_head d = ndrx_G_classes_hash) (work sc)"

lemma class_job:
  assumes "exjld_class_scan L al es scan_init = (EXSUCCEED, sc)" "list_all clean_path (walk_files es)"
    and "d \<in> set (class_jobs sc)"
  shows "is_class_path (d_respath d)" "d_resname d = entry_name L True (d_respath d)"
    "d_respath d \<in> set (walk_files es)" "d \<in> set (work sc)" "d_id d \<le> id_class sc"
proof -
  from assms(3) show w: "d \<in> set (work sc)" by (simp add: class_jobs_def)
  note job = scan_job [OF assms(1,2) w]
  have h: "d_head d = ndrx_G_classes_hash" using assms(3) by (simp add: class_jobs_def)
  show "is_class_path (d_respath d)" "d_resname d = entry_name L True (d_respath d)"
    "d_respath d \<in> set (walk_files es)" "d_id d \<le> id_class sc"
    using job h by (auto simp: job_ok_def id_of_head_def)
qed

lemma class_file_job:
  assumes sc: "exjld_class_scan L al es scan_init = (EXSUCCEED, sc)"
    and f: "f \<in> set (walk_files es)" "is_class_path f"
  obtains d where "d \<in> set (class_jobs sc)" "d_respath d = f"
proof -
  have "map d_respath (work sc) = walk_files es"
    using scan_respaths [OF sc] by (simp add: walk_files_comp scan_init_def)
  then have "f \<in> d_respath ` set (work sc)" using f(1) by (metis set_map)
  then obtain d where d: "d \<in> set (work sc)" "d_respath d = f" by blast
  have "job_ok L d" using scan_inv_scan [OF scan_inv_init, of L al es] sc d(1) by (simp add: scan_inv_def)
  then show thesis using that d f(2) by (auto simp: class_jobs_def job_ok_def)
qed

text \<open>C1. From the JARs to the running program.  Let the link succeed over distinct clean paths, and let the
  embedding step put the content of each file under the symbol of its embedded name.  Then the class
  table of the generated text reads back as a table sorted by name, in which the loader's search finds
  the content of every class file under its Java name, and finds nothing under any other name.\<close>

theorem linked_classes_load:
  assumes X: "ld_env_ok X" and r: "val (ld_main X opts jars) ld_init = EXSUCCEED"
    and s: "s = exec (ld_main X opts jars) ld_init"
    and sc: "exjld_class_scan (le_lib X) (le_alloc X) (le_walk X) scan_init = (EXSUCCEED, sc)"
    and clean: "list_all clean_path (walk_files (le_walk X))" "distinct (walk_files (le_walk X))"
    and chars: "list_all (\<lambda>f. dquote \<notin> set f \<and> CHR 0x5C \<notin> set f) (walk_files (le_walk X))"
    and ids: "id_class sc < 2 ^ 31"
    and emb: "\<And>d. d \<in> set (work sc) \<Longrightarrow>
      bytes (''ndrx_G_resource_'' @ r_embpath (res_fill (le_pool X) d 0)) = content (d_respath d)"
  shows "\<exists>rows. read_table ''ndrxj_G_class_index'' (class_table (g_classes_hash s) @ rest) = Some rows \<and>
    sorted (map idx_cls (runtime_index bytes rows)) \<and>
    (\<forall>f \<in> set (walk_files (le_walk X)). is_class_path f \<longrightarrow>
       loaded (runtime_index bytes rows) (entry_name (le_lib X) True f) = Some (content f)) \<and>
    (\<forall>n. n \<notin> entry_name (le_lib X) True ` {f \<in> set (walk_files (le_walk X)). is_class_path f} \<longrightarrow>
       loaded (runtime_index bytes rows) n = None)"
proof -
  let ?L = "le_lib X" and ?E = "le_pool X" and ?els = "g_classes_hash s" and ?ds = "class_jobs sc"
  let ?kv = "map (\<lambda>d. (d_resname d, content (d_respath d))) ?ds"
  have E: "pool_env_ok ?E" and L: "ndrx_lib_ok ?L" using X by (auto simp: ld_env_ok_def pool_env_ok_def)
  have link: "sorted (map r_resname ?els)" "mset (map res_proj ?els) = mset (map (\<lambda>d. res_fill ?E d 0) ?ds)"
    using link_facts [OF X r s, of sc ndrx_G_classes_hash] sc by (simp_all add: g_hash_def class_jobs_def)
  note job = scan_job [OF sc clean(1)] and cls = class_job [OF sc clean(1)]
  have nm: "names_ok (work sc)" by (rule scan_names [OF L sc clean])
  have dist: "distinct (map d_resname ?ds)"
    unfolding class_jobs_def using nm by (intro distinct_in_head) (simp add: names_ok_def)
  have len: "length (d_resname d) \<le> PATH_MAX" if "d \<in> set ?ds" for d
    using nm cls(4) [OF that] by (simp add: names_ok_def)
  have table: "read_table ''ndrxj_G_class_index'' (class_table ?els @ rest) = Some (map (row_of ''class'') ?els)"
    using len chars job cls(3,4) by (intro table_of_jobs [OF E link(2)] conjI job_name_no_quote [OF L])
      (auto simp: list_all_iff)
  have "bytes (res_symbol ''class'' (res_fill ?E d 0)) = content (d_respath d)" if "d \<in> set ?ds" for d
    using emb [OF cls(4) [OF that]] symbol_of_job [OF job(1) [OF cls(4) [OF that]], of ?E 0] cls(5) [OF that] ids that
    by (simp add: pfx_of_head_def class_jobs_def)
  then have loads: "loaded (runtime_index bytes (map (row_of ''class'') ?els)) n = map_of ?kv n" for n
    by (intro loaded_jobs [OF E link(2,1) dist len])
  have "map_of ?kv (entry_name ?L True f) = Some (content f)"
    if f: "f \<in> set (walk_files (le_walk X))" "is_class_path f" for f
  proof -
    obtain d where d: "d \<in> set ?ds" "d_respath d = f" using class_file_job [OF sc f] by blast
    then show ?thesis using cls(2) [OF d(1)] dist by (intro map_of_is_SomeI) (force simp: comp_def)+
  qed
  moreover have "map_of ?kv n = None"
    if "n \<notin> entry_name ?L True ` {f \<in> set (walk_files (le_walk X)). is_class_path f}" for n
    using that cls(1-3) by (force simp: map_of_eq_None_iff)
  moreover have "sorted (map idx_cls (runtime_index bytes (map (row_of ''class'') ?els)))"
    using link(1) by (simp add: runtime_index_rows comp_def)
  ultimately show ?thesis using table unfolding loads [symmetric] by blast
qed

definition demo_content :: "string \<Rightarrow> int list" where
  "demo_content f = (if f = ''./a/A.class'' then [1] else if f = ''./B.class'' then [2] else [3])"

definition demo_bytes :: "string \<Rightarrow> int list" where
  "demo_bytes y = (if y = ''ndrx_G_resource_class_1'' then [1] else if y = ''ndrx_G_resource_class_2'' then [2] else [3])"

theorem linked_classes_load_witness:
  "\<exists>s rows. s = exec (ld_main demo_ld_env [(CHR ''m'', ''a.A''), (CHR ''n'', [])] [''x.jar'']) ld_init \<and>
     read_table ''ndrxj_G_class_index'' (class_table (g_classes_hash s) @ []) = Some rows \<and>
     loaded (runtime_index demo_bytes rows) ''a.A'' = Some [1]"
proof -
  let ?s = "exec (ld_main demo_ld_env [(CHR ''m'', ''a.A''), (CHR ''n'', [])] [''x.jar'']) ld_init"
  let ?sc = "snd (exjld_class_scan plain_lib (\<lambda>_ _. True) demo_walk scan_init)"
  have env: "pe_lib demo_env = plain_lib" "le_alloc demo_ld_env = (\<lambda>_ _. True)" "le_walk demo_ld_env = demo_walk"
      "le_pool demo_ld_env = demo_env"
    by (simp_all add: demo_ld_env_def demo_env_def)
  have sc: "exjld_class_scan (le_lib demo_ld_env) (le_alloc demo_ld_env) (le_walk demo_ld_env) scan_init = (EXSUCCEED, ?sc)"
    unfolding env by (simp add: demo_scan)
  have files: "walk_files demo_walk = [''./a/A.class'', ''./x.txt'', ''./B.class'']"
    by (simp add: demo_walk_def walk_files_def)
  have show12: "show_nat 1 = ''1''" "show_nat 2 = ''2''" by code_simp+
  have emb: "demo_bytes (''ndrx_G_resource_'' @ r_embpath (res_fill (le_pool demo_ld_env) d 0)) = demo_content (d_respath d)"
    if "d \<in> set (work ?sc)" for d
    using that show12 unfolding env
    by (auto simp: demo_scan res_fill_def demo_bytes_def demo_content_def snprintf_buf_def PATH_MAX_def show_int_def)
  have "entry_name plain_lib True ''./a/A.class'' = ''a.A''"
    by (simp add: entry_name_def plain_lib_def PATH_MAX_def lead_char_def dirsep_to_dot_def Let_def)
  moreover have "is_class_path ''./a/A.class''" by (simp add: is_class_path_def cstr_simps)
  ultimately show ?thesis
    using linked_classes_load [where bytes = demo_bytes and content = demo_content and rest = "[]",
      OF demo_ld_env_ok demo_link refl sc _ _ _ _ emb] unfolding env files
    by (auto simp: demo_scan clean_path_def is_class_path_def cstr_simps lead_char_def PATH_MAX_def demo_content_def)
qed

end
